(* ===== verification/Prelude.thy ===== *)
theory Prelude
  imports Complex_Main
begin

text \<open>
  Shared vocabulary of the development: JavaScript numbers and the few JavaScript
  operators the pipeline applies to them (truthiness, \<open>||\<close>, the relational
  operators, \<open>isNaN\<close>, \<open>-\<close> and \<open>Math.abs\<close>), the error values that model the
  exceptions and promise rejections of the backend, the sequencing combinator for
  results of type \<open>error + 'a\<close>, and generic lemmas on lists that the component
  theories use.
\<close>

named_theorems js_simps "evaluation rules of the JavaScript value model"

type_synonym path = string

subsection \<open>JavaScript numbers\<close>

text \<open>
  A JavaScript number is a finite value, \<open>NaN\<close> or one of the two infinities.
  Finite values are modelled by \<^typ>\<open>real\<close>; the rounding of IEEE doubles is not
  modelled (the durations the pipeline handles are short decimals).
\<close>

datatype jsnum = Num real | NaN | PosInf | NegInf

fun js_isNaN :: "jsnum \<Rightarrow> bool" where
  "js_isNaN NaN = True"
| "js_isNaN _ = False"

text \<open>\<open>ToBoolean\<close> on numbers: \<open>0\<close> and \<open>NaN\<close> are falsy.\<close>

fun js_truthy :: "jsnum \<Rightarrow> bool" where
  "js_truthy (Num x) = (x \<noteq> 0)"
| "js_truthy NaN = False"
| "js_truthy PosInf = True"
| "js_truthy NegInf = True"

text \<open>\<open>a || b\<close>: the left operand when it is truthy, else the right one.\<close>

definition js_or :: "jsnum \<Rightarrow> jsnum \<Rightarrow> jsnum" where
  "js_or a b = (if js_truthy a then a else b)"

text \<open>The abstract relational comparison \<open>a < b\<close>; every comparison with \<open>NaN\<close> is false.\<close>

fun js_less :: "jsnum \<Rightarrow> jsnum \<Rightarrow> bool" where
  "js_less (Num x) (Num y) = (x < y)"
| "js_less NaN _ = False"
| "js_less _ NaN = False"
| "js_less NegInf b = (b \<noteq> NegInf)"
| "js_less a PosInf = (a \<noteq> PosInf)"
| "js_less _ _ = False"

text \<open>\<open>a <= b\<close> is \<open>false\<close> when either side is \<open>NaN\<close>, else \<open>\<not> (b < a)\<close>.\<close>

definition js_le :: "jsnum \<Rightarrow> jsnum \<Rightarrow> bool" where
  "js_le a b = (\<not> js_isNaN a \<and> \<not> js_isNaN b \<and> \<not> js_less b a)"

fun js_neg :: "jsnum \<Rightarrow> jsnum" where
  "js_neg (Num x) = Num (- x)"
| "js_neg NaN = NaN"
| "js_neg PosInf = NegInf"
| "js_neg NegInf = PosInf"

fun js_add :: "jsnum \<Rightarrow> jsnum \<Rightarrow> jsnum" where
  "js_add (Num x) (Num y) = Num (x + y)"
| "js_add NaN _ = NaN"
| "js_add _ NaN = NaN"
| "js_add PosInf NegInf = NaN"
| "js_add NegInf PosInf = NaN"
| "js_add PosInf _ = PosInf"
| "js_add _ PosInf = PosInf"
| "js_add NegInf _ = NegInf"
| "js_add _ NegInf = NegInf"

definition js_sub :: "jsnum \<Rightarrow> jsnum \<Rightarrow> jsnum" where
  "js_sub a b = js_add a (js_neg b)"

fun js_abs :: "jsnum \<Rightarrow> jsnum" where
  "js_abs (Num x) = Num \<bar>x\<bar>"
| "js_abs NaN = NaN"
| "js_abs _ = PosInf"

text \<open>\<open>array.reduce((sum, d) => sum + d, 0)\<close>.\<close>

definition js_sum :: "jsnum list \<Rightarrow> jsnum" where
  "js_sum ds = foldl js_add (Num 0) ds"

declare js_or_def [js_simps] js_le_def [js_simps] js_sub_def [js_simps]
  js_sum_def [js_simps]

subsection \<open>Errors and sequencing\<close>

text \<open>
  Every \<open>throw\<close> and every rejected promise of the modelled code is a value of
  \<open>error\<close>. The constructors name the condition the code raises; the message text
  of the JavaScript \<open>Error\<close> objects is not modelled.
\<close>

datatype error =
    TypeErrorNull                 \<comment> \<open>a property read on \<open>null\<close>/\<open>undefined\<close>\<close>
  | ProbeFailed path              \<comment> \<open>\<open>ffmpeg.ffprobe\<close> called back with an error\<close>
  | InvalidMediaDuration jsnum    \<comment> \<open>\<open>Invalid media duration\<close>\<close>
  | InvalidDurationValue jsnum    \<comment> \<open>\<open>Invalid duration value\<close> in \<open>normalizeAudio\<close>\<close>
  | NoInputSpecified              \<comment> \<open>fluent-ffmpeg: input option before any input\<close>
  | EncoderFailed path            \<comment> \<open>the encoder's \<open>error\<close> event for this output\<close>
  | EncoderNeverEnds path         \<comment> \<open>an unbounded output: the promise never settles\<close>
  | WriteFailed path              \<comment> \<open>\<open>fs.writeFile\<close> rejected\<close>
  | NoScenesProcessed             \<comment> \<open>\<open>No scenes processed successfully\<close>\<close>
  | FetchFailed string            \<comment> \<open>\<open>fetch\<close> or \<open>response.json()\<close> rejected for this query or URL\<close>
  | HttpStatus                    \<comment> \<open>\<open>HTTP error! status\<close>\<close>
  | BadContentType                \<comment> \<open>\<open>Invalid content type\<close>\<close>
  | NoHits string                 \<comment> \<open>\<open>No images/videos found for query\<close>\<close>
  | NoVideoFile                   \<comment> \<open>\<open>No suitable video file available\<close>\<close>
  | MissingVisualDescription      \<comment> \<open>\<open>Scene missing visual description\<close>\<close>
  | NoSuitableMedia               \<comment> \<open>\<open>No suitable media found for scene\<close>\<close>
  | DownloadFailed string         \<comment> \<open>\<open>Failed to download\<close>\<close>
  | SearchesFailed error error    \<comment> \<open>\<open>Failed to find any media. Primary ... Fallback ...\<close>\<close>
  | SpeechFailed nat              \<comment> \<open>the speech synthesis of a scene failed\<close>
  | NoMediaFound                  \<comment> \<open>\<open>No images or videos found in the temp folder\<close>\<close>
  | NoAudioFound                  \<comment> \<open>\<open>No audio file found in the temp folder\<close>\<close>
  | FileMissing path              \<comment> \<open>a source or listed file does not exist\<close>
  | VoiceoverFailed                \<comment> \<open>\<open>say.export\<close> called back with an error\<close>
  | NoMediaProcessed              \<comment> \<open>\<open>No media files were processed successfully\<close>\<close>
  | LlmFailed                     \<comment> \<open>the language-model request rejected\<close>
  | ScriptGenerationFailed error  \<comment> \<open>\<open>Error generating script: ...\<close>\<close>
  | ProcessScriptFailed error     \<comment> \<open>\<open>Error processing script: ...\<close>\<close>
  | NotAFunction string           \<comment> \<open>\<open>TypeError: ... is not a function\<close>\<close>

type_synonym 'a res = "error + 'a"

text \<open>
  \<open>bindE m f\<close> is \<open>await\<close> on a promise inside an \<open>async\<close> function: a rejection
  propagates, a value is passed on.
\<close>

definition bindE :: "'a res \<Rightarrow> ('a \<Rightarrow> 'b res) \<Rightarrow> 'b res" where
  "bindE m f = (case m of Inl e \<Rightarrow> Inl e | Inr x \<Rightarrow> f x)"

text \<open>Stateful steps return their result and the new state; the state survives an error.\<close>

type_synonym ('s, 'a) act = "'s \<Rightarrow> 'a res \<times> 's"

definition bindS :: "('s, 'a) act \<Rightarrow> ('a \<Rightarrow> ('s, 'b) act) \<Rightarrow> ('s, 'b) act" where
  "bindS m f s = (case m s of (Inl e, s') \<Rightarrow> (Inl e, s') | (Inr x, s') \<Rightarrow> f x s')"

definition returnS :: "'a \<Rightarrow> ('s, 'a) act" where
  "returnS x s = (Inr x, s)"

definition throwS :: "error \<Rightarrow> ('s, 'a) act" where
  "throwS e s = (Inl e, s)"

definition liftS :: "'a res \<Rightarrow> ('s, 'a) act" where
  "liftS r s = (r, s)"

text \<open>A stateful step keeps a predicate of the state, whatever its outcome.\<close>

definition act_keeps :: "('s \<Rightarrow> bool) \<Rightarrow> ('s, 'a) act \<Rightarrow> bool" where
  "act_keeps P m \<longleftrightarrow> (\<forall>s r s'. P s \<longrightarrow> m s = (r, s') \<longrightarrow> P s')"

text \<open>A stateful step never fails with an error of the class \<open>E\<close>.\<close>

definition act_avoids :: "(error \<Rightarrow> bool) \<Rightarrow> ('s, 'a) act \<Rightarrow> bool" where
  "act_avoids E m \<longleftrightarrow> (\<forall>s e s'. m s = (Inl e, s') \<longrightarrow> \<not> E e)"

declare returnS_def [js_simps] throwS_def [js_simps] liftS_def [js_simps]

text \<open>
  A stateful step applied to each element of a list in order, the results collected;
  the first rejection stops the walk.
\<close>

fun mapS :: "('a \<Rightarrow> ('s, 'b) act) \<Rightarrow> 'a list \<Rightarrow> ('s, 'b list) act" where
  "mapS f [] = returnS []"
| "mapS f (x # xs) = bindS (f x) (\<lambda>y. bindS (mapS f xs) (\<lambda>ys. returnS (y # ys)))"

subsection \<open>Lists\<close>

text \<open>\<open>array.filter(Boolean)\<close> on an array of results that are objects or \<open>null\<close>.\<close>

fun somes :: "'a option list \<Rightarrow> 'a list" where
  "somes [] = []"
| "somes (None # xs) = somes xs"
| "somes (Some x # xs) = x # somes xs"

text \<open>
  \<open>Promise.all\<close> over already settled results: all values, or the first rejection in
  the order of the array.
\<close>

fun all_res :: "'a res list \<Rightarrow> 'a list res" where
  "all_res [] = Inr []"
| "all_res (Inl e # xs) = Inl e"
| "all_res (Inr x # xs) = bindE (all_res xs) (\<lambda>ys. Inr (x # ys))"

text \<open>All of a list of partial values, or none.\<close>

fun all_some :: "'a option list \<Rightarrow> 'a list option" where
  "all_some [] = Some []"
| "all_some (None # xs) = None"
| "all_some (Some x # xs) = map_option (Cons x) (all_some xs)"

subsection \<open>Lemmas\<close>

lemma js_le_Num [simp]: "js_le (Num x) (Num y) \<longleftrightarrow> x \<le> y"
  by (simp add: js_le_def not_less)

lemma js_less_Num_PosInf [simp]: "js_less (Num x) PosInf"
  by simp

lemma js_sum_Num: "js_sum (map Num xs) = Num (sum_list xs)"
proof -
  have "\<And>a. foldl js_add (Num a) (map Num xs) = Num (a + sum_list xs)"
    by (induction xs) (simp_all add: add.assoc)
  from this [of 0] show ?thesis by (simp add: js_sum_def)
qed

lemma bindE_simps [simp]:
  "bindE (Inl e) f = Inl e"
  "bindE (Inr x) f = f x"
  by (simp_all add: bindE_def)

lemma bindE_eq_Inr [simp]:
  "bindE m f = Inr y \<longleftrightarrow> (\<exists>x. m = Inr x \<and> f x = Inr y)"
  by (cases m) simp_all

lemma bindS_returnS [simp]: "bindS (returnS x) f = f x"
  by (simp add: bindS_def returnS_def fun_eq_iff)

lemma bindS_throwS [simp]: "bindS (throwS e) f = throwS e"
  by (simp add: bindS_def throwS_def fun_eq_iff)

lemma bindS_liftS [simp]:
  "bindS (liftS (Inr x)) f = f x"
  "bindS (liftS (Inl e)) f = throwS e"
  by (simp_all add: bindS_def liftS_def throwS_def fun_eq_iff)

lemma bindS_apply: "bindS m f s = (case m s of (Inl e, s') \<Rightarrow> (Inl e, s') | (Inr x, s') \<Rightarrow> f x s')"
  by (simp add: bindS_def)

lemma bindS_Inr [simp]: "m s = (Inr x, s') \<Longrightarrow> bindS m f s = f x s'"
  by (simp add: bindS_def)

lemma bindS_Inl [simp]: "m s = (Inl e, s') \<Longrightarrow> bindS m f s = (Inl e, s')"
  by (simp add: bindS_def)

lemma act_keepsI: "(\<And>s r s'. P s \<Longrightarrow> m s = (r, s') \<Longrightarrow> P s') \<Longrightarrow> act_keeps P m"
  by (auto simp: act_keeps_def)

lemma act_keepsD: "act_keeps P m \<Longrightarrow> P s \<Longrightarrow> m s = (r, s') \<Longrightarrow> P s'"
  by (auto simp: act_keeps_def)

lemma act_keeps_returnS [intro!]: "act_keeps P (returnS x)"
  by (simp add: act_keeps_def returnS_def)

lemma act_keeps_throwS [intro!]: "act_keeps P (throwS e)"
  by (simp add: act_keeps_def throwS_def)

lemma act_keeps_bindS [intro!]:
  assumes m: "act_keeps P m" and f: "\<And>x. act_keeps P (f x)"
  shows "act_keeps P (bindS m f)"
proof (rule act_keepsI)
  fix s r s'
  assume P: "P s" and run: "bindS m f s = (r, s')"
  obtain r1 s1 where m1: "m s = (r1, s1)" by fastforce
  with m P have P1: "P s1" by (rule act_keepsD)
  show "P s'"
  proof (cases r1)
    case (Inl e)
    with run m1 P1 show ?thesis by (simp add: bindS_def)
  next
    case (Inr x)
    with run m1 have "f x s1 = (r, s')" by (simp add: bindS_def)
    with f P1 show ?thesis by (rule act_keepsD)
  qed
qed

lemma act_keeps_bindS_liftS [intro!]:
  assumes "\<And>x. r = Inr x \<Longrightarrow> act_keeps P (f x)"
  shows "act_keeps P (bindS (liftS r) f)"
proof (cases r)
  case (Inl e)
  then show ?thesis by (simp add: act_keeps_throwS)
next
  case (Inr x)
  with assms show ?thesis by simp
qed

lemma act_keeps_case_prod [intro!]: "(\<And>a b. act_keeps P (g a b)) \<Longrightarrow> act_keeps P (case_prod g x)"
  by (cases x) simp

lemma act_avoidsD: "act_avoids E m \<Longrightarrow> m s = (Inl e, s') \<Longrightarrow> \<not> E e"
  by (auto simp: act_avoids_def)

lemma act_avoids_returnS [intro!]: "act_avoids E (returnS x)"
  by (simp add: act_avoids_def returnS_def)

lemma act_avoids_throwS [intro!]: "\<not> E e \<Longrightarrow> act_avoids E (throwS e)"
  by (simp add: act_avoids_def throwS_def)

lemma act_avoids_bindS [intro!]:
  assumes m: "act_avoids E m" and f: "\<And>x. act_avoids E (f x)"
  shows "act_avoids E (bindS m f)"
  unfolding act_avoids_def
proof (intro allI impI)
  fix s e s'
  assume run: "bindS m f s = (Inl e, s')"
  obtain r1 s1 where m1: "m s = (r1, s1)" by fastforce
  show "\<not> E e"
  proof (cases r1)
    case (Inl e1)
    with run m1 have "m s = (Inl e, s1)" by (simp add: bindS_def)
    with m show ?thesis by (rule act_avoidsD)
  next
    case (Inr x)
    with run m1 have "f x s1 = (Inl e, s')" by (simp add: bindS_def)
    with f show ?thesis by (rule act_avoidsD)
  qed
qed

lemma act_avoids_bindS_liftS [intro!]:
  assumes "\<And>e. r = Inl e \<Longrightarrow> \<not> E e" "\<And>x. r = Inr x \<Longrightarrow> act_avoids E (f x)"
  shows "act_avoids E (bindS (liftS r) f)"
  using assms by (cases r) (auto intro: act_avoids_throwS)

lemma act_avoids_case_prod [intro!]: "(\<And>a b. act_avoids E (g a b)) \<Longrightarrow> act_avoids E (case_prod g x)"
  by (cases x) simp

lemma somes_map_Some [simp]: "somes (map Some xs) = xs"
  by (induction xs) simp_all

lemma somes_append [simp]: "somes (xs @ ys) = somes xs @ somes ys"
  by (induction xs rule: somes.induct) simp_all

lemma set_somes [simp]: "set (somes xs) = {x. Some x \<in> set xs}"
  by (induction xs rule: somes.induct) auto

lemma length_somes: "length (somes xs) = length (filter (\<lambda>x. x \<noteq> None) xs)"
  by (induction xs rule: somes.induct) simp_all

lemma somes_eq_Nil_iff: "somes xs = [] \<longleftrightarrow> (\<forall>x\<in>set xs. x = None)"
  by (induction xs rule: somes.induct) simp_all

lemma all_res_map_Inr [simp]: "all_res (map Inr ys) = Inr ys"
  by (induction ys) (simp_all add: bindE_def)

lemma all_res_eq_Inr [simp]: "all_res xs = Inr ys \<longleftrightarrow> xs = map Inr ys"
proof (induction xs arbitrary: ys)
  case (Cons a xs)
  then show ?case by (cases a) (auto simp: bindE_def split: sum.splits)
qed auto

lemma all_res_Inl: "all_res xs = Inl e \<Longrightarrow> Inl e \<in> set xs"
  by (induction xs rule: all_res.induct) (auto simp: bindE_def split: sum.splits)

lemma all_some_eq_Some [simp]: "all_some xs = Some ys \<longleftrightarrow> xs = map Some ys"
  by (induction xs arbitrary: ys rule: all_some.induct) auto

lemma all_some_map_Some [simp]: "all_some (map Some ys) = Some ys"
  by simp

lemma all_some_eq_None: "all_some xs = None \<longleftrightarrow> None \<in> set xs"
  by (induction xs rule: all_some.induct) auto

lemma all_some_member: "all_some xs = Some ys \<Longrightarrow> y \<in> set ys \<Longrightarrow> Some y \<in> set xs"
  by auto

lemma act_keeps_mapS [intro!]:
  "(\<And>x. x \<in> set xs \<Longrightarrow> act_keeps P (f x)) \<Longrightarrow> act_keeps P (mapS f xs)"
  by (induction xs) (auto intro!: act_keeps_bindS)

lemma mapS_Cons_Inr:
  "mapS f (x # xs) s = (Inr zs, s') \<Longrightarrow>
   \<exists>y ys s1. f x s = (Inr y, s1) \<and> mapS f xs s1 = (Inr ys, s') \<and> zs = y # ys"
  by (auto simp: bindS_def returnS_def split: prod.splits sum.splits)

lemma mapS_append:
  "mapS f (xs @ ys) = bindS (mapS f xs) (\<lambda>as. bindS (mapS f ys) (\<lambda>bs. returnS (as @ bs)))"
proof (induction xs)
  case Nil
  show ?case by (simp add: fun_eq_iff bindS_def returnS_def split: prod.splits sum.splits)
next
  case (Cons x xs)
  then show ?case by (simp add: fun_eq_iff bindS_def returnS_def split: prod.splits sum.splits)
qed

end
