(* ===== verification/JsParse.thy ===== *)
theory JsParse
  imports Prelude
begin

text \<open>
  The JavaScript conversions the pipeline applies to durations: \<open>parseFloat\<close>
  (ECMAScript 2023, 19.2.4) on strings and on the other values a scene field can
  hold, \<open>String(n)\<close> for natural numbers, \<open>String.prototype.padStart\<close> and
  \<open>Math.round\<close>. Only ASCII white space is recognised by the trimming step, and the
  range and rounding of IEEE doubles are not modelled.
\<close>

subsection \<open>JavaScript values a scene field may hold\<close>

datatype jsval = JUndefined | JNull | JNumber jsnum | JString string

subsection \<open>Characters\<close>

definition is_digit :: "char \<Rightarrow> bool" where
  "is_digit c \<longleftrightarrow> (48::nat) \<le> of_char c \<and> of_char c \<le> (57::nat)"

definition digit_val :: "char \<Rightarrow> nat" where
  "digit_val c = of_char c - 48"

definition js_ws :: "char \<Rightarrow> bool" where
  "js_ws c \<longleftrightarrow> c \<in> {CHR '' '', CHR 0x09, CHR 0x0A, CHR 0x0B, CHR 0x0C, CHR 0x0D}"

definition digits_val :: "char list \<Rightarrow> nat" where
  "digits_val ds = foldl (\<lambda>n c. 10 * n + digit_val c) 0 ds"

subsection \<open>\<open>parseFloat\<close>\<close>

text \<open>
  The exponent part of a \<open>StrDecimalLiteral\<close>: \<open>e\<close> or \<open>E\<close>, an optional sign and
  at least one digit; anything else contributes no exponent.
\<close>

definition exp_part :: "string \<Rightarrow> int" where
  "exp_part r =
     (if r \<noteq> [] \<and> (hd r = CHR ''e'' \<or> hd r = CHR ''E'') then
        (let r1 = tl r;
             neg = (r1 \<noteq> [] \<and> hd r1 = CHR ''-'');
             r2 = (if r1 \<noteq> [] \<and> (hd r1 = CHR ''-'' \<or> hd r1 = CHR ''+'') then tl r1 else r1);
             ds = takeWhile is_digit r2
         in if ds = [] then 0 else if neg then - int (digits_val ds) else int (digits_val ds))
      else 0)"

definition scale10 :: "real \<Rightarrow> int \<Rightarrow> real" where
  "scale10 m e = (if 0 \<le> e then m * 10 ^ nat e else m / 10 ^ nat (- e))"

text \<open>
  The longest prefix of the trimmed string that is a \<open>StrDecimalLiteral\<close>:
  sign, \<open>Infinity\<close> or digits with an optional fraction and exponent; \<open>NaN\<close> when
  no prefix is one.
\<close>

definition parseFloat_str :: "string \<Rightarrow> jsnum" where
  "parseFloat_str s =
     (let t = dropWhile js_ws s;
          neg = (t \<noteq> [] \<and> hd t = CHR ''-'');
          u = (if t \<noteq> [] \<and> (hd t = CHR ''-'' \<or> hd t = CHR ''+'') then tl t else t)
      in if take 8 u = ''Infinity'' then (if neg then NegInf else PosInf)
         else
           (let ip = takeWhile is_digit u;
                r1 = dropWhile is_digit u;
                dot = (r1 \<noteq> [] \<and> hd r1 = CHR ''.'');
                fp = (if dot then takeWhile is_digit (tl r1) else []);
                r2 = (if dot then dropWhile is_digit (tl r1) else r1)
            in if ip = [] \<and> fp = [] then NaN
               else
                 (let m = real (digits_val ip) + real (digits_val fp) / 10 ^ length fp;
                      v = scale10 m (exp_part r2)
                  in Num (if neg then - v else v))))"

text \<open>\<open>parseFloat(x)\<close> first converts \<open>x\<close> to a string; for a number that string parses back to it.\<close>

fun parseFloat :: "jsval \<Rightarrow> jsnum" where
  "parseFloat JUndefined = NaN"
| "parseFloat JNull = NaN"
| "parseFloat (JNumber n) = n"
| "parseFloat (JString s) = parseFloat_str s"

subsection \<open>\<open>String(n)\<close>, \<open>padStart\<close>, \<open>Math.round\<close>\<close>

fun nat_to_str :: "nat \<Rightarrow> string" where
  "nat_to_str n =
     (if n < 10 then [char_of (48 + n)] else nat_to_str (n div 10) @ [char_of (48 + n mod 10)])"

declare nat_to_str.simps [simp del]

definition padStart :: "string \<Rightarrow> nat \<Rightarrow> char \<Rightarrow> string" where
  "padStart s n c = replicate (n - length s) c @ s"

definition js_round :: "real \<Rightarrow> int" where
  "js_round x = \<lfloor>x + 1 / 2\<rfloor>"

text \<open>A character after which a run of digits is a whole \<open>StrDecimalLiteral\<close>.\<close>

definition stop_char :: "char \<Rightarrow> bool" where
  "stop_char c \<longleftrightarrow> \<not> is_digit c \<and> c \<noteq> CHR ''.'' \<and> c \<noteq> CHR ''e'' \<and> c \<noteq> CHR ''E''"

declare parseFloat_str_def [js_simps] exp_part_def [js_simps] scale10_def [js_simps]
  digits_val_def [js_simps] padStart_def [js_simps] js_round_def [js_simps]

subsection \<open>Lemmas: digits and the round trip\<close>

lemma digit_char_of: "k < 10 \<Longrightarrow> is_digit (char_of (48 + k)) \<and> digit_val (char_of (48 + k)) = k"
  by (simp add: is_digit_def digit_val_def of_char_of)

lemma nat_to_str_digits: "\<forall>c\<in>set (nat_to_str n). is_digit c"
proof (induction n rule: nat_to_str.induct)
  case (1 n)
  then show ?case by (subst nat_to_str.simps) (auto simp: digit_char_of)
qed

lemma nat_to_str_ne: "nat_to_str n \<noteq> []"
  by (subst nat_to_str.simps) simp

lemma digits_val_Nil: "digits_val [] = 0"
  by (simp add: digits_val_def)

lemma digits_val_snoc: "digits_val (xs @ [c]) = 10 * digits_val xs + digit_val c"
  by (simp add: digits_val_def)

lemma digits_val_nat_to_str: "digits_val (nat_to_str n) = n"
proof (induction n rule: nat_to_str.induct)
  case (1 n)
  show ?case
  proof (cases "n < 10")
    case True
    then show ?thesis by (subst nat_to_str.simps) (simp add: digits_val_def digit_char_of)
  next
    case False
    with "1.IH" show ?thesis
      by (subst nat_to_str.simps) (simp add: digits_val_snoc digit_char_of)
  qed
qed

lemma hd_nat_to_str: "is_digit (hd (nat_to_str n))"
  using nat_to_str_digits [of n] nat_to_str_ne [of n] by (simp add: hd_in_set)

lemma digit_not_special:
  "is_digit c \<Longrightarrow> \<not> js_ws c \<and> c \<noteq> CHR ''-'' \<and> c \<noteq> CHR ''+'' \<and> c \<noteq> CHR ''I''"
  by (auto simp: is_digit_def js_ws_def)

lemma takeWhile_digits_stop:
  assumes "\<forall>c\<in>set ds. is_digit c" "rest = [] \<or> stop_char (hd rest)"
  shows "takeWhile is_digit (ds @ rest) = ds" "dropWhile is_digit (ds @ rest) = rest"
  using assms by (cases rest; auto simp: takeWhile_append2 dropWhile_append2 stop_char_def)+

lemma colon_stop: "stop_char CHR '':''"
  by (simp add: stop_char_def is_digit_def)

lemma parseFloat_nat_to_str:
  assumes "rest = [] \<or> stop_char (hd rest)"
  shows "parseFloat_str (nat_to_str n @ rest) = Num (real n)"
proof -
  let ?s = "nat_to_str n @ rest"
  have hd: "hd ?s = hd (nat_to_str n)" using nat_to_str_ne by simp
  have ne: "?s \<noteq> []" using nat_to_str_ne by simp
  have ws: "dropWhile js_ws ?s = ?s"
    using ne hd hd_nat_to_str [of n] digit_not_special by (cases ?s) auto
  have inf: "take 8 ?s \<noteq> ''Infinity''"
  proof
    assume "take 8 ?s = ''Infinity''"
    then have "hd (take 8 ?s) = CHR ''I''" by simp
    with ne have "hd ?s = CHR ''I''" by (cases ?s) auto
    with hd hd_nat_to_str [of n] digit_not_special show False by metis
  qed
  have tw: "takeWhile is_digit ?s = nat_to_str n" and dw: "dropWhile is_digit ?s = rest"
    using takeWhile_digits_stop [OF nat_to_str_digits assms] by simp_all
  have nodot: "(rest \<noteq> [] \<and> hd rest = CHR ''.'') = False"
    using assms by (auto simp: stop_char_def)
  have noexp: "exp_part rest = 0"
    using assms by (auto simp: exp_part_def stop_char_def)
  show ?thesis
  proof -
    have sgn: "(?s \<noteq> [] \<and> hd ?s = CHR ''-'') = False" "(?s \<noteq> [] \<and> (hd ?s = CHR ''-'' \<or> hd ?s = CHR ''+'')) = False"
      using hd hd_nat_to_str [of n] digit_not_special by auto
    show ?thesis
      unfolding parseFloat_str_def Let_def ws sgn if_False tw dw nodot
      using inf nat_to_str_ne [of n] by (simp add: noexp digits_val_nat_to_str scale10_def digits_val_Nil)
  qed
qed
end
