(* ===== verification/JsString.thy ===== *)
theory JsString
  imports Prelude JsParse
begin

text \<open>
  The JavaScript built-ins the script and media-search controllers apply to strings,
  arrays and numbers: \<open>*\<close>, \<open>/\<close>, \<open>Math.min\<close> and \<open>Math.max\<close> on numbers,
  \<open>toLowerCase\<close>, \<open>trim\<close>, \<open>split\<close> on a character class and on runs of white
  space, \<open>join\<close>, \<open>includes\<close>, insertion into a \<open>Set\<close> (which keeps the order of
  first insertion) and the truthiness of the values a scene field can hold. Characters
  are ASCII: \<open>toLowerCase\<close> maps \<open>A\<close>..\<open>Z\<close> and \<open>\s\<close> is the ASCII white space.
\<close>

subsection \<open>Numbers\<close>

text \<open>The sign of a number, \<open>0\<close> for \<open>NaN\<close>.\<close>

fun js_sgn :: "jsnum \<Rightarrow> real" where
  "js_sgn (Num x) = sgn x"
| "js_sgn PosInf = 1"
| "js_sgn NegInf = -1"
| "js_sgn NaN = 0"

fun js_mul :: "jsnum \<Rightarrow> jsnum \<Rightarrow> jsnum" where
  "js_mul (Num x) (Num y) = Num (x * y)"
| "js_mul NaN _ = NaN"
| "js_mul _ NaN = NaN"
| "js_mul a b =
     (if js_sgn a * js_sgn b = 0 then NaN else if 0 < js_sgn a * js_sgn b then PosInf else NegInf)"

text \<open>Division; a finite number divided by \<open>0\<close> is an infinity or \<open>NaN\<close> (signed zeros are not modelled).\<close>

fun js_div :: "jsnum \<Rightarrow> jsnum \<Rightarrow> jsnum" where
  "js_div (Num x) (Num y) =
     (if y \<noteq> 0 then Num (x / y) else if x = 0 then NaN else if 0 < x then PosInf else NegInf)"
| "js_div NaN _ = NaN"
| "js_div _ NaN = NaN"
| "js_div (Num x) _ = Num 0"
| "js_div a (Num y) = (if 0 \<le> y then a else js_neg a)"
| "js_div _ _ = NaN"

definition js_min :: "jsnum \<Rightarrow> jsnum \<Rightarrow> jsnum" where
  "js_min a b = (if js_isNaN a \<or> js_isNaN b then NaN else if js_less b a then b else a)"

definition js_max :: "jsnum \<Rightarrow> jsnum \<Rightarrow> jsnum" where
  "js_max a b = (if js_isNaN a \<or> js_isNaN b then NaN else if js_less a b then b else a)"

subsection \<open>Strings\<close>

definition to_lower_char :: "char \<Rightarrow> char" where
  "to_lower_char c = (if (65::nat) \<le> of_char c \<and> of_char c \<le> (90::nat) then char_of (of_char c + (32::nat)) else c)"

definition to_lower :: "string \<Rightarrow> string" where
  "to_lower s = map to_lower_char s"

definition js_trim :: "string \<Rightarrow> string" where
  "js_trim s = rev (dropWhile js_ws (rev (dropWhile js_ws s)))"

text \<open>\<open>s.split(/[...]/)\<close> with a one-character class: the fields between separators, empty ones included.\<close>

fun split_on :: "(char \<Rightarrow> bool) \<Rightarrow> string \<Rightarrow> string list" where
  "split_on P [] = [[]]"
| "split_on P (c # cs) =
     (let fields = split_on P cs in if P c then [] # fields else (c # hd fields) # tl fields)"

text \<open>\<open>s.split(/\s+/)\<close>: fields separated by runs of white space (a leading or trailing run gives an empty field).\<close>

function (sequential) split_runs_acc :: "(char \<Rightarrow> bool) \<Rightarrow> string \<Rightarrow> string \<Rightarrow> string list" where
  "split_runs_acc P [] cur = [rev cur]"
| "split_runs_acc P (c # cs) cur =
     (if P c then rev cur # split_runs_acc P (dropWhile P cs) [] else split_runs_acc P cs (c # cur))"
  by pat_completeness auto
termination
  by (relation "measure (\<lambda>(P, s, cur). length s)") (auto simp: le_imp_less_Suc length_dropWhile_le)

definition split_ws :: "string \<Rightarrow> string list" where
  "split_ws s = split_runs_acc js_ws s []"

text \<open>\<open>array.join(sep)\<close>.\<close>

fun js_join :: "string \<Rightarrow> string list \<Rightarrow> string" where
  "js_join sep [] = []"
| "js_join sep [x] = x"
| "js_join sep (x # xs) = x @ sep @ js_join sep xs"

text \<open>\<open>hay.includes(needle)\<close>.\<close>

definition js_includes :: "string \<Rightarrow> string \<Rightarrow> bool" where
  "js_includes hay needle = list_ex (\<lambda>i. take (length needle) (drop i hay) = needle) [0..<Suc (length hay)]"

text \<open>\<open>set.add(x)\<close> on a \<open>Set\<close> enumerated in insertion order.\<close>

definition set_add :: "'a \<Rightarrow> 'a list \<Rightarrow> 'a list" where
  "set_add x xs = (if x \<in> set xs then xs else xs @ [x])"

subsection \<open>Values\<close>

fun jsval_truthy :: "jsval \<Rightarrow> bool" where
  "jsval_truthy JUndefined = False"
| "jsval_truthy JNull = False"
| "jsval_truthy (JNumber n) = js_truthy n"
| "jsval_truthy (JString s) = (s \<noteq> [])"

definition jsval_or :: "jsval \<Rightarrow> jsval \<Rightarrow> jsval" where
  "jsval_or a b = (if jsval_truthy a then a else b)"

declare js_min_def [js_simps] js_max_def [js_simps] to_lower_def [js_simps] js_trim_def [js_simps]
  split_ws_def [js_simps] js_includes_def [js_simps] set_add_def [js_simps] jsval_or_def [js_simps]

subsection \<open>Lemmas\<close>

lemma split_on_ne [simp]: "split_on P s \<noteq> []"
  by (induction s) (auto simp: Let_def)

lemma js_join_Cons: "xs \<noteq> [] \<Longrightarrow> js_join sep (x # xs) = x @ sep @ js_join sep xs"
  by (cases xs) simp_all

text \<open>Splitting at a character and joining with it gives the string back.\<close>

lemma join_split_on: "js_join [c] (split_on (\<lambda>x. x = c) s) = s"
proof (induction s)
  case (Cons a s)
  show ?case
  proof (cases "a = c")
    case True
    with Cons show ?thesis by (simp add: js_join_Cons Let_def)
  next
    case False
    obtain w ws where ws: "split_on (\<lambda>x. x = c) s = w # ws"
      using split_on_ne by (cases "split_on (\<lambda>x. x = c) s") auto
    with Cons False show ?thesis by (cases ws) (simp_all add: Let_def)
  qed
qed simp

lemma js_join_snoc: "xs \<noteq> [] \<Longrightarrow> js_join sep (xs @ [y]) = js_join sep xs @ sep @ y"
  by (induction sep xs rule: js_join.induct) simp_all

text \<open>Dropping the last field before joining leaves a prefix of the string.\<close>

lemma join_butlast_split_prefix:
  "\<exists>t. s = js_join [c] (butlast (split_on (\<lambda>x. x = c) s)) @ t"
proof -
  let ?ws = "split_on (\<lambda>x. x = c) s"
  have s: "s = js_join [c] ?ws" by (simp add: join_split_on)
  show ?thesis
  proof (cases "butlast ?ws = []")
    case True
    then show ?thesis by simp
  next
    case False
    have "?ws = butlast ?ws @ [last ?ws]" by simp
    then have "js_join [c] ?ws = js_join [c] (butlast ?ws) @ [c] @ last ?ws"
      using False js_join_snoc by metis
    with s show ?thesis by metis
  qed
qed

lemma length_join_butlast_split: "length (js_join [c] (butlast (split_on (\<lambda>x. x = c) s))) \<le> length s"
  using join_butlast_split_prefix [of s c] by (metis le_add1 length_append)

lemma set_add_distinct: "distinct xs \<Longrightarrow> distinct (set_add x xs)"
  by (simp add: set_add_def)

lemma set_set_add [simp]: "set (set_add x xs) = insert x (set xs)"
  by (auto simp: set_add_def)

lemma js_less_trans: "js_less a b \<Longrightarrow> js_less b c \<Longrightarrow> js_less a c"
  by (cases a; cases b; cases c) auto

lemma js_less_irrefl [simp]: "\<not> js_less a a"
  by (cases a) auto

lemma js_less_asym: "js_less a b \<Longrightarrow> \<not> js_less b a"
  using js_less_trans js_less_irrefl by blast

lemma split_on_no_sep: "\<not> list_ex P s \<Longrightarrow> split_on P s = [s]"
  by (induction s) (simp_all add: Let_def)

lemma split_runs_acc_ne: "split_runs_acc P s cur \<noteq> []"
  by (induction P s cur rule: split_runs_acc.induct) simp_all

lemma set_add_ne: "set_add x q \<noteq> []"
  by (auto simp: set_add_def)

end
