(* ===== verification/Encoder.thy ===== *)
theory Encoder
  imports Prelude JsParse
begin

text \<open>
  The external engine the pipeline drives, modelled from its documented behaviour:
  the file system the controllers read and write (a store from paths to media
  files), the \<open>ffprobe\<close> duration query, and the \<open>fluent-ffmpeg\<close> command builder
  together with the outcome of running a command. None of this is code of the
  repository; the builder follows the library's API (an input option needs a
  current input, output options accumulate), and a run computes the length of the
  produced file from the inputs' lengths, the loop options, \<open>-shortest\<close> and the
  \<open>-t\<close> caps. Every input a default stream mapping could use counts towards
  the output length (one stream per input), and codecs, geometry and frame rates
  are carried as uninterpreted option strings.
\<close>

subsection \<open>Files and the store\<close>

datatype media_kind = ImageFile | VideoFile | AudioFile | TextFile

text \<open>
  A line of a text file as the concat demuxer reads it: \<open>file 'p'\<close>,
  \<open>duration d\<close>, or anything else. The model keeps a written text file as its
  lines already split at \<open>\n\<close>; a number \<open>d\<close> written by a template literal
  is read back by the demuxer as the same number.
\<close>

datatype manifest_line = MFile path | MDuration jsnum | MOther string

record media_file =
  kind :: media_kind
  fmt_duration :: jsnum     \<comment> \<open>\<open>parseFloat(metadata.format.duration)\<close> as \<open>ffprobe\<close> reports it\<close>
  has_audio :: bool
  text_of :: "manifest_line list"  \<comment> \<open>lines of a text file, \<open>[]\<close> for media\<close>

record fs =
  files :: "path \<rightharpoonup> media_file"
  next_uuid :: nat          \<comment> \<open>the state of the \<open>uuidv4\<close> name supply\<close>

text \<open>\<open>path.join(dir, name)\<close> on POSIX paths without \<open>..\<close> components.\<close>

definition path_join :: "path \<Rightarrow> string \<Rightarrow> path" where
  "path_join d n = d @ ''/'' @ n"

text \<open>
  \<open>uuidv4()\<close>: every call yields a name no earlier call yielded. The model draws
  the names from a counter, which makes that freshness provable.
\<close>

definition uuidv4 :: "(fs, string) act" where
  "uuidv4 s = (Inr (''u'' @ nat_to_str (next_uuid s)), s\<lparr>next_uuid := Suc (next_uuid s)\<rparr>)"

text \<open>
  \<open>fs.access\<close> followed by \<open>fs.stat\<close>: both succeed exactly when the path names a
  file of the store; an \<open>undefined\<close> path makes \<open>fs.access\<close> throw.
\<close>

definition file_accessible :: "fs \<Rightarrow> path option \<Rightarrow> bool" where
  "file_accessible s p = (case p of None \<Rightarrow> False | Some q \<Rightarrow> q \<in> dom (files s))"

text \<open>\<open>ffmpeg.ffprobe\<close>: an error for a missing or non-media file, else the format duration.\<close>

definition ffprobe :: "fs \<Rightarrow> path \<Rightarrow> jsnum res" where
  "ffprobe s p =
     (case files s p of
        None \<Rightarrow> Inl (ProbeFailed p)
      | Some f \<Rightarrow> if kind f = TextFile then Inl (ProbeFailed p) else Inr (fmt_duration f))"

subsection \<open>The command builder\<close>

text \<open>
  Input options: \<open>-loop 1\<close>, \<open>-stream_loop -1\<close>, \<open>-f concat\<close>, \<open>-safe 0\<close>, an
  input \<open>-t\<close> cap, and any other option as a string. The commands \<open>ff_run\<close> is given
  carry no input cap; the filter-graph run of \<open>VideoAssemble\<close> reads it.
\<close>

datatype in_opt = Loop1 | StreamLoopInf | FmtConcat | Safe0 | InT real | InOptStr string

datatype out_opt = OptT jsnum | Shortest | NoAudio | OptStr string

record ff_input =
  in_path :: path
  in_opts :: "in_opt list"

record ffcmd =
  cmd_inputs :: "ff_input list"
  out_opts :: "out_opt list"
  vfilters :: "string list"
  afilters :: "string list"
  target :: "path option"

text \<open>\<open>ffmpeg()\<close> and \<open>ffmpeg(path)\<close>.\<close>

definition ffmpeg_new :: "path option \<Rightarrow> ffcmd" where
  "ffmpeg_new p =
     \<lparr>cmd_inputs = (case p of None \<Rightarrow> [] | Some q \<Rightarrow> [\<lparr>in_path = q, in_opts = []\<rparr>]),
      out_opts = [], vfilters = [], afilters = [], target = None\<rparr>"

definition ff_input :: "path \<Rightarrow> ffcmd \<Rightarrow> ffcmd" where
  "ff_input p c = c\<lparr>cmd_inputs := cmd_inputs c @ [\<lparr>in_path = p, in_opts = []\<rparr>]\<rparr>"

text \<open>
  \<open>.inputOptions(...)\<close> applies to the current (last added) input and throws
  \<open>Error('No input specified')\<close> when there is none.
\<close>

definition ff_inputOptions :: "in_opt list \<Rightarrow> ffcmd \<Rightarrow> ffcmd res" where
  "ff_inputOptions os c =
     (if cmd_inputs c = [] then Inl NoInputSpecified
      else Inr (c\<lparr>cmd_inputs := butlast (cmd_inputs c) @
                   [(last (cmd_inputs c))\<lparr>in_opts := in_opts (last (cmd_inputs c)) @ os\<rparr>]\<rparr>))"

text \<open>\<open>.duration(t)\<close> is the output option \<open>-t t\<close>.\<close>

definition ff_duration :: "jsnum \<Rightarrow> ffcmd \<Rightarrow> ffcmd" where
  "ff_duration t c = c\<lparr>out_opts := out_opts c @ [OptT t]\<rparr>"

definition ff_outputOptions :: "out_opt list \<Rightarrow> ffcmd \<Rightarrow> ffcmd" where
  "ff_outputOptions os c = c\<lparr>out_opts := out_opts c @ os\<rparr>"

definition ff_videoFilters :: "string list \<Rightarrow> ffcmd \<Rightarrow> ffcmd" where
  "ff_videoFilters fs c = c\<lparr>vfilters := vfilters c @ fs\<rparr>"

definition ff_audioFilters :: "string list \<Rightarrow> ffcmd \<Rightarrow> ffcmd" where
  "ff_audioFilters fs c = c\<lparr>afilters := afilters c @ fs\<rparr>"

definition ff_output :: "path \<Rightarrow> ffcmd \<Rightarrow> ffcmd" where
  "ff_output p c = c\<lparr>target := Some p\<rparr>"

subsection \<open>Running a command\<close>

text \<open>The length of a stream: finite, or unbounded when the input is looped or padded.\<close>

datatype span = Fin real | Unbounded

fun span_min :: "span \<Rightarrow> span \<Rightarrow> span" where
  "span_min (Fin a) (Fin b) = Fin (min a b)"
| "span_min Unbounded b = b"
| "span_min a Unbounded = a"

fun span_max :: "span \<Rightarrow> span \<Rightarrow> span" where
  "span_max (Fin a) (Fin b) = Fin (max a b)"
| "span_max Unbounded _ = Unbounded"
| "span_max _ Unbounded = Unbounded"

text \<open>
  The length of one input: \<open>-stream_loop -1\<close> repeats any input without end,
  \<open>-loop 1\<close> repeats a still image, the \<open>apad\<close> audio filter pads an audio input
  without end; otherwise the probed length (0 when it is not a number).
\<close>

definition num_span :: "jsnum \<Rightarrow> span" where
  "num_span d = (case d of Num x \<Rightarrow> Fin (max 0 x) | _ \<Rightarrow> Fin 0)"

definition input_span :: "media_file \<Rightarrow> in_opt list \<Rightarrow> string list \<Rightarrow> span" where
  "input_span f os afs =
     (if StreamLoopInf \<in> set os then Unbounded
      else if Loop1 \<in> set os \<and> kind f = ImageFile then Unbounded
      else if ''apad'' \<in> set afs \<and> kind f = AudioFile then Unbounded
      else num_span (fmt_duration f))"

text \<open>
  The entries of a concat manifest: each \<open>file\<close> line with the \<open>duration\<close>
  line that follows it, if any; \<open>None\<close> for a line the demuxer rejects.
\<close>

fun manifest_entries :: "manifest_line list \<Rightarrow> (path \<times> jsnum option) list option" where
  "manifest_entries [] = Some []"
| "manifest_entries (MFile p # MDuration d # ls) = map_option (Cons (p, Some d)) (manifest_entries ls)"
| "manifest_entries (MFile p # ls) = map_option (Cons (p, None)) (manifest_entries ls)"
| "manifest_entries (_ # ls) = None"

text \<open>
  The length one entry contributes: its declared \<open>duration\<close> (which must parse as a
  finite number), else the probed length of the file, which must be a media file.
\<close>

definition entry_len :: "(path \<rightharpoonup> media_file) \<Rightarrow> path \<times> jsnum option \<Rightarrow> real option" where
  "entry_len fm e =
     (case fm (fst e) of
        None \<Rightarrow> None
      | Some f \<Rightarrow>
          (if kind f = TextFile then None
           else (case snd e of
                   None \<Rightarrow> Some (case fmt_duration f of Num x \<Rightarrow> max 0 x | _ \<Rightarrow> 0)
                 | Some (Num x) \<Rightarrow> Some (max 0 x)
                 | Some _ \<Rightarrow> None)))"

text \<open>
  The length of a \<open>-f concat\<close> input: the sum of its entries; a manifest with no
  entry, a rejected line or a bad entry makes the run fail.
\<close>

definition entries_len :: "(path \<rightharpoonup> media_file) \<Rightarrow> (path \<times> jsnum option) list \<Rightarrow> real option" where
  "entries_len fm es = map_option sum_list (all_some (map (entry_len fm) es))"

definition concat_len :: "(path \<rightharpoonup> media_file) \<Rightarrow> manifest_line list \<Rightarrow> real option" where
  "concat_len fm ls =
     (case manifest_entries ls of
        None \<Rightarrow> None
      | Some es \<Rightarrow> if es = [] then None else entries_len fm es)"

text \<open>The length of one input of a command, \<open>None\<close> when the encoder cannot open it.\<close>

definition in_span :: "(path \<rightharpoonup> media_file) \<Rightarrow> string list \<Rightarrow> ff_input \<Rightarrow> span option" where
  "in_span fm afs i =
     (case fm (in_path i) of
        None \<Rightarrow> None
      | Some f \<Rightarrow>
          (if FmtConcat \<in> set (in_opts i) \<and> StreamLoopInf \<notin> set (in_opts i)
           then map_option Fin (concat_len fm (text_of f))
           else Some (input_span f (in_opts i) afs)))"

definition input_spans :: "(path \<rightharpoonup> media_file) \<Rightarrow> ffcmd \<Rightarrow> span list option" where
  "input_spans fm c = all_some (map (in_span fm (afilters c)) (cmd_inputs c))"

text \<open>
  The \<open>-t\<close> caps of the output options, \<open>None\<close> when one of them is not a finite
  number (the encoder rejects the command line).
\<close>

fun caps :: "out_opt list \<Rightarrow> real list option" where
  "caps [] = Some []"
| "caps (OptT (Num x) # os) = map_option (Cons x) (caps os)"
| "caps (OptT _ # os) = None"
| "caps (_ # os) = caps os"

text \<open>
  The length of the output before the caps: the longest input, or the shortest one
  under \<open>-shortest\<close>.
\<close>

definition span_base :: "out_opt list \<Rightarrow> span list \<Rightarrow> span" where
  "span_base os ss =
     (if Shortest \<in> set os then foldl span_min Unbounded ss else foldl span_max (Fin 0) ss)"

text \<open>
  The length of the output: the base length cut at the \<open>-t\<close> cap; when \<open>-t\<close>
  is given more than once the last one applies (a cap below 0 gives an empty output).
\<close>

definition out_span :: "out_opt list \<Rightarrow> span list \<Rightarrow> span option" where
  "out_span os ss =
     (case caps os of
        None \<Rightarrow> None
      | Some ts \<Rightarrow>
          Some (if ts = [] then span_base os ss else span_min (span_base os ss) (Fin (max 0 (last ts)))))"

text \<open>The file a successful run writes.\<close>

definition out_file :: "(path \<rightharpoonup> media_file) \<Rightarrow> ffcmd \<Rightarrow> real \<Rightarrow> media_file" where
  "out_file fm c d =
     \<lparr>kind = (if \<exists>i\<in>set (cmd_inputs c). kind (the (fm (in_path i))) \<noteq> AudioFile
              then VideoFile else AudioFile),
      fmt_duration = Num d,
      has_audio = (NoAudio \<notin> set (out_opts c) \<and>
                   (\<exists>i\<in>set (cmd_inputs c). has_audio (the (fm (in_path i))))),
      text_of = []\<rparr>"

text \<open>
  The environment of a run: the outputs whose encoding or writing fails for reasons
  the model does not interpret (codec errors, a full disk, a killed process).
\<close>

record enc_env =
  enc_fails :: "path \<Rightarrow> bool"

text \<open>
  \<open>.run()\<close> with its \<open>end\<close> and \<open>error\<close> handlers: the \<open>error\<close> event for a
  missing output, a failing environment, a missing input, an invalid cap or no input
  at all; a promise that never settles for an unbounded output; else the output file
  is written (replacing any file of that name).
\<close>

definition ff_run :: "enc_env \<Rightarrow> ffcmd \<Rightarrow> (fs, unit) act" where
  "ff_run env c s =
     (case target c of
        None \<Rightarrow> (Inl (EncoderFailed []), s)
      | Some p \<Rightarrow>
          (if enc_fails env p \<or> cmd_inputs c = [] then (Inl (EncoderFailed p), s)
           else
             (case input_spans (files s) c of
                None \<Rightarrow> (Inl (EncoderFailed p), s)
              | Some ss \<Rightarrow>
                  (case out_span (out_opts c) ss of
                     None \<Rightarrow> (Inl (EncoderFailed p), s)
                   | Some Unbounded \<Rightarrow> (Inl (EncoderNeverEnds p), s)
                   | Some (Fin d) \<Rightarrow>
                       (Inr (), s\<lparr>files := (files s)(p \<mapsto> out_file (files s) c d)\<rparr>)))))"

text \<open>
  \<open>fs.writeFile(p, text)\<close>: the file at \<open>p\<close> becomes a text file with these
  lines; the write is rejected when the environment fails on \<open>p\<close>.
\<close>

definition write_text :: "enc_env \<Rightarrow> path \<Rightarrow> manifest_line list \<Rightarrow> (fs, unit) act" where
  "write_text env p ls s =
     (if enc_fails env p then (Inl (WriteFailed p), s)
      else (Inr (), s\<lparr>files := (files s)(p \<mapsto>
              \<lparr>kind = TextFile, fmt_duration = NaN, has_audio = False, text_of = ls\<rparr>)\<rparr>))"

text \<open>The outcome of a run whose output is unbounded: its promise never settles.\<close>

fun encoder_hangs :: "error \<Rightarrow> bool" where
  "encoder_hangs (EncoderNeverEnds p) = True"
| "encoder_hangs _ = False"

text \<open>The environment in which every encoding succeeds.\<close>

definition ideal_env :: enc_env where
  "ideal_env = \<lparr>enc_fails = (\<lambda>_. False)\<rparr>"

text \<open>A length reaches \<open>x\<close>; a length is not negative.\<close>

definition span_covers :: "span \<Rightarrow> real \<Rightarrow> bool" where
  "span_covers sp x = (case sp of Unbounded \<Rightarrow> True | Fin b \<Rightarrow> x \<le> b)"

definition span_nonneg :: "span \<Rightarrow> bool" where
  "span_nonneg sp = (case sp of Unbounded \<Rightarrow> True | Fin b \<Rightarrow> 0 \<le> b)"

declare path_join_def [js_simps] uuidv4_def [js_simps] file_accessible_def [js_simps]
  ffprobe_def [js_simps] ffmpeg_new_def [js_simps] ff_input_def [js_simps]
  ff_inputOptions_def [js_simps] ff_duration_def [js_simps] ff_outputOptions_def [js_simps]
  ff_videoFilters_def [js_simps] ff_audioFilters_def [js_simps] ff_output_def [js_simps]
  num_span_def [js_simps] input_span_def [js_simps] input_spans_def [js_simps] in_span_def [js_simps]
  entry_len_def [js_simps] entries_len_def [js_simps] concat_len_def [js_simps]
  span_base_def [js_simps] out_span_def [js_simps] out_file_def [js_simps] ff_run_def [js_simps] ideal_env_def [js_simps] write_text_def [js_simps]

subsection \<open>Lemmas\<close>

lemma ff_inputOptions_no_input: "cmd_inputs c = [] \<Longrightarrow> ff_inputOptions os c = Inl NoInputSpecified"
  by (simp add: ff_inputOptions_def)

lemma ff_run_Inr_target:
  "ff_run env c s = (Inr u, s') \<Longrightarrow>
   \<exists>p ss d. target c = Some p \<and> input_spans (files s) c = Some ss \<and> out_span (out_opts c) ss = Some (Fin d) \<and>
         files s' = (files s)(p \<mapsto> out_file (files s) c d) \<and> next_uuid s' = next_uuid s"
  by (auto simp: ff_run_def split: option.splits if_splits span.splits)

lemma ff_run_Inl_state: "ff_run env c s = (Inl e, s') \<Longrightarrow> s' = s"
  by (auto simp: ff_run_def split: option.splits if_splits span.splits)

lemma ffprobe_Inr: "ffprobe s p = Inr d \<Longrightarrow> \<exists>f. files s p = Some f \<and> fmt_duration f = d"
  by (auto simp: ffprobe_def split: option.splits if_splits)

lemma uuidv4_fresh_counter: "uuidv4 s = (r, s') \<Longrightarrow> next_uuid s' = Suc (next_uuid s) \<and> files s' = files s"
  by (auto simp: uuidv4_def)

lemma span_min_covers [simp]: "span_covers (span_min a b) x \<longleftrightarrow> span_covers a x \<and> span_covers b x"
  by (cases a; cases b) (auto simp: span_covers_def)

lemma foldl_span_min_covers:
  "span_covers (foldl span_min a ss) x \<longleftrightarrow> span_covers a x \<and> (\<forall>sp\<in>set ss. span_covers sp x)"
  by (induction ss arbitrary: a) auto

lemma span_max_covers: "span_covers a x \<or> span_covers b x \<Longrightarrow> span_covers (span_max a b) x"
  by (cases a; cases b) (auto simp: span_covers_def)

lemma foldl_span_max_covers:
  "span_covers a x \<or> (\<exists>sp\<in>set ss. span_covers sp x) \<Longrightarrow> span_covers (foldl span_max a ss) x"
proof (induction ss arbitrary: a)
  case Nil
  then show ?case by simp
next
  case (Cons b ss)
  then show ?case by (auto intro: span_max_covers)
qed

lemma span_nonneg_min: "span_nonneg a \<Longrightarrow> span_nonneg b \<Longrightarrow> span_nonneg (span_min a b)"
  by (cases a; cases b) (auto simp: span_nonneg_def)

lemma span_nonneg_max: "span_nonneg a \<Longrightarrow> span_nonneg b \<Longrightarrow> span_nonneg (span_max a b)"
  by (cases a; cases b) (auto simp: span_nonneg_def)

lemma foldl_span_nonneg:
  assumes "\<And>a b. span_nonneg a \<Longrightarrow> span_nonneg b \<Longrightarrow> span_nonneg (f a b)"
  shows "span_nonneg a \<Longrightarrow> \<forall>sp\<in>set ss. span_nonneg sp \<Longrightarrow> span_nonneg (foldl f a ss)"
  using assms by (induction ss arbitrary: a) auto

lemma input_span_nonneg: "span_nonneg (input_span f os afs)"
  by (simp add: input_span_def num_span_def span_nonneg_def split: jsnum.split)

lemma span_base_nonneg: "\<forall>sp\<in>set ss. span_nonneg sp \<Longrightarrow> span_nonneg (span_base os ss)"
proof -
  assume ss: "\<forall>sp\<in>set ss. span_nonneg sp"
  have "span_nonneg (foldl span_min Unbounded ss)"
    by (rule foldl_span_nonneg [OF span_nonneg_min]) (simp_all add: ss, simp add: span_nonneg_def)
  moreover have "span_nonneg (foldl span_max (Fin 0) ss)"
    by (rule foldl_span_nonneg [OF span_nonneg_max]) (simp_all add: ss, simp add: span_nonneg_def)
  ultimately show ?thesis by (simp add: span_base_def)
qed

lemma out_span_nonneg:
  assumes "out_span os ss = Some (Fin d)" "\<forall>sp\<in>set ss. span_nonneg sp"
  shows "0 \<le> d"
proof -
  have b: "span_nonneg (span_base os ss)" by (rule span_base_nonneg [OF assms(2)])
  from assms(1) obtain ts where
    o: "(if ts = [] then span_base os ss else span_min (span_base os ss) (Fin (max 0 (last ts)))) = Fin d"
    by (auto simp: out_span_def split: option.splits)
  have m: "span_nonneg (Fin (max 0 (last ts)))" by (simp add: span_nonneg_def)
  have "span_nonneg (if ts = [] then span_base os ss else span_min (span_base os ss) (Fin (max 0 (last ts))))"
    using b span_nonneg_min [OF b m] by simp
  with o show ?thesis by (simp add: span_nonneg_def)
qed

lemma span_min_Fin_covered: "span_covers b x \<Longrightarrow> span_min b (Fin x) = Fin x"
  by (cases b) (auto simp: span_covers_def)

lemma span_min_Fin_bounded [simp]: "span_min a (Fin b) \<noteq> Unbounded"
  by (cases a) simp_all

lemma out_span_equal_caps:
  assumes "caps os = Some ts" "\<forall>t\<in>set ts. t = x" "ts \<noteq> []" "0 \<le> x"
    "span_covers (span_base os ss) x"
  shows "out_span os ss = Some (Fin x)"
proof -
  have "last ts = x" using assms(2,3) last_in_set by blast
  with assms(4) have "max 0 (last ts) = x" by simp
  with assms(1,3,5) show ?thesis by (simp add: out_span_def span_min_Fin_covered)
qed

lemma out_span_Unbounded:
  "out_span os ss = Some Unbounded \<Longrightarrow> caps os = Some [] \<and> span_base os ss = Unbounded"
  by (auto simp: out_span_def split: option.splits if_splits)

lemma input_spans_member:
  "input_spans fm c = Some ss \<Longrightarrow> sp \<in> set ss \<Longrightarrow> \<exists>i\<in>set (cmd_inputs c). in_span fm (afilters c) i = Some sp"
  unfolding input_spans_def by (drule all_some_member) auto

lemma input_spans_plain:
  assumes "\<forall>i\<in>set (cmd_inputs c). FmtConcat \<notin> set (in_opts i)"
  shows "input_spans fm c =
           (if \<forall>i\<in>set (cmd_inputs c). in_path i \<in> dom fm
            then Some (map (\<lambda>i. input_span (the (fm (in_path i))) (in_opts i) (afilters c)) (cmd_inputs c))
            else None)"
proof (cases "\<forall>i\<in>set (cmd_inputs c). in_path i \<in> dom fm")
  case True
  then have "map (in_span fm (afilters c)) (cmd_inputs c) =
             map Some (map (\<lambda>i. input_span (the (fm (in_path i))) (in_opts i) (afilters c)) (cmd_inputs c))"
    using assms by (auto simp: in_span_def)
  with True show ?thesis by (simp add: input_spans_def)
next
  case False
  then obtain i where "i \<in> set (cmd_inputs c)" "fm (in_path i) = None" by auto
  then have "None \<in> set (map (in_span fm (afilters c)) (cmd_inputs c))"
    by (force simp: in_span_def)
  then have "all_some (map (in_span fm (afilters c)) (cmd_inputs c)) = None"
    by (simp only: all_some_eq_None)
  with False show ?thesis by (simp add: input_spans_def)
qed

lemma entry_len_nonneg: "entry_len fm e = Some d \<Longrightarrow> 0 \<le> d"
  by (auto simp: entry_len_def split: option.splits if_splits jsnum.splits)

lemma entries_len_nonneg:
  assumes "entries_len fm es = Some d"
  shows "0 \<le> d"
proof -
  from assms obtain ds where eq: "all_some (map (entry_len fm) es) = Some ds" and d: "d = sum_list ds"
    by (auto simp: entries_len_def simp del: all_some_eq_Some)
  have "0 \<le> x" if "x \<in> set ds" for x
    using all_some_member [OF eq that] entry_len_nonneg by auto
  with d show ?thesis by (simp add: sum_list_nonneg)
qed

lemma concat_len_nonneg: "concat_len fm ls = Some d \<Longrightarrow> 0 \<le> d"
  by (auto simp: concat_len_def split: option.splits if_splits dest: entries_len_nonneg)

lemma in_span_nonneg:
  assumes "in_span fm afs i = Some sp"
  shows "span_nonneg sp"
proof (cases "fm (in_path i)")
  case None
  with assms show ?thesis by (simp add: in_span_def)
next
  case (Some f)
  show ?thesis
  proof (cases "FmtConcat \<in> set (in_opts i) \<and> StreamLoopInf \<notin> set (in_opts i)")
    case True
    with Some assms obtain d where "concat_len fm (text_of f) = Some d" "sp = Fin d"
      by (auto simp: in_span_def)
    then show ?thesis by (simp add: span_nonneg_def concat_len_nonneg)
  next
    case False
    with Some assms have "sp = input_span f (in_opts i) afs" by (simp add: in_span_def)
    then show ?thesis by (simp add: input_span_nonneg)
  qed
qed

lemma in_span_Fin:
  assumes "in_span fm afs i = Some sp" "''apad'' \<notin> set afs"
    "StreamLoopInf \<notin> set (in_opts i)" "Loop1 \<notin> set (in_opts i)"
  shows "\<exists>d. sp = Fin d"
proof (cases "fm (in_path i)")
  case None
  with assms(1) show ?thesis by (simp add: in_span_def)
next
  case (Some f)
  with assms show ?thesis
    by (cases "fmt_duration f") (auto simp: in_span_def input_span_def num_span_def split: if_splits)
qed

lemma input_spans_nonneg: "input_spans fm c = Some ss \<Longrightarrow> \<forall>sp\<in>set ss. span_nonneg sp"
  by (auto dest: input_spans_member in_span_nonneg)

lemma foldl_ff_input:
  "foldl (\<lambda>c p. ff_input p c) c0 ps =
   c0\<lparr>cmd_inputs := cmd_inputs c0 @ map (\<lambda>p. \<lparr>in_path = p, in_opts = []\<rparr>) ps\<rparr>"
  by (induction ps arbitrary: c0) (simp_all add: ff_input_def)

lemma caps_OptT_nonempty: "caps os = Some ts \<Longrightarrow> OptT v \<in> set os \<Longrightarrow> ts \<noteq> []"
  by (induction os arbitrary: ts rule: caps.induct) (auto split: if_splits)

lemma ff_run_Unbounded:
  "ff_run env c s = (Inl (EncoderNeverEnds p), s') \<Longrightarrow>
   \<exists>ss. input_spans (files s) c = Some ss \<and> out_span (out_opts c) ss = Some Unbounded"
  by (auto simp: ff_run_def split: option.splits if_splits span.splits)

lemma ff_run_capped_avoids:
  assumes "OptT v \<in> set (out_opts c)"
  shows "act_avoids encoder_hangs (ff_run env c)"
  unfolding act_avoids_def
proof (intro allI impI)
  fix s e s'
  assume run: "ff_run env c s = (Inl e, s')"
  show "\<not> encoder_hangs e"
  proof
    assume "encoder_hangs e"
    then obtain p where "e = EncoderNeverEnds p" by (cases e) auto
    with run obtain ss where "out_span (out_opts c) ss = Some Unbounded"
      by (blast dest: ff_run_Unbounded)
    then have "caps (out_opts c) = Some []" by (blast dest: out_span_Unbounded)
    with assms show False by (blast dest: caps_OptT_nonempty)
  qed
qed

lemma uuidv4_avoids: "act_avoids E uuidv4"
  by (simp add: act_avoids_def uuidv4_def)

lemma foldl_span_max_Fin: "\<forall>sp\<in>set ss. \<exists>d. sp = Fin d \<Longrightarrow> \<exists>d. foldl span_max (Fin a) ss = Fin d"
proof (induction ss arbitrary: a)
  case (Cons sp ss)
  then obtain d where "sp = Fin d" by auto
  with Cons show ?case by simp
qed simp

lemma ff_run_finite_avoids:
  assumes "Shortest \<notin> set (out_opts c)" "''apad'' \<notin> set (afilters c)"
    "\<forall>i\<in>set (cmd_inputs c). StreamLoopInf \<notin> set (in_opts i) \<and> Loop1 \<notin> set (in_opts i)"
  shows "act_avoids encoder_hangs (ff_run env c)"
  unfolding act_avoids_def
proof (intro allI impI)
  fix s e s'
  assume run: "ff_run env c s = (Inl e, s')"
  show "\<not> encoder_hangs e"
  proof
    assume "encoder_hangs e"
    then obtain p where "e = EncoderNeverEnds p" by (cases e) auto
    with run obtain ss where iss: "input_spans (files s) c = Some ss" and
      os: "out_span (out_opts c) ss = Some Unbounded"
      by (blast dest: ff_run_Unbounded)
    have "\<exists>d. sp = Fin d" if "sp \<in> set ss" for sp
      using input_spans_member [OF iss that] assms(2,3) in_span_Fin by blast
    then obtain b where "span_base (out_opts c) ss = Fin b"
      using assms(1) foldl_span_max_Fin by (fastforce simp: span_base_def)
    with os show False by (auto dest: out_span_Unbounded)
  qed
qed

end
