(* ===== verification/SceneRenderer.thy ===== *)
theory SceneRenderer
  imports Prelude JsParse Encoder
begin

text \<open>
  The per-scene path of \<open>VideoGeneratorController\<close>
  (\<open>src/backend/controllers/video.generator.controller.js\<close>): the file check
  \<open>verifyFile\<close>, the probe \<open>getVideoDuration\<close>, \<open>stripAudioFromVideo\<close>,
  \<open>normalizeAudio\<close> and \<open>generateSceneVideo\<close>, the last one split at the
  numbered steps of its body (media duration, final duration, audio processing, the
  encoder command, the run). Each method takes the store and returns its result
  (\<open>Inl\<close> for a rejected promise) with the new store.
\<close>

subsection \<open>Scenes\<close>

text \<open>
  The scene objects \<open>generateScriptWithMedia\<close> hands over: \<open>media\<close> and
  \<open>audio\<close> may be \<open>null\<close>; \<open>media.duration\<close> may be a number, a string
  (the script timing's \<open>"m:ss"\<close>) or absent; \<open>audio.path\<close> may be absent;
  \<open>audio.paths\<close> is kept only when it is an array.
\<close>

record media_desc =
  mtype :: string
  mpath :: path
  mduration :: jsval

record audio_desc =
  apath :: "path option"
  atype :: string
  apaths :: "path list option"

record scene =
  sceneNumber :: nat
  media :: "media_desc option"
  audio :: "audio_desc option"

text \<open>The object \<open>{ path, duration }\<close> a rendered scene resolves with.\<close>

record rendered =
  r_path :: path
  r_duration :: jsnum

subsection \<open>Helper methods\<close>

text \<open>\<open>this.tempDir = path.join(process.cwd(), 'temp')\<close>, relative to the working directory.\<close>

definition tempDir :: path where
  "tempDir = ''temp''"

text \<open>\<open>verifyFile(filePath)\<close>: \<open>true\<close> when access and stat succeed, \<open>false\<close> otherwise.\<close>

definition verifyFile :: "fs \<Rightarrow> path option \<Rightarrow> bool" where
  "verifyFile s p = file_accessible s p"

text \<open>\<open>getVideoDuration(videoPath)\<close>: \<open>parseFloat\<close> of the probed format duration.\<close>

definition getVideoDuration :: "fs \<Rightarrow> path \<Rightarrow> jsnum res" where
  "getVideoDuration s p = bindE (ffprobe s p) (\<lambda>d. Inr (parseFloat (JNumber d)))"

text \<open>\<open>stripAudioFromVideo(videoPath)\<close>: copy the video stream, drop audio (\<open>-an\<close>).\<close>

definition stripAudioFromVideo :: "enc_env \<Rightarrow> path \<Rightarrow> (fs, path) act" where
  "stripAudioFromVideo env videoPath =
     bindS uuidv4 (\<lambda>u.
       (let outputPath = path_join tempDir (''temp_'' @ u @ ''_noaudio.mp4'')
        in bindS (ff_run env (ff_output outputPath
                    (ff_outputOptions [OptStr ''-c:v copy'', NoAudio] (ffmpeg_new (Some videoPath)))))
             (\<lambda>_. returnS outputPath)))"

text \<open>
  \<open>normalizeAudio(audioPaths, duration)\<close>: the output name is drawn first; a
  \<open>NaN\<close> duration throws; otherwise every path is an input, \<open>loudnorm\<close> and
  \<open>apad\<close> are the audio filters and the output is cut at \<open>duration\<close>.
\<close>

definition normalizeAudio :: "enc_env \<Rightarrow> path list \<Rightarrow> jsnum \<Rightarrow> (fs, path) act" where
  "normalizeAudio env audioPaths duration =
     bindS uuidv4 (\<lambda>u.
       (let outputPath = path_join tempDir (''temp_'' @ u @ ''_normalized_audio.mp3'');
            normalizedDuration = parseFloat (JNumber duration)
        in if js_isNaN normalizedDuration then throwS (InvalidDurationValue duration)
           else
             bindS (ff_run env (ff_output outputPath
                      (ff_duration normalizedDuration
                        (ff_audioFilters [''loudnorm=I=-16:LRA=11:TP=-1.5'', ''apad'']
                          (foldl (\<lambda>c p. ff_input p c) (ffmpeg_new None) audioPaths)))))
               (\<lambda>_. returnS outputPath)))"

subsection \<open>\<open>generateSceneVideo\<close>, step by step\<close>

text \<open>\<open>scene_${scene.sceneNumber}_final.mp4\<close> in the temporary directory.\<close>

definition sceneOutputPath :: "scene \<Rightarrow> path" where
  "sceneOutputPath sc = path_join tempDir (''scene_'' @ nat_to_str (sceneNumber sc) @ ''_final.mp4'')"

text \<open>\<open>audioExists\<close>: the scene has an audio object whose path names an accessible file.\<close>

definition sceneAudioExists :: "fs \<Rightarrow> scene \<Rightarrow> bool" where
  "sceneAudioExists s sc = (case audio sc of None \<Rightarrow> False | Some a \<Rightarrow> verifyFile s (apath a))"

text \<open>
  Step 1, the media duration: an image takes \<open>parseFloat(media.duration) || 5\<close>,
  a video its probed length; \<open>NaN\<close> or a value \<open><= 0\<close> throws.
\<close>

definition mediaDuration :: "fs \<Rightarrow> media_desc \<Rightarrow> jsnum res" where
  "mediaDuration s m =
     bindE (if mtype m = ''image'' then Inr (js_or (parseFloat (mduration m)) (Num 5))
            else getVideoDuration s (mpath m))
       (\<lambda>v. if js_isNaN v \<or> js_le v (Num 0) then Inl (InvalidMediaDuration v) else Inr v)"

text \<open>
  Step 2, the final duration: the probed audio length when the audio file exists,
  else the media duration.
\<close>

definition finalDurationOf :: "fs \<Rightarrow> audio_desc option \<Rightarrow> bool \<Rightarrow> jsnum \<Rightarrow> jsnum res" where
  "finalDurationOf s a audioExists vd =
     (case a of
        None \<Rightarrow> Inr vd
      | Some ad \<Rightarrow>
          (if audioExists then
             (case apath ad of None \<Rightarrow> Inl (ProbeFailed []) | Some p \<Rightarrow> getVideoDuration s p)
           else Inr vd))"

text \<open>
  Step 3a, the narration track: \<open>normalizeAudio(scene.audio.paths, finalDuration)\<close>
  for an audio object of type \<open>multiple\<close> with an array of paths, else
  \<open>normalizeAudio([scene.audio.path], finalDuration)\<close> when that path is a
  non-empty string, else no track.
\<close>

definition normalizeSceneAudio :: "enc_env \<Rightarrow> audio_desc \<Rightarrow> jsnum \<Rightarrow> (fs, path option) act" where
  "normalizeSceneAudio env ad fd =
     (if atype ad = ''multiple'' \<and> apaths ad \<noteq> None
      then bindS (normalizeAudio env (the (apaths ad)) fd) (\<lambda>p. returnS (Some p))
      else
        (case apath ad of
           None \<Rightarrow> returnS None
         | Some p \<Rightarrow>
             (if p \<noteq> [] then bindS (normalizeAudio env [p] fd) (\<lambda>q. returnS (Some q))
              else returnS None)))"

text \<open>
  Step 3, the audio: when the audio file exists, the narration track of step 3a, and
  the embedded audio of a video source is stripped. Returns the normalised track, if
  any, and the path of the visual input.
\<close>

definition processAudio ::
  "enc_env \<Rightarrow> scene \<Rightarrow> media_desc \<Rightarrow> bool \<Rightarrow> jsnum \<Rightarrow> (fs, path option \<times> path) act" where
  "processAudio env sc m audioExists fd =
     (case audio sc of
        None \<Rightarrow> returnS (None, mpath m)
      | Some ad \<Rightarrow>
          (if \<not> audioExists then returnS (None, mpath m)
           else
             bindS (normalizeSceneAudio env ad fd)
               (\<lambda>na. if mtype m \<noteq> ''image''
                     then bindS (stripAudioFromVideo env (mpath m)) (\<lambda>vp. returnS (na, vp))
                     else returnS (na, mpath m))))"

text \<open>The output options of a scene clip: fixed codec settings, then \<open>-t\<close> and the audio settings.\<close>

definition sceneOutputOptions :: "jsnum \<Rightarrow> bool \<Rightarrow> out_opt list" where
  "sceneOutputOptions fd withAudio =
     [OptStr ''-c:v libx264'', OptStr ''-preset medium'', OptStr ''-profile:v high'',
      OptStr ''-level 4.1'', OptStr ''-crf 23'', OptStr ''-pix_fmt yuv420p'',
      OptStr ''-movflags +faststart'', OptStr ''-vsync 2'', OptT fd]
     @ (if withAudio then [OptStr ''-c:a aac'', OptStr ''-b:a 192k'', Shortest] else [])"

definition sceneVideoFilters :: "string list" where
  "sceneVideoFilters =
     [''format=yuv420p'', ''scale=1920:1080:force_original_aspect_ratio=decrease'',
      ''pad=1920:1080:(ow-iw)/2:(oh-ih)/2'']"

text \<open>
  Step 4, the command, built inside the promise executor (a throw there rejects the
  promise): an image is looped with \<open>-loop 1\<close> and cut at the final duration; for
  a video, \<open>-stream_loop -1\<close> is requested when the final duration exceeds the
  media duration, on the command as it stands, before the video is added as input.
\<close>

definition buildSceneCommand ::
  "media_desc \<Rightarrow> path \<Rightarrow> jsnum \<Rightarrow> jsnum \<Rightarrow> path option \<Rightarrow> path \<Rightarrow> ffcmd res" where
  "buildSceneCommand m videoPath vd fd na outputPath =
     bindE
       (if mtype m = ''image'' then
          bindE (ff_inputOptions [Loop1] (ff_input videoPath (ffmpeg_new None)))
            (\<lambda>c. Inr (ff_duration fd c))
        else
          bindE (if js_less vd fd then ff_inputOptions [StreamLoopInf] (ffmpeg_new None)
                 else Inr (ffmpeg_new None))
            (\<lambda>c. Inr (ff_input videoPath c)))
       (\<lambda>c. (let c1 = (case na of None \<Rightarrow> c | Some ap \<Rightarrow> ff_input ap c)
             in Inr (ff_output outputPath
                       (ff_videoFilters sceneVideoFilters
                         (ff_outputOptions (sceneOutputOptions fd (na \<noteq> None)) c1)))))"

text \<open>
  \<open>generateSceneVideo(scene)\<close>: \<open>null\<close> when the media file is missing, else the
  rendered clip \<open>{ path: outputPath, duration: finalDuration }\<close>; reading
  \<open>scene.media.path\<close> on a \<open>null\<close> media throws.
\<close>

definition generateSceneVideo :: "enc_env \<Rightarrow> scene \<Rightarrow> (fs, rendered option) act" where
  "generateSceneVideo env sc s =
     (case media sc of
        None \<Rightarrow> (Inl TypeErrorNull, s)
      | Some m \<Rightarrow>
          (let mediaExists = verifyFile s (Some (mpath m));
               audioExists = sceneAudioExists s sc
           in if \<not> mediaExists then (Inr None, s)
              else
                (let outputPath = sceneOutputPath sc
                 in case mediaDuration s m of
                      Inl e \<Rightarrow> (Inl e, s)
                    | Inr vd \<Rightarrow>
                        (case finalDurationOf s (audio sc) audioExists vd of
                           Inl e \<Rightarrow> (Inl e, s)
                         | Inr fd \<Rightarrow>
                             bindS (processAudio env sc m audioExists fd)
                               (\<lambda>(na, vp). bindS (liftS (buildSceneCommand m vp vd fd na outputPath))
                                  (\<lambda>c. bindS (ff_run env c)
                                     (\<lambda>_. returnS (Some \<lparr>r_path = outputPath, r_duration = fd\<rparr>)))) s))))"

subsection \<open>The store invariant and the scene's fit with the store\<close>

text \<open>
  What the pipeline may assume of the files it reads: \<open>ffprobe\<close> reports a
  length that is a non-negative number or \<open>N/A\<close> (\<open>NaN\<close>), and no file
  carries a temporary name the \<open>uuidv4\<close> supply has yet to hand out.
\<close>

definition uuid_temp_path :: "nat \<Rightarrow> string \<Rightarrow> path" where
  "uuid_temp_path n sfx = path_join tempDir (''temp_u'' @ nat_to_str n @ sfx)"

definition durations_ok :: "fs \<Rightarrow> bool" where
  "durations_ok s \<longleftrightarrow>
     (\<forall>f\<in>ran (files s). case fmt_duration f of Num x \<Rightarrow> 0 \<le> x | NaN \<Rightarrow> True | _ \<Rightarrow> False)"

text \<open>The suffixes of the temporary names \<open>normalizeAudio\<close> and \<open>stripAudioFromVideo\<close> draw.\<close>

definition temp_suffixes :: "string list" where
  "temp_suffixes = [''_normalized_audio.mp3'', ''_noaudio.mp4'']"

definition temp_fresh :: "fs \<Rightarrow> bool" where
  "temp_fresh s \<longleftrightarrow>
     (\<forall>n sfx. next_uuid s \<le> n \<longrightarrow> sfx \<in> set temp_suffixes \<longrightarrow> uuid_temp_path n sfx \<notin> dom (files s))"

definition store_inv :: "fs \<Rightarrow> bool" where
  "store_inv s \<longleftrightarrow> durations_ok s \<and> temp_fresh s"

text \<open>
  A scene fits the store when the file of an \<open>image\<close> scene is a still image and
  every narration file the scene names is an audio file.
\<close>

definition scene_fits_store :: "fs \<Rightarrow> scene \<Rightarrow> bool" where
  "scene_fits_store s sc \<longleftrightarrow>
     (\<forall>m f. media sc = Some m \<longrightarrow> mtype m = ''image'' \<longrightarrow> files s (mpath m) = Some f \<longrightarrow>
        kind f = ImageFile) \<and>
     (\<forall>a p f. audio sc = Some a \<longrightarrow> p \<in> set (case apaths a of None \<Rightarrow> [] | Some ps \<Rightarrow> ps) \<union> set_option (apath a) \<longrightarrow>
        files s p = Some f \<longrightarrow> kind f = AudioFile)"

subsection \<open>Scenario data\<close>

text \<open>Files and scenes of the scenarios of the specification (section 8), used by the witnesses.\<close>

definition still_image :: media_file where
  "still_image = \<lparr>kind = ImageFile, fmt_duration = NaN, has_audio = False, text_of = []\<rparr>"
definition clip :: "real \<Rightarrow> media_file" where
  "clip d = \<lparr>kind = VideoFile, fmt_duration = Num d, has_audio = True, text_of = []\<rparr>"
definition narration :: "real \<Rightarrow> media_file" where
  "narration d = \<lparr>kind = AudioFile, fmt_duration = Num d, has_audio = True, text_of = []\<rparr>"
definition store_of :: "(path \<times> media_file) list \<Rightarrow> fs" where
  "store_of xs = \<lparr>files = map_of xs, next_uuid = 0\<rparr>"
definition narrated_scene :: "nat \<Rightarrow> string \<Rightarrow> path \<Rightarrow> path \<Rightarrow> scene" where
  "narrated_scene n t mp ap = \<lparr>sceneNumber = n, media = Some \<lparr>mtype = t, mpath = mp, mduration = JUndefined\<rparr>,
     audio = Some \<lparr>apath = Some ap, atype = ''audio/mp3'', apaths = None\<rparr>\<rparr>"

declare tempDir_def [js_simps] verifyFile_def [js_simps] getVideoDuration_def [js_simps]
  stripAudioFromVideo_def [js_simps] normalizeAudio_def [js_simps] sceneOutputPath_def [js_simps] sceneAudioExists_def [js_simps]
  mediaDuration_def [js_simps] finalDurationOf_def [js_simps] normalizeSceneAudio_def [js_simps] processAudio_def [js_simps]
  sceneOutputOptions_def [js_simps] sceneVideoFilters_def [js_simps]
  buildSceneCommand_def [js_simps] generateSceneVideo_def [js_simps]

subsection \<open>Lemmas: the helper methods\<close>

lemma normalizeAudio_ok:
  assumes run: "normalizeAudio env ps (Num x) s = (Inr q, s1)" and x: "0 \<le> x"
    and audio: "\<forall>p\<in>set ps. \<forall>f. files s p = Some f \<longrightarrow> kind f = AudioFile"
  shows "q = uuid_temp_path (next_uuid s) ''_normalized_audio.mp3'' \<and> next_uuid s1 = Suc (next_uuid s) \<and>
         (\<exists>f. files s1 = (files s)(q \<mapsto> f) \<and> fmt_duration f = Num x)"
proof -
  let ?s0 = "s\<lparr>next_uuid := Suc (next_uuid s)\<rparr>"
  let ?q = "uuid_temp_path (next_uuid s) ''_normalized_audio.mp3''"
  let ?c = "ff_output ?q (ff_duration (Num x) (ff_audioFilters [''loudnorm=I=-16:LRA=11:TP=-1.5'', ''apad'']
              (foldl (\<lambda>c p. ff_input p c) (ffmpeg_new None) ps)))"
  from run have q: "q = ?q" and runc: "ff_run env ?c ?s0 = (Inr (), s1)"
    by (auto simp: normalizeAudio_def uuidv4_def bindS_def returnS_def Let_def uuid_temp_path_def
        split: prod.splits sum.splits if_splits)
  from ff_run_Inr_target [OF runc] obtain ss d where
    iss: "input_spans (files ?s0) ?c = Some ss" and
    os: "out_span (out_opts ?c) ss = Some (Fin d)" and
    fs1: "files s1 = (files ?s0)(?q \<mapsto> out_file (files ?s0) ?c d)" and nu: "next_uuid s1 = next_uuid ?s0"
    by (auto simp: ff_output_def)
  have ne: "ps \<noteq> []" and ex: "\<forall>p\<in>set ps. p \<in> dom (files s)"
    using runc by (auto simp: ff_run_def input_spans_plain foldl_ff_input ff_output_def ff_duration_def
        ff_audioFilters_def ffmpeg_new_def split: if_splits option.splits)
  from ne obtain p0 where p0: "p0 \<in> set ps" by (cases ps) auto
  with ex audio obtain f0 where f0: "files s p0 = Some f0" "kind f0 = AudioFile" by blast
  let ?afs = "[''loudnorm=I=-16:LRA=11:TP=-1.5'', ''apad'']"
  have spans: "ss = map (\<lambda>p. input_span (the (files s p)) [] ?afs) ps"
    using ex iss by (auto simp: input_spans_plain foldl_ff_input ff_output_def ff_duration_def
        ff_audioFilters_def ffmpeg_new_def o_def split: if_splits)
  have "Unbounded \<in> set (map (\<lambda>p. input_span (the (files s p)) [] ?afs) ps)"
    using p0 f0 by (force simp: input_span_def)
  then have "\<exists>sp\<in>set (map (\<lambda>p. input_span (the (files s p)) [] ?afs) ps). span_covers sp x"
    by (rule bexI [rotated]) (simp add: span_covers_def)
  then have "span_covers (foldl span_max (Fin 0) ss) x"
    unfolding spans by (rule foldl_span_max_covers [OF disjI2])
  then have "span_covers (span_base (out_opts ?c) ss) x"
    by (simp add: span_base_def ff_output_def ff_duration_def ff_audioFilters_def foldl_ff_input
        ffmpeg_new_def)
  then have "out_span (out_opts ?c) ss = Some (Fin x)"
    using x by (intro out_span_equal_caps [where ts = "[x]"]) (simp_all add: ff_output_def ff_duration_def
        ff_audioFilters_def foldl_ff_input ffmpeg_new_def)
  with os have "d = x" by simp
  with q fs1 nu show ?thesis by (auto simp: out_file_def)
qed
lemma stripAudioFromVideo_ok:
  assumes run: "stripAudioFromVideo env v s = (Inr q, s1)" and fv: "files s v = Some f"
  shows "q = uuid_temp_path (next_uuid s) ''_noaudio.mp4'' \<and> next_uuid s1 = Suc (next_uuid s) \<and>
         (\<exists>g. files s1 = (files s)(q \<mapsto> g) \<and> num_span (fmt_duration g) = num_span (fmt_duration f))"
proof -
  let ?s0 = "s\<lparr>next_uuid := Suc (next_uuid s)\<rparr>"
  let ?q = "uuid_temp_path (next_uuid s) ''_noaudio.mp4''"
  let ?c = "ff_output ?q (ff_outputOptions [OptStr ''-c:v copy'', NoAudio] (ffmpeg_new (Some v)))"
  from run have q: "q = ?q" and runc: "ff_run env ?c ?s0 = (Inr (), s1)"
    by (auto simp: stripAudioFromVideo_def uuidv4_def bindS_def returnS_def Let_def uuid_temp_path_def
        split: prod.splits sum.splits if_splits)
  from ff_run_Inr_target [OF runc] obtain ss d where
    iss: "input_spans (files ?s0) ?c = Some ss" and
    os: "out_span (out_opts ?c) ss = Some (Fin d)" and
    fs1: "files s1 = (files ?s0)(?q \<mapsto> out_file (files ?s0) ?c d)" and nu: "next_uuid s1 = next_uuid ?s0"
    by (auto simp: ff_output_def)
  have "out_span (out_opts ?c) ss =
        Some (span_max (Fin 0) (num_span (fmt_duration f)))"
    using fv iss by (auto simp: out_span_def span_base_def input_spans_plain ff_output_def
        ff_outputOptions_def ffmpeg_new_def input_span_def split: if_splits)
  moreover obtain y where y: "num_span (fmt_duration f) = Fin y" "0 \<le> y"
    by (cases "fmt_duration f") (auto simp: num_span_def)
  ultimately have "d = y" using os by simp
  with y q fs1 nu show ?thesis by (auto simp: out_file_def num_span_def)
qed

lemma ff_run_durations_ok:
  assumes "ff_run env c s = (r, s')" "durations_ok s"
  shows "durations_ok s'"
proof (cases r)
  case (Inl e)
  with assms(1) have "s' = s" by (auto intro: ff_run_Inl_state)
  with assms(2) show ?thesis by simp
next
  case (Inr u)
  with assms(1) obtain p ss d where
    iss: "input_spans (files s) c = Some ss" and
    os: "out_span (out_opts c) ss = Some (Fin d)" and
    fs: "files s' = (files s)(p \<mapsto> out_file (files s) c d)"
    by (auto dest!: ff_run_Inr_target)
  have "\<forall>sp\<in>set ss. span_nonneg sp"
    using iss by (rule input_spans_nonneg)
  with os have "0 \<le> d" by (rule out_span_nonneg)
  with assms(2) fs show ?thesis
    by (auto simp: durations_ok_def out_file_def ran_def)
qed

lemma ff_run_temp_fresh:
  assumes "ff_run env c s = (r, s')" "temp_fresh s"
    and "\<forall>n sfx. sfx \<in> set temp_suffixes \<longrightarrow> target c = Some (uuid_temp_path n sfx) \<longrightarrow>
           n < next_uuid s"
  shows "temp_fresh s'"
proof (cases r)
  case (Inl e)
  with assms(1) have "s' = s" by (auto intro: ff_run_Inl_state)
  with assms(2) show ?thesis by simp
next
  case (Inr u)
  with assms(1) obtain p d where
    t: "target c = Some p" and
    fs: "files s' = (files s)(p \<mapsto> out_file (files s) c d)" and nu: "next_uuid s' = next_uuid s"
    by (auto dest!: ff_run_Inr_target)
  show ?thesis
    unfolding temp_fresh_def
  proof (intro allI impI)
    fix n sfx
    assume n: "next_uuid s' \<le> n" and sfx: "sfx \<in> set temp_suffixes"
    with assms(2) nu have old: "uuid_temp_path n sfx \<notin> dom (files s)"
      by (simp add: temp_fresh_def)
    from n nu have "\<not> n < next_uuid s" by simp
    with assms(3) t sfx have "p \<noteq> uuid_temp_path n sfx"
      by blast
    with old fs show "uuid_temp_path n sfx \<notin> dom (files s')"
      by simp
  qed
qed

subsection \<open>Lemmas: temporary names and the audio step\<close>

lemma last_uuid_temp_path: "sfx \<noteq> [] \<Longrightarrow> last (uuid_temp_path n sfx) = last sfx"
  by (simp add: uuid_temp_path_def path_join_def)

lemma uuid_temp_paths_differ:
  "uuid_temp_path n ''_normalized_audio.mp3'' \<noteq> uuid_temp_path k ''_noaudio.mp4''"
  using last_uuid_temp_path [of "''_normalized_audio.mp3''" n] last_uuid_temp_path [of "''_noaudio.mp4''" k]
  by auto

lemma fresh_not_in_dom:
  "temp_fresh s \<Longrightarrow> p \<in> dom (files s) \<Longrightarrow> sfx \<in> set temp_suffixes \<Longrightarrow>
   uuid_temp_path (next_uuid s) sfx \<noteq> p"
  by (auto simp: temp_fresh_def)

lemma normalizeSceneAudio_ok:
  assumes run: "normalizeSceneAudio env ad (Num x) s = (Inr na, s1)" and x: "0 \<le> x"
    and audio: "\<forall>p f. p \<in> set (case apaths ad of None \<Rightarrow> [] | Some ps \<Rightarrow> ps) \<union> set_option (apath ad) \<longrightarrow>
                 files s p = Some f \<longrightarrow> kind f = AudioFile"
  shows "(na = None \<and> s1 = s) \<or>
         (\<exists>f. na = Some (uuid_temp_path (next_uuid s) ''_normalized_audio.mp3'') \<and>
              next_uuid s1 = Suc (next_uuid s) \<and>
              files s1 = (files s)(uuid_temp_path (next_uuid s) ''_normalized_audio.mp3'' \<mapsto> f) \<and>
              fmt_duration f = Num x)"
proof (cases "atype ad = ''multiple'' \<and> apaths ad \<noteq> None")
  case True
  then obtain ps where ps: "apaths ad = Some ps" by auto
  with True run obtain q where "normalizeAudio env ps (Num x) s = (Inr q, s1)" "na = Some q"
    by (auto simp: normalizeSceneAudio_def bindS_def returnS_def split: prod.splits sum.splits)
  moreover have "\<forall>p\<in>set ps. \<forall>f. files s p = Some f \<longrightarrow> kind f = AudioFile"
    using audio ps by auto
  ultimately show ?thesis using normalizeAudio_ok x by blast
next
  case False
  from run have run': "(case apath ad of None \<Rightarrow> returnS None
      | Some p \<Rightarrow> (if p \<noteq> [] then bindS (normalizeAudio env [p] (Num x)) (\<lambda>q. returnS (Some q))
                   else returnS None)) s = (Inr na, s1)"
    unfolding normalizeSceneAudio_def if_not_P [OF False] .
  show ?thesis
  proof (cases "apath ad")
    case None
    with run' show ?thesis by (simp add: returnS_def)
  next
    case (Some p)
    show ?thesis
    proof (cases "p = []")
      case True
      with Some run' show ?thesis by (simp add: returnS_def)
    next
      case nonempty: False
      with Some run' obtain q where "normalizeAudio env [p] (Num x) s = (Inr q, s1)" "na = Some q"
        by (auto simp: bindS_def returnS_def split: prod.splits sum.splits)
      moreover have "\<forall>p'\<in>set [p]. \<forall>f. files s p' = Some f \<longrightarrow> kind f = AudioFile"
        using audio Some by auto
      ultimately show ?thesis using normalizeAudio_ok x by blast
    qed
  qed
qed
lemma processAudio_ok:
  assumes run: "processAudio env sc m ae (Num x) s = (Inr (na, vp), s1)"
    and fresh: "temp_fresh s" and x: "0 \<le> x" and fits: "scene_fits_store s sc"
    and mp: "files s (mpath m) = Some fm"
  shows "(\<forall>ap. na = Some ap \<longrightarrow> (\<exists>f. files s1 ap = Some f \<and> fmt_duration f = Num x)) \<and>
         (mtype m = ''image'' \<longrightarrow> vp = mpath m \<and> files s1 vp = Some fm) \<and>
         (mtype m \<noteq> ''image'' \<longrightarrow>
            (\<exists>f. files s1 vp = Some f \<and> num_span (fmt_duration f) = num_span (fmt_duration fm)))"
proof (cases "\<exists>ad. audio sc = Some ad \<and> ae")
  case False
  with run mp show ?thesis
    by (auto simp: processAudio_def returnS_def split: option.splits if_splits)
next
  case True
  then obtain ad where ad: "audio sc = Some ad" and ae: ae by blast
  from run ad ae obtain na0 s0 where
    norm: "normalizeSceneAudio env ad (Num x) s = (Inr na0, s0)" and
    rest: "(if mtype m \<noteq> ''image''
            then bindS (stripAudioFromVideo env (mpath m)) (\<lambda>vp. returnS (na0, vp))
            else returnS (na0, mpath m)) s0 = (Inr (na, vp), s1)"
    by (auto simp: processAudio_def bindS_def split: prod.splits sum.splits)
  have kinds: "\<forall>p f. p \<in> set (case apaths ad of None \<Rightarrow> [] | Some ps \<Rightarrow> ps) \<union> set_option (apath ad) \<longrightarrow>
                 files s p = Some f \<longrightarrow> kind f = AudioFile"
    using fits ad by (simp add: scene_fits_store_def)
  let ?q = "uuid_temp_path (next_uuid s) ''_normalized_audio.mp3''"
  have q_ne: "?q \<noteq> mpath m"
    using fresh mp by (intro fresh_not_in_dom) (auto simp: temp_suffixes_def)
  from normalizeSceneAudio_ok [OF norm x kinds] have s0:
    "(\<forall>ap. na0 = Some ap \<longrightarrow> (\<exists>f. files s0 ap = Some f \<and> fmt_duration f = Num x)) \<and>
     files s0 (mpath m) = Some fm"
    using q_ne mp by auto
  show ?thesis
  proof (cases "mtype m = ''image''")
    case True
    with rest s0 show ?thesis by (auto simp: returnS_def)
  next
    case False
    with rest obtain vp' where strip: "stripAudioFromVideo env (mpath m) s0 = (Inr vp', s1)"
      and eq: "na = na0" "vp = vp'"
      by (auto simp: bindS_def returnS_def split: prod.splits sum.splits)
    from stripAudioFromVideo_ok [OF strip] s0 obtain g where
      vp': "vp' = uuid_temp_path (next_uuid s0) ''_noaudio.mp4''" and
      fs1: "files s1 = (files s0)(vp' \<mapsto> g)" and
      g: "num_span (fmt_duration g) = num_span (fmt_duration fm)"
      by blast
    have "\<forall>ap. na0 = Some ap \<longrightarrow> ap \<noteq> vp'"
      using normalizeSceneAudio_ok [OF norm x kinds] vp' uuid_temp_paths_differ uuid_temp_paths_differ [THEN not_sym] by (auto simp del: fun_upd_apply)
    with s0 fs1 g eq False show ?thesis by auto
  qed
qed

subsection \<open>Lemmas: \<open>generateSceneVideo\<close>\<close>

lemma generateSceneVideo_SomeE:
  assumes "generateSceneVideo env sc s = (Inr (Some r), s')"
  obtains m vd fd na vp s1 c where
    "media sc = Some m" "verifyFile s (Some (mpath m))"
    "mediaDuration s m = Inr vd"
    "finalDurationOf s (audio sc) (sceneAudioExists s sc) vd = Inr fd"
    "processAudio env sc m (sceneAudioExists s sc) fd s = (Inr (na, vp), s1)"
    "buildSceneCommand m vp vd fd na (sceneOutputPath sc) = Inr c"
    "ff_run env c s1 = (Inr (), s')"
    "r = \<lparr>r_path = sceneOutputPath sc, r_duration = fd\<rparr>"
  using assms
  by (auto simp: generateSceneVideo_def Let_def bindS_def liftS_def returnS_def
      split: option.splits sum.splits prod.splits if_splits)

lemma generateSceneVideo_None:
  "generateSceneVideo env sc s = (Inr None, s') \<longleftrightarrow>
   (\<exists>m. media sc = Some m \<and> \<not> verifyFile s (Some (mpath m))) \<and> s' = s"
  by (auto simp: generateSceneVideo_def Let_def bindS_def liftS_def returnS_def
      split: option.splits sum.splits prod.splits if_splits)

lemma buildSceneCommand_Inr:
  assumes "buildSceneCommand m vp vd fd na out = Inr c"
  shows "target c = Some out \<and> afilters c = [] \<and>
         out_opts c = (if mtype m = ''image'' then [OptT fd] else []) @ sceneOutputOptions fd (na \<noteq> None) \<and>
         cmd_inputs c = [\<lparr>in_path = vp, in_opts = (if mtype m = ''image'' then [Loop1] else [])\<rparr>] @
                        (case na of None \<Rightarrow> [] | Some ap \<Rightarrow> [\<lparr>in_path = ap, in_opts = []\<rparr>]) \<and>
         (mtype m \<noteq> ''image'' \<longrightarrow> \<not> js_less vd fd)"
  using assms
  by (auto simp: buildSceneCommand_def ff_inputOptions_def ff_input_def ffmpeg_new_def ff_duration_def
      ff_output_def ff_videoFilters_def ff_outputOptions_def split: if_splits option.splits)

lemma caps_sceneOutputOptions:
  "caps (sceneOutputOptions fd w) = (case fd of Num x \<Rightarrow> Some [x] | _ \<Rightarrow> None)"
  by (cases fd) (simp_all add: sceneOutputOptions_def)

lemma mediaDuration_Inr: "mediaDuration s m = Inr v \<Longrightarrow> \<not> js_isNaN v \<and> \<not> js_le v (Num 0)"
  by (auto simp: mediaDuration_def split: if_splits sum.splits)

lemma getVideoDuration_Inr: "getVideoDuration s p = Inr d \<Longrightarrow> \<exists>f. files s p = Some f \<and> fmt_duration f = d"
  by (auto simp: getVideoDuration_def dest!: ffprobe_Inr)

lemma final_duration_nonneg:
  assumes "mediaDuration s m = Inr vd" "finalDurationOf s a ae vd = Inr (Num x)" "durations_ok s"
  shows "0 \<le> x"
proof (cases "vd = Num x")
  case True
  with mediaDuration_Inr [OF assms(1)] show ?thesis by simp
next
  case False
  with assms(2) obtain p where "getVideoDuration s p = Inr (Num x)"
    by (auto simp: finalDurationOf_def split: option.splits if_splits)
  then obtain f where "files s p = Some f" "fmt_duration f = Num x"
    by (blast dest: getVideoDuration_Inr)
  with assms(3) show ?thesis by (force simp: durations_ok_def ran_def)
qed

lemma video_media_span:
  assumes "mediaDuration s m = Inr vd" "mtype m \<noteq> ''image''" "files s (mpath m) = Some fm"
    "durations_ok s"
  shows "\<exists>y. vd = Num y \<and> 0 < y \<and> num_span (fmt_duration fm) = Fin y"
proof -
  from assms(1,2) have "getVideoDuration s (mpath m) = Inr vd"
    by (auto simp: mediaDuration_def split: sum.splits if_splits)
  with assms(3) have "fmt_duration fm = vd"
    by (auto dest: getVideoDuration_Inr)
  moreover have "fm \<in> ran (files s)" using assms(3) by (auto simp: ran_def)
  ultimately show ?thesis using mediaDuration_Inr [OF assms(1)] assms(4)
    by (cases vd) (force simp: num_span_def durations_ok_def js_le_def)+
qed


subsection \<open>Lemmas: the store invariant\<close>

lemma sceneOutputPath_not_temp: "sceneOutputPath sc \<noteq> uuid_temp_path n sfx"
  by (simp add: sceneOutputPath_def uuid_temp_path_def path_join_def tempDir_def)

lemma temp_suffix_stop: "sfx \<in> set temp_suffixes \<Longrightarrow> sfx \<noteq> [] \<and> stop_char (hd sfx)"
  by (auto simp: temp_suffixes_def stop_char_def is_digit_def)

lemma uuid_temp_path_inj:
  assumes eq: "uuid_temp_path k sfx' = uuid_temp_path n sfx"
    and sfx: "sfx \<in> set temp_suffixes" and sfx': "sfx' \<in> set temp_suffixes"
  shows "k = n"
proof -
  from eq have "nat_to_str k @ sfx' = nat_to_str n @ sfx"
    by (simp add: uuid_temp_path_def path_join_def)
  then have "takeWhile is_digit (nat_to_str k @ sfx') = takeWhile is_digit (nat_to_str n @ sfx)"
    by simp
  then have "nat_to_str k = nat_to_str n"
    using takeWhile_digits_stop (1) [OF nat_to_str_digits, of sfx' k] takeWhile_digits_stop (1) [OF nat_to_str_digits, of sfx n]
      temp_suffix_stop [OF sfx] temp_suffix_stop [OF sfx'] by simp
  then show ?thesis by (metis digits_val_nat_to_str)
qed

lemma uuidv4_keeps: "act_keeps store_inv uuidv4"
  by (rule act_keepsI) (auto simp: uuidv4_def store_inv_def durations_ok_def temp_fresh_def)

lemma fresh_write_keeps:
  assumes "store_inv s" "ff_run env c s = (r, s')"
    and "\<forall>n sfx. sfx \<in> set temp_suffixes \<longrightarrow> target c = Some (uuid_temp_path n sfx) \<longrightarrow> n < next_uuid s"
  shows "store_inv s'"
  using assms ff_run_durations_ok ff_run_temp_fresh by (auto simp: store_inv_def)

lemma normalizeAudio_keeps: "act_keeps store_inv (normalizeAudio env ps d)"
proof (rule act_keepsI)
  fix s r s'
  assume inv: "store_inv s" and run: "normalizeAudio env ps d s = (r, s')"
  let ?s0 = "s\<lparr>next_uuid := Suc (next_uuid s)\<rparr>"
  let ?q = "uuid_temp_path (next_uuid s) ''_normalized_audio.mp3''"
  have inv0: "store_inv ?s0"
    using act_keepsD [OF uuidv4_keeps inv] by (simp add: uuidv4_def)
  show "store_inv s'"
  proof (cases "js_isNaN d")
    case True
    with run inv0 show ?thesis
      by (simp add: normalizeAudio_def uuidv4_def Let_def throwS_def)
  next
    case False
    let ?c = "ff_output ?q (ff_duration d (ff_audioFilters [''loudnorm=I=-16:LRA=11:TP=-1.5'', ''apad'']
                (foldl (\<lambda>c p. ff_input p c) (ffmpeg_new None) ps)))"
    have "snd (ff_run env ?c ?s0) = s'"
      using run False
      by (auto simp: normalizeAudio_def uuidv4_def Let_def bindS_def returnS_def uuid_temp_path_def
          split: prod.splits sum.splits)
    then have rc: "ff_run env ?c ?s0 = (fst (ff_run env ?c ?s0), s')"
      by (metis prod.collapse)
    have "\<forall>n sfx. sfx \<in> set temp_suffixes \<longrightarrow> target ?c = Some (uuid_temp_path n sfx) \<longrightarrow>
            n < next_uuid ?s0"
      using uuid_temp_path_inj by (fastforce simp: temp_suffixes_def ff_output_def)
    with inv0 rc show ?thesis by (rule fresh_write_keeps)
  qed
qed

lemma stripAudioFromVideo_keeps: "act_keeps store_inv (stripAudioFromVideo env v)"
proof (rule act_keepsI)
  fix s r s'
  assume inv: "store_inv s" and run: "stripAudioFromVideo env v s = (r, s')"
  let ?s0 = "s\<lparr>next_uuid := Suc (next_uuid s)\<rparr>"
  let ?q = "uuid_temp_path (next_uuid s) ''_noaudio.mp4''"
  let ?c = "ff_output ?q (ff_outputOptions [OptStr ''-c:v copy'', NoAudio] (ffmpeg_new (Some v)))"
  have inv0: "store_inv ?s0"
    using act_keepsD [OF uuidv4_keeps inv] by (simp add: uuidv4_def)
  have "snd (ff_run env ?c ?s0) = s'"
    using run
    by (auto simp: stripAudioFromVideo_def uuidv4_def Let_def bindS_def returnS_def uuid_temp_path_def
        split: prod.splits sum.splits)
  then have rc: "ff_run env ?c ?s0 = (fst (ff_run env ?c ?s0), s')"
    by (metis prod.collapse)
  have "\<forall>n sfx. sfx \<in> set temp_suffixes \<longrightarrow> target ?c = Some (uuid_temp_path n sfx) \<longrightarrow>
          n < next_uuid ?s0"
    using uuid_temp_path_inj by (fastforce simp: temp_suffixes_def ff_output_def)
  with inv0 rc show "store_inv s'" by (rule fresh_write_keeps)
qed

lemma ff_run_keeps_named:
  assumes "target c = Some p" "\<forall>n sfx. p \<noteq> uuid_temp_path n sfx"
  shows "act_keeps store_inv (ff_run env c)"
proof (rule act_keepsI)
  fix s r s'
  assume "store_inv s" "ff_run env c s = (r, s')"
  moreover have "\<forall>n sfx. sfx \<in> set temp_suffixes \<longrightarrow> target c = Some (uuid_temp_path n sfx) \<longrightarrow>
                   n < next_uuid s"
    using assms by simp
  ultimately show "store_inv s'" by (rule fresh_write_keeps)
qed

lemma normalizeSceneAudio_keeps: "act_keeps store_inv (normalizeSceneAudio env ad fd)"
  unfolding normalizeSceneAudio_def
  by (auto intro!: normalizeAudio_keeps split: option.split)

lemma processAudio_keeps: "act_keeps store_inv (processAudio env sc m ae fd)"
  unfolding processAudio_def
  by (auto intro!: normalizeSceneAudio_keeps stripAudioFromVideo_keeps split: option.split)

subsection \<open>Lemmas: no run is unbounded\<close>

lemma normalizeAudio_avoids: "act_avoids encoder_hangs (normalizeAudio env ps d)"
  unfolding normalizeAudio_def Let_def
proof (intro act_avoids_bindS uuidv4_avoids)
  fix u
  let ?q = "path_join tempDir (''temp_'' @ u @ ''_normalized_audio.mp3'')"
  let ?c = "ff_output ?q (ff_duration (parseFloat (JNumber d))
             (ff_audioFilters [''loudnorm=I=-16:LRA=11:TP=-1.5'', ''apad''] (foldl (\<lambda>c p. ff_input p c) (ffmpeg_new None) ps)))"
  have "act_avoids encoder_hangs (ff_run env ?c)"
    by (rule ff_run_capped_avoids [where v = "parseFloat (JNumber d)"])
      (simp add: ff_output_def ff_duration_def)
  then show "act_avoids encoder_hangs
     (if js_isNaN (parseFloat (JNumber d)) then throwS (InvalidDurationValue d)
      else bindS (ff_run env ?c) (\<lambda>_. returnS ?q))"
    by (simp add: act_avoids_throwS act_avoids_bindS act_avoids_returnS)
qed

lemma stripAudioFromVideo_avoids: "act_avoids encoder_hangs (stripAudioFromVideo env v)"
  unfolding stripAudioFromVideo_def Let_def
  by (intro act_avoids_bindS uuidv4_avoids act_avoids_returnS ff_run_finite_avoids)
    (simp_all add: ff_output_def ff_outputOptions_def ffmpeg_new_def)

lemma normalizeSceneAudio_avoids: "act_avoids encoder_hangs (normalizeSceneAudio env ad fd)"
  unfolding normalizeSceneAudio_def
  by (auto intro!: normalizeAudio_avoids split: option.split)

lemma processAudio_avoids: "act_avoids encoder_hangs (processAudio env sc m ae fd)"
  unfolding processAudio_def
  by (auto intro!: normalizeSceneAudio_avoids stripAudioFromVideo_avoids split: option.split)

lemma buildSceneCommand_Inl: "buildSceneCommand m vp vd fd na out = Inl e \<Longrightarrow> e = NoInputSpecified"
  by (auto simp: buildSceneCommand_def ff_inputOptions_def split: if_splits)

lemma mediaDuration_Inl:
  "mediaDuration s m = Inl e \<Longrightarrow> (\<exists>p. e = ProbeFailed p) \<or> (\<exists>v. e = InvalidMediaDuration v)"
  by (auto simp: mediaDuration_def getVideoDuration_def ffprobe_def split: if_splits sum.splits option.splits)

lemma finalDurationOf_Inl: "finalDurationOf s a ae vd = Inl e \<Longrightarrow> \<exists>p. e = ProbeFailed p"
  by (auto simp: finalDurationOf_def getVideoDuration_def ffprobe_def split: if_splits sum.splits option.splits)

subsection \<open>Lemmas: the rendered file and the invariant\<close>

lemma rendered_file_exact:
  assumes inv: "store_inv s" and fits: "scene_fits_store s sc"
    and run: "generateSceneVideo env sc s = (Inr (Some r), s')"
  shows "\<exists>f. files s' (r_path r) = Some f \<and> fmt_duration f = r_duration r"
proof -
  from run obtain m vd fd na vp s1 c where
    m: "media sc = Some m" and ex: "verifyFile s (Some (mpath m))" and
    md: "mediaDuration s m = Inr vd" and
    fd: "finalDurationOf s (audio sc) (sceneAudioExists s sc) vd = Inr fd" and
    pa: "processAudio env sc m (sceneAudioExists s sc) fd s = (Inr (na, vp), s1)" and
    bc: "buildSceneCommand m vp vd fd na (sceneOutputPath sc) = Inr c" and
    rc: "ff_run env c s1 = (Inr (), s')" and
    r: "r = \<lparr>r_path = sceneOutputPath sc, r_duration = fd\<rparr>"
    by (rule generateSceneVideo_SomeE)
  note cmd = buildSceneCommand_Inr [OF bc]
  from ff_run_Inr_target [OF rc] cmd obtain ss d where
    iss: "input_spans (files s1) c = Some ss" and os: "out_span (out_opts c) ss = Some (Fin d)" and
    fs': "files s' = (files s1)(sceneOutputPath sc \<mapsto> out_file (files s1) c d)"
    by auto
  from os cmd obtain x where x: "fd = Num x"
    by (cases fd) (auto simp: out_span_def caps_sceneOutputOptions split: if_splits)
  have x0: "0 \<le> x"
    using final_duration_nonneg [OF md fd [unfolded x]] inv by (simp add: store_inv_def)
  from ex obtain fm where fm: "files s (mpath m) = Some fm"
    by (auto simp: verifyFile_def file_accessible_def)
  have paf: "(\<forall>ap. na = Some ap \<longrightarrow> (\<exists>f. files s1 ap = Some f \<and> fmt_duration f = Num x)) \<and>
             (mtype m = ''image'' \<longrightarrow> vp = mpath m \<and> files s1 vp = Some fm) \<and>
             (mtype m \<noteq> ''image'' \<longrightarrow>
                (\<exists>f. files s1 vp = Some f \<and> num_span (fmt_duration f) = num_span (fmt_duration fm)))"
    using processAudio_ok [OF pa [unfolded x] _ x0 fits fm] inv by (auto simp: store_inv_def)
  have ap_span: "\<forall>ap f. na = Some ap \<longrightarrow> files s1 ap = Some f \<longrightarrow>
                   input_span f [] [] = Fin x"
    using paf x0 by (auto simp: input_span_def num_span_def)
  have vp_covers: "\<exists>f. files s1 vp = Some f \<and>
                     span_covers (input_span f (if mtype m = ''image'' then [Loop1] else []) []) x"
  proof (cases "mtype m = ''image''")
    case True
    with fits m fm have "kind fm = ImageFile" by (auto simp: scene_fits_store_def)
    with True paf show ?thesis by (auto simp: input_span_def span_covers_def)
  next
    case False
    with cmd have "\<not> js_less vd fd" by simp
    moreover obtain y where "vd = Num y" "num_span (fmt_duration fm) = Fin y"
      using video_media_span [OF md False fm] inv by (auto simp: store_inv_def)
    ultimately show ?thesis using False paf x by (auto simp: input_span_def span_covers_def)
  qed
  have cf: "\<forall>i\<in>set (cmd_inputs c). FmtConcat \<notin> set (in_opts i)"
    using cmd by (auto split: option.splits)
  have ss: "ss = map (\<lambda>i. input_span (the (files s1 (in_path i))) (in_opts i) []) (cmd_inputs c)"
    using iss cmd input_spans_plain [OF cf, of "files s1"] by (auto split: if_splits)
  have "span_covers (span_base (out_opts c) ss) x"
  proof (cases na)
    case None
    with cmd vp_covers ss show ?thesis
      by (auto simp: span_base_def sceneOutputOptions_def intro: span_max_covers)
  next
    case (Some ap)
    with paf obtain fa where "files s1 ap = Some fa" by blast
    moreover have "span_covers (Fin x) x" by (simp add: span_covers_def)
    ultimately show ?thesis using Some ap_span cmd vp_covers ss
      by (auto simp: span_base_def sceneOutputOptions_def)
  qed
  moreover have "caps (out_opts c) = Some (if mtype m = ''image'' then [x, x] else [x])"
    using cmd x by (simp add: caps_sceneOutputOptions)
  ultimately have "out_span (out_opts c) ss = Some (Fin x)"
    using x0 by (intro out_span_equal_caps) (auto split: if_splits)
  with os have "d = x" by simp
  with fs' r x show ?thesis by (simp add: out_file_def)
qed

lemma store_of_inv:
  assumes "\<forall>(p, f)\<in>set xs. take (length (path_join tempDir ''temp_u'')) p \<noteq> path_join tempDir ''temp_u'' \<and>
             (case fmt_duration f of Num x \<Rightarrow> 0 \<le> x | NaN \<Rightarrow> True | _ \<Rightarrow> False)"
  shows "store_inv (store_of xs)"
proof -
  have "durations_ok (store_of xs)"
    using assms by (auto simp: durations_ok_def store_of_def ran_def dest!: map_of_SomeD)
  moreover have "uuid_temp_path n sfx \<notin> dom (files (store_of xs))" for n sfx
  proof
    assume "uuid_temp_path n sfx \<in> dom (files (store_of xs))"
    then obtain f where "(uuid_temp_path n sfx, f) \<in> set xs"
      by (auto simp: store_of_def dest!: map_of_SomeD)
    with assms show False by (auto simp: uuid_temp_path_def path_join_def)
  qed
  ultimately show ?thesis by (simp add: store_inv_def temp_fresh_def)
qed

text \<open>
  A predicate of the store that the audio step keeps, and that every encoder run writing
  the scene's output keeps, is kept by \<open>generateSceneVideo\<close>.
\<close>

lemma generateSceneVideo_keepsI:
  assumes pa: "\<And>m ae fd. act_keeps P (processAudio env sc m ae fd)"
    and run: "\<And>c. target c = Some (sceneOutputPath sc) \<Longrightarrow> act_keeps P (ff_run env c)"
  shows "act_keeps P (generateSceneVideo env sc)"
proof (rule act_keepsI)
  fix s res s'
  assume "P s" "generateSceneVideo env sc s = (res, s')"
  moreover have keeps: "act_keeps P
     (bindS (processAudio env sc m ae fd)
       (\<lambda>(na, vp). bindS (liftS (buildSceneCommand m vp vd fd na (sceneOutputPath sc)))
          (\<lambda>c. bindS (ff_run env c) (\<lambda>_. returnS (Some \<lparr>r_path = sceneOutputPath sc, r_duration = fd\<rparr>)))))"
    for m ae fd vd
    using buildSceneCommand_Inr
    by (intro act_keeps_bindS act_keeps_case_prod act_keeps_bindS_liftS pa act_keeps_returnS run) auto
  ultimately show "P s'"
    by (auto simp: generateSceneVideo_def Let_def split: option.splits if_splits sum.splits
        dest: act_keepsD [OF keeps])
qed

lemma generateSceneVideo_keeps: "act_keeps store_inv (generateSceneVideo env sc)"
  using sceneOutputPath_not_temp
  by (intro generateSceneVideo_keepsI processAudio_keeps ff_run_keeps_named) auto

subsection \<open>Properties of \<open>generateSceneVideo\<close>\<close>

text \<open>
  C1. Duration resolution: a rendered scene's clip is \<open>temp/scene_N_final.mp4\<close>
  and its duration is the probed length of the narration file when that file exists,
  and the resolved media duration (declared image length or 5, or the probed video
  length) otherwise.
\<close>

theorem scene_final_duration:
  assumes "generateSceneVideo env sc s = (Inr (Some r), s')"
  shows "r_path r = sceneOutputPath sc \<and>
         (\<exists>m. media sc = Some m \<and>
            (if sceneAudioExists s sc
             then (\<exists>a p. audio sc = Some a \<and> apath a = Some p \<and> getVideoDuration s p = Inr (r_duration r))
             else mediaDuration s m = Inr (r_duration r)))"
proof -
  from assms obtain m vd fd na vp s1 c where
    m: "media sc = Some m" and md: "mediaDuration s m = Inr vd" and
    fd: "finalDurationOf s (audio sc) (sceneAudioExists s sc) vd = Inr fd" and
    r: "r = \<lparr>r_path = sceneOutputPath sc, r_duration = fd\<rparr>"
    by (rule generateSceneVideo_SomeE)
  show ?thesis
  proof (cases "sceneAudioExists s sc")
    case True
    then obtain a where "audio sc = Some a" by (auto simp: sceneAudioExists_def split: option.splits)
    with True fd r m show ?thesis
      by (auto simp: finalDurationOf_def split: option.splits)
  next
    case False
    with fd md r m show ?thesis
      by (auto simp: finalDurationOf_def split: option.splits if_splits)
  qed
qed

theorem scene_final_duration_witness:
  "generateSceneVideo ideal_env (narrated_scene 3 ''video'' ''clip.mp4'' ''narr.mp3'')
     (store_of [(''clip.mp4'', clip 10), (''narr.mp3'', narration 4)]) =
   (Inr (Some \<lparr>r_path = ''temp/scene_3_final.mp4'', r_duration = Num 4\<rparr>),
    snd (generateSceneVideo ideal_env (narrated_scene 3 ''video'' ''clip.mp4'' ''narr.mp3'')
     (store_of [(''clip.mp4'', clip 10), (''narr.mp3'', narration 4)]))) \<and>
   getVideoDuration (store_of [(''clip.mp4'', clip 10), (''narr.mp3'', narration 4)]) ''narr.mp3'' = Inr (Num 4)"
proof -
  let ?sc = "narrated_scene 3 ''video'' ''clip.mp4'' ''narr.mp3''"
  let ?s = "store_of [(''clip.mp4'', clip 10), (''narr.mp3'', narration 4)]"
  let ?r = "\<lparr>r_path = ''temp/scene_3_final.mp4'', r_duration = Num 4\<rparr>"
  have "fst (generateSceneVideo ideal_env ?sc ?s) = Inr (Some ?r)" by code_simp
  then have run: "generateSceneVideo ideal_env ?sc ?s = (Inr (Some ?r), snd (generateSceneVideo ideal_env ?sc ?s))"
    by (metis prod.collapse)
  have ae: "sceneAudioExists ?s ?sc" by code_simp
  from scene_final_duration [OF run] ae have "getVideoDuration ?s ''narr.mp3'' = Inr (Num 4)"
    by (simp add: narrated_scene_def)
  with run show ?thesis by simp
qed

text \<open>
  C2. Loop extension is broken: for a video scene whose final duration exceeds the
  media duration, once the audio step has run, building the command throws
  \<open>No input specified\<close> (the \<open>-stream_loop -1\<close> input option is set before
  any input exists), so the scene is rejected instead of being looped.
\<close>

theorem video_loop_extension_fails:
  assumes "media sc = Some m" "mtype m \<noteq> ''image''" "verifyFile s (Some (mpath m))"
    "mediaDuration s m = Inr vd" "finalDurationOf s (audio sc) (sceneAudioExists s sc) vd = Inr fd"
    "js_less vd fd"
    "processAudio env sc m (sceneAudioExists s sc) fd s = (Inr (na, vp), s1)"
  shows "generateSceneVideo env sc s = (Inl NoInputSpecified, s1)"
  using assms
  by (simp add: generateSceneVideo_def buildSceneCommand_def ff_inputOptions_def ffmpeg_new_def
      Let_def bindS_def liftS_def throwS_def)

theorem video_loop_extension_fails_witness:
  "generateSceneVideo ideal_env (narrated_scene 2 ''video'' ''clip.mp4'' ''narr.mp3'')
     (store_of [(''clip.mp4'', clip 3), (''narr.mp3'', narration 8)]) =
   (Inl NoInputSpecified,
    snd (processAudio ideal_env (narrated_scene 2 ''video'' ''clip.mp4'' ''narr.mp3'')
          \<lparr>mtype = ''video'', mpath = ''clip.mp4'', mduration = JUndefined\<rparr> True (Num 8)
          (store_of [(''clip.mp4'', clip 3), (''narr.mp3'', narration 8)])))"
proof -
  let ?sc = "narrated_scene 2 ''video'' ''clip.mp4'' ''narr.mp3''"
  let ?s = "store_of [(''clip.mp4'', clip 3), (''narr.mp3'', narration 8)]"
  let ?m = "\<lparr>mtype = ''video'', mpath = ''clip.mp4'', mduration = JUndefined\<rparr>"
  have m: "media ?sc = Some ?m" by (simp add: narrated_scene_def)
  have ae: "sceneAudioExists ?s ?sc = True" by code_simp
  have vf: "verifyFile ?s (Some (mpath ?m))" by code_simp
  have md: "mediaDuration ?s ?m = Inr (Num 3)" by code_simp
  have fd: "finalDurationOf ?s (audio ?sc) (sceneAudioExists ?s ?sc) (Num 3) = Inr (Num 8)" by code_simp
  have lt: "js_less (Num 3) (Num 8)" by simp
  have "fst (processAudio ideal_env ?sc ?m True (Num 8) ?s) =
        Inr (Some ''temp/temp_u0_normalized_audio.mp3'', ''temp/temp_u1_noaudio.mp4'')" by code_simp
  then have pa: "processAudio ideal_env ?sc ?m (sceneAudioExists ?s ?sc) (Num 8) ?s =
      (Inr (Some ''temp/temp_u0_normalized_audio.mp3'', ''temp/temp_u1_noaudio.mp4''),
       snd (processAudio ideal_env ?sc ?m True (Num 8) ?s))"
    unfolding ae by (metis prod.collapse)
  show ?thesis
    by (rule video_loop_extension_fails [OF m _ vf md fd lt pa]) simp
qed

text \<open>
  C3. The tolerance law of a rendered scene: on a store whose probed lengths are
  non-negative numbers or \<open>N/A\<close> and whose names do not collide with fresh
  temporary names, a scene whose image is a still and whose narration files are
  audio files, once rendered, is a file at the returned path whose probed length is
  exactly the returned \<open>duration\<close> (so within every tolerance).
\<close>

theorem render_duration_exact:
  assumes inv: "store_inv s" and fits: "scene_fits_store s sc"
    and run: "generateSceneVideo env sc s = (Inr (Some r), s')"
  shows "\<exists>f. files s' (r_path r) = Some f \<and> fmt_duration f = r_duration r"
  using rendered_file_exact [OF inv fits run] .

theorem render_duration_exact_witness:
  "store_inv (store_of [(''clip.mp4'', clip 10), (''narr.mp3'', narration 4)]) \<and>
   scene_fits_store (store_of [(''clip.mp4'', clip 10), (''narr.mp3'', narration 4)])
     (narrated_scene 3 ''video'' ''clip.mp4'' ''narr.mp3'') \<and>
   fst (generateSceneVideo ideal_env (narrated_scene 3 ''video'' ''clip.mp4'' ''narr.mp3'')
     (store_of [(''clip.mp4'', clip 10), (''narr.mp3'', narration 4)])) =
     Inr (Some \<lparr>r_path = ''temp/scene_3_final.mp4'', r_duration = Num 4\<rparr>) \<and>
   (\<exists>f. files (snd (generateSceneVideo ideal_env (narrated_scene 3 ''video'' ''clip.mp4'' ''narr.mp3'')
     (store_of [(''clip.mp4'', clip 10), (''narr.mp3'', narration 4)]))) ''temp/scene_3_final.mp4'' = Some f \<and>
     fmt_duration f = Num 4)"
proof -
  let ?sc = "narrated_scene 3 ''video'' ''clip.mp4'' ''narr.mp3''"
  let ?s = "store_of [(''clip.mp4'', clip 10), (''narr.mp3'', narration 4)]"
  let ?r = "\<lparr>r_path = ''temp/scene_3_final.mp4'', r_duration = Num 4\<rparr>"
  have inv: "store_inv ?s"
    by (rule store_of_inv) (simp add: path_join_def tempDir_def clip_def narration_def)
  have fits: "scene_fits_store ?s ?sc"
    by (auto simp: store_of_def scene_fits_store_def narrated_scene_def clip_def narration_def)
  have h: "fst (generateSceneVideo ideal_env ?sc ?s) = Inr (Some ?r)" by code_simp
  then have run: "generateSceneVideo ideal_env ?sc ?s = (Inr (Some ?r), snd (generateSceneVideo ideal_env ?sc ?s))"
    by (metis prod.collapse)
  from render_duration_exact [OF inv fits run] inv fits h show ?thesis by simp
qed

text \<open>
  C5. Every scene task settles: no encoder run of \<open>generateSceneVideo\<close> has an
  unbounded output, so its promise never stays pending.
\<close>

theorem scene_promise_settles:
  "generateSceneVideo env sc s \<noteq> (Inl (EncoderNeverEnds p), s')"
proof
  assume run: "generateSceneVideo env sc s = (Inl (EncoderNeverEnds p), s')"
  have avoids: "act_avoids encoder_hangs
     (bindS (processAudio env sc m ae fd)
       (\<lambda>(na, vp). bindS (liftS (buildSceneCommand m vp vd fd na (sceneOutputPath sc)))
          (\<lambda>c. bindS (ff_run env c) (\<lambda>_. returnS (Some \<lparr>r_path = sceneOutputPath sc, r_duration = fd\<rparr>)))))"
    for m ae fd vd
  proof -
    have h1: "\<not> encoder_hangs e" if "buildSceneCommand m vp vd fd na (sceneOutputPath sc) = Inl e"
      for e na vp
      using buildSceneCommand_Inl [OF that] by simp
    have h2: "act_avoids encoder_hangs (ff_run env c)"
      if "buildSceneCommand m vp vd fd na (sceneOutputPath sc) = Inr c" for c na vp
    proof -
      from that have "OptT fd \<in> set (out_opts c)"
        by (auto dest!: buildSceneCommand_Inr simp: sceneOutputOptions_def)
      then show ?thesis by (rule ff_run_capped_avoids)
    qed
    show ?thesis
      using h1 h2 by (intro act_avoids_bindS act_avoids_case_prod act_avoids_bindS_liftS
          processAudio_avoids act_avoids_returnS) auto
  qed
  from run show False
    by (auto simp: generateSceneVideo_def Let_def split: option.splits if_splits sum.splits
        dest: act_avoidsD [OF avoids] mediaDuration_Inl finalDurationOf_Inl)
qed

text \<open>
  C6. An image scene whose \<open>media.duration\<close> is the script timing string
  \<open>"m:ss"\<close> is given \<open>m\<close> seconds, the minutes read as seconds and the
  seconds dropped by \<open>parseFloat\<close>, and 5 seconds when \<open>m = 0\<close>.
\<close>

theorem image_timing_string_duration:
  "mediaDuration s \<lparr>mtype = ''image'', mpath = p,
      mduration = JString (nat_to_str mins @ '':'' @ padStart (nat_to_str secs) 2 CHR ''0'')\<rparr> =
   Inr (if mins = 0 then Num 5 else Num (real mins))"
proof -
  have "parseFloat_str (nat_to_str mins @ '':'' @ padStart (nat_to_str secs) 2 CHR ''0'') = Num (real mins)"
    by (rule parseFloat_nat_to_str) (simp add: colon_stop)
  then show ?thesis
    by (simp add: mediaDuration_def js_le_def js_or_def)
qed

end
