(* ===== verification/Timeline.thy ===== *)
theory Timeline
  imports Prelude JsParse Encoder SceneRenderer
begin

text \<open>
  The verifier and the timeline concatenator of \<open>VideoGeneratorController\<close>
  (\<open>src/backend/controllers/video.generator.controller.js\<close>):
  \<open>verifyVideoDuration\<close>, which probes a file and reports a mismatch with an expected
  length, and \<open>combineSceneVideos\<close>, which writes a concat manifest of the clips with
  their probed lengths, runs the concat demuxer and compares the result with the sum of
  the probed lengths. The console warnings are part of the result: the Boolean beside a
  value is whether the warning is printed.
\<close>

subsection \<open>The verifier\<close>

text \<open>\<open>Math.abs(actual - expected) > tolerance\<close>, false when either side is \<open>NaN\<close>.\<close>

definition duration_mismatch :: "real \<Rightarrow> jsnum \<Rightarrow> jsnum \<Rightarrow> bool" where
  "duration_mismatch tol actual expected = js_less (Num tol) (js_abs (js_sub actual expected))"

text \<open>
  \<open>verifyVideoDuration(videoPath, expectedDuration)\<close>: the probed format duration
  (not passed through \<open>parseFloat\<close>) and whether the 0.5 s warning is printed; only a
  failed probe rejects.
\<close>

definition verifyVideoDuration :: "fs \<Rightarrow> path \<Rightarrow> jsnum \<Rightarrow> (jsnum \<times> bool) res" where
  "verifyVideoDuration s videoPath expectedDuration =
     bindE (ffprobe s videoPath)
       (\<lambda>actualDuration. Inr (actualDuration, duration_mismatch (1/2) actualDuration expectedDuration))"

subsection \<open>The concatenator\<close>

text \<open>\<open>this.outputDir = path.join(process.cwd(), 'output')\<close>.\<close>

definition outputDir :: path where
  "outputDir = ''output''"

text \<open>\<open>path.join(this.outputDir, `${outputFileName || 'final'}.mp4`)\<close>.\<close>

definition combineOutputPath :: "string option \<Rightarrow> path" where
  "combineOutputPath outputFileName =
     path_join outputDir
       ((case outputFileName of None \<Rightarrow> ''final'' | Some n \<Rightarrow> if n = [] then ''final'' else n) @ ''.mp4'')"

definition concatFilePath :: path where
  "concatFilePath = path_join tempDir ''concat.txt''"

text \<open>
  \<open>Promise.all(scenePaths.map(p => this.getVideoDuration(p)))\<close>: the probes read the
  store and do not change it.
\<close>

definition probeDurations :: "path list \<Rightarrow> (fs, jsnum list) act" where
  "probeDurations ps s = (all_res (map (getVideoDuration s) ps), s)"

text \<open>\<open>fileList.join('\n')\<close> where each entry is \<open>file '${p}'\nduration ${duration}\<close>.\<close>

definition manifest_of :: "(path \<times> jsnum) list \<Rightarrow> manifest_line list" where
  "manifest_of es = concat (map (\<lambda>(p, d). [MFile p, MDuration d]) es)"

definition concatOutputOptions :: "out_opt list" where
  "concatOutputOptions =
     [OptStr ''-c:v libx264'', OptStr ''-preset medium'', OptStr ''-crf 23'', OptStr ''-c:a aac'',
      OptStr ''-b:a 192k'', OptStr ''-pix_fmt yuv420p'', OptStr ''-movflags +faststart'', OptStr ''-vsync 2'']"

text \<open>The command built in the promise executor: the manifest as a \<open>-f concat -safe 0\<close> input.\<close>

definition concatCommand :: "path \<Rightarrow> ffcmd res" where
  "concatCommand finalOutputPath =
     bindE (ff_inputOptions [FmtConcat, Safe0] (ff_input concatFilePath (ffmpeg_new None)))
       (\<lambda>c. Inr (ff_output finalOutputPath (ff_outputOptions concatOutputOptions c)))"

text \<open>
  The \<open>end\<close> handler: the final file is probed and compared with the expected total
  within 1 s; a failed probe is caught, so the promise resolves either way.
\<close>

definition finalWarning :: "fs \<Rightarrow> path \<Rightarrow> jsnum \<Rightarrow> bool" where
  "finalWarning s finalOutputPath totalDuration =
     (case getVideoDuration s finalOutputPath of
        Inl _ \<Rightarrow> False
      | Inr actualDuration \<Rightarrow> duration_mismatch 1 actualDuration totalDuration)"

text \<open>
  \<open>combineSceneVideos(scenePaths, outputFileName)\<close>: the final path and whether the
  duration warning is printed.
\<close>

definition combineSceneVideos :: "enc_env \<Rightarrow> path list \<Rightarrow> string option \<Rightarrow> (fs, path \<times> bool) act" where
  "combineSceneVideos env scenePaths outputFileName =
     (let finalOutputPath = combineOutputPath outputFileName
      in bindS (probeDurations scenePaths) (\<lambda>ds.
         bindS (write_text env concatFilePath (manifest_of (zip scenePaths ds))) (\<lambda>_.
         bindS (probeDurations scenePaths) (\<lambda>durations.
         bindS (liftS (concatCommand finalOutputPath)) (\<lambda>c.
         bindS (ff_run env c) (\<lambda>_ s.
           (Inr (finalOutputPath, finalWarning s finalOutputPath (js_sum durations)), s)))))))"

declare duration_mismatch_def [js_simps] verifyVideoDuration_def [js_simps] outputDir_def [js_simps]
  combineOutputPath_def [js_simps] concatFilePath_def [js_simps] probeDurations_def [js_simps]
  manifest_of_def [js_simps] concatOutputOptions_def [js_simps] concatCommand_def [js_simps]
  finalWarning_def [js_simps] combineSceneVideos_def [js_simps]

subsection \<open>Lemmas\<close>

lemma manifest_entries_manifest_of:
  "manifest_entries (manifest_of es) = Some (map (\<lambda>(p, d). (p, Some d)) es)"
  by (induction es) (auto simp: manifest_of_def)

lemma concatCommand_eq:
  "concatCommand p =
     Inr \<lparr>cmd_inputs = [\<lparr>in_path = concatFilePath, in_opts = [FmtConcat, Safe0]\<rparr>],
          out_opts = concatOutputOptions, vfilters = [], afilters = [], target = Some p\<rparr>"
  by (simp add: concatCommand_def ff_inputOptions_def ff_input_def ffmpeg_new_def ff_output_def
      ff_outputOptions_def)

lemma combineOutputPath_not_concat: "combineOutputPath n \<noteq> concatFilePath"
  by (simp add: combineOutputPath_def concatFilePath_def path_join_def outputDir_def tempDir_def)

lemma entries_len_probed:
  assumes "list_all2 (\<lambda>p x. getVideoDuration s p = Inr (Num x)) ps xs"
    and "\<forall>p\<in>set ps. files s' p = files s p" and "\<forall>x\<in>set xs. 0 \<le> x"
  shows "entries_len (files s') (map (\<lambda>(p, d). (p, Some d)) (zip ps (map Num xs))) = Some (sum_list xs)"
  using assms
proof (induction rule: list_all2_induct)
  case Nil
  then show ?case by (simp add: entries_len_def)
next
  case (Cons p x ps xs)
  then obtain f where "files s p = Some f" "kind f \<noteq> TextFile"
    by (auto simp: getVideoDuration_def ffprobe_def split: option.splits if_splits)
  with Cons show ?case
    by (auto simp: entries_len_def entry_len_def simp del: all_some_eq_Some)
qed

lemma probes_all_res:
  "list_all2 (\<lambda>p x. getVideoDuration s p = Inr (Num x)) ps xs \<Longrightarrow>
   all_res (map (getVideoDuration s) ps) = Inr (map Num xs)"
proof -
  assume "list_all2 (\<lambda>p x. getVideoDuration s p = Inr (Num x)) ps xs"
  then have "map (getVideoDuration s) ps = map Inr (map Num xs)"
    by (induction rule: list_all2_induct) simp_all
  then show ?thesis by simp
qed

lemma probes_nonneg:
  "list_all2 (\<lambda>p x. getVideoDuration s p = Inr (Num x)) ps xs \<Longrightarrow> store_inv s \<Longrightarrow> \<forall>x\<in>set xs. 0 \<le> x"
  by (induction rule: list_all2_induct)
     (auto simp: store_inv_def durations_ok_def ran_def dest!: getVideoDuration_Inr)

lemma probes_write_frame:
  "q \<notin> set ps \<Longrightarrow>
   map (getVideoDuration (s\<lparr>files := (files s)(q \<mapsto> f)\<rparr>)) ps = map (getVideoDuration s) ps"
  unfolding map_eq_conv by (auto simp: getVideoDuration_def ffprobe_def)

lemma concat_len_probed:
  assumes "list_all2 (\<lambda>p x. getVideoDuration s p = Inr (Num x)) ps xs" "ps \<noteq> []"
    "\<forall>p\<in>set ps. files s' p = files s p" "\<forall>x\<in>set xs. 0 \<le> x"
  shows "concat_len (files s') (manifest_of (zip ps (map Num xs))) = Some (sum_list xs)"
proof -
  have "length xs = length ps" using assms(1) by (simp add: list_all2_lengthD)
  with assms entries_len_probed [OF assms(1,3,4)] show ?thesis
    by (auto simp: concat_len_def manifest_entries_manifest_of)
qed

lemma out_file_not_text [simp]: "kind (out_file fm c d) \<noteq> TextFile"
  by (simp add: out_file_def)

lemma fmt_duration_out_file [simp]: "fmt_duration (out_file fm c d) = Num d"
  by (simp add: out_file_def)

lemma concat_run:
  assumes "concatCommand p = Inr c" "files s concatFilePath = Some mf"
    "concat_len (files s) (text_of mf) = Some d" "0 \<le> d" "\<not> enc_fails env p"
  shows "ff_run env c s = (Inr (), s\<lparr>files := (files s)(p \<mapsto> out_file (files s) c d)\<rparr>)"
  using assms
  by (auto simp: concatCommand_eq ff_run_def input_spans_def in_span_def out_span_def
      concatOutputOptions_def span_base_def)

lemma finalWarning_exact:
  "files s p = Some f \<Longrightarrow> kind f \<noteq> TextFile \<Longrightarrow> fmt_duration f = Num d \<Longrightarrow> \<not> finalWarning s p (Num d)"
  by (simp add: finalWarning_def getVideoDuration_def ffprobe_def duration_mismatch_def js_sub_def)

subsection \<open>Properties of \<open>combineSceneVideos\<close>\<close>

text \<open>
  C7. Concatenation round trip: for a non-empty list of clips whose probes give lengths
  \<open>xs\<close>, on a consistent store and when neither the manifest nor the final file fails
  to be written, \<open>combineSceneVideos\<close> resolves with \<open>output/<name>.mp4\<close>, prints no
  duration warning, and the final file's probed length is the sum of \<open>xs\<close>.
\<close>

theorem combine_duration_sum:
  assumes probes: "list_all2 (\<lambda>p x. getVideoDuration s p = Inr (Num x)) ps xs"
    and ne: "ps \<noteq> []" and inv: "store_inv s" and cf: "concatFilePath \<notin> set ps"
    and ok: "\<not> enc_fails env concatFilePath" "\<not> enc_fails env (combineOutputPath name)"
  shows "\<exists>s'. combineSceneVideos env ps name s = (Inr (combineOutputPath name, False), s') \<and>
         (\<exists>f. files s' (combineOutputPath name) = Some f \<and> fmt_duration f = Num (sum_list xs))"
proof -
  let ?fp = "combineOutputPath name"
  let ?mf = "\<lparr>kind = TextFile, fmt_duration = NaN, has_audio = False, text_of = manifest_of (zip ps (map Num xs))\<rparr>"
  let ?s1 = "s\<lparr>files := (files s)(concatFilePath \<mapsto> ?mf)\<rparr>"
  obtain c where c: "concatCommand ?fp = Inr c" by (simp add: concatCommand_eq)
  let ?s2 = "?s1\<lparr>files := (files ?s1)(?fp \<mapsto> out_file (files ?s1) c (sum_list xs))\<rparr>"
  have pr: "all_res (map (getVideoDuration s) ps) = Inr (map Num xs)"
    using probes by (rule probes_all_res)
  have pr1: "all_res (map (getVideoDuration ?s1) ps) = Inr (map Num xs)"
    unfolding probes_write_frame [OF cf] by (rule pr)
  have nn: "\<forall>x\<in>set xs. 0 \<le> x" using probes inv by (rule probes_nonneg)
  then have nn_sum: "0 \<le> sum_list xs" by (simp add: sum_list_nonneg)
  have "concat_len (files ?s1) (text_of ?mf) = Some (sum_list xs)"
    using concat_len_probed [OF probes ne _ nn, of ?s1] cf by auto
  then have run: "ff_run env c ?s1 = (Inr (), ?s2)"
    using concat_run [OF c] nn_sum ok by simp
  have fw: "\<not> finalWarning ?s2 ?fp (js_sum (map Num xs))"
    unfolding js_sum_Num by (rule finalWarning_exact [OF _ out_file_not_text fmt_duration_out_file]) simp
  have "combineSceneVideos env ps name s = (Inr (?fp, False), ?s2)"
    using ok fw run c
    by (simp add: combineSceneVideos_def probeDurations_def write_text_def bindS_def liftS_def
        Let_def pr pr1 del: all_res_eq_Inr)
  then show ?thesis by simp
qed

theorem combine_duration_sum_witness:
  "list_all2 (\<lambda>p x. getVideoDuration
      (store_of [(''temp/scene_1_final.mp4'', clip 5), (''temp/scene_3_final.mp4'', clip 4)]) p = Inr (Num x))
     [''temp/scene_1_final.mp4'', ''temp/scene_3_final.mp4''] [5, 4] \<and>
   store_inv (store_of [(''temp/scene_1_final.mp4'', clip 5), (''temp/scene_3_final.mp4'', clip 4)]) \<and>
   (\<exists>s'. combineSceneVideos ideal_env [''temp/scene_1_final.mp4'', ''temp/scene_3_final.mp4''] None
           (store_of [(''temp/scene_1_final.mp4'', clip 5), (''temp/scene_3_final.mp4'', clip 4)]) =
         (Inr (''output/final.mp4'', False), s') \<and>
         (\<exists>f. files s' ''output/final.mp4'' = Some f \<and> fmt_duration f = Num 9))"
proof -
  let ?s = "store_of [(''temp/scene_1_final.mp4'', clip 5), (''temp/scene_3_final.mp4'', clip 4)]"
  let ?ps = "[''temp/scene_1_final.mp4'', ''temp/scene_3_final.mp4'']"
  have pr: "list_all2 (\<lambda>p x. getVideoDuration ?s p = Inr (Num x)) ?ps [5, 4]"
    by (simp add: getVideoDuration_def ffprobe_def store_of_def clip_def)
  have inv: "store_inv ?s"
    by (rule store_of_inv) (simp add: path_join_def tempDir_def clip_def)
  have cf: "concatFilePath \<notin> set ?ps" by (simp add: concatFilePath_def tempDir_def path_join_def)
  from combine_duration_sum [OF pr _ inv cf, of ideal_env None] pr inv show ?thesis
    by (simp add: combineOutputPath_def outputDir_def path_join_def ideal_env_def)
qed


end
