(* ===== verification/Orchestrator.thy ===== *)
theory Orchestrator
  imports Prelude JsParse Encoder SceneRenderer "HOL-Library.Sublist"
begin

text \<open>
  The job level of \<open>VideoGeneratorController\<close>
  (\<open>src/backend/controllers/video.generator.controller.js\<close>): \<open>processScenes\<close>,
  which renders every scene, turns a rejected scene into \<open>null\<close> and drops the
  \<open>null\<close>s, and \<open>generateVideo\<close>, which rejects a job without any rendered
  scene and otherwise rewrites every clip path to a URL of the local web server. The
  scene tasks run under \<open>Promise.all\<close>; the model runs them one after the other in
  the order of the array (see the header of the development for why this is enough
  when the scenes read disjoint inputs).
\<close>

subsection \<open>Definitions\<close>

text \<open>The \<open>async\<close> callback of \<open>processScenes\<close>: a rejection is caught and becomes \<open>null\<close>.\<close>

definition processScene :: "enc_env \<Rightarrow> scene \<Rightarrow> (fs, rendered option) act" where
  "processScene env scene s =
     (case generateSceneVideo env scene s of
        (Inl error, s') \<Rightarrow> (Inr None, s')
      | (Inr r, s') \<Rightarrow> (Inr r, s'))"

text \<open>\<open>processScenes(scenes)\<close>: the results in scene order, \<open>filter(Boolean)\<close> applied.\<close>

definition processScenes :: "enc_env \<Rightarrow> scene list \<Rightarrow> (fs, rendered list) act" where
  "processScenes env scenes =
     bindS (mapS (processScene env) scenes) (\<lambda>sceneVideos. returnS (somes sceneVideos))"

text \<open>\<open>path.basename(p)\<close> on POSIX paths: trailing slashes removed, the part after the last slash.\<close>

definition basename :: "path \<Rightarrow> string" where
  "basename p =
     (let q = rev (dropWhile (\<lambda>c. c = CHR ''/'') (rev p))
      in rev (takeWhile (\<lambda>c. c \<noteq> CHR ''/'') (rev q)))"

definition sceneUrl :: "path \<Rightarrow> string" where
  "sceneUrl p = ''http://localhost:3000/'' @ basename p"

text \<open>
  \<open>generateVideo(scenes)\<close> as the code has it now: the directories are created (not
  modelled: the store has no directories), the scenes are processed, an empty result
  throws, and each clip's \<open>path\<close> is rewritten in place to its URL; the concatenation
  is commented out.
\<close>

definition generateVideo :: "enc_env \<Rightarrow> scene list \<Rightarrow> (fs, rendered list) act" where
  "generateVideo env scenes =
     bindS (processScenes env scenes) (\<lambda>sceneVideoPaths.
       if sceneVideoPaths = [] then throwS NoScenesProcessed
       else returnS (map (\<lambda>scene. scene\<lparr>r_path := sceneUrl (r_path scene)\<rparr>) sceneVideoPaths))"

subsection \<open>What a scene reads and writes\<close>

text \<open>The files a scene reads: its media file and its narration files.\<close>

definition scene_reads :: "scene \<Rightarrow> path list" where
  "scene_reads sc =
     (case media sc of None \<Rightarrow> [] | Some m \<Rightarrow> [mpath m]) @
     (case audio sc of
        None \<Rightarrow> []
      | Some a \<Rightarrow> (case apaths a of None \<Rightarrow> [] | Some ps \<Rightarrow> ps) @
                  (case apath a of None \<Rightarrow> [] | Some p \<Rightarrow> [p]))"

text \<open>The temporary names the renderer draws: \<open>temp/temp_<uuid>...\<close>.\<close>

definition temp_named :: "path \<Rightarrow> bool" where
  "temp_named p \<longleftrightarrow> take (length (path_join tempDir ''temp_'')) p = path_join tempDir ''temp_''"

text \<open>
  No scene of a job reads a temporary name or the output file of a scene of the job
  (the media downloads are \<open>temp/<type>_<ms>.<ext>\<close>, the narration files
  \<open>scene_<n>.mp3\<close>).
\<close>

definition reads_clear :: "scene list \<Rightarrow> bool" where
  "reads_clear scs \<longleftrightarrow>
     (\<forall>sc\<in>set scs. \<forall>p\<in>set (scene_reads sc). \<not> temp_named p \<and> p \<notin> set (map sceneOutputPath scs))"

text \<open>A scene whose media is \<open>null\<close> or names no file of the store.\<close>

definition media_missing :: "fs \<Rightarrow> scene \<Rightarrow> bool" where
  "media_missing s sc = (case media sc of None \<Rightarrow> True | Some m \<Rightarrow> mpath m \<notin> dom (files s))"

text \<open>The store differs from \<open>s0\<close> only at paths satisfying \<open>W\<close>.\<close>

definition unchanged_except :: "fs \<Rightarrow> (path \<Rightarrow> bool) \<Rightarrow> fs \<Rightarrow> bool" where
  "unchanged_except s0 W s \<longleftrightarrow> (\<forall>p. \<not> W p \<longrightarrow> files s p = files s0 p)"

declare processScene_def [js_simps] processScenes_def [js_simps] basename_def [js_simps]
  sceneUrl_def [js_simps] generateVideo_def [js_simps]

subsection \<open>Scenario data\<close>

text \<open>
  Scenario D of the specification: three scenes, the second of which names a media file
  that does not exist; the first is a 10 s clip under 4 s of narration, the third a
  still image under 5 s of narration.
\<close>

definition job_D :: "scene list" where
  "job_D = [narrated_scene 1 ''video'' ''temp/video_1.mp4'' ''audio/scene_1.mp3'',
            narrated_scene 2 ''video'' ''temp/video_2.mp4'' ''audio/scene_2.mp3'',
            narrated_scene 3 ''image'' ''temp/image_3.jpg'' ''audio/scene_3.mp3'']"

definition store_D :: fs where
  "store_D = store_of [(''temp/video_1.mp4'', clip 10), (''audio/scene_1.mp3'', narration 4),
                       (''audio/scene_2.mp3'', narration 3),
                       (''temp/image_3.jpg'', still_image), (''audio/scene_3.mp3'', narration 5)]"

subsection \<open>Lemmas: the frame of a scene\<close>

lemma temp_named_append [simp]: "temp_named (path_join tempDir ''temp_'' @ x)"
  by (simp add: temp_named_def)

lemma sceneOutputPath_not_temp_named [simp]: "\<not> temp_named (sceneOutputPath sc)"
  by (simp add: temp_named_def sceneOutputPath_def path_join_def tempDir_def)

lemma uuidv4_unchanged: "act_keeps (unchanged_except s0 W) uuidv4"
  by (rule act_keepsI) (auto simp: uuidv4_def unchanged_except_def)

lemma ff_run_unchanged:
  assumes "\<forall>p. target c = Some p \<longrightarrow> W p"
  shows "act_keeps (unchanged_except s0 W) (ff_run env c)"
proof (rule act_keepsI)
  fix s r s'
  assume u: "unchanged_except s0 W s" and run: "ff_run env c s = (r, s')"
  show "unchanged_except s0 W s'"
  proof (cases r)
    case (Inl e)
    with run u show ?thesis by (auto dest: ff_run_Inl_state)
  next
    case (Inr x)
    with run obtain p d where "target c = Some p" "files s' = (files s)(p \<mapsto> out_file (files s) c d)"
      by (blast dest: ff_run_Inr_target)
    with u assms show ?thesis by (auto simp: unchanged_except_def)
  qed
qed

lemma processAudio_unchanged:
  assumes "\<forall>p. temp_named p \<longrightarrow> W p"
  shows "act_keeps (unchanged_except s0 W) (processAudio env sc m ae fd)"
proof -
  have na: "act_keeps (unchanged_except s0 W) (normalizeAudio env ps d)" for ps d
    unfolding normalizeAudio_def Let_def using assms
    by (auto intro!: uuidv4_unchanged ff_run_unchanged simp: ff_output_def temp_named_def path_join_def)
  have st: "act_keeps (unchanged_except s0 W) (stripAudioFromVideo env v)" for v
    unfolding stripAudioFromVideo_def Let_def using assms
    by (auto intro!: uuidv4_unchanged ff_run_unchanged simp: ff_output_def temp_named_def path_join_def)
  show ?thesis
    unfolding processAudio_def normalizeSceneAudio_def
    by (auto intro!: na st split: option.split)
qed

lemma generateSceneVideo_unchanged:
  assumes "W (sceneOutputPath sc)" "\<forall>p. temp_named p \<longrightarrow> W p"
  shows "act_keeps (unchanged_except s0 W) (generateSceneVideo env sc)"
  using assms by (intro generateSceneVideo_keepsI processAudio_unchanged ff_run_unchanged) auto

lemma processScene_keeps:
  "act_keeps P (generateSceneVideo env sc) \<Longrightarrow> act_keeps P (processScene env sc)"
  unfolding act_keeps_def processScene_def by (auto split: prod.splits sum.splits)

lemma unchanged_except_refl [simp]: "unchanged_except s W s"
  by (simp add: unchanged_except_def)

lemma sceneOutputPath_inj:
  "sceneOutputPath a = sceneOutputPath b \<Longrightarrow> sceneNumber a = sceneNumber b"
  by (simp add: sceneOutputPath_def path_join_def) (metis digits_val_nat_to_str)

lemma fits_frame:
  "\<forall>p\<in>set (scene_reads sc). files s' p = files s p \<Longrightarrow> scene_fits_store s' sc = scene_fits_store s sc"
  by (auto simp: scene_fits_store_def scene_reads_def split: option.splits)

lemma processScene_Inr: "\<exists>v s'. processScene env sc s = (Inr v, s')"
  by (auto simp: processScene_def split: prod.splits sum.splits)

lemma processScene_Some:
  "processScene env sc s = (Inr (Some r), s') \<Longrightarrow> generateSceneVideo env sc s = (Inr (Some r), s')"
  by (auto simp: processScene_def split: prod.splits sum.splits)

lemma processScene_path:
  "processScene env sc s = (Inr (Some r), s') \<Longrightarrow> r_path r = sceneOutputPath sc"
  by (auto dest!: processScene_Some elim: generateSceneVideo_SomeE)

lemma processScene_missing: "media_missing s sc \<Longrightarrow> processScene env sc s = (Inr None, s)"
  by (auto simp: processScene_def generateSceneVideo_def media_missing_def verifyFile_def
      file_accessible_def split: option.splits)

lemma mapS_processScene_Inr:
  "\<exists>os s'. mapS (processScene env) scs s = (Inr os, s') \<and>
     (\<exists>scs'. subseq scs' scs \<and> list_all2 (\<lambda>r sc. r_path r = sceneOutputPath sc) (somes os) scs')"
proof (induction scs arbitrary: s)
  case Nil
  then show ?case by (simp add: returnS_def)
next
  case (Cons sc scs)
  obtain v s1 where v: "processScene env sc s = (Inr v, s1)" using processScene_Inr by blast
  from Cons [of s1] obtain os s' scs' where
    run: "mapS (processScene env) scs s1 = (Inr os, s')" and
    sub: "subseq scs' scs" and la: "list_all2 (\<lambda>r sc. r_path r = sceneOutputPath sc) (somes os) scs'"
    by blast
  show ?case
  proof (cases v)
    case None
    with v run sub la show ?thesis by (auto simp: bindS_def returnS_def)
  next
    case (Some r)
    with v have "r_path r = sceneOutputPath sc" by (blast dest: processScene_path)
    with Some v run sub la show ?thesis
      by (auto simp: bindS_def returnS_def intro!: exI [of _ "sc # scs'"])
  qed
qed

lemma reads_clear_Cons:
  "reads_clear (sc # scs) \<Longrightarrow>
   reads_clear scs \<and> (\<forall>sc'\<in>set scs. \<forall>p\<in>set (scene_reads sc'). p \<noteq> sceneOutputPath sc)"
  by (auto simp: reads_clear_def)

lemma mapS_processScene_unchanged:
  "act_keeps (unchanged_except s0 (\<lambda>p. p \<in> set (map sceneOutputPath scs) \<or> temp_named p))
     (mapS (processScene env) scs)"
  by (intro act_keeps_mapS processScene_keeps generateSceneVideo_unchanged) simp_all

lemma mapS_processScene_keeps: "act_keeps store_inv (mapS (processScene env) scs)"
  by (intro act_keeps_mapS processScene_keeps generateSceneVideo_keeps)

lemma later_scenes_keep_output:
  assumes "mapS (processScene env) scs s1 = (Inr os, s')" "sceneNumber sc \<notin> set (map sceneNumber scs)"
  shows "files s' (sceneOutputPath sc) = files s1 (sceneOutputPath sc)"
proof -
  have "sceneOutputPath sc \<notin> set (map sceneOutputPath scs)"
    using assms(2) by (auto dest: sceneOutputPath_inj)
  with act_keepsD [OF mapS_processScene_unchanged unchanged_except_refl assms(1)] show ?thesis
    by (simp add: unchanged_except_def)
qed

lemma mapS_rendered_exact:
  assumes "store_inv s" "\<forall>sc\<in>set scs. scene_fits_store s sc" "distinct (map sceneNumber scs)"
    "reads_clear scs" "mapS (processScene env) scs s = (Inr os, s')"
  shows "\<forall>r. Some r \<in> set os \<longrightarrow> (\<exists>f. files s' (r_path r) = Some f \<and> fmt_duration f = r_duration r)"
  using assms
proof (induction scs arbitrary: s os)
  case Nil
  then show ?case by (simp add: returnS_def)
next
  case (Cons sc scs)
  from Cons.prems(5) obtain v os' s1 where v: "processScene env sc s = (Inr v, s1)" and
    run: "mapS (processScene env) scs s1 = (Inr os', s')" and os: "os = v # os'"
    by (blast dest: mapS_Cons_Inr)
  have inv1: "store_inv s1"
    using act_keepsD [OF processScene_keeps [OF generateSceneVideo_keeps] Cons.prems(1) v] .
  let ?W = "\<lambda>p. p = sceneOutputPath sc \<or> temp_named p"
  have "act_keeps (unchanged_except s ?W) (processScene env sc)"
    by (intro processScene_keeps generateSceneVideo_unchanged) simp_all
  from act_keepsD [OF this unchanged_except_refl v] have u1: "unchanged_except s ?W s1" .
  from reads_clear_Cons [OF Cons.prems(4)] have rc: "reads_clear scs"
    and other: "\<forall>sc'\<in>set scs. \<forall>p\<in>set (scene_reads sc'). p \<noteq> sceneOutputPath sc" by blast+
  have "\<forall>sc'\<in>set scs. \<forall>p\<in>set (scene_reads sc'). \<not> temp_named p"
    using Cons.prems(4) by (auto simp: reads_clear_def)
  with other u1 have rd: "\<forall>sc'\<in>set scs. \<forall>p\<in>set (scene_reads sc'). files s1 p = files s p"
    by (auto simp: unchanged_except_def)
  have fits1: "\<forall>sc'\<in>set scs. scene_fits_store s1 sc'"
  proof
    fix sc' assume sc': "sc' \<in> set scs"
    with rd have "\<forall>p\<in>set (scene_reads sc'). files s1 p = files s p" by blast
    from fits_frame [OF this] Cons.prems(2) sc' show "scene_fits_store s1 sc'" by simp
  qed
  have IH: "\<forall>r. Some r \<in> set os' \<longrightarrow> (\<exists>f. files s' (r_path r) = Some f \<and> fmt_duration f = r_duration r)"
    using Cons.IH [OF inv1 fits1 _ rc run] Cons.prems(3) by simp
  have "\<exists>f. files s' (r_path r) = Some f \<and> fmt_duration f = r_duration r" if "v = Some r" for r
  proof -
    from v that have g: "generateSceneVideo env sc s = (Inr (Some r), s1)" by (blast dest: processScene_Some)
    from rendered_file_exact [OF Cons.prems(1) _ g] Cons.prems(2)
    have "\<exists>f. files s1 (r_path r) = Some f \<and> fmt_duration f = r_duration r" by simp
    moreover from v that have "r_path r = sceneOutputPath sc" by (blast dest: processScene_path)
    moreover have "files s' (sceneOutputPath sc) = files s1 (sceneOutputPath sc)"
      using later_scenes_keep_output [OF run] Cons.prems(3) by simp
    ultimately show ?thesis by simp
  qed
  with IH os show ?case by auto
qed

lemma basename_path_join:
  assumes "CHR ''/'' \<notin> set n" "n \<noteq> []"
  shows "basename (path_join d n) = n"
proof -
  have "hd (rev n) \<in> set n" using assms(2) by (metis hd_in_set rev_is_Nil_conv set_rev)
  with assms have dw: "dropWhile (\<lambda>c. c = CHR ''/'') (rev n @ CHR ''/'' # rev d) = rev n @ CHR ''/'' # rev d"
    by (cases "rev n") auto
  have tw: "takeWhile (\<lambda>c. c \<noteq> CHR ''/'') (rev n @ CHR ''/'' # rev d) = rev n"
    using assms(1) by (subst takeWhile_append2) auto
  show ?thesis using dw tw by (simp add: basename_def path_join_def Let_def)
qed

lemma slash_not_in_nat_to_str: "CHR ''/'' \<notin> set (nat_to_str n)"
  using nat_to_str_digits [of n] by (auto simp: is_digit_def)

lemma sceneUrl_sceneOutputPath:
  "sceneUrl (sceneOutputPath sc) = ''http://localhost:3000/scene_'' @ nat_to_str (sceneNumber sc) @ ''_final.mp4''"
  using slash_not_in_nat_to_str [of "sceneNumber sc"]
  by (simp add: sceneUrl_def sceneOutputPath_def basename_path_join)

lemma mapS_all_missing:
  "\<forall>sc\<in>set scs. media_missing s sc \<Longrightarrow>
   mapS (processScene env) scs s = (Inr (replicate (length scs) None), s)"
  by (induction scs) (simp_all add: processScene_missing bindS_def returnS_def)

lemma media_missing_frame:
  "\<forall>p\<in>set (scene_reads sc). files s' p = files s p \<Longrightarrow> media_missing s' sc = media_missing s sc"
  by (cases "media sc") (auto simp: media_missing_def scene_reads_def domIff)

subsection \<open>Properties of the job\<close>

text \<open>
  C9. Failure isolation: \<open>processScenes\<close> never rejects, whatever the scenes and the
  encoder do; it resolves with the rendered clips of a subsequence of the scenes, in
  scene order, each at the output path of its scene.
\<close>

theorem processScenes_isolates_failures:
  "\<exists>rs s' scs'. processScenes env scs s = (Inr rs, s') \<and> subseq scs' scs \<and>
     list_all2 (\<lambda>r sc. r_path r = sceneOutputPath sc) rs scs'"
  using mapS_processScene_Inr [of env scs s]
  by (auto simp: processScenes_def bindS_def returnS_def)

text \<open>
  C10. A job that \<open>generateVideo\<close> completes has at least one clip, and its clips are
  those of a subsequence of the scenes in order, each rewritten to the URL
  \<open>http://localhost:3000/scene_N_final.mp4\<close> of its scene number.
\<close>

theorem generateVideo_urls:
  assumes "generateVideo env scs s = (Inr vs, s')"
  shows "vs \<noteq> [] \<and>
    (\<exists>scs'. subseq scs' scs \<and>
       list_all2 (\<lambda>v sc. r_path v = ''http://localhost:3000/scene_'' @ nat_to_str (sceneNumber sc) @ ''_final.mp4'')
         vs scs')"
proof -
  obtain os s1 scs' where run: "mapS (processScene env) scs s = (Inr os, s1)" and sub: "subseq scs' scs"
    and la: "list_all2 (\<lambda>r sc. r_path r = sceneOutputPath sc) (somes os) scs'"
    using mapS_processScene_Inr by blast
  from assms run have ne: "somes os \<noteq> []" and vs: "vs = map (\<lambda>r. r\<lparr>r_path := sceneUrl (r_path r)\<rparr>) (somes os)"
    by (auto simp: generateVideo_def processScenes_def bindS_def returnS_def throwS_def split: if_splits)
  from la have "list_all2 (\<lambda>v sc. r_path v = ''http://localhost:3000/scene_'' @ nat_to_str (sceneNumber sc) @ ''_final.mp4'')
                  vs scs'"
    unfolding vs list_all2_map1 by (rule list_all2_mono) (simp add: sceneUrl_sceneOutputPath)
  with ne vs sub show ?thesis by auto
qed

theorem generateVideo_urls_witness:
  "generateVideo ideal_env job_D store_D =
     (Inr [\<lparr>r_path = ''http://localhost:3000/scene_1_final.mp4'', r_duration = Num 4\<rparr>,
           \<lparr>r_path = ''http://localhost:3000/scene_3_final.mp4'', r_duration = Num 5\<rparr>],
      snd (generateVideo ideal_env job_D store_D)) \<and>
   (\<exists>scs'. subseq scs' job_D \<and>
      list_all2 (\<lambda>v sc. r_path v = ''http://localhost:3000/scene_'' @ nat_to_str (sceneNumber sc) @ ''_final.mp4'')
        [\<lparr>r_path = ''http://localhost:3000/scene_1_final.mp4'', r_duration = Num 4\<rparr>,
         \<lparr>r_path = ''http://localhost:3000/scene_3_final.mp4'', r_duration = Num 5\<rparr>] scs')"
proof -
  have "fst (generateVideo ideal_env job_D store_D) =
     Inr [\<lparr>r_path = ''http://localhost:3000/scene_1_final.mp4'', r_duration = Num 4\<rparr>,
          \<lparr>r_path = ''http://localhost:3000/scene_3_final.mp4'', r_duration = Num 5\<rparr>]"
    unfolding job_D_def store_D_def by code_simp
  then have run: "generateVideo ideal_env job_D store_D =
     (Inr [\<lparr>r_path = ''http://localhost:3000/scene_1_final.mp4'', r_duration = Num 4\<rparr>,
           \<lparr>r_path = ''http://localhost:3000/scene_3_final.mp4'', r_duration = Num 5\<rparr>],
      snd (generateVideo ideal_env job_D store_D))" by (metis prod.collapse)
  from generateVideo_urls [OF run] run show ?thesis by simp
qed

text \<open>
  C11. Scenario E: when no scene has an existing media file, \<open>generateVideo\<close>
  rejects with \<open>No scenes processed successfully\<close> and leaves the store as it was.
\<close>

theorem all_missing_rejected:
  assumes "\<forall>sc\<in>set scs. media_missing s sc"
  shows "generateVideo env scs s = (Inl NoScenesProcessed, s)"
  using mapS_all_missing [OF assms]
  by (simp add: generateVideo_def processScenes_def bindS_def returnS_def throwS_def somes_eq_Nil_iff)

theorem all_missing_rejected_witness:
  "media_missing (store_of []) (narrated_scene 1 ''video'' ''temp/video_1.mp4'' ''audio/scene_1.mp3'') \<and>
   media_missing (store_of []) (narrated_scene 2 ''image'' ''temp/image_2.jpg'' ''audio/scene_2.mp3'') \<and>
   generateVideo ideal_env [narrated_scene 1 ''video'' ''temp/video_1.mp4'' ''audio/scene_1.mp3'',
              narrated_scene 2 ''image'' ''temp/image_2.jpg'' ''audio/scene_2.mp3''] (store_of []) =
     (Inl NoScenesProcessed, store_of [])"
proof -
  have h: "\<forall>sc\<in>set [narrated_scene 1 ''video'' ''temp/video_1.mp4'' ''audio/scene_1.mp3'',
              narrated_scene 2 ''image'' ''temp/image_2.jpg'' ''audio/scene_2.mp3'']. media_missing (store_of []) sc"
    by (simp add: media_missing_def narrated_scene_def store_of_def)
  from all_missing_rejected [OF h, of ideal_env] h show ?thesis by simp
qed

text \<open>
  C12. Scenario D: a scene whose media file is missing is dropped without a trace: the
  job with it gives the same clips and the same store as the job without it, when no
  scene reads a file the job writes.
\<close>

theorem missing_scene_dropped:
  assumes "media_missing s sc" "reads_clear (xs @ sc # ys)"
  shows "processScenes env (xs @ sc # ys) s = processScenes env (xs @ ys) s"
proof -
  obtain as s1 where xs: "mapS (processScene env) xs s = (Inr as, s1)"
    using mapS_processScene_Inr by blast
  obtain bs s2 where ys: "mapS (processScene env) ys s1 = (Inr bs, s2)"
    using mapS_processScene_Inr by blast
  have u: "unchanged_except s (\<lambda>p. p \<in> set (map sceneOutputPath xs) \<or> temp_named p) s1"
    using act_keepsD [OF mapS_processScene_unchanged unchanged_except_refl xs] .
  have "\<forall>p\<in>set (scene_reads sc). \<not> temp_named p \<and> p \<notin> set (map sceneOutputPath xs)"
    using assms(2) by (auto simp: reads_clear_def)
  with u have "\<forall>p\<in>set (scene_reads sc). files s1 p = files s p"
    by (auto simp: unchanged_except_def)
  from media_missing_frame [OF this] assms(1) have "media_missing s1 sc" by simp
  then have sc: "processScene env sc s1 = (Inr None, s1)" by (rule processScene_missing)
  show ?thesis
    using xs ys sc by (simp add: processScenes_def mapS_append bindS_def returnS_def)
qed

theorem missing_scene_dropped_witness:
  "media_missing store_D (job_D ! 1) \<and> reads_clear ([job_D ! 0] @ job_D ! 1 # [job_D ! 2]) \<and>
   processScenes ideal_env ([job_D ! 0] @ job_D ! 1 # [job_D ! 2]) store_D =
   processScenes ideal_env ([job_D ! 0] @ [job_D ! 2]) store_D"
proof -
  have m: "media_missing store_D (job_D ! 1)"
    by (simp add: media_missing_def job_D_def store_D_def store_of_def narrated_scene_def)
  have r: "reads_clear ([job_D ! 0] @ job_D ! 1 # [job_D ! 2])"
    by (simp add: reads_clear_def job_D_def scene_reads_def narrated_scene_def temp_named_def path_join_def
        tempDir_def sceneOutputPath_def nat_to_str.simps)
  from missing_scene_dropped [OF m r, of ideal_env] m r show ?thesis by simp
qed

text \<open>
  C13. The tolerance law for a whole job: on a consistent store, with distinct scene
  numbers, scenes that fit the store and read no file the job writes, every clip
  \<open>processScenes\<close> returns is, at the end of the job, a file whose probed length is
  exactly its returned duration (no later scene overwrites an earlier clip).
\<close>

theorem job_durations_exact:
  assumes "store_inv s" "\<forall>sc\<in>set scs. scene_fits_store s sc" "distinct (map sceneNumber scs)"
    "reads_clear scs" "processScenes env scs s = (Inr rs, s')"
  shows "\<forall>r\<in>set rs. \<exists>f. files s' (r_path r) = Some f \<and> fmt_duration f = r_duration r"
proof -
  from assms(5) obtain os where run: "mapS (processScene env) scs s = (Inr os, s')" and rs: "rs = somes os"
    by (auto simp: processScenes_def bindS_def returnS_def split: prod.splits sum.splits)
  from mapS_rendered_exact [OF assms(1-4) run] rs show ?thesis by simp
qed

theorem job_durations_exact_witness:
  "store_inv store_D \<and> scene_fits_store store_D (job_D ! 0) \<and> scene_fits_store store_D (job_D ! 1) \<and>
   scene_fits_store store_D (job_D ! 2) \<and>
   distinct (map sceneNumber job_D) \<and> reads_clear job_D \<and>
   processScenes ideal_env job_D store_D =
     (Inr [\<lparr>r_path = ''temp/scene_1_final.mp4'', r_duration = Num 4\<rparr>,
           \<lparr>r_path = ''temp/scene_3_final.mp4'', r_duration = Num 5\<rparr>],
      snd (processScenes ideal_env job_D store_D)) \<and>
   (\<exists>f. files (snd (processScenes ideal_env job_D store_D)) ''temp/scene_1_final.mp4'' = Some f \<and>
      fmt_duration f = Num 4) \<and>
   (\<exists>f. files (snd (processScenes ideal_env job_D store_D)) ''temp/scene_3_final.mp4'' = Some f \<and>
      fmt_duration f = Num 5)"
proof -
  have inv: "store_inv store_D"
    unfolding store_D_def
    by (rule store_of_inv) (simp add: path_join_def tempDir_def clip_def narration_def still_image_def)
  have fits: "\<forall>sc\<in>set job_D. scene_fits_store store_D sc"
    by (auto simp: job_D_def store_D_def store_of_def scene_fits_store_def narrated_scene_def clip_def
        narration_def still_image_def)
  have dis: "distinct (map sceneNumber job_D)" by (simp add: job_D_def narrated_scene_def)
  have rc: "reads_clear job_D"
    by (simp add: reads_clear_def job_D_def scene_reads_def narrated_scene_def temp_named_def path_join_def
        tempDir_def sceneOutputPath_def nat_to_str.simps)
  have "fst (processScenes ideal_env job_D store_D) =
     Inr [\<lparr>r_path = ''temp/scene_1_final.mp4'', r_duration = Num 4\<rparr>,
          \<lparr>r_path = ''temp/scene_3_final.mp4'', r_duration = Num 5\<rparr>]"
    unfolding job_D_def store_D_def by code_simp
  then have run: "processScenes ideal_env job_D store_D =
     (Inr [\<lparr>r_path = ''temp/scene_1_final.mp4'', r_duration = Num 4\<rparr>,
           \<lparr>r_path = ''temp/scene_3_final.mp4'', r_duration = Num 5\<rparr>],
      snd (processScenes ideal_env job_D store_D))" by (metis prod.collapse)
  from job_durations_exact [OF inv fits dis rc run] inv fits dis rc run show ?thesis
    by (simp add: job_D_def)
qed

end
