(* ===== verification/ScriptWizard.thy ===== *)
theory ScriptWizard
  imports Prelude JsParse JsString
begin

text \<open>
  The script side of the pipeline, \<open>ScriptWizard\<close>
  (\<open>src/backend/controllers/scriptWizard.controller.js\<close>): the scene objects the
  script parser produces, the timing estimate \<open>analyzeTimings\<close> (whose
  \<open>"m:ss"\<close> string becomes the media duration of a scene), the keyword extraction
  \<open>_extractSearchKeywords\<close> and the query set \<open>_generateSearchQueries\<close>. The word
  tokenizer of the \<open>natural\<close> library splits at runs of characters outside
  \<open>[A-Za-z0-9_]\<close> (its Cyrillic letters are outside the ASCII model).
\<close>

subsection \<open>Scenes of a script\<close>

record timing =
  estimatedDuration :: string
  wordCount :: nat

text \<open>
  A scene as \<open>parseScenes\<close> and \<open>_enhanceSceneKeywords\<close> build it; the fields that
  may be absent on a scene handed in by a client are options.
\<close>

record script_scene =
  ss_sceneNumber :: nat
  ss_text :: string
  ss_duration :: "timing option"
  ss_visualDescription :: "string option"
  ss_mediaType :: "string option"
  ss_searchKeywords :: "string list option"

subsection \<open>Words and timing\<close>

definition is_word_char :: "char \<Rightarrow> bool" where
  "is_word_char c \<longleftrightarrow> is_digit c \<or> c = CHR ''_'' \<or>
     ((65::nat) \<le> of_char c \<and> of_char c \<le> (90::nat)) \<or> ((97::nat) \<le> of_char c \<and> of_char c \<le> (122::nat))"

text \<open>\<open>new natural.WordTokenizer().tokenize(text)\<close>: the non-empty runs of word characters.\<close>

definition word_tokenize :: "string \<Rightarrow> string list" where
  "word_tokenize s = filter (\<lambda>w. w \<noteq> []) (split_runs_acc (\<lambda>c. \<not> is_word_char c) s [])"

definition wordsPerMinute :: nat where
  "wordsPerMinute = 150"

text \<open>
  \<open>analyzeTimings(scriptText)\<close>: \<open>minutes = Math.floor(wordCount / 150)\<close>,
  \<open>seconds = Math.round((wordCount / 150 - minutes) * 60)\<close>, rendered as
  \<open>`${minutes}:${seconds.toString().padStart(2, '0')}`\<close>.
\<close>

definition timing_minutes :: "nat \<Rightarrow> nat" where
  "timing_minutes wc = nat \<lfloor>real wc / real wordsPerMinute\<rfloor>"

definition timing_seconds :: "nat \<Rightarrow> nat" where
  "timing_seconds wc =
     nat (js_round ((real wc / real wordsPerMinute - real (timing_minutes wc)) * 60))"

definition analyzeTimings :: "string \<Rightarrow> timing" where
  "analyzeTimings scriptText =
     (let wc = length (word_tokenize scriptText)
      in \<lparr>estimatedDuration = nat_to_str (timing_minutes wc) @ '':'' @
                               padStart (nat_to_str (timing_seconds wc)) 2 CHR ''0'',
          wordCount = wc\<rparr>)"

subsection \<open>Keywords and queries\<close>

definition kw_stopWords :: "string list" where
  "kw_stopWords = [''a'', ''an'', ''the'', ''with'', ''at'', ''of'', ''in'', ''on'', ''for'']"

text \<open>\<open>word.replace(/[^\w\s]/g, '')\<close>.\<close>

definition strip_nonword :: "string \<Rightarrow> string" where
  "strip_nonword w = filter (\<lambda>c. is_word_char c \<or> js_ws c) w"

text \<open>\<open>_extractSearchKeywords(visualDescription)\<close>.\<close>

definition extractSearchKeywords :: "string \<Rightarrow> string list" where
  "extractSearchKeywords visualDescription =
     take 3 (filter (\<lambda>w. 2 < length w)
       (map strip_nonword (filter (\<lambda>w. w \<notin> set kw_stopWords) (split_ws (to_lower visualDescription)))))"

text \<open>
  \<open>_generateSearchQueries(keywords, description)\<close>: the description, every keyword
  and every pair \<open>"k_i k_j"\<close> with \<open>i < j\<close>, each added once to a \<open>Set\<close>.
\<close>

definition keyword_pairs :: "string list \<Rightarrow> string list" where
  "keyword_pairs ks =
     concat (map (\<lambda>i. map (\<lambda>j. ks ! i @ '' '' @ ks ! j) [Suc i..<length ks]) [0..<length ks - 1])"

definition generateSearchQueries :: "string list \<Rightarrow> string \<Rightarrow> string list" where
  "generateSearchQueries keywords description =
     foldl (\<lambda>q x. set_add x q) (foldl (\<lambda>q k. set_add k q) (set_add description []) keywords)
       (keyword_pairs keywords)"

declare timing_minutes_def [js_simps] timing_seconds_def [js_simps] analyzeTimings_def [js_simps]
  word_tokenize_def [js_simps] extractSearchKeywords_def [js_simps] generateSearchQueries_def [js_simps]

subsection \<open>Lemmas\<close>

lemma timing_minutes_div: "timing_minutes wc = wc div 150"
proof -
  have "\<lfloor>real wc / 150\<rfloor> = int (wc div 150)"
    using floor_divide_of_nat_eq [of wc 150] by simp
  then show ?thesis by (simp add: timing_minutes_def wordsPerMinute_def)
qed
lemma timing_split: "real wc / 150 - real (timing_minutes wc) = real (wc mod 150) / 150"
proof -
  have e: "real wc = 150 * real (wc div 150) + real (wc mod 150)"
    using div_mult_mod_eq [of wc 150] by (metis of_nat_add of_nat_mult of_nat_numeral mult.commute)
  have "real wc / 150 = real (wc div 150) + real (wc mod 150) / 150"
    by (subst e) (simp add: add_divide_distrib)
  then show ?thesis unfolding timing_minutes_div by linarith
qed

lemma timing_seconds_eq: "timing_seconds wc = nat \<lfloor>real (wc mod 150) * 2 / 5 + 1 / 2\<rfloor>"
proof -
  have h: "(real wc / 150 - real (timing_minutes wc)) * 60 = real (wc mod 150) * 2 / 5"
    unfolding timing_split by simp
  have w: "real wordsPerMinute = 150" by (simp add: wordsPerMinute_def)
  show ?thesis unfolding timing_seconds_def js_round_def w h ..
qed

lemma timing_seconds_le: "timing_seconds wc \<le> 60"
proof -
  have "wc mod 150 \<le> 149" by simp
  then have "real (wc mod 150) * 2 / 5 + 1 / 2 < 61" by linarith
  then have "\<lfloor>real (wc mod 150) * 2 / 5 + 1 / 2\<rfloor> \<le> 60" by (simp add: floor_le_iff)
  then show ?thesis unfolding timing_seconds_eq by linarith
qed

lemma timing_seconds_60: "timing_seconds wc = 60 \<longleftrightarrow> wc mod 150 = 149"
proof -
  have r: "wc mod 150 \<le> 149" by simp
  have "60 \<le> \<lfloor>real (wc mod 150) * 2 / 5 + 1 / 2\<rfloor> \<longleftrightarrow> 149 \<le> wc mod 150"
  proof -
    have "60 \<le> \<lfloor>real (wc mod 150) * 2 / 5 + 1 / 2\<rfloor> \<longleftrightarrow> 60 \<le> real (wc mod 150) * 2 / 5 + 1 / 2"
      by (simp add: le_floor_iff)
    also have "\<dots> \<longleftrightarrow> 149 \<le> wc mod 150" by linarith
    finally show ?thesis .
  qed
  with r timing_seconds_le [of wc] show ?thesis unfolding timing_seconds_eq by linarith
qed

lemma foldl_set_add_distinct: "distinct q \<Longrightarrow> distinct (foldl (\<lambda>q x. set_add x q) q xs)"
  by (induction xs arbitrary: q) (simp_all add: set_add_distinct)

lemma set_foldl_set_add: "set (foldl (\<lambda>q x. set_add x q) q xs) = set q \<union> set xs"
  by (induction xs arbitrary: q) (simp_all add: insert_commute)

subsection \<open>Properties\<close>

text \<open>
  C23. The timing estimate of a script of \<open>wc\<close> words is \<open>"m:ss"\<close> with
  \<open>m = wc div 150\<close>; its seconds field is at most 60, and it is 60 (so the text reads
  \<open>"m:60"\<close> instead of \<open>"(m+1):00"\<close>) exactly when \<open>wc mod 150 = 149\<close>.
\<close>

theorem analyzeTimings_seconds:
  "estimatedDuration (analyzeTimings t) =
     nat_to_str (wordCount (analyzeTimings t) div 150) @ '':'' @
     padStart (nat_to_str (timing_seconds (wordCount (analyzeTimings t)))) 2 CHR ''0'' \<and>
   timing_seconds (wordCount (analyzeTimings t)) \<le> 60 \<and>
   (timing_seconds (wordCount (analyzeTimings t)) = 60 \<longleftrightarrow> wordCount (analyzeTimings t) mod 150 = 149)"
  using timing_seconds_le timing_seconds_60 by (simp add: analyzeTimings_def timing_minutes_div Let_def)

text \<open>
  What the renderer reads back from the estimate: \<open>parseFloat\<close> of the
  \<open>"m:ss"\<close> string is the whole minutes \<open>m\<close>, the seconds are lost.
\<close>

theorem analyzeTimings_parseFloat:
  "parseFloat (JString (estimatedDuration (analyzeTimings t))) = Num (real (length (word_tokenize t) div 150))"
proof -
  have "parseFloat_str (nat_to_str (length (word_tokenize t) div 150) @
          '':'' @ padStart (nat_to_str (timing_seconds (length (word_tokenize t)))) 2 CHR ''0'') =
        Num (real (length (word_tokenize t) div 150))"
    by (rule parseFloat_nat_to_str) (simp add: colon_stop)
  then show ?thesis by (simp add: analyzeTimings_def timing_minutes_div Let_def)
qed

end
