(* ===== verification/MediaSearch.thy ===== *)
theory MediaSearch
  imports Prelude JsParse JsString ScriptWizard SceneRenderer
begin

text \<open>
  What the two stock-media controllers, \<open>PixabayController\<close>
  (\<open>src/backend/controllers/pixabay.controller.js\<close>) and \<open>PexelsController\<close>
  (\<open>src/backend/controllers/pexels.controller.js\<close>), share: the media description a
  search returns, the HTTP response of a search endpoint, the selection of a photo
  among the hits (the same code in both \<open>searchImage\<close>), \<open>downloadMedia\<close> and the
  per-scene loop \<open>processScenes\<close>. The remote services are oracles: a search endpoint
  is a function from the query to its response, a download a predicate on the URL
  (\<open>response.ok\<close>), and \<open>Date.now()\<close> at the download of the \<open>i\<close>-th scene a
  function \<open>clock i\<close>.
\<close>

subsection \<open>Search results\<close>

text \<open>
  The object \<open>searchImage\<close>/\<open>searchVideo\<close> resolve with. \<open>mi_creator\<close> is the
  \<open>photographer\<close> of a photo or the (name of the) \<open>user\<close> of a video, which
  \<open>downloadMedia\<close> reads as \<open>photographer || user\<close>; \<open>mi_title\<close> is only set by the
  Pixabay video search (\<open>video.tags || ''\<close>).
\<close>

record media_info =
  mi_type :: string
  mi_url :: string
  mi_width :: nat
  mi_height :: nat
  mi_duration :: jsval
  mi_creator :: string
  mi_source :: string
  mi_title :: "string option"

text \<open>
  The response of a search endpoint: \<open>fetch\<close> rejects (network error, timeout, body
  that is not JSON), or a response with its \<open>ok\<close> flag, its \<open>content-type\<close> header and
  the hit array of its JSON body (\<open>None\<close> when the body has no hit array).
\<close>

datatype 'h api_resp = NetworkError | Response bool "string option" "'h list option"

subsection \<open>Photo selection\<close>

definition targetRatio :: jsnum where
  "targetRatio = js_div (Num 1920) (Num 1080)"

text \<open>The filter of \<open>searchImage\<close>: aspect ratio within \<open>0.1\<close> of \<open>16:9\<close> and at least HD.\<close>

definition photo_suitable :: "('p \<Rightarrow> nat) \<Rightarrow> ('p \<Rightarrow> nat) \<Rightarrow> 'p \<Rightarrow> bool" where
  "photo_suitable w h p \<longleftrightarrow>
     js_less (js_abs (js_sub targetRatio (js_div (Num (real (w p))) (Num (real (h p)))))) (Num (1 / 10)) \<and>
      1920 \<le> w p \<and> 1080 \<le> h p"

text \<open>\<open>data.hits.reduce((best, current) => current.w > best.w ? current : best, data.hits[0])\<close>.\<close>

definition widest :: "('p \<Rightarrow> nat) \<Rightarrow> 'p list \<Rightarrow> 'p" where
  "widest w ps = foldl (\<lambda>best current. if w best < w current then current else best) (hd ps) ps"

text \<open>\<open>suitablePhotos[0]\<close>, the widest hit pushed when no hit is suitable.\<close>

definition select_photo :: "('p \<Rightarrow> nat) \<Rightarrow> ('p \<Rightarrow> nat) \<Rightarrow> 'p list \<Rightarrow> 'p" where
  "select_photo w h ps = (case filter (photo_suitable w h) ps of p # _ \<Rightarrow> p | [] \<Rightarrow> widest w ps)"

subsection \<open>Download and the scene loop\<close>

record downloaded =
  dl_path :: path
  dl_type :: string
  dl_width :: nat
  dl_height :: nat
  dl_duration :: jsval
  dl_source :: string
  dl_creator :: string

text \<open>\<open>{...downloadedMedia, sceneNumber, duration}\<close>, an element of \<open>mediaFiles\<close>.\<close>

record media_entry = downloaded +
  me_sceneNumber :: nat
  me_duration :: jsval

text \<open>
  \<open>downloadMedia(mediaInfo)\<close> with \<open>Date.now()\<close> = \<open>now\<close>: the file
  \<open>temp/<type>_<now>.<mp4|jpg>\<close> (\<open>tempDir\<close> is \<open>path.join(process.cwd(), 'temp')\<close>;
  paths are relative to the working directory), written when the fetch of the URL is ok.
\<close>

definition downloadMedia :: "(string \<Rightarrow> bool) \<Rightarrow> media_info \<Rightarrow> nat \<Rightarrow> downloaded res" where
  "downloadMedia fetch_ok mediaInfo now =
     (let fileExt = (if mi_type mediaInfo = ''video'' then ''mp4'' else ''jpg'');
          fileName = mi_type mediaInfo @ ''_'' @ nat_to_str now @ ''.'' @ fileExt;
          filePath = path_join tempDir fileName
      in if \<not> fetch_ok (mi_url mediaInfo) then Inl (DownloadFailed (mi_url mediaInfo))
         else Inr \<lparr>dl_path = filePath, dl_type = mi_type mediaInfo, dl_width = mi_width mediaInfo,
                   dl_height = mi_height mediaInfo, dl_duration = mi_duration mediaInfo,
                   dl_source = mi_source mediaInfo, dl_creator = mi_creator mediaInfo\<rparr>)"

text \<open>\<open>scene.duration?.estimatedDuration\<close>.\<close>

definition scene_estimate :: "script_scene \<Rightarrow> jsval" where
  "scene_estimate sc = (case ss_duration sc of None \<Rightarrow> JUndefined | Some t \<Rightarrow> JString (estimatedDuration t))"

definition media_entry_of :: "script_scene \<Rightarrow> downloaded \<Rightarrow> media_entry" where
  "media_entry_of sc d = downloaded.extend d
     \<lparr>me_sceneNumber = ss_sceneNumber sc, me_duration = jsval_or (scene_estimate sc) (dl_duration d)\<rparr>"

text \<open>
  \<open>processScenes(scenes)\<close>: one scene after the other, a scene whose search or download
  throws is skipped; \<open>i\<close> counts the scenes for the clock.
\<close>

fun processScenes_media ::
  "(script_scene \<Rightarrow> media_info res) \<Rightarrow> (string \<Rightarrow> bool) \<Rightarrow> (nat \<Rightarrow> nat) \<Rightarrow> nat \<Rightarrow>
   script_scene list \<Rightarrow> media_entry list" where
  "processScenes_media getMedia fetch_ok clock i [] = []"
| "processScenes_media getMedia fetch_ok clock i (sc # scs) =
     (let rest = processScenes_media getMedia fetch_ok clock (Suc i) scs
      in case bindE (getMedia sc) (\<lambda>info. downloadMedia fetch_ok info (clock i)) of
           Inl e \<Rightarrow> rest
         | Inr d \<Rightarrow> media_entry_of sc d # rest)"

subsection \<open>Lemmas\<close>

lemma targetRatio_eq: "targetRatio = Num (16 / 9)"
  by (simp add: targetRatio_def)

lemma photo_suitable_hd: "photo_suitable w h p \<Longrightarrow> 1920 \<le> w p \<and> 1080 \<le> h p"
  by (simp add: photo_suitable_def)

lemma widest_foldl_member:
  "foldl (\<lambda>best current. if w best < w current then current else best) b xs \<in> insert b (set xs)"
proof (induction xs arbitrary: b)
  case (Cons a xs)
  then show ?case by (cases "w b < w a") force+
qed simp

lemma widest_member: "ps \<noteq> [] \<Longrightarrow> widest w ps \<in> set ps"
  using widest_foldl_member [of w "hd ps" ps] by (auto simp: widest_def)

lemma select_photo_member: "ps \<noteq> [] \<Longrightarrow> select_photo w h ps \<in> set ps"
proof (cases "filter (photo_suitable w h) ps")
  case (Cons p qs)
  then have "p \<in> set ps" using filter_is_subset [of "photo_suitable w h" ps] by (metis list.set_intros(1) subsetD)
  with Cons show ?thesis by (simp add: select_photo_def)
qed (simp add: select_photo_def widest_member)

lemma downloadMedia_Inr:
  "downloadMedia fetch_ok info now = Inr d \<longleftrightarrow> fetch_ok (mi_url info) \<and>
     d = \<lparr>dl_path = path_join tempDir (mi_type info @ ''_'' @ nat_to_str now @ ''.'' @
                       (if mi_type info = ''video'' then ''mp4'' else ''jpg'')),
          dl_type = mi_type info, dl_width = mi_width info, dl_height = mi_height info,
          dl_duration = mi_duration info, dl_source = mi_source info, dl_creator = mi_creator info\<rparr>"
  by (auto simp: downloadMedia_def Let_def)

lemma processScenes_media_numbers:
  "map me_sceneNumber (processScenes_media getMedia ok clock i scs) =
   map ss_sceneNumber (filter (\<lambda>sc. case getMedia sc of Inl _ \<Rightarrow> False | Inr info \<Rightarrow> ok (mi_url info)) scs)"
  by (induction scs arbitrary: i)
     (auto simp: Let_def downloadMedia_def media_entry_of_def downloaded.defs media_entry.defs
           split: sum.split)

end
