(* ===== verification/Pixabay.thy ===== *)
theory Pixabay
  imports MediaSearch
begin

text \<open>
  \<open>PixabayController\<close> (\<open>src/backend/controllers/pixabay.controller.js\<close>): the query
  texts built from a scene (\<open>_extractKeyPhrases\<close>, \<open>_truncateQuery\<close>,
  \<open>_generateSearchQueries\<close>), the two searches, the score \<open>_calculateMatchScore\<close>,
  the best-match loop of \<open>getMediaForScene\<close> with its fallback media type, and
  \<open>processScenes\<close>. Scores are exact reals in \<open>jsnum\<close> (rounding of doubles is not
  modelled); the search endpoints are the oracles of \<open>pixabay_api\<close>.
\<close>

subsection \<open>Query texts\<close>

definition px_stopWords :: "string list" where
  "px_stopWords = [''a'', ''an'', ''the'', ''and'', ''or'', ''but'', ''in'', ''on'', ''at'', ''to'', ''for'',
     ''with'', ''background'', ''setting'', ''scene'', ''showing'', ''featuring'', ''displays'', ''contains'']"

definition extractKeyPhrases :: "string \<Rightarrow> string list" where
  "extractKeyPhrases description =
     (let phrases = filter (\<lambda>phrase. phrase \<noteq> [])
                      (map js_trim (split_on (\<lambda>c. c \<in> set '',.;'') (to_lower description)))
      in filter (\<lambda>term. term \<noteq> [])
           (map (\<lambda>phrase. js_join '' '' (take 3 (filter (\<lambda>word. 2 < length word)
                   (filter (\<lambda>word. word \<notin> set px_stopWords) (split_ws phrase))))) phrases))"

definition maxQueryLength :: nat where
  "maxQueryLength = 100"

definition truncateQuery :: "string \<Rightarrow> string" where
  "truncateQuery query =
     (if length query \<le> maxQueryLength then query
      else js_join '' '' (butlast (split_on (\<lambda>c. c = CHR '' '') (take maxQueryLength query))))"

text \<open>\<open>const t = this._truncateQuery(x); if (t) queries.add(t)\<close>.\<close>

definition add_query :: "string list \<Rightarrow> string \<Rightarrow> string list" where
  "add_query queries x = (let t = truncateQuery x in if t \<noteq> [] then set_add t queries else queries)"

definition generateSearchQueries_px :: "script_scene \<Rightarrow> string list" where
  "generateSearchQueries_px scene =
     (case ss_visualDescription scene of
        None \<Rightarrow> [''nature'']
      | Some d \<Rightarrow>
          if d = [] then [''nature'']
          else
            let keyPhrases = extractKeyPhrases d;
                q1 = foldl add_query [] keyPhrases;
                q2 = (case ss_searchKeywords scene of None \<Rightarrow> q1 | Some ks \<Rightarrow> foldl add_query q1 ks);
                q3 = (case keyPhrases of
                        [] \<Rightarrow> q2
                      | k # _ \<Rightarrow> let mainTerms = js_join '' '' (take 3 (split_on (\<lambda>c. c = CHR '' '') k))
                                 in if mainTerms \<noteq> [] then set_add (truncateQuery mainTerms) q2 else q2)
            in if q3 = [] then
                 set_add (truncateQuery (js_join '' '' (take 3 (filter (\<lambda>word. 3 < length word)
                                                            (split_ws (to_lower d)))))) q3
               else q3)"

subsection \<open>Search responses\<close>

record px_photo =
  pxp_imageWidth :: nat
  pxp_imageHeight :: nat
  pxp_largeImageURL :: string
  pxp_user :: string
  pxp_pageURL :: string

record px_vfile =
  pxf_url :: string
  pxf_width :: nat
  pxf_height :: nat

text \<open>A video hit; \<open>pxv_large\<close> is \<open>video.videos.large\<close>, which may be absent.\<close>

record px_video =
  pxv_large :: "px_vfile option"
  pxv_duration :: nat
  pxv_user :: string
  pxv_pageURL :: string
  pxv_tags :: string

record pixabay_api =
  px_image_api :: "string \<Rightarrow> px_photo api_resp"
  px_video_api :: "string \<Rightarrow> px_video api_resp"

definition px_photo_info :: "px_photo \<Rightarrow> media_info" where
  "px_photo_info p = \<lparr>mi_type = ''image'', mi_url = pxp_largeImageURL p, mi_width = pxp_imageWidth p,
     mi_height = pxp_imageHeight p, mi_duration = JUndefined, mi_creator = pxp_user p,
     mi_source = pxp_pageURL p, mi_title = None\<rparr>"

definition searchImage_px :: "pixabay_api \<Rightarrow> string \<Rightarrow> media_info res" where
  "searchImage_px api query =
     (case px_image_api api query of
        NetworkError \<Rightarrow> Inl (FetchFailed query)
      | Response ok contentType hits \<Rightarrow>
          (case hits of
             None \<Rightarrow> Inl (NoHits query)
           | Some [] \<Rightarrow> Inl (NoHits query)
           | Some hs \<Rightarrow> Inr (px_photo_info (select_photo pxp_imageWidth pxp_imageHeight hs))))"

definition px_video_suitable :: "px_video \<Rightarrow> bool" where
  "px_video_suitable v = (case pxv_large v of None \<Rightarrow> False | Some f \<Rightarrow> 1920 \<le> pxf_width f \<and> 1080 \<le> pxf_height f)"

definition px_video_info :: "px_video \<Rightarrow> px_vfile \<Rightarrow> media_info" where
  "px_video_info v f = \<lparr>mi_type = ''video'', mi_url = pxf_url f, mi_width = pxf_width f,
     mi_height = pxf_height f, mi_duration = JNumber (Num (real (pxv_duration v))), mi_creator = pxv_user v,
     mi_source = pxv_pageURL v, mi_title = Some (pxv_tags v)\<rparr>"

text \<open>
  \<open>searchVideo(query)\<close>: the filter reads \<open>video.videos.large.width\<close>, so one hit
  without a large file makes it throw.
\<close>

definition searchVideo_px :: "pixabay_api \<Rightarrow> string \<Rightarrow> media_info res" where
  "searchVideo_px api query =
     (let truncatedQuery = truncateQuery query
      in case px_video_api api truncatedQuery of
           NetworkError \<Rightarrow> Inl (FetchFailed truncatedQuery)
         | Response ok contentType hits \<Rightarrow>
             if \<not> ok then Inl HttpStatus
             else if \<not> (case contentType of None \<Rightarrow> False | Some c \<Rightarrow> js_includes c ''application/json'')
             then Inl BadContentType
             else (case hits of
                     None \<Rightarrow> Inl (NoHits truncatedQuery)
                   | Some [] \<Rightarrow> Inl (NoHits truncatedQuery)
                   | Some hs \<Rightarrow>
                       if list_ex (\<lambda>v. pxv_large v = None) hs then Inl TypeErrorNull
                       else let video = (case filter px_video_suitable hs of v # _ \<Rightarrow> v | [] \<Rightarrow> hd hs)
                            in (case pxv_large video of
                                  None \<Rightarrow> Inl NoVideoFile
                                | Some videoFile \<Rightarrow> Inr (px_video_info video videoFile))))"

subsection \<open>Scoring and the best match\<close>

definition calculateMatchScore :: "media_info \<Rightarrow> string \<Rightarrow> jsnum" where
  "calculateMatchScore md query =
     (let w = Num (real (mi_width md)); h = Num (real (mi_height md));
          resolutionScore = js_min (js_div w (Num 1920)) (js_div h (Num 1080));
          ratioScore = js_sub (Num 1) (js_abs (js_sub targetRatio (js_div w h)));
          queryWords = split_ws (to_lower query);
          mediaTitle = to_lower (case mi_title md of None \<Rightarrow> [] | Some t \<Rightarrow> t);
          matchingWords = filter (\<lambda>word. js_includes mediaTitle word) queryWords;
          keywordScore = js_div (Num (real (length matchingWords))) (Num (real (length queryWords)))
      in js_add (js_add (js_add (Num 0) (js_mul resolutionScore (Num (2 / 5))))
                        (js_mul ratioScore (Num (3 / 10))))
                (js_mul keywordScore (Num (3 / 10))))"

text \<open>
  One pass of the \<open>for (const query of searchQueries)\<close> loop of \<open>getMediaForScene\<close>
  from \<open>(bestMatch, highestScore)\<close>: a failed search is skipped, a result replaces
  the best match when its score is strictly higher.
\<close>

fun best_match :: "(string \<Rightarrow> media_info res) \<Rightarrow> string list \<Rightarrow> media_info option \<times> jsnum \<Rightarrow>
                   media_info option \<times> jsnum" where
  "best_match search [] acc = acc"
| "best_match search (q # qs) (best, hi) =
     (case search q of
        Inl e \<Rightarrow> best_match search qs (best, hi)
      | Inr r \<Rightarrow> let score = calculateMatchScore r q
                 in if js_less hi score then best_match search qs (Some r, score)
                    else best_match search qs (best, hi))"

definition px_search :: "pixabay_api \<Rightarrow> bool \<Rightarrow> string \<Rightarrow> media_info res" where
  "px_search api video = (if video then searchVideo_px api else searchImage_px api)"

definition getMediaForScene_px :: "pixabay_api \<Rightarrow> script_scene \<Rightarrow> media_info res" where
  "getMediaForScene_px api scene =
     (case ss_visualDescription scene of
        None \<Rightarrow> Inl MissingVisualDescription
      | Some d \<Rightarrow>
          if d = [] then Inl MissingVisualDescription
          else
            let searchQueries = generateSearchQueries_px scene;
                video = (ss_mediaType scene = Some ''video'');
                (bestMatch, highestScore) = best_match (px_search api video) searchQueries (None, Num 0);
                (bestMatch', highestScore') =
                   (if bestMatch = None
                    then best_match (px_search api (\<not> video)) searchQueries (bestMatch, highestScore)
                    else (bestMatch, highestScore))
            in case bestMatch' of None \<Rightarrow> Inl NoSuitableMedia | Some m \<Rightarrow> Inr m)"

definition processScenes_px ::
  "pixabay_api \<Rightarrow> (string \<Rightarrow> bool) \<Rightarrow> (nat \<Rightarrow> nat) \<Rightarrow> script_scene list \<Rightarrow> media_entry list" where
  "processScenes_px api fetch_ok clock scenes =
     processScenes_media (getMediaForScene_px api) fetch_ok clock 0 scenes"


subsection \<open>What the queries and the best match promise\<close>

text \<open>
  The contract of \<open>getMediaForScene\<close>: a result found for one of the queries with a
  positive score that no other successful search of the same media type beats
  (\<open>is_best_match\<close>), and \<open>no_match\<close> when no search of that type succeeds with a
  positive score.
\<close>

definition queries_ok :: "string list \<Rightarrow> bool" where
  "queries_ok qs \<longleftrightarrow> distinct qs \<and> list_all (\<lambda>q. length q \<le> maxQueryLength) qs"

definition is_best_match :: "(string \<Rightarrow> media_info res) \<Rightarrow> string list \<Rightarrow> media_info \<Rightarrow> bool" where
  "is_best_match search qs m \<longleftrightarrow>
     list_ex (\<lambda>q. search q = Inr m \<and> js_less (Num 0) (calculateMatchScore m q) \<and>
                 list_all (\<lambda>q'. case search q' of Inl _ \<Rightarrow> True
                                 | Inr r \<Rightarrow> \<not> js_less (calculateMatchScore m q) (calculateMatchScore r q')) qs) qs"

definition no_match :: "(string \<Rightarrow> media_info res) \<Rightarrow> string list \<Rightarrow> bool" where
  "no_match search qs \<longleftrightarrow>
     list_all (\<lambda>q. case search q of Inl _ \<Rightarrow> True | Inr r \<Rightarrow> \<not> js_less (Num 0) (calculateMatchScore r q)) qs"

subsection \<open>An example response\<close>

definition photo_W :: px_photo where
  "photo_W = \<lparr>pxp_imageWidth = 1920, pxp_imageHeight = 1080, pxp_largeImageURL = ''https://px/1.jpg'',
              pxp_user = ''ann'', pxp_pageURL = ''https://px/1''\<rparr>"

definition api_W :: pixabay_api where
  "api_W = \<lparr>px_image_api = (\<lambda>q. Response True (Some ''application/json'') (Some [photo_W])),
            px_video_api = (\<lambda>q. NetworkError)\<rparr>"

definition scene_W :: script_scene where
  "scene_W = \<lparr>ss_sceneNumber = 1, ss_text = ''A car.'', ss_duration = None,
              ss_visualDescription = Some ''A red car'', ss_mediaType = Some ''image'', ss_searchKeywords = None\<rparr>"

subsection \<open>Lemmas\<close>

lemma truncateQuery_le: "length (truncateQuery q) \<le> maxQueryLength"
  using length_join_butlast_split [of "CHR '' ''" "take maxQueryLength q"]
  by (simp add: truncateQuery_def)

lemma queries_ok_set_add: "queries_ok qs \<Longrightarrow> queries_ok (set_add (truncateQuery x) qs)"
  by (auto simp: queries_ok_def set_add_def truncateQuery_le)

lemma queries_ok_add_query: "queries_ok qs \<Longrightarrow> queries_ok (add_query qs x)"
  by (simp add: add_query_def Let_def queries_ok_set_add)

lemma queries_ok_foldl: "queries_ok qs \<Longrightarrow> queries_ok (foldl add_query qs xs)"
  by (induction xs arbitrary: qs) (simp_all add: queries_ok_add_query)

lemma queries_ok_nature: "queries_ok [''nature'']"
  by (simp add: queries_ok_def maxQueryLength_def)

lemma best_match_grows:
  "best_match s qs (b, h) = (b', h') \<Longrightarrow>
   (b' = b \<and> h' = h) \<or>
   (js_less h h' \<and> (\<exists>q\<in>set qs. \<exists>m. b' = Some m \<and> s q = Inr m \<and> calculateMatchScore m q = h'))"
proof (induction qs arbitrary: b h)
  case (Cons q qs)
  show ?case
  proof (cases "s q")
    case (Inl e)
    with Cons show ?thesis by auto
  next
    case (Inr r)
    show ?thesis
    proof (cases "js_less h (calculateMatchScore r q)")
      case True
      with Cons.prems Inr have "best_match s qs (Some r, calculateMatchScore r q) = (b', h')" by simp
      from Cons.IH [OF this] True Inr show ?thesis by (auto intro: js_less_trans)
    next
      case False
      with Cons.prems Inr have "best_match s qs (b, h) = (b', h')" by simp
      from Cons.IH [OF this] show ?thesis by auto
    qed
  qed
qed simp

lemma best_match_max:
  "best_match s qs (b, h) = (b', h') \<Longrightarrow>
   list_all (\<lambda>q. case s q of Inl _ \<Rightarrow> True | Inr r \<Rightarrow> \<not> js_less h' (calculateMatchScore r q)) qs"
proof (induction qs arbitrary: b h)
  case (Cons q qs)
  show ?case
  proof (cases "s q")
    case (Inl e)
    with Cons show ?thesis by auto
  next
    case (Inr r)
    let ?c = "calculateMatchScore r q"
    show ?thesis
    proof (cases "js_less h ?c")
      case True
      with Cons.prems Inr have rest: "best_match s qs (Some r, ?c) = (b', h')" by simp
      have "\<not> js_less h' ?c"
        using best_match_grows [OF rest] js_less_asym by auto
      with Cons.IH [OF rest] Inr show ?thesis by simp
    next
      case False
      with Cons.prems Inr have rest: "best_match s qs (b, h) = (b', h')" by simp
      have "\<not> js_less h' ?c"
        using best_match_grows [OF rest] False js_less_trans by blast
      with Cons.IH [OF rest] Inr show ?thesis by simp
    qed
  qed
qed simp

lemma best_match_Some:
  assumes "best_match s qs (None, Num 0) = (Some m, h)"
  shows "is_best_match s qs m"
proof -
  from best_match_grows [OF assms] obtain q where
    q: "q \<in> set qs" "s q = Inr m" "calculateMatchScore m q = h" "js_less (Num 0) h" by auto
  with best_match_max [OF assms] show ?thesis
    unfolding is_best_match_def list_ex_iff by auto
qed

lemma best_match_None:
  assumes "best_match s qs (None, Num 0) = (None, h)"
  shows "h = Num 0 \<and> no_match s qs"
  using best_match_grows [OF assms] best_match_max [OF assms] by (auto simp: no_match_def)

lemma getMediaForScene_px_eq:
  assumes vd: "ss_visualDescription sc = Some d" "d \<noteq> []"
    and v: "v = (ss_mediaType sc = Some ''video'')" and qs: "qs = generateSearchQueries_px sc"
    and p: "best_match (px_search api v) qs (None, Num 0) = (b, h)"
    and f: "best_match (px_search api (\<not> v)) qs (None, Num 0) = (b2, h2)"
  shows "getMediaForScene_px api sc =
           (case b of Some m \<Rightarrow> Inr m | None \<Rightarrow> (case b2 of Some m \<Rightarrow> Inr m | None \<Rightarrow> Inl NoSuitableMedia))"
proof (cases b)
  case None
  with p have "h = Num 0" using best_match_None by blast
  with None vd v qs p f show ?thesis by (simp add: getMediaForScene_px_def split: option.split)
next
  case (Some m)
  with vd v qs p show ?thesis by (simp add: getMediaForScene_px_def)
qed

lemma getMediaForScene_px_missing:
  "ss_visualDescription sc = None \<or> ss_visualDescription sc = Some [] \<Longrightarrow>
   getMediaForScene_px api sc = Inl MissingVisualDescription"
  by (auto simp: getMediaForScene_px_def)

lemma queries_W: "generateSearchQueries_px scene_W = [''red car'']"
  unfolding scene_W_def by code_simp

lemma score_W: "calculateMatchScore (px_photo_info photo_W) ''red car'' = Num (7 / 10)"
proof -
  have "split_ws (to_lower ''red car'') = [''red'', ''car'']" by code_simp
  then show ?thesis
    by (simp add: calculateMatchScore_def px_photo_info_def photo_W_def js_min_def targetRatio_def
                  js_sub_def js_includes_def to_lower_def)
qed

lemma search_W: "px_search api_W False q = Inr (px_photo_info photo_W)"
proof -
  have "photo_suitable pxp_imageWidth pxp_imageHeight photo_W"
    by (simp add: photo_suitable_def photo_W_def targetRatio_def js_sub_def)
  then show ?thesis by (simp add: px_search_def searchImage_px_def api_W_def select_photo_def)
qed

lemma getMedia_W: "getMediaForScene_px api_W scene_W = Inr (px_photo_info photo_W)"
proof -
  have "ss_visualDescription scene_W = Some ''A red car''" "ss_mediaType scene_W = Some ''image''"
    by (simp_all add: scene_W_def)
  then show ?thesis by (simp add: getMediaForScene_px_def queries_W search_W score_W)
qed

subsection \<open>Properties\<close>

text \<open>
  C14. Refinement of the best-match search: a media \<open>getMediaForScene\<close> resolves with
  is a best match of the scene's queries for the requested media type, or, when no
  search of that type scores above \<open>0\<close>, a best match of the fallback type.
\<close>

theorem getMediaForScene_px_best:
  assumes r: "getMediaForScene_px api sc = Inr m"
  shows "is_best_match (px_search api (ss_mediaType sc = Some ''video'')) (generateSearchQueries_px sc) m \<or>
         (no_match (px_search api (ss_mediaType sc = Some ''video'')) (generateSearchQueries_px sc) \<and>
          is_best_match (px_search api (ss_mediaType sc \<noteq> Some ''video'')) (generateSearchQueries_px sc) m)"
proof -
  let ?v = "ss_mediaType sc = Some ''video''" and ?qs = "generateSearchQueries_px sc"
  obtain d where vd: "ss_visualDescription sc = Some d" "d \<noteq> []"
    using r getMediaForScene_px_missing by (cases "ss_visualDescription sc") fastforce+
  obtain b h where p: "best_match (px_search api ?v) ?qs (None, Num 0) = (b, h)" by fastforce
  obtain b2 h2 where f: "best_match (px_search api (\<not> ?v)) ?qs (None, Num 0) = (b2, h2)" by fastforce
  note e = getMediaForScene_px_eq [OF vd refl refl p f]
  show ?thesis
  proof (cases b)
    case None
    with p have "no_match (px_search api ?v) ?qs" using best_match_None by blast
    moreover from None r e f have "best_match (px_search api (\<not> ?v)) ?qs (None, Num 0) = (Some m, h2)"
      by (cases b2) simp_all
    ultimately show ?thesis using best_match_Some by blast
  next
    case (Some m')
    with r e p show ?thesis using best_match_Some by auto
  qed
qed

text \<open>At a concrete response: one HD photo for every query of the scene \<open>"A red car"\<close>.\<close>

theorem getMediaForScene_px_best_witness:
  "getMediaForScene_px api_W scene_W = Inr (px_photo_info photo_W) \<and>
   (is_best_match (px_search api_W (ss_mediaType scene_W = Some ''video'')) (generateSearchQueries_px scene_W) (px_photo_info photo_W) \<or>
    (no_match (px_search api_W (ss_mediaType scene_W = Some ''video'')) (generateSearchQueries_px scene_W) \<and>
     is_best_match (px_search api_W (ss_mediaType scene_W \<noteq> Some ''video'')) (generateSearchQueries_px scene_W) (px_photo_info photo_W)))"
  using getMediaForScene_px_best [OF getMedia_W] getMedia_W by simp

text \<open>
  C15. The errors of \<open>getMediaForScene\<close>: it rejects exactly when the scene has no
  visual description, or when no search of either media type succeeds with a score
  above \<open>0\<close>; a failed search is never the reason by itself.
\<close>

theorem getMediaForScene_px_errors:
  "getMediaForScene_px api sc = Inl e \<longleftrightarrow>
   (e = MissingVisualDescription \<and> (ss_visualDescription sc = None \<or> ss_visualDescription sc = Some [])) \<or>
   (e = NoSuitableMedia \<and> ss_visualDescription sc \<noteq> None \<and> ss_visualDescription sc \<noteq> Some [] \<and>
    no_match (px_search api (ss_mediaType sc = Some ''video'')) (generateSearchQueries_px sc) \<and>
    no_match (px_search api (ss_mediaType sc \<noteq> Some ''video'')) (generateSearchQueries_px sc))"
proof (cases "ss_visualDescription sc = None \<or> ss_visualDescription sc = Some []")
  case True
  then show ?thesis using getMediaForScene_px_missing [OF True] by auto
next
  case False
  let ?v = "ss_mediaType sc = Some ''video''" and ?qs = "generateSearchQueries_px sc"
  from False obtain d where vd: "ss_visualDescription sc = Some d" "d \<noteq> []" by auto
  obtain b h where p: "best_match (px_search api ?v) ?qs (None, Num 0) = (b, h)" by fastforce
  obtain b2 h2 where f: "best_match (px_search api (\<not> ?v)) ?qs (None, Num 0) = (b2, h2)" by fastforce
  note e = getMediaForScene_px_eq [OF vd refl refl p f]
  have nm: "no_match s qs \<Longrightarrow> best_match s qs (None, Num 0) = (Some m, k) \<Longrightarrow> False" for s qs m k
    using best_match_Some [of s qs m k] best_match_grows [of s qs None "Num 0" "Some m" k]
          best_match_max [of s qs None "Num 0" "Some m" k]
    by (auto simp: no_match_def list_all_iff split: sum.splits)
  show ?thesis
  proof (cases b)
    case None
    then have "no_match (px_search api ?v) ?qs" using p best_match_None by blast
    with None e f vd nm show ?thesis by (cases b2) (auto dest: best_match_None)
  next
    case (Some m)
    with e p nm vd show ?thesis by auto
  qed
qed

text \<open>
  C16. The query list of \<open>_generateSearchQueries\<close> is never empty, has no duplicates,
  and no query is longer than \<open>maxQueryLength\<close> (100 characters).
\<close>

theorem generateSearchQueries_px_ok: "queries_ok (generateSearchQueries_px sc) \<and> generateSearchQueries_px sc \<noteq> []"
proof -
  have e: "queries_ok []" by (simp add: queries_ok_def)
  show ?thesis
    unfolding generateSearchQueries_px_def Let_def
    by (auto split: option.split list.split simp: queries_ok_nature queries_ok_foldl [OF e]
             queries_ok_foldl queries_ok_set_add e set_add_ne)
qed

text \<open>
  C17. \<open>_truncateQuery\<close> of a query longer than 100 characters whose first 100
  characters hold no space is the empty string: the word is dropped, not cut.
\<close>

theorem truncateQuery_no_space:
  "maxQueryLength < length q \<Longrightarrow> CHR '' '' \<notin> set (take maxQueryLength q) \<Longrightarrow> truncateQuery q = []"
  by (simp add: truncateQuery_def split_on_no_sep list_ex_iff)

text \<open>At a word of 101 letters.\<close>

theorem truncateQuery_no_space_witness:
  "maxQueryLength < length (replicate 101 CHR ''a'') \<and> CHR '' '' \<notin> set (take maxQueryLength (replicate 101 CHR ''a'')) \<and>
   truncateQuery (replicate 101 CHR ''a'') = []"
  using truncateQuery_no_space [of "replicate 101 CHR ''a''"] by (simp add: maxQueryLength_def)

text \<open>
  C22. A media of exactly \<open>1920x1080\<close> scores between \<open>0.7\<close> and \<open>1\<close>, whatever the
  query: it is always accepted by the best-match loop.
\<close>

theorem calculateMatchScore_target:
  assumes "mi_width m = 1920" "mi_height m = 1080"
  shows "\<exists>s. calculateMatchScore m q = Num s \<and> 7 / 10 \<le> s \<and> s \<le> 1"
proof -
  let ?ws = "split_ws (to_lower q)"
  let ?k = "length (filter (\<lambda>word. js_includes (to_lower (case mi_title m of None \<Rightarrow> [] | Some t \<Rightarrow> t)) word) ?ws)"
  have n: "0 < length ?ws" using split_runs_acc_ne by (simp add: split_ws_def)
  have k: "?k \<le> length ?ws" by (rule length_filter_le)
  have kw: "js_div (Num (real ?k)) (Num (real (length ?ws))) = Num (real ?k / real (length ?ws))"
    using n by simp
  have b: "0 \<le> real ?k / real (length ?ws)" "real ?k / real (length ?ws) \<le> 1"
    using k n by (simp_all add: divide_le_eq_1)
  have "calculateMatchScore m q = Num (2 / 5 + 3 / 10 + real ?k / real (length ?ws) * (3 / 10))"
    using assms unfolding calculateMatchScore_def Let_def kw
    by (simp add: js_min_def targetRatio_def js_sub_def)
  with b show ?thesis by auto
qed

text \<open>At the example photo.\<close>

theorem calculateMatchScore_target_witness:
  "mi_width (px_photo_info photo_W) = 1920 \<and> mi_height (px_photo_info photo_W) = 1080 \<and>
   (\<exists>s. calculateMatchScore (px_photo_info photo_W) ''red car'' = Num s \<and> 7 / 10 \<le> s \<and> s \<le> 1)"
  using calculateMatchScore_target [of "px_photo_info photo_W" "''red car''"]
  by (simp add: px_photo_info_def photo_W_def)

text \<open>
  C19. \<open>processScenes\<close> keeps the scenes whose search and download succeed, in order,
  and drops the others: the scene numbers of \<open>mediaFiles\<close> are those of the scenes
  that succeed.
\<close>

theorem processScenes_px_numbers:
  "map me_sceneNumber (processScenes_px api fetch_ok clock scenes) =
   map ss_sceneNumber (filter (\<lambda>sc. case getMediaForScene_px api sc of Inl _ \<Rightarrow> False
                                     | Inr info \<Rightarrow> fetch_ok (mi_url info)) scenes)"
  by (simp add: processScenes_px_def processScenes_media_numbers)

end
