(* ===== verification/Pexels.thy ===== *)
theory Pexels
  imports MediaSearch
begin

text \<open>
  \<open>PexelsController\<close> (\<open>src/backend/controllers/pexels.controller.js\<close>): the photo
  search (the selection shared with Pixabay), the video search (a video with an exact
  \<open>1920x1080\<close> HD file, else the largest file of at least 1080p of the first video),
  \<open>getMediaForScene\<close> (the visual description is the query; the other media type
  when the first search throws) and \<open>processScenes\<close>. \<open>downloadMedia\<close> and the scene
  loop are those of \<open>MediaSearch\<close>.
\<close>

subsection \<open>Search responses\<close>

record pexels_photo =
  pp_width :: nat
  pp_height :: nat
  pp_src_original :: string
  pp_photographer :: string
  pp_url :: string

record pexels_vfile =
  pf_width :: nat
  pf_height :: nat
  pf_quality :: string
  pf_link :: string

text \<open>A video hit; \<open>pv_user_name\<close> is \<open>video.user.name\<close>.\<close>

record pexels_video =
  pv_video_files :: "pexels_vfile list"
  pv_duration :: nat
  pv_user_name :: string
  pv_url :: string

record pexels_api =
  pexels_photo_api :: "string \<Rightarrow> pexels_photo api_resp"
  pexels_video_api :: "string \<Rightarrow> pexels_video api_resp"

definition pexels_photo_info :: "pexels_photo \<Rightarrow> media_info" where
  "pexels_photo_info p = \<lparr>mi_type = ''image'', mi_url = pp_src_original p, mi_width = pp_width p,
     mi_height = pp_height p, mi_duration = JUndefined, mi_creator = pp_photographer p,
     mi_source = pp_url p, mi_title = None\<rparr>"

definition searchImage_pexels :: "pexels_api \<Rightarrow> string \<Rightarrow> media_info res" where
  "searchImage_pexels api query =
     (case pexels_photo_api api query of
        NetworkError \<Rightarrow> Inl (FetchFailed query)
      | Response ok contentType photos \<Rightarrow>
          (case photos of
             None \<Rightarrow> Inl (NoHits query)
           | Some [] \<Rightarrow> Inl (NoHits query)
           | Some ps \<Rightarrow> Inr (pexels_photo_info (select_photo pp_width pp_height ps))))"

subsection \<open>Video files\<close>

definition exact_dims :: "pexels_vfile \<Rightarrow> bool" where
  "exact_dims f \<longleftrightarrow> pf_width f = 1920 \<and> pf_height f = 1080"

definition exact_hd :: "pexels_vfile \<Rightarrow> bool" where
  "exact_hd f \<longleftrightarrow> exact_dims f \<and> (pf_quality f = ''hd'' \<or> pf_quality f = ''fhd'')"

definition at_least_1080p :: "pexels_vfile \<Rightarrow> bool" where
  "at_least_1080p f \<longleftrightarrow> 1920 \<le> pf_width f \<and> 1080 \<le> pf_height f"

definition file_area :: "pexels_vfile \<Rightarrow> nat" where
  "file_area f = pf_width f * pf_height f"

text \<open>
  \<open>files.filter(f => f.width >= 1920 && f.height >= 1080)
     .sort((a, b) => (b.width * b.height) - (a.width * a.height))[0] || files[0]\<close>;
  \<open>Array.prototype.sort\<close> is stable, as \<open>sort_key\<close> is.
\<close>

definition best_file :: "pexels_vfile list \<Rightarrow> pexels_vfile option" where
  "best_file vfiles =
     (case sort_key (\<lambda>f. - int (file_area f)) (filter at_least_1080p vfiles) of
        f # _ \<Rightarrow> Some f
      | [] \<Rightarrow> (case vfiles of f # _ \<Rightarrow> Some f | [] \<Rightarrow> None))"

definition pexels_video_info :: "pexels_video \<Rightarrow> pexels_vfile \<Rightarrow> media_info" where
  "pexels_video_info v f = \<lparr>mi_type = ''video'', mi_url = pf_link f, mi_width = pf_width f,
     mi_height = pf_height f, mi_duration = JNumber (Num (real (pv_duration v))), mi_creator = pv_user_name v,
     mi_source = pv_url v, mi_title = None\<rparr>"

definition searchVideo_pexels :: "pexels_api \<Rightarrow> string \<Rightarrow> media_info res" where
  "searchVideo_pexels api query =
     (case pexels_video_api api query of
        NetworkError \<Rightarrow> Inl (FetchFailed query)
      | Response ok contentType videos \<Rightarrow>
          (case videos of
             None \<Rightarrow> Inl (NoHits query)
           | Some [] \<Rightarrow> Inl (NoHits query)
           | Some vs \<Rightarrow>
               let suitableVideos = filter (\<lambda>v. list_ex exact_hd (pv_video_files v)) vs;
                   (video, videoFile) =
                     (case suitableVideos of
                        v # _ \<Rightarrow> (v, find exact_dims (pv_video_files v))
                      | [] \<Rightarrow> (hd vs, best_file (pv_video_files (hd vs))))
               in case videoFile of
                    None \<Rightarrow> Inl NoVideoFile
                  | Some f \<Rightarrow> Inr (pexels_video_info video f)))"

subsection \<open>Media for a scene\<close>

text \<open>
  \<open>getMediaForScene(scene)\<close>: the query is \<open>encodeURIComponent(visualDescription)\<close>,
  the string \<open>"undefined"\<close> when the scene has no description.
\<close>

definition getMediaForScene_pexels :: "pexels_api \<Rightarrow> script_scene \<Rightarrow> media_info res" where
  "getMediaForScene_pexels api scene =
     (let searchQuery = (case ss_visualDescription scene of None \<Rightarrow> ''undefined'' | Some d \<Rightarrow> d);
          video = (ss_mediaType scene = Some ''video'');
          primary = (if video then searchVideo_pexels api else searchImage_pexels api);
          fallback = (if video then searchImage_pexels api else searchVideo_pexels api)
      in case primary searchQuery of
           Inr m \<Rightarrow> Inr m
         | Inl primaryError \<Rightarrow>
             (case fallback searchQuery of
                Inr m \<Rightarrow> Inr m
              | Inl fallbackError \<Rightarrow> Inl (SearchesFailed primaryError fallbackError)))"

definition processScenes_pexels ::
  "pexels_api \<Rightarrow> (string \<Rightarrow> bool) \<Rightarrow> (nat \<Rightarrow> nat) \<Rightarrow> script_scene list \<Rightarrow> media_entry list" where
  "processScenes_pexels api fetch_ok clock scenes =
     processScenes_media (getMediaForScene_pexels api) fetch_ok clock 0 scenes"

subsection \<open>Reference selection\<close>

text \<open>The file the fallback branch should pick: the first of largest area among the files of at least 1080p.\<close>

definition best_file_ref :: "pexels_vfile list \<Rightarrow> pexels_vfile option" where
  "best_file_ref vfiles =
     (let hdFiles = filter at_least_1080p vfiles
      in if hdFiles = [] then (case vfiles of f # _ \<Rightarrow> Some f | [] \<Rightarrow> None)
         else Some (hd (filter (\<lambda>f. list_all (\<lambda>g. file_area g \<le> file_area f) hdFiles) hdFiles)))"


subsection \<open>An example response\<close>

definition hd_file_W :: pexels_vfile where
  "hd_file_W = \<lparr>pf_width = 1920, pf_height = 1080, pf_quality = ''hd'', pf_link = ''https://pexels/v1_hd.mp4''\<rparr>"

definition video_W :: pexels_video where
  "video_W = \<lparr>pv_video_files = [\<lparr>pf_width = 640, pf_height = 360, pf_quality = ''sd'', pf_link = ''https://pexels/v1_sd.mp4''\<rparr>,
                                 hd_file_W],
              pv_duration = 12, pv_user_name = ''bo'', pv_url = ''https://pexels/v1''\<rparr>"

definition pexels_api_W :: pexels_api where
  "pexels_api_W = \<lparr>pexels_photo_api = (\<lambda>q. NetworkError),
                   pexels_video_api = (\<lambda>q. if q = ''undefined'' then Response True None (Some [video_W])
                                           else Response True None (Some []))\<rparr>"

definition scene_N :: script_scene where
  "scene_N = \<lparr>ss_sceneNumber = 2, ss_text = ''Intro.'', ss_duration = None,
              ss_visualDescription = None, ss_mediaType = Some ''video'', ss_searchKeywords = None\<rparr>"

subsection \<open>Lemmas\<close>

lemma sort_key_eq_Nil [simp]: "sort_key g xs = [] \<longleftrightarrow> xs = []"
  by (metis length_0_conv length_sort)

lemma hd_insort_key: "ys \<noteq> [] \<Longrightarrow> hd (insort_key g x ys) = (if g x \<le> g (hd ys) then x else hd ys)"
  by (cases ys) auto

lemma hd_sort_key_first_min:
  fixes g :: "'a \<Rightarrow> 'b::linorder"
  shows "xs \<noteq> [] \<Longrightarrow> hd (sort_key g xs) = hd (filter (\<lambda>y. list_all (\<lambda>z. g y \<le> g z) xs) xs)"
proof (induction xs)
  case (Cons x xs)
  show ?case
  proof (cases "xs = []")
    case True
    then show ?thesis by simp
  next
    case False
    let ?P = "\<lambda>y. list_all (\<lambda>z. g y \<le> g z) xs"
    have ys: "sort_key g xs \<noteq> []" using False by simp
    let ?m = "hd (sort_key g xs)"
    have ne: "filter ?P xs \<noteq> []"
    proof -
      have "arg_min_list g xs \<in> set xs" "?P (arg_min_list g xs)"
        using False by (auto simp: list_all_iff arg_min_list_in f_arg_min_list_f)
      then show ?thesis by (auto simp: filter_empty_conv)
    qed
    have m: "?m \<in> set xs" "?P ?m"
      using Cons.IH [OF False] ne hd_in_set [OF ne] by (simp_all del: hd_in_set)
    show ?thesis
    proof (cases "g x \<le> g ?m")
      case True
      with m have "list_all (\<lambda>z. g x \<le> g z) (x # xs)" by (auto simp: list_all_iff)
      with True ys show ?thesis by (simp add: hd_insort_key)
    next
      case False
      have "filter (\<lambda>y. list_all (\<lambda>z. g y \<le> g z) (x # xs)) xs = filter ?P xs"
      proof (rule filter_cong)
        fix y assume "y \<in> set xs"
        show "list_all (\<lambda>z. g y \<le> g z) (x # xs) = ?P y"
          using False m by (auto simp: list_all_iff)
      qed simp
      moreover have "\<not> list_all (\<lambda>z. g x \<le> g z) (x # xs)"
        using False m(1) by (auto simp: list_all_iff)
      ultimately show ?thesis using False ys Cons.IH [OF \<open>xs \<noteq> []\<close>] by (simp add: hd_insort_key)
    qed
  qed
qed simp

subsection \<open>Properties\<close>

text \<open>
  C20. The fallback file choice of \<open>searchVideo\<close>, a stable sort by decreasing area
  and its first element, is the first file of largest area among the files of at
  least 1080p, or the first file when there is none.
\<close>

theorem best_file_equiv: "best_file vfiles = best_file_ref vfiles"
proof (cases "filter at_least_1080p vfiles = []")
  case True
  then show ?thesis by (simp add: best_file_def best_file_ref_def)
next
  case False
  let ?hs = "filter at_least_1080p vfiles"
  have "sort_key (\<lambda>f. - int (file_area f)) ?hs \<noteq> []" using False by simp
  then obtain f fs where s: "sort_key (\<lambda>f. - int (file_area f)) ?hs = f # fs"
    by (cases "sort_key (\<lambda>f. - int (file_area f)) ?hs") auto
  have "f = hd (filter (\<lambda>y. list_all (\<lambda>z. - int (file_area y) \<le> - int (file_area z)) ?hs) ?hs)"
    using hd_sort_key_first_min [OF False, of "\<lambda>f. - int (file_area f)"] s by simp
  then have "f = hd (filter (\<lambda>y. list_all (\<lambda>z. file_area z \<le> file_area y) ?hs) ?hs)" by simp
  with s False show ?thesis by (simp add: best_file_def best_file_ref_def Let_def)
qed

text \<open>
  C21. When a video hit of the response has an exact \<open>1920x1080\<close> HD file,
  \<open>searchVideo\<close> resolves with a \<open>1920x1080\<close> video file.
\<close>

theorem searchVideo_pexels_exact:
  assumes resp: "pexels_video_api api q = Response ok ct (Some vs)"
    and ex: "list_ex (\<lambda>v. list_ex exact_hd (pv_video_files v)) vs"
  shows "\<exists>m. searchVideo_pexels api q = Inr m \<and> mi_type m = ''video'' \<and> mi_width m = 1920 \<and> mi_height m = 1080"
proof -
  obtain v vs' where s: "filter (\<lambda>v. list_ex exact_hd (pv_video_files v)) vs = v # vs'"
    using ex by (cases "filter (\<lambda>v. list_ex exact_hd (pv_video_files v)) vs")
                (auto simp: filter_empty_conv list_ex_iff)
  then have "v \<in> set (filter (\<lambda>v. list_ex exact_hd (pv_video_files v)) vs)" by simp
  then have "list_ex exact_hd (pv_video_files v)" and ne: "vs \<noteq> []" by auto
  then obtain f where f: "find exact_dims (pv_video_files v) = Some f"
    by (cases "find exact_dims (pv_video_files v)") (auto simp: find_None_iff list_ex_iff exact_hd_def)
  then have "exact_dims f" by (auto simp: find_Some_iff)
  with s f resp ne show ?thesis
    by (cases vs) (auto simp: searchVideo_pexels_def pexels_video_info_def exact_dims_def)
qed

theorem searchVideo_pexels_exact_witness:
  "pexels_video_api pexels_api_W ''undefined'' = Response True None (Some [video_W]) \<and>
   list_ex (\<lambda>v. list_ex exact_hd (pv_video_files v)) [video_W] \<and>
   (\<exists>m. searchVideo_pexels pexels_api_W ''undefined'' = Inr m \<and> mi_type m = ''video'' \<and>
        mi_width m = 1920 \<and> mi_height m = 1080)"
proof -
  have r: "pexels_video_api pexels_api_W ''undefined'' = Response True None (Some [video_W])"
    by (simp add: pexels_api_W_def)
  have e: "list_ex (\<lambda>v. list_ex exact_hd (pv_video_files v)) [video_W]"
    by (simp add: video_W_def hd_file_W_def exact_hd_def exact_dims_def)
  show ?thesis using searchVideo_pexels_exact [OF r e] r e by simp
qed

end
