(* ===== verification/ScriptController.thy ===== *)
theory ScriptController
  imports Pixabay Orchestrator
begin

text \<open>
  The request handler that composes the pipeline,
  \<open>generateScriptWithMedia\<close> in \<open>src/backend/controllers/script.controller.js\<close>: the
  script from the language model (an oracle returning the scenes), the media of each
  scene from \<open>PixabayController.processScenes\<close>, the narration of each scene from
  \<open>generateSceneAudio\<close> (gTTS, an oracle on the text and the output path), both awaited
  with \<open>Promise.all\<close>, the scenes handed to the renderer zipped by index
  (\<open>enhancedScenes\<close>), \<open>VideoGeneratorController.generateVideo\<close>, and on any error
  the removal of the \<open>temp\<close> directory. The files the downloads and gTTS write are
  outside the store of the model: the store passed in holds them. \<open>Promise.all\<close> is
  modelled by its outcome only (the first rejected narration is the error); the
  downloads that keep running after a rejection, and so may write into \<open>temp\<close>
  after its removal, are not modelled, and no lemma here states what the removal
  leaves behind.
\<close>

subsection \<open>Narration\<close>

text \<open>\<open>path.join(__dirname, '../temp')\<close> for the controller in \<open>src/backend/controllers\<close>.\<close>

definition audioTempDir :: path where
  "audioTempDir = ''src/backend/temp''"

record audio_file =
  af_path :: path
  af_sceneNumber :: nat
  af_type :: string

text \<open>\<open>generateSceneAudio(scene, sceneNumber)\<close>: \<open>gtts.save(outputPath, cb)\<close> rejects on an error.\<close>

definition generateSceneAudio :: "(string \<Rightarrow> path \<Rightarrow> bool) \<Rightarrow> script_scene \<Rightarrow> nat \<Rightarrow> audio_file res" where
  "generateSceneAudio tts_ok scene n =
     (let outputPath = path_join audioTempDir (''scene_'' @ nat_to_str n @ ''.mp3'')
      in if tts_ok (ss_text scene) outputPath
         then Inr \<lparr>af_path = outputPath, af_sceneNumber = n, af_type = ''audio/mp3''\<rparr>
         else Inl (SpeechFailed n))"

subsection \<open>Scenes for the renderer\<close>

text \<open>A scene whose media search and download succeed in \<open>processScenes\<close>.\<close>

definition media_found :: "pixabay_api \<Rightarrow> (string \<Rightarrow> bool) \<Rightarrow> script_scene \<Rightarrow> bool" where
  "media_found api fetch_ok sc =
     (case getMediaForScene_px api sc of Inl _ \<Rightarrow> False | Inr info \<Rightarrow> fetch_ok (mi_url info))"

definition media_desc_of :: "media_entry \<Rightarrow> media_desc" where
  "media_desc_of e = \<lparr>mtype = dl_type e, mpath = dl_path e, mduration = me_duration e\<rparr>"

definition audio_desc_of :: "audio_file \<Rightarrow> audio_desc" where
  "audio_desc_of a = \<lparr>apath = Some (af_path a), atype = af_type a, apaths = None\<rparr>"

text \<open>
  Step 4: \<open>scenes.map((scene, index) => ({...scene, media: mediaFiles[index] || null,
  audio: audioFiles[index] || null, sceneNumber: index + 1}))\<close>; the renderer reads
  \<open>sceneNumber\<close>, \<open>media\<close> and \<open>audio\<close>.
\<close>

definition enhancedScenes :: "script_scene list \<Rightarrow> media_entry list \<Rightarrow> audio_file list \<Rightarrow> scene list" where
  "enhancedScenes scenes mediaFiles audioFiles =
     map (\<lambda>(scene, index).
            \<lparr>sceneNumber = Suc index,
             media = (if index < length mediaFiles then Some (media_desc_of (mediaFiles ! index)) else None),
             audio = (if index < length audioFiles then Some (audio_desc_of (audioFiles ! index)) else None)\<rparr>)
         (zip scenes [0..<length scenes])"

subsection \<open>The handler\<close>

datatype script_response =
    BadRequest
  | ServerError error
  | ScriptOk "scene list" "media_entry list" "audio_file list" "rendered list"

text \<open>
  The catch block: \<open>fs.rmdir(path.join(process.cwd(), 'temp'), { recursive: true })\<close>.
  A failing removal (\<open>enc_fails env tempDir\<close>) is swallowed by \<open>.catch(console.warn)\<close>
  and leaves the store as it is.
\<close>

definition in_temp :: "path \<Rightarrow> bool" where
  "in_temp p \<longleftrightarrow> take (Suc (length tempDir)) p = tempDir @ ''/''"

definition remove_temp :: "enc_env \<Rightarrow> fs \<Rightarrow> fs" where
  "remove_temp env s =
     (if enc_fails env tempDir then s
      else s\<lparr>files := (\<lambda>p. if in_temp p then None else files s p)\<rparr>)"

definition generateScriptWithMedia ::
  "enc_env \<Rightarrow> pixabay_api \<Rightarrow> (string \<Rightarrow> bool) \<Rightarrow> (nat \<Rightarrow> nat) \<Rightarrow> (string \<Rightarrow> path \<Rightarrow> bool) \<Rightarrow>
   (string \<Rightarrow> script_scene list res) \<Rightarrow> string \<Rightarrow> fs \<Rightarrow> script_response \<times> fs" where
  "generateScriptWithMedia env api fetch_ok clock tts_ok generateScript prompt s =
     (if prompt = [] then (BadRequest, s)
      else case generateScript prompt of
        Inl e \<Rightarrow> (ServerError e, remove_temp env s)
      | Inr scenes \<Rightarrow>
          let mediaFiles = processScenes_px api fetch_ok clock scenes;
              audio = all_res (map (\<lambda>(scene, index). generateSceneAudio tts_ok scene (Suc index))
                                   (zip scenes [0..<length scenes]))
          in case audio of
               Inl e \<Rightarrow> (ServerError e, remove_temp env s)
             | Inr audioFiles \<Rightarrow>
                 let enhanced = enhancedScenes scenes mediaFiles audioFiles
                 in case generateVideo env enhanced s of
                      (Inl e, s') \<Rightarrow> (ServerError e, remove_temp env s')
                    | (Inr videoScenePath, s') \<Rightarrow> (ScriptOk enhanced mediaFiles audioFiles videoScenePath, s'))"


subsection \<open>An example script\<close>

definition scene_A :: script_scene where
  "scene_A = \<lparr>ss_sceneNumber = 1, ss_text = ''Welcome.'', ss_duration = None,
              ss_visualDescription = None, ss_mediaType = None, ss_searchKeywords = None\<rparr>"

subsection \<open>Lemmas\<close>

lemma nth_enhancedScenes:
  "i < length scenes \<Longrightarrow> enhancedScenes scenes mf af ! i =
     \<lparr>sceneNumber = Suc i,
      media = (if i < length mf then Some (media_desc_of (mf ! i)) else None),
      audio = (if i < length af then Some (audio_desc_of (af ! i)) else None)\<rparr>"
  by (simp add: enhancedScenes_def)

lemma processScenes_px_length:
  "length (processScenes_px api fetch_ok clock scenes) = length (filter (media_found api fetch_ok) scenes)"
  using arg_cong [OF processScenes_media_numbers [of "getMediaForScene_px api" fetch_ok clock 0 scenes], of length]
  by (simp add: processScenes_px_def media_found_def [abs_def])

lemma processScenes_px_nth_number:
  "i < length (processScenes_px api fetch_ok clock scenes) \<Longrightarrow>
   me_sceneNumber (processScenes_px api fetch_ok clock scenes ! i) = ss_sceneNumber (filter (media_found api fetch_ok) scenes ! i)"
proof -
  assume i: "i < length (processScenes_px api fetch_ok clock scenes)"
  then have l: "i < length (filter (media_found api fetch_ok) scenes)" by (simp add: processScenes_px_length)
  have "map me_sceneNumber (processScenes_px api fetch_ok clock scenes) =
        map ss_sceneNumber (filter (media_found api fetch_ok) scenes)"
    using processScenes_media_numbers [of "getMediaForScene_px api" fetch_ok clock 0 scenes]
    by (simp add: processScenes_px_def media_found_def [abs_def])
  from arg_cong [OF this, of "\<lambda>xs. xs ! i"] i l show ?thesis by simp
qed

lemma generateSearchQueries_px_number:
  "generateSearchQueries_px (sc\<lparr>ss_sceneNumber := n\<rparr>) = generateSearchQueries_px sc"
  by (simp add: generateSearchQueries_px_def split: option.split)

lemma getMediaForScene_px_number: "getMediaForScene_px api (sc\<lparr>ss_sceneNumber := n\<rparr>) = getMediaForScene_px api sc"
  by (simp add: getMediaForScene_px_def generateSearchQueries_px_number split: option.split)

lemma media_found_W: "\<not> media_found api_W fetch_ok scene_A" "media_found api_W (\<lambda>u. True) (scene_W\<lparr>ss_sceneNumber := 2\<rparr>)"
   apply (simp add: media_found_def scene_A_def getMediaForScene_px_def)
  by (simp add: media_found_def getMediaForScene_px_number getMedia_W)

subsection \<open>Properties\<close>

text \<open>
  C25. The scenes handed to the renderer pair the media list with the scenes by
  position: the \<open>i\<close>-th scene gets the \<open>i\<close>-th downloaded media, which belongs to
  the \<open>i\<close>-th scene whose search succeeded, and no media past the number of such
  scenes. A failed scene thus shifts the media of every later scene onto the scene
  before it.
\<close>

theorem enhancedScenes_media:
  assumes "i < length scenes"
  shows "media (enhancedScenes scenes (processScenes_px api fetch_ok clock scenes) af ! i) =
           (if i < length (filter (media_found api fetch_ok) scenes)
            then Some (media_desc_of (processScenes_px api fetch_ok clock scenes ! i)) else None) \<and>
         (i < length (filter (media_found api fetch_ok) scenes) \<longrightarrow>
            me_sceneNumber (processScenes_px api fetch_ok clock scenes ! i) =
            ss_sceneNumber (filter (media_found api fetch_ok) scenes ! i))"
  using assms by (simp add: nth_enhancedScenes processScenes_px_length processScenes_px_nth_number)

text \<open>At a script whose first scene has no visual description: rendered scene 1 gets scene 2's media.\<close>

theorem enhancedScenes_media_witness:
  "0 < length [scene_A, scene_W\<lparr>ss_sceneNumber := 2\<rparr>] \<and>
   media (enhancedScenes [scene_A, scene_W\<lparr>ss_sceneNumber := 2\<rparr>]
            (processScenes_px api_W (\<lambda>u. True) (\<lambda>i. 1000 + i) [scene_A, scene_W\<lparr>ss_sceneNumber := 2\<rparr>]) [] ! 0) =
     Some (media_desc_of (processScenes_px api_W (\<lambda>u. True) (\<lambda>i. 1000 + i) [scene_A, scene_W\<lparr>ss_sceneNumber := 2\<rparr>] ! 0)) \<and>
   me_sceneNumber (processScenes_px api_W (\<lambda>u. True) (\<lambda>i. 1000 + i) [scene_A, scene_W\<lparr>ss_sceneNumber := 2\<rparr>] ! 0) = 2"
  using enhancedScenes_media [of 0 "[scene_A, scene_W\<lparr>ss_sceneNumber := 2\<rparr>]" api_W "\<lambda>u. True" "\<lambda>i. 1000 + i" "[]"]
  by (simp add: media_found_W)

end
