(* ===== verification/VideoGenerate.thy ===== *)
theory VideoGenerate
  imports Prelude JsParse JsString Pexels
begin

text \<open>
  The script-driven generator \<open>VideoGenerator\<close> of
  \<open>src/backend/controllers/video-generate.controller.js\<close>: \<open>normalizePath\<close>, the
  line parser \<open>parseScriptSections\<close>, \<open>estimateDuration\<close> and \<open>processSection\<close>.
  The parser keeps its section objects in an explicit heap: \<open>sections.push(currentSection)\<close>
  stores a reference, so the same object can be pushed twice and mutated after a push.
\<close>

subsection \<open>Strings\<close>

text \<open>\<open>pathStr.replace(/\\/g, '/')\<close>.\<close>

definition normalizePath :: "string \<Rightarrow> string" where
  "normalizePath p = map (\<lambda>c. if c = CHR 0x5C then CHR ''/'' else c) p"

text \<open>\<open>s.replace(pattern, rep)\<close> with a string pattern: the first occurrence only.\<close>

fun replace_first :: "string \<Rightarrow> string \<Rightarrow> string \<Rightarrow> string" where
  "replace_first pat rep [] = (if pat = [] then rep else [])"
| "replace_first pat rep (c # cs) =
     (if take (length pat) (c # cs) = pat then rep @ drop (length pat) (c # cs)
      else c # replace_first pat rep cs)"

text \<open>The characters \<open>.\<close> does not match (the ASCII line terminators).\<close>

definition line_term :: "char \<Rightarrow> bool" where
  "line_term c \<longleftrightarrow> c = CHR 0x0A \<or> c = CHR 0x0D"

text \<open>
  \<open>line.match(/\*\*(.*?)\*\*:?(.*)/)\<close>: \<open>header_close\<close> extends the lazy group until the
  closing \<open>**\<close>; \<open>header_at\<close> is a match starting at the head of the string; \<open>header_match\<close>
  the leftmost match, as \<open>(type, description)\<close>.
\<close>

fun header_close :: "string \<Rightarrow> string \<Rightarrow> (string \<times> string) option" where
  "header_close acc [] = None"
| "header_close acc (c # cs) =
     (if take 2 (c # cs) = ''**'' then Some (rev acc, drop 2 (c # cs))
      else if line_term c then None else header_close (c # acc) cs)"

definition header_at :: "string \<Rightarrow> (string \<times> string) option" where
  "header_at s =
     (if take 2 s = ''**'' then
        (case header_close [] (drop 2 s) of
           None \<Rightarrow> None
         | Some (ty, rest) \<Rightarrow>
             Some (ty, takeWhile (\<lambda>c. \<not> line_term c)
                         (if rest \<noteq> [] \<and> hd rest = CHR '':'' then tl rest else rest)))
      else None)"

fun header_match :: "string \<Rightarrow> (string \<times> string) option" where
  "header_match [] = None"
| "header_match (c # cs) = (case header_at (c # cs) of Some r \<Rightarrow> Some r | None \<Rightarrow> header_match cs)"

subsection \<open>The section parser\<close>

record sec_obj =
  sec_type :: string
  sec_content :: string
  sec_duration :: nat

text \<open>The heap of section objects, the array \<open>sections\<close> of references and \<open>currentSection\<close>.\<close>

record parse_state =
  heap :: "sec_obj list"
  sections :: "nat list"
  current :: "nat option"

definition parse_init :: parse_state where
  "parse_init = \<lparr>heap = [], sections = [], current = None\<rparr>"

text \<open>\<open>currentSection.content = currentSection.content.trim(); sections.push(currentSection)\<close>.\<close>

definition push_current :: "parse_state \<Rightarrow> parse_state" where
  "push_current st =
     (case current st of
        None \<Rightarrow> st
      | Some r \<Rightarrow> st\<lparr>heap := (heap st)[r := (heap st ! r)\<lparr>sec_content := js_trim (sec_content (heap st ! r))\<rparr>],
                    sections := sections st @ [r]\<rparr>)"

text \<open>One iteration of \<open>for (let line of lines)\<close>.\<close>

definition parse_line :: "parse_state \<Rightarrow> string \<Rightarrow> parse_state" where
  "parse_line st line =
     (if take 2 line = ''**'' then
        (let st1 = push_current st
         in case header_match line of
              None \<Rightarrow> st1
            | Some (ty, description) \<Rightarrow>
                st1\<lparr>heap := heap st1 @ [\<lparr>sec_type = to_lower ty, sec_content = js_trim description, sec_duration = 0\<rparr>],
                    current := Some (length (heap st1))\<rparr>)
      else
        (case current st of
           Some r \<Rightarrow>
             if js_trim line \<noteq> [] then
               st\<lparr>heap := (heap st)[r := (heap st ! r)\<lparr>sec_content := sec_content (heap st ! r) @ '' '' @ js_trim line\<rparr>]\<rparr>
             else st
         | None \<Rightarrow> st))"

text \<open>\<open>estimateDuration(content)\<close>: \<open>Math.ceil((content.split(' ').length / 150) * 60)\<close>.\<close>

definition estimateDuration :: "string \<Rightarrow> nat" where
  "estimateDuration content =
     nat \<lceil>real (length (split_on (\<lambda>c. c = CHR '' '') content)) / 150 * 60\<rceil>"

definition set_duration :: "parse_state \<Rightarrow> nat \<Rightarrow> parse_state" where
  "set_duration st r =
     st\<lparr>heap := (heap st)[r := (heap st ! r)\<lparr>sec_duration := estimateDuration (sec_content (heap st ! r))\<rparr>]\<rparr>"

definition script_lines :: "string \<Rightarrow> string list" where
  "script_lines script = split_on (\<lambda>c. c = CHR 0x0A) (js_trim (replace_first ''[SCENE START]'' [] script))"

definition parseScriptSections :: "string \<Rightarrow> sec_obj list" where
  "parseScriptSections script =
     (let st = push_current (foldl parse_line parse_init (script_lines script));
          st' = foldl set_duration st (sections st)
      in map (\<lambda>r. heap st' ! r) (sections st'))"


subsection \<open>Media of a section\<close>

record gen_media =
  gm_type :: string
  gm_path :: path
  gm_duration :: nat

text \<open>\<open>video.video_files.find(f => f.quality === 'sd' && f.width >= 720 && f.height >= 480)\<close>.\<close>

definition sd_file :: "pexels_vfile \<Rightarrow> bool" where
  "sd_file f \<longleftrightarrow> pf_quality f = ''sd'' \<and> 720 \<le> pf_width f \<and> 480 \<le> pf_height f"

text \<open>
  One download of \<open>processSection\<close>: the file
  \<open>temp/<kind>_<Date.now()>_<random>.<ext>\<close>, whose stamp is \<open>stamp k\<close> for the
  \<open>k\<close>-th download of the section; \<open>downloadFile\<close> rejects only when \<open>fetch\<close> does
  (the status of the response is not checked).
\<close>

definition section_download ::
  "(string \<Rightarrow> bool) \<Rightarrow> (nat \<Rightarrow> string) \<Rightarrow> nat \<Rightarrow> string \<Rightarrow> string \<Rightarrow> string \<Rightarrow> string \<Rightarrow> nat \<Rightarrow> gen_media res" where
  "section_download fetch_ok stamp k prefix ext url ty d =
     (let filePath = normalizePath (path_join tempDir (prefix @ ''_'' @ stamp k @ ''.'' @ ext))
      in if fetch_ok url then Inr \<lparr>gm_type = ty, gm_path = filePath, gm_duration = d\<rparr>
         else Inl (FetchFailed url))"

text \<open>
  \<open>processSection(section)\<close>: both searches for \<open>section.type\<close> (\<open>getPexelsMedia\<close>, two
  results each, the query not URL-encoded), a download per photo, then one per video
  that has an SD file of at least \<open>720x480\<close>, each lasting
  \<open>Math.ceil(section.duration / 2)\<close>; the first failing download rejects the section.
\<close>

definition processSection ::
  "pexels_api \<Rightarrow> (string \<Rightarrow> bool) \<Rightarrow> (nat \<Rightarrow> string) \<Rightarrow> sec_obj \<Rightarrow> gen_media list res" where
  "processSection api fetch_ok stamp section =
     (let searchQuery = sec_type section
      in case pexels_photo_api api searchQuery of
           NetworkError \<Rightarrow> Inl (FetchFailed searchQuery)
         | Response ok1 ct1 ps \<Rightarrow>
             (case pexels_video_api api searchQuery of
                NetworkError \<Rightarrow> Inl (FetchFailed searchQuery)
              | Response ok2 ct2 vs \<Rightarrow>
                  let photos = (case ps of None \<Rightarrow> [] | Some l \<Rightarrow> l);
                      videos = (case vs of None \<Rightarrow> [] | Some l \<Rightarrow> l);
                      d = nat \<lceil>real (sec_duration section) / 2\<rceil>;
                      videoFiles = somes (map (\<lambda>v. find sd_file (pv_video_files v)) videos)
                  in if photos = [] \<and> videos = [] then Inl (NoHits searchQuery)
                     else bindE (all_res (map (\<lambda>(photo, k). section_download fetch_ok stamp k ''photo'' ''jpg''
                                                              (pp_src_original photo) ''image'' d)
                                              (zip photos [0..<length photos])))
                            (\<lambda>imgs. bindE (all_res (map (\<lambda>(f, k). section_download fetch_ok stamp (length photos + k)
                                                                       ''video'' ''mp4'' (pf_link f) ''video'' d)
                                                          (zip videoFiles [0..<length videoFiles])))
                                     (\<lambda>vids. Inr (imgs @ vids)))))"


subsection \<open>Well-formed parser states\<close>

text \<open>
  \<open>parse_wf\<close>: every reference in \<open>sections\<close> and \<open>currentSection\<close> names an
  object of the heap. \<open>parse_canon\<close>: the state the parser reaches while every header
  line matches, one object per header and each pushed once.
\<close>

definition parse_wf :: "parse_state \<Rightarrow> bool" where
  "parse_wf st \<longleftrightarrow> list_all (\<lambda>r. r < length (heap st)) (sections st) \<and>
                   (case current st of None \<Rightarrow> True | Some r \<Rightarrow> r < length (heap st))"

definition parse_canon :: "parse_state \<Rightarrow> bool" where
  "parse_canon st \<longleftrightarrow>
     (case current st of
        None \<Rightarrow> heap st = [] \<and> sections st = []
      | Some r \<Rightarrow> Suc r = length (heap st) \<and> sections st = [0..<r])"

subsection \<open>Example scripts and responses\<close>

definition script_ok_W :: string where
  "script_ok_W = ''**Intro**: Hello'' @ [CHR 0x0A] @ ''body'' @ [CHR 0x0A] @ ''**Main**'' @ [CHR 0x0A] @ ''x''"

definition script_broken_W :: string where
  "script_broken_W = ''**Intro** Hello'' @ [CHR 0x0A] @ ''**broken'' @ [CHR 0x0A] @ ''more text''"

definition photo_P :: pexels_photo where
  "photo_P = \<lparr>pp_width = 1920, pp_height = 1080, pp_src_original = ''https://pexels/p1.jpg'',
              pp_photographer = ''cy'', pp_url = ''https://pexels/p1''\<rparr>"

definition sd_video_P :: pexels_video where
  "sd_video_P = \<lparr>pv_video_files = [\<lparr>pf_width = 960, pf_height = 540, pf_quality = ''sd'', pf_link = ''https://pexels/v2_sd.mp4''\<rparr>],
                 pv_duration = 8, pv_user_name = ''di'', pv_url = ''https://pexels/v2''\<rparr>"

definition section_api_W :: pexels_api where
  "section_api_W = \<lparr>pexels_photo_api = (\<lambda>q. Response True None (Some [photo_P])),
                    pexels_video_api = (\<lambda>q. Response True None (Some [sd_video_P]))\<rparr>"

definition section_W :: sec_obj where
  "section_W = \<lparr>sec_type = ''intro'', sec_content = ''Hello there'', sec_duration = 5\<rparr>"

subsection \<open>Lemmas\<close>

lemma push_current_wf: "parse_wf st \<Longrightarrow> parse_wf (push_current st)"
  by (auto simp: parse_wf_def push_current_def split: option.splits)

lemma length_heap_push_current [simp]: "length (heap (push_current st)) = length (heap st)"
  by (simp add: push_current_def split: option.split)

lemma parse_line_wf: "parse_wf st \<Longrightarrow> parse_wf (parse_line st l)"
  using push_current_wf [of st]
  by (auto simp: parse_line_def Let_def parse_wf_def list_all_iff split: option.splits)

lemma foldl_parse_line_wf: "parse_wf st \<Longrightarrow> parse_wf (foldl parse_line st ls)"
  by (induction ls arbitrary: st) (simp_all add: parse_line_wf)

lemma parse_init_wf: "parse_wf parse_init"
  by (simp add: parse_wf_def parse_init_def)

lemma set_duration_wf: "parse_wf st \<Longrightarrow> parse_wf (set_duration st r)"
  by (auto simp: parse_wf_def set_duration_def split: option.splits)

lemma final_state_wf: "parse_wf (push_current (foldl parse_line parse_init (script_lines script)))"
  by (rule push_current_wf [OF foldl_parse_line_wf [OF parse_init_wf]])

lemma set_duration_simps [simp]:
  "length (heap (set_duration st r)) = length (heap st)"
  "sections (set_duration st r) = sections st"
  by (simp_all add: set_duration_def)

lemma set_duration_content [simp]:
  "sec_content (heap (set_duration st r) ! r') = sec_content (heap st ! r')"
  by (cases "r < length (heap st)") (auto simp: set_duration_def nth_list_update list_update_beyond)

lemma set_duration_self:
  "r < length (heap st) \<Longrightarrow> sec_duration (heap (set_duration st r) ! r) = estimateDuration (sec_content (heap st ! r))"
  by (simp add: set_duration_def)

lemma foldl_set_duration_simps [simp]:
  "length (heap (foldl set_duration st rs)) = length (heap st)"
  "sections (foldl set_duration st rs) = sections st"
  by (induction rs arbitrary: st) simp_all

lemma foldl_set_duration_content:
  "sec_content (heap (foldl set_duration st rs) ! r) = sec_content (heap st ! r)"
  by (induction rs arbitrary: st) simp_all

lemma foldl_set_duration_other:
  "r \<notin> set rs \<Longrightarrow> heap (foldl set_duration st rs) ! r = heap st ! r"
  by (induction rs arbitrary: st) (simp_all add: set_duration_def)

lemma foldl_set_duration_dur:
  "r \<in> set rs \<Longrightarrow> r < length (heap st) \<Longrightarrow>
   sec_duration (heap (foldl set_duration st rs) ! r) = estimateDuration (sec_content (heap st ! r))"
proof (induction rs arbitrary: st)
  case (Cons r' rs)
  show ?case
  proof (cases "r \<in> set rs")
    case True
    with Cons show ?thesis by simp
  next
    case False
    with Cons.prems have "r = r'" by simp
    have "heap (foldl set_duration (set_duration st r) rs) ! r = heap (set_duration st r) ! r"
      using False by (rule foldl_set_duration_other)
    with \<open>r = r'\<close> Cons.prems show ?thesis by (simp add: set_duration_self)
  qed
qed simp

lemma estimateDuration_pos: "1 \<le> estimateDuration c"
proof -
  have "1 \<le> length (split_on (\<lambda>c. c = CHR '' '') c)"
    using split_on_ne by (metis One_nat_def Suc_leI length_greater_0_conv)
  then have "0 < real (length (split_on (\<lambda>c. c = CHR '' '') c)) / 150 * 60" by simp
  then have "1 \<le> \<lceil>real (length (split_on (\<lambda>c. c = CHR '' '') c)) / 150 * 60\<rceil>"
    by (simp add: le_ceiling_iff)
  then show ?thesis unfolding estimateDuration_def by linarith
qed

lemma parse_line_nonheader:
  "take 2 l \<noteq> ''**'' \<Longrightarrow>
   sections (parse_line st l) = sections st \<and> current (parse_line st l) = current st \<and>
   length (heap (parse_line st l)) = length (heap st)"
  by (simp add: parse_line_def split: option.split)

lemma foldl_parse_line_nonheader:
  "list_all (\<lambda>l. take 2 l \<noteq> ''**'') ls \<Longrightarrow>
   sections (foldl parse_line st ls) = sections st \<and> current (foldl parse_line st ls) = current st \<and>
   length (heap (foldl parse_line st ls)) = length (heap st)"
  by (induction ls arbitrary: st) (simp_all add: parse_line_nonheader)

lemma parse_line_canon:
  assumes c: "parse_canon st" and m: "take 2 l = ''**'' \<longrightarrow> header_match l \<noteq> None"
  shows "parse_canon (parse_line st l) \<and>
         length (heap (parse_line st l)) = length (heap st) + (if take 2 l = ''**'' then 1 else 0)"
proof (cases "take 2 l = ''**''")
  case True
  with m obtain ty d where h: "header_match l = Some (ty, d)" by auto
  show ?thesis
  proof (cases "current st")
    case None
    with c True h show ?thesis by (simp add: parse_canon_def parse_line_def push_current_def)
  next
    case (Some r)
    with c have "length (heap st) = Suc r" by (simp add: parse_canon_def)
    with c Some True h show ?thesis by (simp add: parse_canon_def parse_line_def push_current_def)
  qed
next
  case False
  with c show ?thesis using parse_line_nonheader [OF False, of st]
    by (auto simp: parse_canon_def split: option.splits)
qed

lemma foldl_parse_line_canon:
  "parse_canon st \<Longrightarrow> list_all (\<lambda>l. take 2 l = ''**'' \<longrightarrow> header_match l \<noteq> None) ls \<Longrightarrow>
   parse_canon (foldl parse_line st ls) \<and>
   length (heap (foldl parse_line st ls)) = length (heap st) + length (filter (\<lambda>l. take 2 l = ''**'') ls)"
proof (induction ls arbitrary: st)
  case (Cons l ls)
  from parse_line_canon [of st l] Cons.prems have "parse_canon (parse_line st l)"
    and "length (heap (parse_line st l)) = length (heap st) + (if take 2 l = ''**'' then 1 else 0)" by auto
  with Cons.IH [of "parse_line st l"] Cons.prems show ?case by simp
qed simp

lemma push_current_canon:
  "parse_canon st \<Longrightarrow> sections (push_current st) = [0..<length (heap st)]"
  by (auto simp: parse_canon_def push_current_def split: option.splits dest: sym)

lemma all_res_length: "all_res xs = Inr ys \<Longrightarrow> length ys = length xs"
  by (simp del: all_res_eq_Inr add: all_res_eq_Inr [THEN iffD1, THEN arg_cong [where f = length], simplified])

lemma section_download_Inr: "section_download fetch_ok stamp k prefix ext url ty d = Inr m \<Longrightarrow> gm_duration m = d"
  by (auto simp: section_download_def Let_def split: if_splits)

lemma all_res_downloads:
  "all_res (map f xs) = Inr ys \<Longrightarrow> (\<And>x m. f x = Inr m \<Longrightarrow> gm_duration m = d) \<Longrightarrow>
   length ys = length xs \<and> list_all (\<lambda>m. gm_duration m = d) ys"
proof (induction xs arbitrary: ys)
  case (Cons x xs)
  then show ?case by (cases "f x") auto
qed simp

subsection \<open>Properties\<close>

text \<open>
  C28. Every section \<open>parseScriptSections\<close> returns carries the estimate of its own
  content as its duration, and that estimate is at least one second, even for an empty
  section.
\<close>

theorem parseScriptSections_durations:
  "list_all (\<lambda>x. sec_duration x = estimateDuration (sec_content x) \<and> 1 \<le> sec_duration x)
     (parseScriptSections script)"
proof -
  let ?st = "push_current (foldl parse_line parse_init (script_lines script))"
  have wf: "parse_wf ?st" by (rule final_state_wf)
  have "r < length (heap ?st)" if "r \<in> set (sections ?st)" for r
    using wf that by (simp add: parse_wf_def list_all_iff del: length_heap_push_current)
  then show ?thesis
    unfolding parseScriptSections_def Let_def list_all_iff
    by (auto simp: foldl_set_duration_dur foldl_set_duration_content estimateDuration_pos [simplified]
             simp del: length_heap_push_current)
qed

text \<open>
  C29. When every line starting with \<open>**\<close> is a well-formed header, the parser
  returns one section per header line.
\<close>

theorem parseScriptSections_count:
  assumes "list_all (\<lambda>l. take 2 l = ''**'' \<longrightarrow> header_match l \<noteq> None) (script_lines s)"
  shows "length (parseScriptSections s) = length (filter (\<lambda>l. take 2 l = ''**'') (script_lines s))"
proof -
  have "parse_canon parse_init" by (simp add: parse_canon_def parse_init_def)
  from foldl_parse_line_canon [OF this assms]
  have "sections (push_current (foldl parse_line parse_init (script_lines s))) =
          [0..<length (filter (\<lambda>l. take 2 l = ''**'') (script_lines s))]"
    by (simp add: push_current_canon parse_init_def)
  then show ?thesis by (simp add: parseScriptSections_def Let_def)
qed

theorem parseScriptSections_count_witness:
  "list_all (\<lambda>l. take 2 l = ''**'' \<longrightarrow> header_match l \<noteq> None) (script_lines script_ok_W) \<and>
   length (parseScriptSections script_ok_W) = length (filter (\<lambda>l. take 2 l = ''**'') (script_lines script_ok_W)) \<and>
   length (parseScriptSections script_ok_W) = 2"
proof -
  have l: "script_lines script_ok_W = [''**Intro**: Hello'', ''body'', ''**Main**'', ''x'']"
    unfolding script_ok_W_def by code_simp
  have m: "list_all (\<lambda>l. take 2 l = ''**'' \<longrightarrow> header_match l \<noteq> None) (script_lines script_ok_W)"
    unfolding l by code_simp
  show ?thesis using parseScriptSections_count [OF m] m l by simp
qed

text \<open>
  C30. A line starting with \<open>**\<close> that has no closing \<open>**\<close> pushes the current section
  again without starting a new one: the same object appears twice in the result, and the
  lines after it are appended to both entries.
\<close>

theorem broken_header_duplicates:
  assumes lines: "script_lines s = h # b # rest"
    and hh: "take 2 h = ''**''" "header_match h = Some (ty, d)"
    and bh: "take 2 b = ''**''" "header_match b = None"
    and rest: "list_all (\<lambda>l. take 2 l \<noteq> ''**'') rest"
  shows "\<exists>x. parseScriptSections s = [x, x]"
proof -
  let ?st2 = "parse_line (parse_line parse_init h) b"
  have s2: "sections ?st2 = [0]" "current ?st2 = Some 0"
    using hh bh by (simp_all add: parse_line_def parse_init_def push_current_def)
  let ?st3 = "foldl parse_line ?st2 rest"
  have s3: "sections ?st3 = [0]" "current ?st3 = Some 0"
    using foldl_parse_line_nonheader [OF rest, of ?st2] s2 by simp_all
  then have "sections (push_current ?st3) = [0, 0]" by (simp add: push_current_def)
  then show ?thesis using lines by (simp add: parseScriptSections_def Let_def)
qed

theorem broken_header_duplicates_witness:
  "script_lines script_broken_W = [''**Intro** Hello'', ''**broken'', ''more text''] \<and>
   header_match ''**Intro** Hello'' = Some (''Intro'', '' Hello'') \<and> header_match ''**broken'' = None \<and>
   (\<exists>x. parseScriptSections script_broken_W = [x, x])"
proof -
  have l: "script_lines script_broken_W = [''**Intro** Hello'', ''**broken'', ''more text'']"
    unfolding script_broken_W_def by code_simp
  have h: "header_match ''**Intro** Hello'' = Some (''Intro'', '' Hello'')" by code_simp
  have b: "header_match ''**broken'' = None" by code_simp
  have "\<exists>x. parseScriptSections script_broken_W = [x, x]"
    by (rule broken_header_duplicates [OF l _ h _ b]) simp_all
  with l h b show ?thesis by simp
qed



end
