(* ===== verification/ScriptParse.thy ===== *)
theory ScriptParse
  imports ScriptWizard VideoGenerate
begin

text \<open>
  The scene parser of \<open>ScriptWizard\<close>
  (\<open>src/backend/controllers/scriptWizard.controller.js\<close>): \<open>parseScenes\<close>, a
  \<open>while ((match = sceneRegex.exec(scriptText)) !== null)\<close> loop over the global regular
  expression
  \<open>/\*\*Scene \d+:\*\*\s*\[(.*?)\]\s*MEDIA_TYPE:\s*(video|image)([\s\S]*?)(?=\*\*Scene \d+:\*\*|$)/g\<close>,
  with \<open>_cleanSceneText\<close> and \<open>formatScript\<close>. Each regular expression is a scanner
  written out from its backtracking semantics on ASCII text; the loop is a
  \<open>partial_function\<close> in the option monad, \<open>None\<close> being a loop that never ends.
\<close>

subsection \<open>The scene regular expression\<close>

text \<open>\<open>\*\*Scene \d+:\*\*\<close> at the head of the string: the text after it.\<close>

definition scene_hdr :: "string \<Rightarrow> string option" where
  "scene_hdr t =
     (if take 8 t = ''**Scene '' then
        (let ds = takeWhile is_digit (drop 8 t)
         in if ds \<noteq> [] \<and> take 3 (drop (8 + length ds) t) = '':**'' then Some (drop (11 + length ds) t) else None)
      else None)"

text \<open>\<open>([\s\S]*?)(?=\*\*Scene \d+:\*\*|$)\<close>: the shortest prefix followed by a scene header or the end.\<close>

fun lazy_until :: "string \<Rightarrow> string \<Rightarrow> string \<times> string" where
  "lazy_until acc [] = (rev acc, [])"
| "lazy_until acc (c # cs) =
     (if scene_hdr (c # cs) \<noteq> None then (rev acc, c # cs) else lazy_until (c # acc) cs)"

text \<open>\<open>\]\s*MEDIA_TYPE:\s*(video|image)([\s\S]*?)(?=...)\<close> after a closing bracket.\<close>

definition after_bracket :: "string \<Rightarrow> (string \<times> string \<times> string) option" where
  "after_bracket cs =
     (let r = dropWhile js_ws cs
      in if take 11 r = ''MEDIA_TYPE:'' then
           (let r' = dropWhile js_ws (drop 11 r)
            in if take 5 r' = ''video'' \<or> take 5 r' = ''image''
               then (let (g3, rest) = lazy_until [] (drop 5 r') in Some (take 5 r', g3, rest))
               else None)
         else None)"

text \<open>\<open>(.*?)\]\<close>: each closing bracket before a line terminator, shortest first.\<close>

fun bracket_alts :: "string \<Rightarrow> string \<Rightarrow> (string \<times> string \<times> string \<times> string) option" where
  "bracket_alts acc [] = None"
| "bracket_alts acc (c # cs) =
     (if c = CHR '']'' then
        (case after_bracket cs of
           Some (g2, g3, rest) \<Rightarrow> Some (rev acc, g2, g3, rest)
         | None \<Rightarrow> bracket_alts (c # acc) cs)
      else if line_term c then None
      else bracket_alts (c # acc) cs)"

text \<open>A match starting at the head of the string: the three groups and the text after the match.\<close>

definition scene_match_at :: "string \<Rightarrow> (string \<times> string \<times> string \<times> string) option" where
  "scene_match_at t =
     (case scene_hdr t of
        None \<Rightarrow> None
      | Some r1 \<Rightarrow>
          (case dropWhile js_ws r1 of
             c # r3 \<Rightarrow> if c = CHR ''['' then bracket_alts [] r3 else None
           | [] \<Rightarrow> None))"

text \<open>\<open>sceneRegex.exec(s)\<close> from \<open>lastIndex\<close>: the leftmost match at or after it.\<close>

fun exec_from :: "nat \<Rightarrow> string \<Rightarrow> (nat \<times> string \<times> string \<times> string \<times> string) option" where
  "exec_from j [] = None"
| "exec_from j (c # cs) =
     (case scene_match_at (c # cs) of
        Some (g1, g2, g3, rest) \<Rightarrow> Some (j, g1, g2, g3, rest)
      | None \<Rightarrow> exec_from (Suc j) cs)"

subsection \<open>Cleaning the text of a scene\<close>

text \<open>
  \<open>.replace(/\[.*?\]/g, '')\<close>: \<open>pending\<close> holds, reversed, an opening bracket and what
  followed it; a closing bracket drops it, a line terminator or the end of the text puts
  it back.
\<close>

fun rm_brackets :: "string option \<Rightarrow> string \<Rightarrow> string" where
  "rm_brackets None [] = []"
| "rm_brackets (Some p) [] = rev p"
| "rm_brackets None (c # cs) = (if c = CHR ''['' then rm_brackets (Some [c]) cs else c # rm_brackets None cs)"
| "rm_brackets (Some p) (c # cs) =
     (if c = CHR '']'' then rm_brackets None cs
      else if line_term c then rev p @ c # rm_brackets None cs
      else rm_brackets (Some (c # p)) cs)"

text \<open>\<open>Narrator\s*\([^)]*\):\<close> at the head of the string: the text after it.\<close>

definition narrator_paren :: "string \<Rightarrow> string option" where
  "narrator_paren t =
     (if take 8 t = ''Narrator'' then
        (case dropWhile js_ws (drop 8 t) of
           c # r \<Rightarrow>
             if c = CHR ''('' then
               (case dropWhile (\<lambda>x. x \<noteq> CHR '')'') r of
                  _ # x # rest \<Rightarrow> if x = CHR '':'' then Some rest else None
                | _ \<Rightarrow> None)
             else None
         | [] \<Rightarrow> None)
      else None)"

text \<open>A literal at the head of the string.\<close>

definition lit_at :: "string \<Rightarrow> string \<Rightarrow> string option" where
  "lit_at pat t = (if pat \<noteq> [] \<and> take (length pat) t = pat then Some (drop (length pat) t) else None)"

text \<open>
  \<open>s.replace(re, '')\<close> for a global expression that never matches the empty string:
  \<open>m\<close> gives the text after a match at the head.
\<close>

function (sequential) rm_all :: "(string \<Rightarrow> string option) \<Rightarrow> string \<Rightarrow> string" where
  "rm_all m [] = []"
| "rm_all m (c # cs) =
     (case m (c # cs) of
        Some rest \<Rightarrow> if length rest < length (c # cs) then rm_all m rest else c # rm_all m cs
      | None \<Rightarrow> c # rm_all m cs)"
  by pat_completeness auto
termination
  by (relation "measure (\<lambda>(m, s). length s)") auto

text \<open>
  \<open>.replace(/^\s*\*\s/gm, '')\<close>: \<open>bullet_at\<close> a match at the head (\<open>\s*\<close> is greedy and
  may cross lines), with its last character; \<open>at_start\<close> tells whether the position
  follows a line terminator of the text.
\<close>

definition bullet_at :: "string \<Rightarrow> (string \<times> char) option" where
  "bullet_at t =
     (case dropWhile js_ws t of
        c # d # rest \<Rightarrow> if c = CHR ''*'' \<and> js_ws d then Some (rest, d) else None
      | _ \<Rightarrow> None)"

function (sequential) rm_bullets :: "bool \<Rightarrow> string \<Rightarrow> string" where
  "rm_bullets at_start [] = []"
| "rm_bullets at_start (c # cs) =
     (case (if at_start then bullet_at (c # cs) else None) of
        Some (rest, d) \<Rightarrow>
          if length rest < length (c # cs) then rm_bullets (line_term d) rest
          else c # rm_bullets (line_term c) cs
      | None \<Rightarrow> c # rm_bullets (line_term c) cs)"
  by pat_completeness auto
termination
  by (relation "measure (\<lambda>(b, s). length s)") auto

text \<open>\<open>.replace(/\s+/g, ' ')\<close>.\<close>

function (sequential) collapse_ws :: "string \<Rightarrow> string" where
  "collapse_ws [] = []"
| "collapse_ws (c # cs) =
     (if js_ws c then CHR '' '' # collapse_ws (dropWhile js_ws cs) else c # collapse_ws cs)"
  by pat_completeness auto
termination
  by (relation "measure length") (auto simp: le_imp_less_Suc length_dropWhile_le)

definition cleanSceneText :: "string \<Rightarrow> string" where
  "cleanSceneText sceneContent =
     js_trim (collapse_ws (rm_bullets True
       (rm_all (lit_at ''[Pause]'') (rm_all (lit_at ''Narrator:'') (rm_all narrator_paren
         (rm_brackets None sceneContent))))))"

subsection \<open>The parse loop\<close>

text \<open>The scene object \<open>parseScenes\<close> pushes for a match with a non-empty cleaned text.\<close>

definition parsed_scene :: "nat \<Rightarrow> string \<Rightarrow> string \<Rightarrow> string \<Rightarrow> script_scene" where
  "parsed_scene n visualDescription mediaType cleanText =
     \<lparr>ss_sceneNumber = n, ss_text = cleanText, ss_duration = Some (analyzeTimings cleanText),
      ss_visualDescription = Some visualDescription, ss_mediaType = Some mediaType,
      ss_searchKeywords = Some (extractSearchKeywords visualDescription)\<rparr>"

text \<open>
  One iteration per match; \<open>lastIndex\<close> becomes the end of the match, and
  \<open>exec\<close> returning \<open>null\<close> ends the loop.
\<close>

partial_function (option) parse_loop :: "string \<Rightarrow> nat \<Rightarrow> script_scene list \<Rightarrow> script_scene list option" where
  "parse_loop scriptText lastIndex scenes =
     (case exec_from lastIndex (drop lastIndex scriptText) of
        None \<Rightarrow> Some scenes
      | Some (j, g1, g2, g3, rest) \<Rightarrow>
          (let cleanText = cleanSceneText g3;
               scenes' = (if cleanText \<noteq> []
                          then scenes @ [parsed_scene (Suc (length scenes)) (js_trim g1) (js_trim g2) cleanText]
                          else scenes)
           in parse_loop scriptText (length scriptText - length rest) scenes'))"

declare parse_loop.simps [code]

definition parseScenes :: "string \<Rightarrow> script_scene list option" where
  "parseScenes scriptText = parse_loop scriptText 0 []"

subsection \<open>Formatting\<close>

text \<open>\<open>.replace(/\n{3,}/g, '\n\n')\<close>.\<close>

function (sequential) collapse_newlines :: "string \<Rightarrow> string" where
  "collapse_newlines [] = []"
| "collapse_newlines (c # cs) =
     (if c = CHR 0x0A \<and> take 2 cs = [CHR 0x0A, CHR 0x0A]
      then [CHR 0x0A, CHR 0x0A] @ collapse_newlines (dropWhile (\<lambda>x. x = CHR 0x0A) cs)
      else c # collapse_newlines cs)"
  by pat_completeness auto
termination
  by (relation "measure length") (auto simp: le_imp_less_Suc length_dropWhile_le)

text \<open>\<open>.replace(/([^\n])\*\*Scene/g, '$1\n\n**Scene')\<close>.\<close>

function (sequential) break_scenes :: "string \<Rightarrow> string" where
  "break_scenes [] = []"
| "break_scenes (c # cs) =
     (if c \<noteq> CHR 0x0A \<and> take 7 cs = ''**Scene''
      then c # [CHR 0x0A, CHR 0x0A] @ ''**Scene'' @ break_scenes (drop 7 cs)
      else c # break_scenes cs)"
  by pat_completeness auto
termination
  by (relation "measure length") auto

definition formatScript :: "string \<Rightarrow> string" where
  "formatScript scriptText = js_trim (break_scenes (collapse_newlines scriptText))"


subsection \<open>Well-typed scenes\<close>

text \<open>
  The shape of a scene object \<open>parseScenes\<close> promises its callers (the media
  controllers read \<open>visualDescription\<close>, \<open>mediaType\<close>, \<open>duration.estimatedDuration\<close>
  and \<open>searchKeywords\<close>): a non-empty text with its own timing, a media type of
  \<open>video\<close> or \<open>image\<close>, and the keywords of its description.
\<close>

definition scene_typed :: "script_scene \<Rightarrow> bool" where
  "scene_typed sc \<longleftrightarrow>
     ss_text sc \<noteq> [] \<and> ss_duration sc = Some (analyzeTimings (ss_text sc)) \<and>
     (ss_mediaType sc = Some ''video'' \<or> ss_mediaType sc = Some ''image'') \<and>
     (case ss_visualDescription sc of None \<Rightarrow> False
      | Some d \<Rightarrow> ss_searchKeywords sc = Some (extractSearchKeywords d))"

subsection \<open>An example script\<close>

definition script_W :: string where
  "script_W = ''**Scene 1:** [A red car on a road] MEDIA_TYPE: video'' @ [CHR 0x0A] @
     ''Narrator (calm): Cars are fast. [Pause]'' @ [CHR 0x0A] @
     ''**Scene 2:** [Sunset] MEDIA_TYPE: image'' @ [CHR 0x0A] @ ''* The end.''"

subsection \<open>Lemmas\<close>

lemma scene_hdr_shorter: "scene_hdr t = Some r \<Longrightarrow> length r < length t"
proof -
  assume h: "scene_hdr t = Some r"
  let ?ds = "takeWhile is_digit (drop 8 t)"
  from h have t8: "take 8 t = ''**Scene ''" and c: "take 3 (drop (8 + length ?ds) t) = '':**''"
    and r: "r = drop (11 + length ?ds) t"
    by (auto simp: scene_hdr_def Let_def split: if_splits)
  from arg_cong [OF c, of length] have "3 \<le> length (drop (8 + length ?ds) t)" by simp
  then show ?thesis using r by simp
qed

lemma lazy_until_shorter: "lazy_until acc u = (g, rest) \<Longrightarrow> length rest \<le> length u"
  by (induction acc u rule: lazy_until.induct) (auto split: if_splits)

lemma after_bracket_shorter: "after_bracket cs = Some (g2, g3, rest) \<Longrightarrow> length rest \<le> length cs \<and> (g2 = ''video'' \<or> g2 = ''image'')"
proof -
  assume a: "after_bracket cs = Some (g2, g3, rest)"
  let ?r = "dropWhile js_ws cs"
  let ?r' = "dropWhile js_ws (drop 11 ?r)"
  from a have l: "lazy_until [] (drop 5 ?r') = (g3, rest)" and g: "g2 = take 5 ?r'"
    and v: "take 5 ?r' = ''video'' \<or> take 5 ?r' = ''image''"
    by (auto simp: after_bracket_def Let_def split: if_splits prod.splits)
  have "length rest \<le> length (drop 5 ?r')" by (rule lazy_until_shorter [OF l])
  also have "\<dots> \<le> length cs" by (simp add: le_trans [OF length_dropWhile_le] le_trans [OF diff_le_self])
  finally show ?thesis using g v by simp
qed

lemma bracket_alts_shorter:
  "bracket_alts acc cs = Some (g1, g2, g3, rest) \<Longrightarrow> length rest < length cs \<and> (g2 = ''video'' \<or> g2 = ''image'')"
proof (induction acc cs rule: bracket_alts.induct)
  case (2 acc c cs)
  show ?case
  proof (cases "c = CHR '']''")
    case True
    show ?thesis
    proof (cases "after_bracket cs")
      case None
      with True 2 show ?thesis by simp
    next
      case (Some a)
      with True 2(3) obtain g3' where "after_bracket cs = Some (g2, g3', rest)"
        by (cases a) auto
      from after_bracket_shorter [OF this] show ?thesis by simp
    qed
  next
    case False
    with 2 show ?thesis by (auto split: if_splits)
  qed
qed simp

lemma scene_match_at_shorter:
  "scene_match_at t = Some (g1, g2, g3, rest) \<Longrightarrow> length rest < length t \<and> (g2 = ''video'' \<or> g2 = ''image'')"
proof -
  assume m: "scene_match_at t = Some (g1, g2, g3, rest)"
  then obtain r1 where h: "scene_hdr t = Some r1" by (cases "scene_hdr t") (auto simp: scene_match_at_def)
  with m obtain c r3 where d: "dropWhile js_ws r1 = c # r3" and b: "bracket_alts [] r3 = Some (g1, g2, g3, rest)"
    by (cases "dropWhile js_ws r1") (auto simp: scene_match_at_def split: if_splits)
  have "length r3 < length r1"
    using length_dropWhile_le [of js_ws r1] d by simp
  with bracket_alts_shorter [OF b] scene_hdr_shorter [OF h] show ?thesis by simp
qed

lemma exec_from_shorter:
  "exec_from j t = Some (k, g1, g2, g3, rest) \<Longrightarrow> length rest < length t \<and> (g2 = ''video'' \<or> g2 = ''image'')"
proof (induction j t rule: exec_from.induct)
  case (2 j c cs)
  show ?case
  proof (cases "scene_match_at (c # cs)")
    case None
    with 2 show ?thesis by simp
  next
    case (Some a)
    with 2(2) have "scene_match_at (c # cs) = Some (g1, g2, g3, rest)" by (auto split: prod.splits)
    then show ?thesis by (rule scene_match_at_shorter)
  qed
qed simp

lemma parse_loop_step:
  "exec_from li (drop li s) = Some (j, g1, g2, g3, rest) \<Longrightarrow>
   li < length s - length rest \<and> length s - (length s - length rest) < length s - li"
  using exec_from_shorter [of li "drop li s" j g1 g2 g3 rest] by auto

lemma parse_loop_total: "\<exists>r. parse_loop s li acc = Some r"
proof (induction "length s - li" arbitrary: li acc rule: less_induct)
  case less
  show ?case
  proof (cases "exec_from li (drop li s)")
    case None
    then show ?thesis by (simp add: parse_loop.simps)
  next
    case (Some m)
    then obtain j g1 g2 g3 rest where e: "exec_from li (drop li s) = Some (j, g1, g2, g3, rest)"
      by (cases m) auto
    from parse_loop_step [OF e] less show ?thesis
      by (subst parse_loop.simps) (simp add: e Let_def)
  qed
qed

lemma parsed_scene_typed:
  "cleanText \<noteq> [] \<Longrightarrow> g2 = ''video'' \<or> g2 = ''image'' \<Longrightarrow> scene_typed (parsed_scene n vd (js_trim g2) cleanText)"
  by (auto simp: scene_typed_def parsed_scene_def js_trim_def js_ws_def)

lemma parse_loop_typed:
  "parse_loop s li acc = Some r \<Longrightarrow> list_all scene_typed acc \<Longrightarrow> map ss_sceneNumber acc = map Suc [0..<length acc] \<Longrightarrow>
   list_all scene_typed r \<and> map ss_sceneNumber r = map Suc [0..<length r]"
proof (induction "length s - li" arbitrary: li acc rule: less_induct)
  case less
  show ?case
  proof (cases "exec_from li (drop li s)")
    case None
    with less.prems show ?thesis by (simp add: parse_loop.simps)
  next
    case (Some m)
    then obtain j g1 g2 g3 rest where e: "exec_from li (drop li s) = Some (j, g1, g2, g3, rest)"
      by (cases m) auto
    let ?c = "cleanSceneText g3"
    let ?acc = "if ?c \<noteq> [] then acc @ [parsed_scene (Suc (length acc)) (js_trim g1) (js_trim g2) ?c] else acc"
    have r: "parse_loop s (length s - length rest) ?acc = Some r"
      using less.prems(1) by (subst (asm) parse_loop.simps) (simp add: e Let_def)
    have g2: "g2 = ''video'' \<or> g2 = ''image''" using exec_from_shorter [OF e] by simp
    have "list_all scene_typed ?acc \<and> map ss_sceneNumber ?acc = map Suc [0..<length ?acc]"
      using less.prems(2,3) parsed_scene_typed [OF _ g2] by (simp add: parsed_scene_def)
    with less.hyps [OF conjunct2 [OF parse_loop_step [OF e]] r] show ?thesis by simp
  qed
qed

lemma parseScenes_W: "parseScenes script_W =
  Some [parsed_scene 1 ''A red car on a road'' ''video'' ''Cars are fast.'', parsed_scene 2 ''Sunset'' ''image'' ''The end.'']"
  unfolding script_W_def parsed_scene_def by code_simp

subsection \<open>Properties\<close>

text \<open>
  C32. Termination of the \<open>exec\<close> loop: every match of the scene expression is at least
  eleven characters long and starts at or after \<open>lastIndex\<close>, so \<open>lastIndex\<close> grows
  strictly and \<open>parseScenes\<close> returns on every script.
\<close>

theorem parseScenes_terminates: "\<exists>scenes. parseScenes scriptText = Some scenes"
  unfolding parseScenes_def by (rule parse_loop_total)

text \<open>
  C33. Every scene \<open>parseScenes\<close> returns is well-typed, and the scenes are numbered
  \<open>1, 2, ...\<close> in order, whatever scenes with an empty text were skipped.
\<close>

theorem parseScenes_typed:
  "parseScenes scriptText = Some scenes \<Longrightarrow>
   list_all scene_typed scenes \<and> map ss_sceneNumber scenes = map Suc [0..<length scenes]"
  unfolding parseScenes_def using parse_loop_typed [of scriptText 0 "[]" scenes] by simp

theorem parseScenes_typed_witness:
  "parseScenes script_W =
     Some [parsed_scene 1 ''A red car on a road'' ''video'' ''Cars are fast.'', parsed_scene 2 ''Sunset'' ''image'' ''The end.''] \<and>
   list_all scene_typed [parsed_scene 1 ''A red car on a road'' ''video'' ''Cars are fast.'', parsed_scene 2 ''Sunset'' ''image'' ''The end.''] \<and>
   map ss_sceneNumber [parsed_scene 1 ''A red car on a road'' ''video'' ''Cars are fast.'', parsed_scene 2 ''Sunset'' ''image'' ''The end.''] =
     [1, 2]"
  using parseScenes_typed [OF parseScenes_W] parseScenes_W by simp

end
