(* ===== verification/ScriptGen.thy ===== *)
theory ScriptGen
  imports ScriptParse
begin

text \<open>
  The language-model side of \<open>ScriptWizard\<close>
  (\<open>src/backend/controllers/scriptWizard.controller.js\<close>): the system prompt
  \<open>_constructSystemPrompt\<close>, the keyword request \<open>_enhanceSceneKeywords\<close>,
  \<open>generateScript\<close>, and the two handlers of \<open>script.controller.js\<close> that call it. The
  model's \<open>generateContent(systemPrompt, prompt)\<close> is a function \<open>llm\<close> of the system
  prompt (\<open>None\<close> for \<open>null\<close>) and the prompt (\<open>None\<close> for \<open>undefined\<close>); it answers
  the same request with the same text. \<open>processScript\<close> (the sentence tokenizer of the
  \<open>natural\<close> library) is a function \<open>processScript\<close> of the script.
\<close>

type_synonym llm = "string option \<Rightarrow> string option \<Rightarrow> string res"

subsection \<open>The prompts\<close>

text \<open>
  The template of \<open>_constructSystemPrompt\<close>, line by line (the indentation of the source
  is part of the text): its instructions, then the example format it asks the model to
  follow.
\<close>

text \<open>The example format (\<open>Example format:\<close> and after).\<close>

definition promptExampleLines :: "string list" where
  "promptExampleLines =
    [
     ''        **Scene 1:**'',
     ''        [Modern corporate office interior, warm natural lighting through large windows, wide establishing shot, business professionals in formal attire working at sleek desks with dual monitors, subtle activity with people walking in background]'',
     ''        MEDIA_TYPE: video'',
     ''        [KEYWORDS]: corporate office interior, natural lighting, business professionals working, modern workspace, wide office shot, professional environment'',
     ''        Narrator (enthusiastic): Script text here...'',
     ''        [Pause]''
    ]"

text \<open>The instructions, with the options substituted.\<close>

definition promptHeadLines :: "string \<Rightarrow> string \<Rightarrow> string \<Rightarrow> string \<Rightarrow> nat \<Rightarrow> string list" where
  "promptHeadLines style tone duration format numberOfScenes =
    [
     ''You are a professional script writer. Create a '' @ format @ '' script that is:'',
     ''        - Written in a '' @ style @ '' style'',
     ''        - Uses a '' @ tone @ '' tone'',
     ''        - Approximately '' @ duration @ '' in length'',
     ''        - Divided into exactly '' @ nat_to_str numberOfScenes @ '' distinct scenes'',
     ''        - Structured for video presentation'',
     ''        '',
     ''        For each scene, provide:'',
     ''        1. A DETAILED visual description in [brackets] that includes:'',
     ''           - Specific setting details'',
     ''           - Lighting conditions'',
     ''           - Camera angles or shot types'',
     ''           - Key visual elements'',
     ''           - Actions or movements'',
     ''           - Important objects or subjects'',
     ''        '',
     ''        2. Specify '' @ [CHR 0x22] @ ''MEDIA_TYPE:'' @ [CHR 0x22] @ '' followed by either:'',
     ''           - '' @ [CHR 0x22] @ ''video'' @ [CHR 0x22] @ '' for scenes with movement or action'',
     ''           - '' @ [CHR 0x22] @ ''image'' @ [CHR 0x22] @ '' for static scenes'',
     ''        '',
     ''        3. Include [KEYWORDS] section with 5-7 specific search terms that describe:'',
     ''           - Main subject'',
     ''           - Setting'',
     ''           - Style/mood'',
     ''           - Actions'',
     ''           - Visual characteristics'',
     ''        '',
     ''        Example format:''
    ]"

text \<open>\<open>_constructSystemPrompt(style, tone, duration, format, numberOfScenes)\<close>.\<close>

definition constructSystemPrompt :: "string \<Rightarrow> string \<Rightarrow> string \<Rightarrow> string \<Rightarrow> nat \<Rightarrow> string" where
  "constructSystemPrompt style tone duration format numberOfScenes =
     js_join [CHR 0x0A] (promptHeadLines style tone duration format numberOfScenes @ promptExampleLines)"

text \<open>The \<open>keywordPrompt\<close> of \<open>_enhanceSceneKeywords\<close> for a visual description.\<close>

definition keywordPrompt :: "string \<Rightarrow> string" where
  "keywordPrompt visualDescription = js_join [CHR 0x0A]
    [
     [],
     ''                Generate specific, visually-focused search keywords for this scene description. '',
     ''                Include different variations and related terms that would help find matching video/image content.'',
     ''                Scene: '' @ visualDescription,
     ''                Consider:'',
     ''                - Main subjects/objects'',
     ''                - Actions/movements'',
     ''                - Setting/environment'',
     ''                - Visual style/mood'',
     ''                - Lighting/time of day'',
     ''                - Camera angles/shots'',
     ''                Return only keywords, separated by commas.''
    ]"

subsection \<open>\<open>_enhanceSceneKeywords\<close>\<close>

text \<open>
  An enhanced scene: the scene with the property \<open>searchQueries\<close>, absent
  (\<open>None\<close>) on a scene pushed unchanged.
\<close>

record enhanced_scene = script_scene +
  es_searchQueries :: "string list option"

text \<open>\<open>keywordResponse.split(',').map(k => k.trim()).filter(k => k.length > 0)\<close>.\<close>

definition keyword_fields :: "string \<Rightarrow> string list" where
  "keyword_fields keywordResponse =
     filter (\<lambda>k. k \<noteq> []) (map js_trim (split_on (\<lambda>c. c = CHR '','') keywordResponse))"

text \<open>
  The body of the loop for one scene: \<open>${scene.visualDescription}\<close> renders a missing
  description as \<open>undefined\<close>; a rejected request pushes the scene unchanged.
\<close>

definition enhance_one :: "llm \<Rightarrow> script_scene \<Rightarrow> enhanced_scene" where
  "enhance_one llm scene =
     (let visualDescription = (case ss_visualDescription scene of None \<Rightarrow> ''undefined'' | Some d \<Rightarrow> d)
      in case llm None (Some (keywordPrompt visualDescription)) of
           Inl e \<Rightarrow> script_scene.extend scene (enhanced_scene.fields None)
         | Inr keywordResponse \<Rightarrow>
             (let enhancedKeywords = keyword_fields keywordResponse
              in script_scene.extend (scene\<lparr>ss_searchKeywords := Some enhancedKeywords\<rparr>)
                   (enhanced_scene.fields (Some (generateSearchQueries enhancedKeywords visualDescription)))))"

definition enhanceSceneKeywords :: "llm \<Rightarrow> script_scene list \<Rightarrow> enhanced_scene list" where
  "enhanceSceneKeywords llm scenes = map (enhance_one llm) scenes"

subsection \<open>\<open>generateScript\<close>\<close>

text \<open>The \<open>options\<close> object; an absent property (\<open>None\<close>) takes its default.\<close>

record script_options =
  opt_style :: "string option"
  opt_tone :: "string option"
  opt_duration :: "string option"
  opt_format :: "string option"
  opt_numberOfScenes :: "nat option"

definition no_options :: script_options where
  "no_options = \<lparr>opt_style = None, opt_tone = None, opt_duration = None, opt_format = None,
                  opt_numberOfScenes = None\<rparr>"

text \<open>The system prompt for the options, with the defaults of the destructuring.\<close>

definition systemPromptOf :: "script_options \<Rightarrow> string" where
  "systemPromptOf options =
     constructSystemPrompt (case opt_style options of None \<Rightarrow> ''professional'' | Some x \<Rightarrow> x)
       (case opt_tone options of None \<Rightarrow> ''friendly'' | Some x \<Rightarrow> x)
       (case opt_duration options of None \<Rightarrow> ''2 minutes'' | Some x \<Rightarrow> x)
       (case opt_format options of None \<Rightarrow> ''video script'' | Some x \<Rightarrow> x)
       (case opt_numberOfScenes options of None \<Rightarrow> 3 | Some n \<Rightarrow> n)"

record 'a generated_script =
  gs_originalPrompt :: "string option"
  gs_generatedScript :: string
  gs_scenes :: "enhanced_scene list"
  gs_analysis :: 'a

text \<open>
  \<open>generateScript(prompt, options = {})\<close>; \<open>None\<close> when \<open>parseScenes\<close> does not return.
  Every error is rethrown as \<open>Error generating script: ...\<close>.
\<close>

definition generateScript ::
  "llm \<Rightarrow> (string \<Rightarrow> 'a res) \<Rightarrow> string option \<Rightarrow> script_options option \<Rightarrow> 'a generated_script res option" where
  "generateScript llm processScript prompt options =
     (let systemPrompt = systemPromptOf (case options of None \<Rightarrow> no_options | Some opts \<Rightarrow> opts)
      in case llm (Some systemPrompt) prompt of
           Inl e \<Rightarrow> Some (Inl (ScriptGenerationFailed e))
         | Inr generatedScript \<Rightarrow>
             map_option (\<lambda>scenes.
                 let scenesWithKeywords = enhanceSceneKeywords llm scenes
                 in case processScript generatedScript of
                      Inl e \<Rightarrow> Inl (ScriptGenerationFailed e)
                    | Inr analysis \<Rightarrow>
                        Inr \<lparr>gs_originalPrompt = prompt, gs_generatedScript = generatedScript,
                             gs_scenes = scenesWithKeywords, gs_analysis = analysis\<rparr>)
               (parseScenes generatedScript))"

subsection \<open>The handlers of \<open>script.controller.js\<close>\<close>

datatype 'a gen_response =
    GenBadRequest                     \<comment> \<open>400 \<open>Prompt is required\<close>\<close>
  | GenServerError error              \<comment> \<open>500 with the error's message\<close>
  | GenOk "'a generated_script"        \<comment> \<open>\<open>res.json(result)\<close>\<close>

definition gen_response_of :: "'a generated_script res option \<Rightarrow> 'a gen_response option" where
  "gen_response_of r = map_option (\<lambda>x. case x of Inl e \<Rightarrow> GenServerError e | Inr g \<Rightarrow> GenOk g) r"

text \<open>\<open>exports.generateScript\<close>: a missing or empty prompt is a bad request.\<close>

definition generateScript_handler ::
  "llm \<Rightarrow> (string \<Rightarrow> 'a res) \<Rightarrow> string option \<Rightarrow> script_options option \<Rightarrow> 'a gen_response option" where
  "generateScript_handler llm processScript prompt options =
     (if prompt = None \<or> prompt = Some [] then Some GenBadRequest
      else gen_response_of (generateScript llm processScript prompt options))"

text \<open>\<open>exports.generateVideoScript\<close>: fixed options and no check of the prompt.\<close>

definition videoScriptOptions :: script_options where
  "videoScriptOptions = \<lparr>opt_style = Some ''professional'', opt_tone = Some ''engaging'',
     opt_duration = Some ''2 minutes'', opt_format = Some ''video script'', opt_numberOfScenes = None\<rparr>"

definition generateVideoScript_handler ::
  "llm \<Rightarrow> (string \<Rightarrow> 'a res) \<Rightarrow> string option \<Rightarrow> 'a gen_response option" where
  "generateVideoScript_handler llm processScript prompt =
     gen_response_of (generateScript llm processScript prompt (Some videoScriptOptions))"

subsection \<open>Specification helpers\<close>

text \<open>A clean keyword list: every keyword non-empty, trimmed and free of commas.\<close>

definition keywords_clean :: "string list \<Rightarrow> bool" where
  "keywords_clean ks \<longleftrightarrow> list_all (\<lambda>k. k \<noteq> [] \<and> js_trim k = k \<and> CHR '','' \<notin> set k) ks"

definition description_of :: "script_scene \<Rightarrow> string" where
  "description_of scene = (case ss_visualDescription scene of None \<Rightarrow> ''undefined'' | Some d \<Rightarrow> d)"


subsection \<open>An example model\<close>

text \<open>A model that answers the system prompt with \<open>script_W\<close> and every keyword request with a padded list.\<close>

definition scene_W :: script_scene where
  "scene_W = parsed_scene 1 ''A red car on a road'' ''video'' ''Cars are fast.''"

definition llm_W :: llm where
  "llm_W systemPrompt prompt =
     (case systemPrompt of None \<Rightarrow> Inr '' red car, road ,, fast '' | Some sp \<Rightarrow> Inr script_W)"


section \<open>Properties\<close>

subsection \<open>Trimming and keyword fields\<close>

lemma dropWhile_idem: "dropWhile P (dropWhile P xs) = dropWhile P xs"
  by (induction xs) auto

lemma hd_dropWhile_not: "dropWhile P xs \<noteq> [] \<Longrightarrow> \<not> P (hd (dropWhile P xs))"
  by (induction xs) auto

lemma dropWhile_hd_not: "xs = [] \<or> \<not> P (hd xs) \<Longrightarrow> dropWhile P xs = xs"
  by (cases xs) auto

lemma js_trim_idem [simp]: "js_trim (js_trim s) = js_trim s"
proof -
  define t where "t = dropWhile js_ws s"
  define u where "u = dropWhile js_ws (rev t)"
  have ht: "t = [] \<or> \<not> js_ws (hd t)" using hd_dropWhile_not [of js_ws s] by (auto simp: t_def)
  have "rev u = [] \<or> \<not> js_ws (hd (rev u))"
  proof (cases "u = []")
    case False
    have "rev t = takeWhile js_ws (rev t) @ u" by (simp add: u_def)
    then have "t = rev u @ rev (takeWhile js_ws (rev t))" by (metis rev_append rev_rev_ident)
    moreover from this False have "t \<noteq> []" by auto
    ultimately have "hd t = hd (rev u)" using False by (metis hd_append2 Nil_is_rev_conv)
    with ht \<open>t \<noteq> []\<close> show ?thesis by simp
  qed simp
  then have "dropWhile js_ws (rev u) = rev u" by (rule dropWhile_hd_not)
  moreover have "dropWhile js_ws u = u" by (simp add: u_def dropWhile_idem)
  ultimately show ?thesis by (simp add: js_trim_def t_def [symmetric] u_def [symmetric])
qed

lemma set_js_trim: "set (js_trim s) \<subseteq> set s"
  unfolding js_trim_def by (metis set_dropWhileD set_rev subsetI)

lemma split_on_fields: "f \<in> set (split_on P s) \<Longrightarrow> \<not> list_ex P f"
proof (induction s arbitrary: f)
  case (Cons c cs)
  then show ?case
    by (cases "split_on P cs") (auto simp: Let_def split: if_splits)
qed simp

lemma keyword_fields_clean: "keywords_clean (keyword_fields r)"
  unfolding keywords_clean_def keyword_fields_def list_all_iff
  using split_on_fields set_js_trim by (fastforce simp: list_ex_iff)

subsection \<open>The system prompt\<close>

lemma js_join_append:
  "xs \<noteq> [] \<Longrightarrow> ys \<noteq> [] \<Longrightarrow> js_join sep (xs @ ys) = js_join sep xs @ sep @ js_join sep ys"
proof (induction xs)
  case (Cons x xs)
  then show ?case by (cases xs) (simp_all add: js_join_Cons)
qed simp

lemma set_js_join: "set (js_join sep xs) \<subseteq> set sep \<union> \<Union> (set ` set xs)"
  by (induction sep xs rule: js_join.induct) auto

lemma scene_hdr_no_star: "CHR ''*'' \<noteq> c \<Longrightarrow> scene_hdr (c # cs) = None"
  by (simp add: scene_hdr_def)

lemma scene_match_at_no_star: "CHR ''*'' \<noteq> c \<Longrightarrow> scene_match_at (c # cs) = None"
  by (simp add: scene_match_at_def scene_hdr_no_star)

lemma exec_from_skip:
  "CHR ''*'' \<notin> set p \<Longrightarrow> exec_from j (p @ t) = exec_from (j + length p) t"
  by (induction p arbitrary: j) (simp_all add: scene_match_at_no_star)

lemma lazy_until_no_star:
  "CHR ''*'' \<notin> set cs \<Longrightarrow> lazy_until acc cs = (rev acc @ cs, [])"
  by (induction cs arbitrary: acc) (simp_all add: scene_hdr_no_star)

lemma bracket_alts_scan:
  "CHR '']'' \<notin> set d \<Longrightarrow> \<not> list_ex line_term d \<Longrightarrow> after_bracket cs = Some (g2, g3, rest) \<Longrightarrow>
   bracket_alts acc (d @ CHR '']'' # cs) = Some (rev acc @ d, g2, g3, rest)"
  by (induction d arbitrary: acc) auto

lemma example_exec:
  "exec_from k (js_join [CHR 0x0A] promptExampleLines) =
     Some (k + 8,
       ''Modern corporate office interior, warm natural lighting through large windows, wide establishing shot, business professionals in formal attire working at sleek desks with dual monitors, subtle activity with people walking in background'',
       ''video'',
       [CHR 0x0A] @ ''        [KEYWORDS]: corporate office interior, natural lighting, business professionals working, modern workspace, wide office shot, professional environment''
         @ [CHR 0x0A] @ ''        Narrator (enthusiastic): Script text here...'' @ [CHR 0x0A] @ ''        [Pause]'',
       [])"
  by (simp add: promptExampleLines_def scene_match_at_def scene_hdr_def after_bracket_def lazy_until_no_star js_ws_def
                line_term_def is_digit_def)

lemma example_clean:
  "cleanSceneText ([CHR 0x0A] @ ''        [KEYWORDS]: corporate office interior, natural lighting, business professionals working, modern workspace, wide office shot, professional environment''
         @ [CHR 0x0A] @ ''        Narrator (enthusiastic): Script text here...'' @ [CHR 0x0A] @ ''        [Pause]'') =
   '': corporate office interior, natural lighting, business professionals working, modern workspace, wide office shot, professional environment Script text here...''"
  by code_simp

lemma star_free_prompt_head:
  assumes "CHR ''*'' \<notin> set style" "CHR ''*'' \<notin> set tone" "CHR ''*'' \<notin> set duration" "CHR ''*'' \<notin> set format"
  shows "CHR ''*'' \<notin> set (js_join [CHR 0x0A] (promptHeadLines style tone duration format n))"
proof -
  have "CHR ''*'' \<notin> set (nat_to_str n)" using nat_to_str_digits [of n] by (auto simp: is_digit_def)
  then have "CHR ''*'' \<notin> set [CHR 0x0A] \<union> \<Union> (set ` set (promptHeadLines style tone duration format n))"
    using assms by (simp add: promptHeadLines_def)
  then show ?thesis using set_js_join by blast
qed

text \<open>
  C24. The system prompt asks the model for scenes in the format of its example, a
  \<open>[KEYWORDS]: ...\<close> line before the narration. \<open>parseScenes\<close> reads that example,
  for any options without \<open>*\<close>, as one video scene whose text, which the narration
  speaks, starts with the keyword list: \<open>_cleanSceneText\<close> removes the tag
  \<open>[KEYWORDS]\<close> but not the keywords after it.
\<close>

theorem prompt_example_keywords_narrated:
  assumes "CHR ''*'' \<notin> set style" "CHR ''*'' \<notin> set tone" "CHR ''*'' \<notin> set duration" "CHR ''*'' \<notin> set format"
  shows "parseScenes (constructSystemPrompt style tone duration format numberOfScenes) =
     Some [parsed_scene 1
       ''Modern corporate office interior, warm natural lighting through large windows, wide establishing shot, business professionals in formal attire working at sleek desks with dual monitors, subtle activity with people walking in background''
       ''video''
       '': corporate office interior, natural lighting, business professionals working, modern workspace, wide office shot, professional environment Script text here...'']"
proof -
  define P where "P = js_join [CHR 0x0A] (promptHeadLines style tone duration format numberOfScenes) @ [CHR 0x0A]"
  define S where "S = constructSystemPrompt style tone duration format numberOfScenes"
  have S: "S = P @ js_join [CHR 0x0A] promptExampleLines"
    unfolding S_def P_def constructSystemPrompt_def
    by (simp add: js_join_append promptHeadLines_def promptExampleLines_def)
  have P: "CHR ''*'' \<notin> set P" using star_free_prompt_head [OF assms] by (simp add: P_def)
  have e: "exec_from 0 S = Some (length P + 8,
       ''Modern corporate office interior, warm natural lighting through large windows, wide establishing shot, business professionals in formal attire working at sleek desks with dual monitors, subtle activity with people walking in background'',
       ''video'',
       [CHR 0x0A] @ ''        [KEYWORDS]: corporate office interior, natural lighting, business professionals working, modern workspace, wide office shot, professional environment''
         @ [CHR 0x0A] @ ''        Narrator (enthusiastic): Script text here...'' @ [CHR 0x0A] @ ''        [Pause]'',
       [])"
    unfolding S by (simp only: exec_from_skip [OF P] example_exec) simp
  have t: "js_trim ''Modern corporate office interior, warm natural lighting through large windows, wide establishing shot, business professionals in formal attire working at sleek desks with dual monitors, subtle activity with people walking in background'' =
           ''Modern corporate office interior, warm natural lighting through large windows, wide establishing shot, business professionals in formal attire working at sleek desks with dual monitors, subtle activity with people walking in background''"
    by (simp add: js_trim_def js_ws_def)
  have v: "js_trim ''video'' = ''video''" by (simp add: js_trim_def js_ws_def)
  show ?thesis
    unfolding S_def [symmetric] parseScenes_def
    by (subst parse_loop.simps)
       (simp only: drop_0 e option.case prod.case Let_def example_clean t v, simp add: parse_loop.simps [of S "length S"])
qed

subsection \<open>\<open>_enhanceSceneKeywords\<close> and \<open>generateScript\<close>\<close>

lemma enhance_one_Inl:
  "llm None (Some (keywordPrompt (description_of scene))) = Inl e \<Longrightarrow>
   enhance_one llm scene = script_scene.extend scene (enhanced_scene.fields None)"
  by (simp add: enhance_one_def description_of_def)

lemma enhance_one_Inr:
  "llm None (Some (keywordPrompt (description_of scene))) = Inr r \<Longrightarrow>
   enhance_one llm scene = script_scene.extend (scene\<lparr>ss_searchKeywords := Some (keyword_fields r)\<rparr>)
     (enhanced_scene.fields (Some (generateSearchQueries (keyword_fields r) (description_of scene))))"
  by (simp add: enhance_one_def description_of_def Let_def)

lemma generateScript_returns:
  "\<exists>r. generateScript llm processScript prompt options = Some r"
proof -
  have "\<exists>scenes. parseScenes g = Some scenes" for g
    unfolding parseScenes_def by (rule parse_loop_total)
  then show ?thesis
    by (auto simp: generateScript_def Let_def split: sum.splits)
qed

lemma generateScript_handler_responds:
  "\<exists>resp. generateScript_handler llm processScript prompt options = Some resp \<and>
     (resp = GenBadRequest \<longleftrightarrow> prompt = None \<or> prompt = Some [])"
proof -
  obtain r where "generateScript llm processScript prompt options = Some r"
    using generateScript_returns by blast
  then show ?thesis by (cases r) (auto simp: generateScript_handler_def gen_response_of_def)
qed

lemma generateVideoScript_no_check:
  "\<exists>resp. generateVideoScript_handler llm processScript prompt = Some resp \<and> resp \<noteq> GenBadRequest"
proof -
  obtain r where "generateScript llm processScript prompt (Some videoScriptOptions) = Some r"
    using generateScript_returns by blast
  then show ?thesis by (cases r) (auto simp: generateVideoScript_handler_def gen_response_of_def)
qed

text \<open>
  C18. \<open>_enhanceSceneKeywords\<close> keeps the scenes, in order, and changes only their
  keywords and search queries. When the model answers the keyword request, the keywords
  are the answer's comma-separated fields, each non-empty, trimmed and free of commas,
  and the queries are built from them and the description. When the request fails, the
  scene is kept unchanged and has no queries.
\<close>

theorem enhanceSceneKeywords_spec:
  "length (enhanceSceneKeywords llm scenes) = length scenes \<and>
   (\<forall>i<length scenes.
      script_scene.truncate (enhanceSceneKeywords llm scenes ! i) =
        (scenes ! i)\<lparr>ss_searchKeywords := ss_searchKeywords (enhanceSceneKeywords llm scenes ! i)\<rparr> \<and>
      (case llm None (Some (keywordPrompt (description_of (scenes ! i)))) of
         Inl e \<Rightarrow> ss_searchKeywords (enhanceSceneKeywords llm scenes ! i) = ss_searchKeywords (scenes ! i) \<and>
                 es_searchQueries (enhanceSceneKeywords llm scenes ! i) = None
       | Inr r \<Rightarrow> ss_searchKeywords (enhanceSceneKeywords llm scenes ! i) = Some (keyword_fields r) \<and>
                 keywords_clean (keyword_fields r) \<and>
                 es_searchQueries (enhanceSceneKeywords llm scenes ! i) =
                   Some (generateSearchQueries (keyword_fields r) (description_of (scenes ! i)))))"
  by (auto simp: enhanceSceneKeywords_def enhance_one_def description_of_def Let_def keyword_fields_clean
                 script_scene.defs enhanced_scene.defs split: sum.splits option.splits)

theorem enhanceSceneKeywords_spec_witness:
  "length (enhanceSceneKeywords llm_W [scene_W]) = 1 \<and>
   ss_text (enhanceSceneKeywords llm_W [scene_W] ! 0) = ''Cars are fast.'' \<and>
   ss_searchKeywords (enhanceSceneKeywords llm_W [scene_W] ! 0) = Some [''red car'', ''road'', ''fast''] \<and>
   keywords_clean [''red car'', ''road'', ''fast''] \<and>
   es_searchQueries (enhanceSceneKeywords llm_W [scene_W] ! 0) =
     Some (generateSearchQueries [''red car'', ''road'', ''fast''] ''A red car on a road'')"
proof -
  have k: "keyword_fields '' red car, road ,, fast '' = [''red car'', ''road'', ''fast'']"
    by (simp add: keyword_fields_def js_trim_def js_ws_def)
  have "ss_text (script_scene.truncate (enhanceSceneKeywords llm_W [scene_W] ! 0)) = ss_text scene_W"
    using enhanceSceneKeywords_spec [of llm_W "[scene_W]"] by (simp only: length_Cons list.size) simp
  then show ?thesis
    using enhanceSceneKeywords_spec [of llm_W "[scene_W]"] k
    by (simp add: llm_W_def scene_W_def description_of_def parsed_scene_def script_scene.defs)
qed

theorem prompt_example_keywords_narrated_witness:
  "CHR ''*'' \<notin> set ''professional'' \<and> CHR ''*'' \<notin> set ''friendly'' \<and> CHR ''*'' \<notin> set ''2 minutes'' \<and>
   CHR ''*'' \<notin> set ''video script'' \<and>
   parseScenes (systemPromptOf no_options) =
     Some [parsed_scene 1
       ''Modern corporate office interior, warm natural lighting through large windows, wide establishing shot, business professionals in formal attire working at sleek desks with dual monitors, subtle activity with people walking in background''
       ''video''
       '': corporate office interior, natural lighting, business professionals working, modern workspace, wide office shot, professional environment Script text here...'']"
  using prompt_example_keywords_narrated [of "''professional''" "''friendly''" "''2 minutes''" "''video script''" 3]
  by (simp add: systemPromptOf_def no_options_def)

end
