(* ===== verification/LegacyScripts.thy ===== *)
theory LegacyScripts
  imports ScriptGen
begin

text \<open>
  The two earlier script servers kept beside the back end: \<open>src/backend/index copy 2.js\<close>
  (a \<open>ScriptWizard\<close> with \<open>formatScript\<close>, \<open>optimizeScript\<close> and
  \<open>analyzeTimings\<close>, and its two Express endpoints) and \<open>src/backend/index copy.js\<close>
  (the Gemini version, whose class ends with the comment that the other methods
  \<open>remain the same\<close> and so has no \<open>formatScript\<close>). The language model is the
  function \<open>llm\<close> of \<open>ScriptGen\<close>; natural's sentence tokenizer is a function
  \<open>sentences\<close> of the text. \<open>analyzeTimings\<close> is the same code as in
  \<open>ScriptWizard\<close> and is that definition.
\<close>

subsection \<open>Replies of the endpoints\<close>

datatype 'r reply =
    BadRequest400                \<comment> \<open>\<open>Prompt is required\<close>\<close>
  | ServerError500 error         \<comment> \<open>\<open>res.status(500).json({ error: error.message })\<close>\<close>
  | Ok200 'r                     \<comment> \<open>\<open>res.json(result)\<close>\<close>

definition reply_of :: "'r res \<Rightarrow> 'r reply" where
  "reply_of r = (case r of Inl e \<Rightarrow> ServerError500 e | Inr x \<Rightarrow> Ok200 x)"

record 'a old_script =
  os_originalPrompt :: "string option"
  os_generatedScript :: string
  os_analysis :: 'a

text \<open>The options both versions destructure, with their defaults.\<close>

definition opt_or :: "string option \<Rightarrow> string \<Rightarrow> string" where
  "opt_or x d = (case x of None \<Rightarrow> d | Some v \<Rightarrow> v)"

definition old_options :: "script_options option \<Rightarrow> string \<times> string \<times> string \<times> string" where
  "old_options options =
     (let opts = (case options of None \<Rightarrow> no_options | Some x \<Rightarrow> x)
      in (opt_or (opt_style opts) ''professional'', opt_or (opt_tone opts) ''friendly'',
          opt_or (opt_duration opts) ''2 minutes'', opt_or (opt_format opts) ''video script''))"


section \<open>\<open>index copy 2.js\<close>\<close>

subsection \<open>The system prompt\<close>

definition constructSystemPrompt_v2 :: "string \<Rightarrow> string \<Rightarrow> string \<Rightarrow> string \<Rightarrow> string" where
  "constructSystemPrompt_v2 style tone duration format = js_join [CHR 0x0A]
    [''You are a professional script writer. Create a '' @ format @ '' script that is:'',
     ''        - Written in a '' @ style @ '' style'',
     ''        - Uses a '' @ tone @ '' tone'',
     ''        - Approximately '' @ duration @ '' in length'',
     ''        - Structured for video presentation'',
     ''        - Clear and engaging'',
     ''        - Uses natural speaking patterns'',
     ''        - Includes appropriate pauses and emphasis'',
     [],
     ''        Format the script with:'',
     ''        - Clear paragraph breaks'',
     ''        - Natural sentence structure'',
     ''        - Appropriate pacing'',
     ''        - Video-friendly language'']"

subsection \<open>\<open>formatScript\<close>\<close>

text \<open>
  \<open>scriptText.split(/\n\s*\n/)\<close>: at a line feed followed by a run of white space
  holding another line feed, the greedy \<open>\s*\<close> backs off to the last line feed of the
  run, and the match ends there. \<open>nl_match cs\<close> is the length of the match after its
  first line feed (0 when there is none); \<open>cur\<close> is the current paragraph, reversed.
\<close>

definition nl_match :: "string \<Rightarrow> nat" where
  "nl_match cs = length (dropWhile (\<lambda>c. c \<noteq> CHR 0x0A) (rev (takeWhile js_ws cs)))"

function (sequential) para_split :: "string \<Rightarrow> string \<Rightarrow> string list" where
  "para_split cur [] = [rev cur]"
| "para_split cur (c # cs) =
     (if c = CHR 0x0A \<and> 0 < nl_match cs then rev cur # para_split [] (drop (nl_match cs) cs)
      else para_split (c # cur) cs)"
  by pat_completeness auto
termination
  by (relation "measure (\<lambda>(cur, s). length s)") auto

text \<open>\<open>para.trim().replace(/\s+/g, ' ')\<close>.\<close>

definition formatParagraph :: "string \<Rightarrow> string" where
  "formatParagraph para = collapse_ws (js_trim para)"

text \<open>\<open>formatScript(scriptText)\<close>: the paragraphs formatted and joined by a blank line.\<close>

definition formatScript_v2 :: "string \<Rightarrow> string" where
  "formatScript_v2 scriptText =
     js_join [CHR 0x0A, CHR 0x0A] (map formatParagraph (para_split [] scriptText))"

subsection \<open>\<open>optimizeScript\<close> and \<open>processScript\<close>\<close>

text \<open>\<open>Math.round\<close> on a number; \<open>NaN\<close> and the infinities are kept.\<close>

definition js_round_num :: "jsnum \<Rightarrow> jsnum" where
  "js_round_num x = (case x of Num r \<Rightarrow> Num (of_int (js_round r)) | _ \<Rightarrow> x)"

record optimization =
  op_sentenceCount :: nat
  op_wordCount :: nat
  op_averageWordsPerSentence :: jsnum
  op_readabilityScore :: jsnum

definition optimalSentenceLength :: real where
  "optimalSentenceLength = 20"

text \<open>
  \<open>optimizeScript(scriptText)\<close>: \<open>averageWordsPerSentence\<close> is \<open>wordCount / sentenceCount\<close>,
  the readability \<open>max(0, min(100, 100 - |average - 20| * 2))\<close>, both rounded.
\<close>

definition optimizeScript_v2 :: "(string \<Rightarrow> string list) \<Rightarrow> string \<Rightarrow> optimization" where
  "optimizeScript_v2 sentences scriptText =
     (let sentenceCount = length (sentences scriptText);
          wordCount = length (word_tokenize scriptText);
          averageWordsPerSentence = js_div (Num (real wordCount)) (Num (real sentenceCount));
          readabilityScore = js_max (Num 0) (js_min (Num 100)
            (js_sub (Num 100) (js_mul (js_abs (js_sub averageWordsPerSentence (Num optimalSentenceLength))) (Num 2))))
      in \<lparr>op_sentenceCount = sentenceCount, op_wordCount = wordCount,
          op_averageWordsPerSentence = js_div (js_round_num (js_mul averageWordsPerSentence (Num 10))) (Num 10),
          op_readabilityScore = js_round_num readabilityScore\<rparr>)"

record script_analysis =
  sa_formattedScript :: string
  sa_optimizationResults :: optimization
  sa_timingAnalysis :: timing

text \<open>\<open>processScript(scriptText)\<close>; none of its steps throws.\<close>

definition processScript_v2 :: "(string \<Rightarrow> string list) \<Rightarrow> string \<Rightarrow> script_analysis res" where
  "processScript_v2 sentences scriptText =
     (let formattedScript = formatScript_v2 scriptText
      in Inr \<lparr>sa_formattedScript = formattedScript,
              sa_optimizationResults = optimizeScript_v2 sentences formattedScript,
              sa_timingAnalysis = analyzeTimings formattedScript\<rparr>)"

subsection \<open>\<open>generateScript\<close> and the endpoints\<close>

definition generateScript_v2 ::
  "llm \<Rightarrow> (string \<Rightarrow> string list) \<Rightarrow> string option \<Rightarrow> script_options option \<Rightarrow> script_analysis old_script res" where
  "generateScript_v2 llm sentences prompt options =
     (case old_options options of
        (style, tone, duration, format) \<Rightarrow>
          (case llm (Some (constructSystemPrompt_v2 style tone duration format)) prompt of
             Inl e \<Rightarrow> Inl (ScriptGenerationFailed e)
           | Inr generatedScript \<Rightarrow>
               (case processScript_v2 sentences generatedScript of
                  Inl e \<Rightarrow> Inl (ScriptGenerationFailed e)
                | Inr analysis \<Rightarrow>
                    Inr \<lparr>os_originalPrompt = prompt, os_generatedScript = generatedScript,
                         os_analysis = analysis\<rparr>)))"

text \<open>\<open>POST /generate-script\<close>.\<close>

definition generate_script_v2 ::
  "llm \<Rightarrow> (string \<Rightarrow> string list) \<Rightarrow> string option \<Rightarrow> script_options option \<Rightarrow> script_analysis old_script reply" where
  "generate_script_v2 llm sentences prompt options =
     (if prompt = None \<or> prompt = Some [] then BadRequest400
      else reply_of (generateScript_v2 llm sentences prompt options))"

definition oldVideoScriptOptions :: script_options where
  "oldVideoScriptOptions = \<lparr>opt_style = Some ''professional'', opt_tone = Some ''engaging'',
     opt_duration = Some ''2 minutes'', opt_format = Some ''video script'', opt_numberOfScenes = None\<rparr>"

text \<open>\<open>POST /generate-video-script\<close>: fixed options, no check of the prompt.\<close>

definition generate_video_script_v2 ::
  "llm \<Rightarrow> (string \<Rightarrow> string list) \<Rightarrow> string option \<Rightarrow> script_analysis old_script reply" where
  "generate_video_script_v2 llm sentences prompt =
     reply_of (generateScript_v2 llm sentences prompt (Some oldVideoScriptOptions))"


section \<open>\<open>index copy.js\<close>\<close>

definition constructSystemPrompt_v1 :: "string \<Rightarrow> string \<Rightarrow> string \<Rightarrow> string \<Rightarrow> string" where
  "constructSystemPrompt_v1 style tone duration format = js_join [CHR 0x0A]
    [''You are a professional script writer. Create a '' @ format @ '' script that is:'',
     ''        - Written in a '' @ style @ '' style'',
     ''        - Uses a '' @ tone @ '' tone'',
     ''        - Approximately '' @ duration @ '' in length'',
     ''        - Structured for video presentation'',
     ''        - Clear and engaging'',
     ''        - Uses natural speaking patterns'',
     ''        - Includes appropriate pauses and emphasis'',
     ''        '',
     ''        Format the script with:'',
     ''        - Clear paragraph breaks'',
     ''        - Natural sentence structure'',
     ''        - Appropriate pacing'',
     ''        - Video-friendly language'']"

text \<open>
  \<open>processScript\<close>: \<open>this.formatScript\<close> is \<open>undefined\<close> in this class, so the call
  throws a \<open>TypeError\<close>, which is rethrown as \<open>Error processing script: ...\<close>.
\<close>

definition processScript_v1 :: "string \<Rightarrow> script_analysis res" where
  "processScript_v1 scriptText = Inl (ProcessScriptFailed (NotAFunction ''this.formatScript''))"

text \<open>
  \<open>generateScript\<close>: the chat completion of Gemini (its \<open>choices[0].message.content\<close>)
  is the answer of \<open>llm\<close>.
\<close>

definition generateScript_v1 ::
  "llm \<Rightarrow> string option \<Rightarrow> script_options option \<Rightarrow> script_analysis old_script res" where
  "generateScript_v1 llm prompt options =
     (case old_options options of
        (style, tone, duration, format) \<Rightarrow>
          (case llm (Some (constructSystemPrompt_v1 style tone duration format)) prompt of
             Inl e \<Rightarrow> Inl (ScriptGenerationFailed e)
           | Inr generatedScript \<Rightarrow>
               (case processScript_v1 generatedScript of
                  Inl e \<Rightarrow> Inl (ScriptGenerationFailed e)
                | Inr analysis \<Rightarrow>
                    Inr \<lparr>os_originalPrompt = prompt, os_generatedScript = generatedScript,
                         os_analysis = analysis\<rparr>)))"

definition generate_script_v1 ::
  "llm \<Rightarrow> string option \<Rightarrow> script_options option \<Rightarrow> script_analysis old_script reply" where
  "generate_script_v1 llm prompt options =
     (if prompt = None \<or> prompt = Some [] then BadRequest400
      else reply_of (generateScript_v1 llm prompt options))"

definition generate_video_script_v1 :: "llm \<Rightarrow> string option \<Rightarrow> script_analysis old_script reply" where
  "generate_video_script_v1 llm prompt = reply_of (generateScript_v1 llm prompt (Some oldVideoScriptOptions))"

subsection \<open>Specification helpers\<close>

text \<open>
  Paragraphs that a blank line joins and \<open>para_split\<close> splits back: none holds a line
  feed or starts with white space, and only the last may be empty.
\<close>

definition joinable :: "string list \<Rightarrow> bool" where
  "joinable qs \<longleftrightarrow> (\<forall>q\<in>set qs. CHR 0x0A \<notin> set q \<and> (q = [] \<or> \<not> js_ws (hd q))) \<and> (\<forall>q\<in>set (butlast qs). q \<noteq> [])"


section \<open>Properties\<close>

text \<open>
  The whitespace lemmas, then the split of a joined list of paragraphs, which give the
  idempotence of \<open>formatScript\<close>: a formatted script is formatted already. Then the
  bounds of the readability score and the failure of every request to the Gemini
  version, whose \<open>processScript\<close> calls a method the class does not have.
\<close>

lemma collapse_ws_ws: "c \<in> set (collapse_ws s) \<Longrightarrow> js_ws c \<Longrightarrow> c = CHR '' ''"
  by (induction s rule: collapse_ws.induct) (auto split: if_splits)

lemma collapse_ws_hd: "\<not> js_ws c \<Longrightarrow> collapse_ws (c # cs) = c # collapse_ws cs"
  by simp

lemma collapse_ws_Nil_iff [simp]: "collapse_ws s = [] \<longleftrightarrow> s = []"
  by (cases s) auto

lemma collapse_ws_dropWhile: "dropWhile js_ws (collapse_ws (dropWhile js_ws s)) = collapse_ws (dropWhile js_ws s)"
proof (cases "dropWhile js_ws s")
  case (Cons c cs)
  then have "\<not> js_ws c" using hd_dropWhile_not [of js_ws s] by auto
  with Cons show ?thesis by simp
next
  case Nil
  then show ?thesis by (simp only: Nil) simp
qed

lemma collapse_ws_idem [simp]: "collapse_ws (collapse_ws s) = collapse_ws s"
proof (induction s rule: collapse_ws.induct)
  case (2 c cs)
  show ?case
  proof (cases "js_ws c")
    case True
    have "js_ws (CHR '' '')" by (simp add: js_ws_def)
    with True 2 show ?thesis by (simp add: collapse_ws_dropWhile)
  qed (use 2 in simp)
qed simp

lemma collapse_ws_last: "s \<noteq> [] \<Longrightarrow> \<not> js_ws (last s) \<Longrightarrow> \<not> js_ws (last (collapse_ws s))"
proof (induction s rule: collapse_ws.induct)
  case (2 c cs)
  show ?case
  proof (cases "js_ws c")
    case True
    then have "dropWhile js_ws cs \<noteq> [] \<and> last (dropWhile js_ws cs) = last cs"
      using 2(3,4) by (induction cs) auto
    with True 2(1,3,4) show ?thesis by (cases cs) auto
  next
    case False
    with 2(2,3,4) show ?thesis by (cases cs) auto
  qed
qed simp

lemma js_trim_shape: "js_trim s = [] \<or> (\<not> js_ws (hd (js_trim s)) \<and> \<not> js_ws (last (js_trim s)))"
proof -
  define t where "t = dropWhile js_ws s"
  define u where "u = dropWhile js_ws (rev t)"
  have j: "js_trim s = rev u" by (simp add: js_trim_def t_def u_def)
  show ?thesis
  proof (cases "u = []")
    case False
    have "rev t = takeWhile js_ws (rev t) @ u" by (simp add: u_def)
    then have "t = rev u @ rev (takeWhile js_ws (rev t))" by (metis rev_append rev_rev_ident)
    moreover from this False have "t \<noteq> []" by auto
    ultimately have "hd t = hd (rev u)" using False by (metis hd_append2 Nil_is_rev_conv)
    moreover have "\<not> js_ws (hd t)" using hd_dropWhile_not [of js_ws s] \<open>t \<noteq> []\<close> by (simp add: t_def)
    moreover have "\<not> js_ws (hd u)" using hd_dropWhile_not [of js_ws "rev t"] False by (simp add: u_def)
    ultimately show ?thesis using False by (simp add: j last_rev)
  qed (simp add: j)
qed

lemma js_trim_id: "t = [] \<or> (\<not> js_ws (hd t) \<and> \<not> js_ws (last t)) \<Longrightarrow> js_trim t = t"
proof (cases "t = []")
  case False
  assume a: "t = [] \<or> (\<not> js_ws (hd t) \<and> \<not> js_ws (last t))"
  with False have "dropWhile js_ws t = t" by (intro dropWhile_hd_not) simp
  moreover have "dropWhile js_ws (rev t) = rev t" using a False by (intro dropWhile_hd_not) (simp add: hd_rev)
  ultimately show ?thesis by (simp add: js_trim_def)
qed (simp add: js_trim_def)

lemma formatParagraph_no_nl: "CHR 0x0A \<notin> set (formatParagraph p)"
  using collapse_ws_ws [of "CHR 0x0A"] by (auto simp: formatParagraph_def js_ws_def)

lemma formatParagraph_hd: "formatParagraph p = [] \<or> \<not> js_ws (hd (formatParagraph p))"
  using js_trim_shape [of p] by (cases "js_trim p") (auto simp: formatParagraph_def)

lemma formatParagraph_idem [simp]: "formatParagraph (formatParagraph p) = formatParagraph p"
proof -
  have "js_trim (collapse_ws (js_trim p)) = collapse_ws (js_trim p)"
    using js_trim_shape [of p] collapse_ws_last [of "js_trim p"]
    by (intro js_trim_id) (cases "js_trim p"; auto)
  then show ?thesis by (simp add: formatParagraph_def)
qed

lemma js_trim_Nil_iff: "js_trim p = [] \<longleftrightarrow> list_all js_ws p"
proof
  assume "js_trim p = []"
  then have "\<forall>x\<in>set (dropWhile js_ws p). js_ws x" by (simp add: js_trim_def)
  then have "dropWhile js_ws p = []" using hd_dropWhile_not [of js_ws p] by (cases "dropWhile js_ws p") auto
  then show "list_all js_ws p" by (simp add: list_all_iff)
qed (auto simp: js_trim_def list_all_iff dest: set_dropWhileD)

lemma formatParagraph_Nil_iff: "formatParagraph p = [] \<longleftrightarrow> list_all js_ws p"
  by (simp add: formatParagraph_def js_trim_Nil_iff)

lemma para_split_scan: "CHR 0x0A \<notin> set q \<Longrightarrow> para_split cur (q @ r) = para_split (rev q @ cur) r"
  by (induction q arbitrary: cur) auto

lemma para_split_ne [simp]: "para_split cur s \<noteq> []"
  by (induction cur s rule: para_split.induct) auto

lemma para_split_prefix: "para_split cur s = p # ps \<Longrightarrow> \<exists>x. p = rev cur @ x"
proof (induction cur s arbitrary: p ps rule: para_split.induct)
  case (2 cur c cs)
  then show ?case by (fastforce split: if_splits)
qed simp

lemma nl_match_rest: "CHR 0x0A \<notin> set (takeWhile js_ws (drop (nl_match cs) cs))"
proof -
  define w where "w = takeWhile js_ws cs"
  have cs: "cs = w @ dropWhile js_ws cs" by (simp add: w_def)
  have "rev w = takeWhile (\<lambda>c. c \<noteq> CHR 0x0A) (rev w) @ dropWhile (\<lambda>c. c \<noteq> CHR 0x0A) (rev w)" by simp
  then have w: "w = rev (dropWhile (\<lambda>c. c \<noteq> CHR 0x0A) (rev w)) @ rev (takeWhile (\<lambda>c. c \<noteq> CHR 0x0A) (rev w))"
    by (metis rev_append rev_rev_ident)
  have k: "nl_match cs = length (rev (dropWhile (\<lambda>c. c \<noteq> CHR 0x0A) (rev w)))" by (simp add: nl_match_def w_def)
  have d: "drop (nl_match cs) w = rev (takeWhile (\<lambda>c. c \<noteq> CHR 0x0A) (rev w))"
    by (subst w, simp only: k drop_append) simp
  have "nl_match cs \<le> length w" using k length_dropWhile_le [of _ "rev w"] by simp
  then have "drop (nl_match cs) cs = drop (nl_match cs) w @ dropWhile js_ws cs" by (subst cs) simp
  moreover have "takeWhile js_ws (dropWhile js_ws cs) = []"
    using hd_dropWhile_not [of js_ws cs] by (metis takeWhile_eq_Nil_iff)
  moreover have "\<forall>x\<in>set (drop (nl_match cs) w). js_ws x"
    by (metis in_set_dropD set_takeWhileD w_def)
  ultimately have "takeWhile js_ws (drop (nl_match cs) cs) = drop (nl_match cs) w"
    by (simp add: takeWhile_append2)
  then show ?thesis using d by (auto dest: set_takeWhileD)
qed

lemma para_split_first_not_ws:
  "CHR 0x0A \<notin> set (takeWhile js_ws r) \<Longrightarrow> list_all js_ws cur \<Longrightarrow> para_split cur r = p # q # rest \<Longrightarrow>
   \<not> list_all js_ws p"
proof (induction r arbitrary: cur)
  case (Cons c cs)
  show ?case
  proof (cases "c = CHR 0x0A \<and> 0 < nl_match cs")
    case True
    with Cons.prems(1) show ?thesis by (simp add: js_ws_def)
  next
    case False
    with Cons.prems(3) have r: "para_split (c # cur) cs = p # q # rest" by simp
    show ?thesis
    proof (cases "js_ws c")
      case True
      with Cons.prems(1,2) have "CHR 0x0A \<notin> set (takeWhile js_ws cs)" "list_all js_ws (c # cur)" by auto
      from Cons.IH [OF this r] show ?thesis .
    next
      case False
      with para_split_prefix [OF r] show ?thesis by (auto simp: list_all_iff)
    qed
  qed
qed simp

lemma para_split_inner:
  "para_split cur s = ps \<Longrightarrow> 0 < i \<Longrightarrow> Suc i < length ps \<Longrightarrow> \<not> list_all js_ws (ps ! i)"
proof (induction cur s arbitrary: ps i rule: para_split.induct)
  case (2 cur c cs)
  show ?case
  proof (cases "c = CHR 0x0A \<and> 0 < nl_match cs")
    case True
    define r where "r = drop (nl_match cs) cs"
    from True "2.prems"(1) have ps: "ps = rev cur # para_split [] r" by (simp add: r_def)
    show ?thesis
    proof (cases "i = 1")
      case True
      from "2.prems"(3) ps True obtain p q rest where pq: "para_split [] r = p # q # rest"
        by (cases "para_split [] r" rule: remdups_adj.cases) auto
      have "\<not> list_all js_ws p"
        by (rule para_split_first_not_ws [OF nl_match_rest [of cs, folded r_def] _ pq]) simp
      with pq ps True show ?thesis by simp
    next
      case False
      with "2.prems"(2) have "0 < i - 1" by simp
      moreover have "Suc (i - 1) < length (para_split [] r)" using "2.prems"(2,3) ps by simp
      ultimately have "\<not> list_all js_ws (para_split [] r ! (i - 1))"
        using "2.IH"(1) [OF True refl] by (simp add: r_def)
      then show ?thesis using ps "2.prems"(2) by (cases i) auto
    qed
  next
    case False
    with "2.prems" "2.IH"(2) [OF False] show ?thesis by simp
  qed
qed auto

lemma joinable_Cons: "joinable (q # qs) \<Longrightarrow> joinable qs"
  by (cases qs) (auto simp: joinable_def)

lemma takeWhile_join_joinable:
  "joinable (q # qs) \<Longrightarrow> takeWhile js_ws (js_join sep (q # qs)) = []"
  by (cases q; cases qs) (auto simp: joinable_def)

lemma nl_match_nl: "takeWhile js_ws r = [] \<Longrightarrow> nl_match (CHR 0x0A # r) = 1"
  by (simp add: nl_match_def js_ws_def)

lemma para_split_join:
  "joinable qs \<Longrightarrow> CHR 0x0A \<notin> set q \<Longrightarrow>
   para_split cur (js_join [CHR 0x0A, CHR 0x0A] (q # qs)) = (rev cur @ q) # qs"
proof (induction qs arbitrary: q cur)
  case Nil
  then show ?case using para_split_scan [of q cur "[]"] by simp
next
  case (Cons q2 qs)
  let ?R = "js_join [CHR 0x0A, CHR 0x0A] (q2 # qs)"
  have "para_split cur (js_join [CHR 0x0A, CHR 0x0A] (q # q2 # qs)) =
          para_split (rev q @ cur) (CHR 0x0A # CHR 0x0A # ?R)"
    using para_split_scan [OF Cons.prems(2), of cur] by simp
  also have "\<dots> = (rev cur @ q) # para_split [] ?R"
    using nl_match_nl [OF takeWhile_join_joinable [OF Cons.prems(1)]] by simp
  also have "para_split [] ?R = q2 # qs"
    using Cons.IH [OF joinable_Cons [OF Cons.prems(1)], of q2 "[]"] Cons.prems(1) by (simp add: joinable_def)
  finally show ?case .
qed

lemma format_paragraphs_joinable:
  "joinable (tl (map formatParagraph (para_split [] s)))"
proof -
  let ?ps = "para_split [] s"
  have "tl (map formatParagraph ?ps) ! j \<noteq> []" if "j < length (tl ?ps) - 1" for j
  proof -
    have "\<not> list_all js_ws (?ps ! Suc j)" using that by (intro para_split_inner [OF refl]) auto
    then show ?thesis using that by (simp add: formatParagraph_Nil_iff nth_tl)
  qed
  then have "\<forall>q\<in>set (butlast (tl (map formatParagraph ?ps))). q \<noteq> []"
    by (auto simp: in_set_conv_nth nth_butlast)
  moreover have "\<exists>p. q = formatParagraph p" if "q \<in> set (tl (map formatParagraph ?ps))" for q
    using that by (cases ?ps) auto
  ultimately show ?thesis
    using formatParagraph_no_nl formatParagraph_hd unfolding joinable_def by metis
qed


theorem generate_script_v1_never_ok:
  "generate_script_v1 llm prompt options \<noteq> Ok200 r \<and> generate_video_script_v1 llm prompt \<noteq> Ok200 r"
  by (auto simp: generate_script_v1_def generate_video_script_v1_def generateScript_v1_def processScript_v1_def
                 reply_of_def split: prod.splits sum.splits)

lemma js_round_bounds: "0 \<le> r \<Longrightarrow> r \<le> 100 \<Longrightarrow> 0 \<le> js_round r \<and> js_round r \<le> 100"
  by (simp add: js_round_def)

theorem optimizeScript_v2_readability:
  assumes "sentences t \<noteq> []"
  shows "\<exists>r. op_readabilityScore (optimizeScript_v2 sentences t) = Num (of_int r) \<and> 0 \<le> r \<and> r \<le> 100"
proof -
  define a where "a = real (length (word_tokenize t)) / real (length (sentences t))"
  define x where "x = max 0 (min 100 (100 - \<bar>a - 20\<bar> * 2))"
  have "op_readabilityScore (optimizeScript_v2 sentences t) = Num (of_int (js_round x))"
    using assms by (auto simp: optimizeScript_v2_def Let_def js_round_num_def a_def x_def js_sub_def js_min_def
                               js_max_def optimalSentenceLength_def max_def min_def)
  moreover have "0 \<le> x" "x \<le> 100" by (auto simp: x_def)
  ultimately show ?thesis using js_round_bounds by blast
qed

end
