(* ===== verification/LegacyRenderer.thy ===== *)
theory LegacyRenderer
  imports Timeline ScriptWizard JsString
begin

text \<open>
  The superseded renderer \<open>src/backend/controllers/video.generator.controller copy.js\<close>,
  a second \<open>VideoGeneratorController\<close> over the same encoder model. Its
  \<open>verifyFile\<close> and \<open>stripAudioFromVideo\<close> are the ones of
  \<open>SceneRenderer\<close> (the code is the same). A scene clip is the media cut by
  \<open>-shortest\<close> against the narration; an image is looped and cut at
  \<open>media.duration || 5\<close>, which fluent-ffmpeg passes to \<open>-t\<close> as it is, so a
  timing string \<open>"m:ss"\<close> of the script is read by ffmpeg's duration parser
  \<open>av_parse_time\<close> (modelled here from libavutil's documented syntax). The
  clips are concatenated by a manifest of \<open>file\<close> lines only, so each contributes
  its probed length.
\<close>

subsection \<open>ffmpeg's duration syntax\<close>

text \<open>
  \<open>date_get_num\<close> of libavutil: one to \<open>len\<close> decimal digits whose value is at
  most \<open>maxv\<close>, and the rest of the string.
\<close>

definition date_get_num :: "nat \<Rightarrow> nat \<Rightarrow> string \<Rightarrow> (nat \<times> string) option" where
  "date_get_num maxv len p =
     (let ds = take len (takeWhile is_digit p)
      in if ds = [] \<or> maxv < digits_val ds then None else Some (digits_val ds, drop (length ds) p))"

text \<open>A literal character of a \<open>strptime\<close> format.\<close>

definition strp_char :: "char \<Rightarrow> (nat \<times> string) option \<Rightarrow> (nat \<times> string) option" where
  "strp_char ch r =
     (case r of None \<Rightarrow> None | Some (v, q) \<Rightarrow> if q \<noteq> [] \<and> hd q = ch then Some (v, tl q) else None)"

text \<open>\<open>av_small_strptime(p, "%M:%S")\<close>: minutes and seconds, each at most 59.\<close>

definition strp_ms :: "string \<Rightarrow> (nat \<times> string) option" where
  "strp_ms p =
     (case strp_char CHR '':'' (date_get_num 59 2 p) of
        None \<Rightarrow> None
      | Some (m, r) \<Rightarrow>
          (case date_get_num 59 2 r of None \<Rightarrow> None | Some (sec, q) \<Rightarrow> Some (60 * m + sec, q)))"

text \<open>\<open>av_small_strptime(p, "%J:%M:%S")\<close>: hours (up to four digits), minutes, seconds.\<close>

definition strp_hms :: "string \<Rightarrow> (nat \<times> string) option" where
  "strp_hms p =
     (case strp_char CHR '':'' (date_get_num 2147483647 4 p) of
        None \<Rightarrow> None
      | Some (h, r) \<Rightarrow> map_option (\<lambda>(ms, q). (3600 * h + ms, q)) (strp_ms r))"

definition int64_max :: nat where
  "int64_max = 2 ^ 63 - 1"

text \<open>
  The whole seconds of a duration: \<open>HH:MM:SS\<close>, else \<open>MM:SS\<close>, else the digits
  \<open>strtoll\<close> reads (leading white space and a second sign, which \<open>strtoll\<close> would
  also accept, are not modelled and count as no digits).
\<close>

definition time_secs :: "string \<Rightarrow> (nat \<times> string) option" where
  "time_secs p =
     (case strp_hms p of
        Some r \<Rightarrow> Some r
      | None \<Rightarrow>
          (case strp_ms p of
             Some r \<Rightarrow> Some r
           | None \<Rightarrow>
               (let ds = takeWhile is_digit p
                in if ds = [] \<or> int64_max < digits_val ds then None
                   else Some (digits_val ds, drop (length ds) p))))"

text \<open>The \<open>.m...\<close> part: its first six digits as microseconds, the later digits skipped.\<close>

definition time_frac :: "string \<Rightarrow> nat \<times> string" where
  "time_frac q =
     (if q \<noteq> [] \<and> hd q = CHR ''.''
      then (let ds = takeWhile is_digit (tl q); d6 = take 6 ds
            in (digits_val d6 * 10 ^ (6 - length d6), drop (length ds) (tl q)))
      else (0, q))"

text \<open>The unit suffix \<open>ms\<close>, \<open>us\<close> or \<open>s\<close>: the unit in microseconds and the fraction.\<close>

definition time_unit :: "nat \<Rightarrow> string \<Rightarrow> nat \<times> nat \<times> string" where
  "time_unit micro q =
     (if take 2 q = ''ms'' then (1000, micro div 1000, drop 2 q)
      else if take 2 q = ''us'' then (1, 0, drop 2 q)
      else if take 1 q = ''s'' then (1000000, micro, drop 1 q)
      else (1000000, micro, q))"

text \<open>
  \<open>av_parse_time(&t, timestr, 1)\<close>: the duration in microseconds, \<open>None\<close> where ffmpeg
  reports an invalid duration (trailing characters, a field out of range, overflow).
\<close>

definition av_parse_time :: "string \<Rightarrow> int option" where
  "av_parse_time timestr =
     (let negative = (timestr \<noteq> [] \<and> hd timestr = CHR ''-'');
          p = (if negative then tl timestr else timestr)
      in case time_secs p of
           None \<Rightarrow> None
         | Some (t, q) \<Rightarrow>
             (let (micro, q1) = time_frac q;
                  (suffix, micro1, q2) = time_unit micro q1
              in if q2 \<noteq> [] then None
                 else if (int64_max - micro1) div suffix < t then None
                 else (let v = int (t * suffix + micro1) in Some (if negative then - v else v))))"

subsection \<open>The scene clip\<close>

text \<open>
  The value \<open>.duration(v)\<close> hands to \<open>-t\<close>, as the encoder reads it: a number as it
  is, a string through \<open>av_parse_time\<close>; what ffmpeg rejects is \<open>NaN\<close>, which makes
  the run fail (\<open>caps\<close>).
\<close>

fun legacy_t :: "jsval \<Rightarrow> jsnum" where
  "legacy_t (JNumber n) = n"
| "legacy_t (JString str) =
     (case av_parse_time str of None \<Rightarrow> NaN | Some us \<Rightarrow> Num (real_of_int us / 1000000))"
| "legacy_t _ = NaN"

definition legacySceneOptions :: "out_opt list" where
  "legacySceneOptions =
     [OptStr ''-c:v libx264'', OptStr ''-pix_fmt yuv420p'', OptStr ''-movflags +faststart'',
      Shortest, OptStr ''-c:a aac'', OptStr ''-b:a 192k'']"

text \<open>
  The command of the promise executor: \<open>ffmpeg(videoPath)\<close>; for an image
  \<open>.loop(1)\<close>, which is \<open>-loop 1\<close> on the input and \<open>.duration(1)\<close>, then
  \<open>.duration(media.duration || 5)\<close>; the narration as a second input when it exists;
  the fixed options, \<open>.size('1920x1080')\<close> (a scale filter) and the output.
\<close>

definition legacySceneCommand :: "media_desc \<Rightarrow> path \<Rightarrow> path option \<Rightarrow> path \<Rightarrow> ffcmd res" where
  "legacySceneCommand m videoPath audioPath outputPath =
     bindE
       (if mtype m = ''image'' then
          bindE (ff_inputOptions [Loop1] (ffmpeg_new (Some videoPath)))
            (\<lambda>c. Inr (ff_duration (legacy_t (jsval_or (mduration m) (JNumber (Num 5))))
                        (ff_duration (Num 1) c)))
        else Inr (ffmpeg_new (Some videoPath)))
       (\<lambda>c. (let c1 = (case audioPath of None \<Rightarrow> c | Some ap \<Rightarrow> ff_input ap c)
             in Inr (ff_output outputPath
                       (ff_videoFilters [''scale=w=1920:h=1080''] (ff_outputOptions legacySceneOptions c1)))))"

text \<open>
  \<open>generateSceneVideo(scene)\<close>: both paths are verified first (reading
  \<open>scene.media.path\<close> or \<open>scene.audio.path\<close> of a \<open>null\<close> object throws);
  \<open>null\<close> when the media file is missing; a video with an existing narration is first
  stripped of its audio; the promise resolves with the output path.
\<close>

definition generateSceneVideo_legacy :: "enc_env \<Rightarrow> scene \<Rightarrow> (fs, path option) act" where
  "generateSceneVideo_legacy env sc s =
     (case media sc of
        None \<Rightarrow> (Inl TypeErrorNull, s)
      | Some m \<Rightarrow>
          (case audio sc of
             None \<Rightarrow> (Inl TypeErrorNull, s)
           | Some ad \<Rightarrow>
               (let mediaExists = verifyFile s (Some (mpath m));
                    audioExists = verifyFile s (apath ad)
                in if \<not> mediaExists then (Inr None, s)
                   else
                     (let outputPath = sceneOutputPath sc
                      in bindS (if mtype m \<noteq> ''image'' \<and> audioExists
                                then stripAudioFromVideo env (mpath m) else returnS (mpath m))
                           (\<lambda>videoPath.
                              bindS (liftS (legacySceneCommand m videoPath
                                             (if audioExists then apath ad else None) outputPath))
                                (\<lambda>c. bindS (ff_run env c) (\<lambda>_. returnS (Some outputPath)))) s))))"

text \<open>The callback of \<open>processScenes\<close>: a rejection is caught and becomes \<open>null\<close>.\<close>

definition processScene_legacy :: "enc_env \<Rightarrow> scene \<Rightarrow> (fs, path option) act" where
  "processScene_legacy env scene s =
     (case generateSceneVideo_legacy env scene s of
        (Inl error, s') \<Rightarrow> (Inr None, s')
      | (Inr r, s') \<Rightarrow> (Inr r, s'))"

definition processScenes_legacy :: "enc_env \<Rightarrow> scene list \<Rightarrow> (fs, path list) act" where
  "processScenes_legacy env scenes =
     bindS (mapS (processScene_legacy env) scenes) (\<lambda>sceneVideoPaths. returnS (somes sceneVideoPaths))"

subsection \<open>Concatenation and the job\<close>

definition legacyConcatOptions :: "out_opt list" where
  "legacyConcatOptions =
     [OptStr ''-c:v libx264'', OptStr ''-preset slow'', OptStr ''-crf 22'', OptStr ''-c:a aac'',
      OptStr ''-b:a 192k'', OptStr ''-pix_fmt yuv420p'', OptStr ''-movflags +faststart'']"

definition legacyConcatCommand :: "path \<Rightarrow> ffcmd res" where
  "legacyConcatCommand finalOutputPath =
     bindE (ff_inputOptions [FmtConcat, Safe0] (ff_input concatFilePath (ffmpeg_new None)))
       (\<lambda>c. Inr (ff_output finalOutputPath (ff_outputOptions legacyConcatOptions c)))"

text \<open>
  \<open>combineSceneVideos(scenePaths, outputFileName)\<close>: the manifest is the lines
  \<open>file 'p'\<close> only, with no \<open>duration\<close> lines.
\<close>

definition combineSceneVideos_legacy :: "enc_env \<Rightarrow> path list \<Rightarrow> string option \<Rightarrow> (fs, path) act" where
  "combineSceneVideos_legacy env scenePaths outputFileName =
     (let finalOutputPath = combineOutputPath outputFileName
      in bindS (write_text env concatFilePath (map MFile scenePaths)) (\<lambda>_.
         bindS (liftS (legacyConcatCommand finalOutputPath)) (\<lambda>c.
         bindS (ff_run env c) (\<lambda>_. returnS finalOutputPath))))"

text \<open>
  \<open>generateVideo(scenes)\<close>: the clips, \<open>No scenes processed\<close> when there is none,
  else their concatenation into \<open>output/video_<uuid>.mp4\<close> (the final
  \<open>verifyFile\<close> only logs; the \<open>mkdir\<close> calls have no effect on the store).
\<close>

definition generateVideo_legacy :: "enc_env \<Rightarrow> scene list \<Rightarrow> (fs, path) act" where
  "generateVideo_legacy env scenes =
     bindS (processScenes_legacy env scenes) (\<lambda>sceneVideoPaths.
       if sceneVideoPaths = [] then throwS NoScenesProcessed
       else bindS uuidv4 (\<lambda>u. combineSceneVideos_legacy env sceneVideoPaths (Some (''video_'' @ u))))"

subsection \<open>Scenario data\<close>

text \<open>A script of \<open>n\<close> one-letter words, an image scene timed by it, and its store.\<close>

definition words :: "nat \<Rightarrow> string" where
  "words n = concat (replicate n ''w '')"

definition slide_media :: "string \<Rightarrow> media_desc" where
  "slide_media script =
     \<lparr>mtype = ''image'', mpath = ''img.jpg'', mduration = JString (estimatedDuration (analyzeTimings script))\<rparr>"

definition narr_audio :: audio_desc where
  "narr_audio = \<lparr>apath = Some ''narr.mp3'', atype = ''audio/mp3'', apaths = None\<rparr>"

definition slide_scene :: "nat \<Rightarrow> string \<Rightarrow> scene" where
  "slide_scene n script = \<lparr>sceneNumber = n, media = Some (slide_media script), audio = Some narr_audio\<rparr>"

definition slide_store :: fs where
  "slide_store = store_of [(''img.jpg'', still_image), (''narr.mp3'', narration 40)]"

subsection \<open>Lemmas: the duration parser\<close>

lemma nat_to_str_length_le: "n < 10 ^ k \<Longrightarrow> 0 < k \<Longrightarrow> length (nat_to_str n) \<le> k"
proof (induction n arbitrary: k rule: nat_to_str.induct)
  case (1 n)
  show ?case
  proof (cases "n < 10")
    case True
    then show ?thesis using "1.prems" by (subst nat_to_str.simps) simp
  next
    case False
    then obtain j where k: "k = Suc j" "0 < j"
      using "1.prems" by (cases k; cases "k - 1") (auto simp: not_less)
    have "n div 10 < 10 ^ j" using "1.prems"(1) k by (simp add: div_less_iff_less_mult mult.commute)
    then show ?thesis using "1.IH" [OF False] k False by (subst nat_to_str.simps) simp
  qed
qed

lemma takeWhile_digits_nondigit:
  "\<forall>c\<in>set ds. is_digit c \<Longrightarrow> \<not> is_digit c \<Longrightarrow> takeWhile is_digit (ds @ c # r) = ds"
  by (simp add: takeWhile_append2)

lemma date_get_num_sep:
  assumes d: "\<forall>c\<in>set ds. is_digit c" "ds \<noteq> []" and len: "0 < len" and c: "\<not> is_digit ch"
  shows "strp_char ch (date_get_num maxv len (ds @ ch # r)) =
           (if length ds \<le> len \<and> digits_val ds \<le> maxv then Some (digits_val ds, r) else None)"
proof (cases "length ds \<le> len")
  case True
  then show ?thesis using d c
    by (auto simp: date_get_num_def strp_char_def takeWhile_digits_nondigit Let_def)
next
  case False
  then have "drop len ds \<noteq> []" "hd (drop len ds) \<in> set ds"
    by (simp_all add: hd_drop_conv_nth)
  then have "hd (drop len ds) \<noteq> ch" using d c by auto
  then show ?thesis using d c False len \<open>drop len ds \<noteq> []\<close>
    by (auto simp: date_get_num_def strp_char_def takeWhile_digits_nondigit Let_def)
qed

lemma digits_val_zeros: "digits_val (replicate k CHR ''0'' @ ds) = digits_val ds"
proof -
  have "foldl (\<lambda>n c. 10 * n + digit_val c) 0 (replicate k CHR ''0'') = 0"
    by (induction k) (simp_all add: digit_val_def)
  then show ?thesis by (simp add: digits_val_def)
qed

lemma pad2_digits:
  assumes "sec < 100"
  shows "\<forall>c\<in>set (padStart (nat_to_str sec) 2 CHR ''0''). is_digit c"
    "length (padStart (nat_to_str sec) 2 CHR ''0'') = 2"
    "digits_val (padStart (nat_to_str sec) 2 CHR ''0'') = sec"
proof -
  have l: "length (nat_to_str sec) \<le> 2" using assms by (intro nat_to_str_length_le) simp_all
  show "\<forall>c\<in>set (padStart (nat_to_str sec) 2 CHR ''0''). is_digit c"
    using nat_to_str_digits [of sec] by (auto simp: padStart_def is_digit_def)
  show "length (padStart (nat_to_str sec) 2 CHR ''0'') = 2" using l by (simp add: padStart_def)
  show "digits_val (padStart (nat_to_str sec) 2 CHR ''0'') = sec"
    by (simp add: padStart_def digits_val_zeros digits_val_nat_to_str)
qed

lemma date_get_num_all:
  assumes "\<forall>c\<in>set ds. is_digit c" "length ds = len"
  shows "date_get_num maxv len ds = (if ds = [] \<or> maxv < digits_val ds then None else Some (digits_val ds, []))"
proof -
  have t: "takeWhile is_digit ds = ds" using assms(1) by (simp add: takeWhile_eq_all_conv)
  show ?thesis unfolding date_get_num_def Let_def t using assms(2) by simp
qed

lemma strp_char_digits: "\<forall>c\<in>set r. is_digit c \<Longrightarrow> \<not> is_digit ch \<Longrightarrow> strp_char ch (date_get_num maxv len r) = None"
proof -
  assume d: "\<forall>c\<in>set r. is_digit c" and ch: "\<not> is_digit ch"
  have t: "takeWhile is_digit r = r" using d by (simp add: takeWhile_eq_all_conv)
  have "drop k r \<noteq> [] \<Longrightarrow> is_digit (hd (drop k r))" for k
    using d by (simp add: hd_drop_conv_nth)
  then show ?thesis using ch
    unfolding strp_char_def date_get_num_def Let_def t by auto
qed

lemma strp_ms_digits: "\<forall>c\<in>set r. is_digit c \<Longrightarrow> strp_ms r = None"
  by (simp add: strp_ms_def strp_char_digits is_digit_def)

lemma colon_not_digit: "\<not> is_digit CHR '':''"
  by (simp add: is_digit_def)

lemma time_tail_colon: "time_unit (fst (time_frac (CHR '':'' # r))) (snd (time_frac (CHR '':'' # r))) = (1000000, 0, CHR '':'' # r)"
  by (simp add: time_frac_def time_unit_def)

lemma av_parse_timing:
  assumes sec: "sec < 100"
  shows "av_parse_time (nat_to_str m @ '':'' @ padStart (nat_to_str sec) 2 CHR ''0'') =
           (if m \<le> 59 \<and> sec \<le> 59 then Some (int (60 * m + sec) * 1000000) else None)"
proof -
  let ?ss = "padStart (nat_to_str sec) 2 CHR ''0''"
  let ?p = "nat_to_str m @ CHR '':'' # ?ss"
  have dm: "\<forall>c\<in>set (nat_to_str m). is_digit c" "nat_to_str m \<noteq> []"
    by (rule nat_to_str_digits, rule nat_to_str_ne)
  note ds = pad2_digits [OF sec]
  have neg: "\<not> (?p \<noteq> [] \<and> hd ?p = CHR ''-'')"
    using hd_nat_to_str [of m] dm(2) digit_not_special by auto
  have hms: "strp_hms ?p = None"
    using date_get_num_sep [OF dm, of 4 "CHR '':''" 2147483647 ?ss] strp_ms_digits [OF ds(1)]
    by (simp add: strp_hms_def colon_not_digit)
  have l2: "m \<le> 59 \<Longrightarrow> length (nat_to_str m) \<le> 2" by (rule nat_to_str_length_le) simp_all
  have sep: "strp_char CHR '':'' (date_get_num 59 2 ?p) = (if m \<le> 59 then Some (m, ?ss) else None)"
    using date_get_num_sep [OF dm, of 2 "CHR '':''" 59 ?ss] l2
    by (auto simp: colon_not_digit digits_val_nat_to_str)
  have g: "date_get_num 59 2 ?ss = (if sec \<le> 59 then Some (sec, []) else None)"
    using date_get_num_all [OF ds(1,2), of 59] ds(2,3) by auto
  have ms: "strp_ms ?p = (if m \<le> 59 \<and> sec \<le> 59 then Some (60 * m + sec, []) else None)"
    by (simp add: strp_ms_def sep g)
  have tw: "takeWhile is_digit ?p = nat_to_str m"
    by (rule takeWhile_digits_nondigit [OF dm(1) colon_not_digit])
  show ?thesis
  proof (cases "m \<le> 59 \<and> sec \<le> 59")
    case True
    then have "60 * m + sec \<le> 3599" by simp
    then show ?thesis using True hms ms neg
      by (simp add: av_parse_time_def time_secs_def time_frac_def time_unit_def int64_max_def)
  next
    case False
    have "time_secs ?p = None \<or> time_secs ?p = Some (m, CHR '':'' # ?ss)"
      using hms ms False tw by (simp add: time_secs_def Let_def digits_val_nat_to_str)
    then show ?thesis using False neg time_tail_colon [of ?ss]
      by (auto simp: av_parse_time_def Let_def split: prod.splits)
  qed
qed

lemma word_tokenize_words: "word_tokenize (concat (replicate n ''w '')) = replicate n ''w''"
proof -
  have "split_runs_acc (\<lambda>c. \<not> is_word_char c) (concat (replicate n ''w '')) [] =
          replicate n ''w'' @ [[]]"
  proof (induction n)
    case 0
    then show ?case by simp
  next
    case (Suc n)
    have "dropWhile (\<lambda>c. \<not> is_word_char c) (concat (replicate n ''w '')) = concat (replicate n ''w '')"
      by (cases n) (simp_all add: is_word_char_def is_digit_def)
    with Suc show ?case by (simp add: is_word_char_def is_digit_def)
  qed
  then show ?thesis by (simp add: word_tokenize_def)
qed

lemma legacy_t_timing:
  "legacy_t (jsval_or (JString (estimatedDuration (analyzeTimings t))) (JNumber (Num 5))) =
     (if wordCount (analyzeTimings t) < 9000 \<and> wordCount (analyzeTimings t) mod 150 \<noteq> 149
      then Num (real (60 * (wordCount (analyzeTimings t) div 150) + timing_seconds (wordCount (analyzeTimings t))))
      else NaN)"
proof -
  let ?wc = "length (word_tokenize t)"
  have s: "timing_seconds ?wc < 100" using timing_seconds_le [of ?wc] by simp
  have s59: "timing_seconds ?wc \<le> 59 \<longleftrightarrow> ?wc mod 150 \<noteq> 149"
    using timing_seconds_le [of ?wc] timing_seconds_60 [of ?wc] by linarith
  have m59: "?wc div 150 \<le> 59 \<longleftrightarrow> ?wc < 9000" by linarith
  have ne: "jsval_truthy (JString (nat_to_str (?wc div 150) @ '':'' @ padStart (nat_to_str (timing_seconds ?wc)) 2 CHR ''0''))"
    by simp
  show ?thesis
    using av_parse_timing [OF s, of "?wc div 150"] s59 m59 ne
    by (simp add: analyzeTimings_def timing_minutes_div Let_def jsval_or_def del: jsval_truthy.simps)
qed

subsection \<open>Lemmas: the legacy scene and the concatenation\<close>

lemma legacySceneCommand_image:
  "mtype m = ''image'' \<Longrightarrow>
   legacySceneCommand m vp ap out =
     Inr \<lparr>cmd_inputs = \<lparr>in_path = vp, in_opts = [Loop1]\<rparr> #
            (case ap of None \<Rightarrow> [] | Some q \<Rightarrow> [\<lparr>in_path = q, in_opts = []\<rparr>]),
          out_opts = [OptT (Num 1), OptT (legacy_t (jsval_or (mduration m) (JNumber (Num 5))))] @ legacySceneOptions,
          vfilters = [''scale=w=1920:h=1080''], afilters = [], target = Some out\<rparr>"
  by (cases ap) (simp_all add: legacySceneCommand_def ff_inputOptions_def ffmpeg_new_def ff_duration_def
      ff_input_def ff_output_def ff_videoFilters_def ff_outputOptions_def)

lemma legacySceneCommand_video:
  "mtype m \<noteq> ''image'' \<Longrightarrow>
   legacySceneCommand m vp ap out =
     Inr \<lparr>cmd_inputs = \<lparr>in_path = vp, in_opts = []\<rparr> #
            (case ap of None \<Rightarrow> [] | Some q \<Rightarrow> [\<lparr>in_path = q, in_opts = []\<rparr>]),
          out_opts = legacySceneOptions,
          vfilters = [''scale=w=1920:h=1080''], afilters = [], target = Some out\<rparr>"
  by (cases ap) (simp_all add: legacySceneCommand_def ffmpeg_new_def
      ff_input_def ff_output_def ff_videoFilters_def ff_outputOptions_def)

lemma legacy_image_narrated:
  assumes m: "media sc = Some m" "mtype m = ''image''" "files s (mpath m) = Some fi" "kind fi = ImageFile"
    and a: "audio sc = Some ad" "apath ad = Some ap" "files s ap = Some fa" "fmt_duration fa = Num a" "0 \<le> a"
    and t: "legacy_t (jsval_or (mduration m) (JNumber (Num 5))) = Num x"
    and ok: "\<not> enc_fails env (sceneOutputPath sc)"
  shows "\<exists>s' f. generateSceneVideo_legacy env sc s = (Inr (Some (sceneOutputPath sc)), s') \<and>
           files s' (sceneOutputPath sc) = Some f \<and> fmt_duration f = Num (min a (max 0 x))"
  using m a t ok
  by (simp add: generateSceneVideo_legacy_def legacySceneCommand_image verifyFile_def file_accessible_def
      bindS_def returnS_def liftS_def ff_run_def input_spans_def in_span_def input_span_def num_span_def
      out_span_def span_base_def legacySceneOptions_def domI Let_def)

lemma legacy_image_bad_cap:
  assumes "media sc = Some m" "mtype m = ''image''" "mpath m \<in> dom (files s)" "audio sc = Some ad"
    "legacy_t (jsval_or (mduration m) (JNumber (Num 5))) = NaN"
  shows "generateSceneVideo_legacy env sc s = (Inl (EncoderFailed (sceneOutputPath sc)), s)"
  using assms
  by (auto simp: generateSceneVideo_legacy_def legacySceneCommand_image verifyFile_def file_accessible_def
      bindS_def returnS_def liftS_def ff_run_def input_spans_def in_span_def Let_def out_span_def
      legacySceneOptions_def split: option.split)

lemma timing_75: "timing_seconds 75 = 30"
  by (simp add: timing_seconds_eq)

lemma processScene_legacy_no_audio: "audio sc = None \<Longrightarrow> processScene_legacy env sc s = (Inr None, s)"
  by (simp add: processScene_legacy_def generateSceneVideo_legacy_def split: option.split)

lemma mapS_processScene_legacy_no_audio:
  "\<forall>sc\<in>set scs. audio sc = None \<Longrightarrow>
   mapS (processScene_legacy env) scs s = (Inr (map (\<lambda>_. None) scs), s)"
  by (induction scs) (simp_all add: processScene_legacy_no_audio bindS_def returnS_def)

lemma manifest_entries_files: "manifest_entries (map MFile ps) = Some (map (\<lambda>p. (p, None)) ps)"
proof (induction ps)
  case Nil
  then show ?case by simp
next
  case (Cons p ps)
  then show ?case by (cases ps) simp_all
qed

lemma entries_len_files:
  assumes "list_all2 (\<lambda>p x. getVideoDuration s p = Inr (Num x)) ps xs"
    and "\<forall>p\<in>set ps. files s' p = files s p" and "\<forall>x\<in>set xs. 0 \<le> x"
  shows "entries_len (files s') (map (\<lambda>p. (p, None)) ps) = Some (sum_list xs)"
  using assms
proof (induction rule: list_all2_induct)
  case Nil
  then show ?case by (simp add: entries_len_def)
next
  case (Cons p ps x xs)
  then obtain f where "files s p = Some f" "kind f \<noteq> TextFile" "fmt_duration f = Num x"
    by (auto simp: getVideoDuration_def ffprobe_def split: option.splits if_splits)
  with Cons show ?case
    by (auto simp: entries_len_def entry_len_def simp del: all_some_eq_Some)
qed

lemma legacyConcatCommand_eq:
  "legacyConcatCommand p =
     Inr \<lparr>cmd_inputs = [\<lparr>in_path = concatFilePath, in_opts = [FmtConcat, Safe0]\<rparr>],
          out_opts = legacyConcatOptions, vfilters = [], afilters = [], target = Some p\<rparr>"
  by (simp add: legacyConcatCommand_def ff_inputOptions_def ff_input_def ffmpeg_new_def ff_output_def
      ff_outputOptions_def)

subsection \<open>Properties\<close>

text \<open>
  C34. An image scene timed by the script estimate \<open>"m:ss"\<close> of a script of
  \<open>wc\<close> words, with \<open>wc < 9000\<close> and \<open>wc mod 150 \<noteq> 149\<close>: the legacy
  renderer passes the string to \<open>-t\<close>, ffmpeg reads it as \<open>60 m + ss\<close> seconds,
  and \<open>-shortest\<close> cuts the looped image at the narration, so the clip lasts
  \<open>min a (60 m + ss)\<close> for a narration of length \<open>a\<close>.
\<close>

theorem legacy_image_timing_clip:
  assumes m: "media sc = Some m" "mtype m = ''image''" "files s (mpath m) = Some fi" "kind fi = ImageFile"
    and d: "mduration m = JString (estimatedDuration (analyzeTimings t))"
      "wordCount (analyzeTimings t) < 9000" "wordCount (analyzeTimings t) mod 150 \<noteq> 149"
    and a: "audio sc = Some ad" "apath ad = Some ap" "files s ap = Some fa" "fmt_duration fa = Num a" "0 \<le> a"
    and ok: "\<not> enc_fails env (sceneOutputPath sc)"
  shows "\<exists>s' f. generateSceneVideo_legacy env sc s = (Inr (Some (sceneOutputPath sc)), s') \<and>
           files s' (sceneOutputPath sc) = Some f \<and>
           fmt_duration f = Num (min a (real (60 * (wordCount (analyzeTimings t) div 150) +
                                              timing_seconds (wordCount (analyzeTimings t)))))"
proof -
  let ?x = "real (60 * (wordCount (analyzeTimings t) div 150) + timing_seconds (wordCount (analyzeTimings t)))"
  have "legacy_t (jsval_or (mduration m) (JNumber (Num 5))) = Num ?x"
    using d by (simp add: legacy_t_timing)
  from legacy_image_narrated [OF m a this ok] show ?thesis by simp
qed

theorem legacy_image_timing_clip_witness:
  "\<exists>s' f. generateSceneVideo_legacy ideal_env (slide_scene 1 (words 75)) slide_store =
      (Inr (Some ''temp/scene_1_final.mp4''), s') \<and>
    files s' ''temp/scene_1_final.mp4'' = Some f \<and> fmt_duration f = Num 30"
proof -
  have wc: "wordCount (analyzeTimings (words 75)) = 75"
    by (simp add: analyzeTimings_def words_def word_tokenize_words Let_def)
  have c1: "char_of (49::nat) = CHR ''1''" by code_simp
  show ?thesis
    using legacy_image_timing_clip [of "slide_scene 1 (words 75)" "slide_media (words 75)" slide_store
        still_image "words 75" narr_audio "''narr.mp3''" "narration 40" 40 ideal_env] wc timing_75 c1
    by (simp add: slide_scene_def slide_media_def narr_audio_def slide_store_def store_of_def still_image_def narration_def ideal_env_def
        sceneOutputPath_def path_join_def tempDir_def nat_to_str.simps)
qed

text \<open>
  C35. When the script has \<open>wc mod 150 = 149\<close> words, its estimate reads
  \<open>"m:60"\<close>, which ffmpeg's duration parser refuses (seconds above 59): the
  encoder fails on the image scene, and \<open>processScenes\<close> drops it as \<open>null\<close>.
\<close>

theorem legacy_timing_60_rejected:
  assumes "media sc = Some m" "mtype m = ''image''" "mpath m \<in> dom (files s)" "audio sc = Some ad"
    "mduration m = JString (estimatedDuration (analyzeTimings t))" "wordCount (analyzeTimings t) mod 150 = 149"
  shows "generateSceneVideo_legacy env sc s = (Inl (EncoderFailed (sceneOutputPath sc)), s) \<and>
         processScene_legacy env sc s = (Inr None, s)"
proof -
  have "legacy_t (jsval_or (mduration m) (JNumber (Num 5))) = NaN"
    using assms(5,6) by (simp add: legacy_t_timing)
  from legacy_image_bad_cap [OF assms(1-4) this]
  have "generateSceneVideo_legacy env sc s = (Inl (EncoderFailed (sceneOutputPath sc)), s)" .
  then show ?thesis by (simp add: processScene_legacy_def)
qed

theorem legacy_timing_60_rejected_witness:
  "generateSceneVideo_legacy ideal_env (slide_scene 2 (words 149)) slide_store =
     (Inl (EncoderFailed ''temp/scene_2_final.mp4''), slide_store) \<and>
   processScene_legacy ideal_env (slide_scene 2 (words 149)) slide_store = (Inr None, slide_store)"
proof -
  have wc: "wordCount (analyzeTimings (words 149)) = 149"
    by (simp add: analyzeTimings_def words_def word_tokenize_words Let_def)
  have c2: "char_of (50::nat) = CHR ''2''" by code_simp
  show ?thesis
    using legacy_timing_60_rejected [of "slide_scene 2 (words 149)" "slide_media (words 149)" slide_store
        narr_audio "words 149" ideal_env] wc c2
    by (simp add: slide_scene_def slide_media_def narr_audio_def slide_store_def store_of_def sceneOutputPath_def path_join_def tempDir_def nat_to_str.simps)
qed

text \<open>
  C27. The legacy renderer reads \<open>scene.audio.path\<close> unguarded: a scene without an
  audio object throws and is dropped, so a job whose scenes all lack narration
  rejects with \<open>No scenes processed\<close>, however present their media are.
\<close>

theorem legacy_no_audio_rejected:
  "\<forall>sc\<in>set scenes. audio sc = None \<Longrightarrow> generateVideo_legacy env scenes s = (Inl NoScenesProcessed, s)"
  by (simp add: generateVideo_legacy_def processScenes_legacy_def mapS_processScene_legacy_no_audio
      bindS_def returnS_def throwS_def somes_eq_Nil_iff)

theorem legacy_no_audio_rejected_witness:
  "generateVideo_legacy ideal_env [(slide_scene 1 (words 75))\<lparr>audio := None\<rparr>] slide_store =
     (Inl NoScenesProcessed, slide_store)"
  using legacy_no_audio_rejected [of "[(slide_scene 1 (words 75))\<lparr>audio := None\<rparr>]" ideal_env slide_store]
  by simp

text \<open>
  C37. A video scene with a narration is stripped of its audio and encoded with
  \<open>-shortest\<close>: the clip lasts \<open>min v a\<close>, so a narration longer than its video
  is cut off at the end of the video.
\<close>

theorem legacy_video_narration_cut:
  assumes m: "media sc = Some m" "mtype m \<noteq> ''image''" "files s (mpath m) = Some fv" "fmt_duration fv = Num v" "0 \<le> v"
    and a: "audio sc = Some ad" "apath ad = Some ap" "files s ap = Some fa" "fmt_duration fa = Num a" "0 \<le> a"
    and inv: "store_inv s"
    and ok: "\<not> enc_fails env (uuid_temp_path (next_uuid s) ''_noaudio.mp4'')" "\<not> enc_fails env (sceneOutputPath sc)"
  shows "\<exists>s' f. generateSceneVideo_legacy env sc s = (Inr (Some (sceneOutputPath sc)), s') \<and>
           files s' (sceneOutputPath sc) = Some f \<and> fmt_duration f = Num (min v a)"
proof -
  have "uuid_temp_path (next_uuid s) ''_noaudio.mp4'' \<noteq> ap"
    using inv a(3) by (intro fresh_not_in_dom) (auto simp: store_inv_def temp_suffixes_def)
  then show ?thesis using m a ok
    by (simp add: generateSceneVideo_legacy_def legacySceneCommand_video verifyFile_def file_accessible_def
        stripAudioFromVideo_def uuidv4_def uuid_temp_path_def
        bindS_def returnS_def liftS_def ff_run_def input_spans_def in_span_def input_span_def num_span_def
        out_span_def span_base_def legacySceneOptions_def domI Let_def ff_output_def ff_outputOptions_def
        ffmpeg_new_def out_file_def)
qed

theorem legacy_video_narration_cut_witness:
  "\<exists>s' f. generateSceneVideo_legacy ideal_env (narrated_scene 3 ''video'' ''clip.mp4'' ''narr.mp3'')
            (store_of [(''clip.mp4'', clip 10), (''narr.mp3'', narration 14)]) =
          (Inr (Some ''temp/scene_3_final.mp4''), s') \<and>
          files s' ''temp/scene_3_final.mp4'' = Some f \<and> fmt_duration f = Num 10"
proof -
  have inv: "store_inv (store_of [(''clip.mp4'', clip 10), (''narr.mp3'', narration 14)])"
    by (rule store_of_inv) (simp add: path_join_def tempDir_def clip_def narration_def)
  have c3: "char_of (51::nat) = CHR ''3''" by code_simp
  show ?thesis
    using legacy_video_narration_cut [of "narrated_scene 3 ''video'' ''clip.mp4'' ''narr.mp3''"
        "\<lparr>mtype = ''video'', mpath = ''clip.mp4'', mduration = JUndefined\<rparr>"
        "store_of [(''clip.mp4'', clip 10), (''narr.mp3'', narration 14)]" "clip 10" 10
        "\<lparr>apath = Some ''narr.mp3'', atype = ''audio/mp3'', apaths = None\<rparr>" "''narr.mp3''" "narration 14" 14
        ideal_env] inv c3
    by (simp add: narrated_scene_def store_of_def clip_def narration_def ideal_env_def
        sceneOutputPath_def path_join_def tempDir_def nat_to_str.simps)
qed

text \<open>
  C38. The legacy concatenation writes a manifest of \<open>file\<close> lines only: on a
  consistent store, for clips whose probes give \<open>xs\<close>, the final file lasts the sum
  of \<open>xs\<close>.
\<close>

theorem legacy_combine_sum:
  assumes probes: "list_all2 (\<lambda>p x. getVideoDuration s p = Inr (Num x)) ps xs"
    and ne: "ps \<noteq> []" and inv: "store_inv s" and cf: "concatFilePath \<notin> set ps"
    and ok: "\<not> enc_fails env concatFilePath" "\<not> enc_fails env (combineOutputPath name)"
  shows "\<exists>s' f. combineSceneVideos_legacy env ps name s = (Inr (combineOutputPath name), s') \<and>
           files s' (combineOutputPath name) = Some f \<and> fmt_duration f = Num (sum_list xs)"
proof -
  let ?mf = "\<lparr>kind = TextFile, fmt_duration = NaN, has_audio = False, text_of = map MFile ps\<rparr>"
  let ?s1 = "s\<lparr>files := (files s)(concatFilePath \<mapsto> ?mf)\<rparr>"
  have nn: "\<forall>x\<in>set xs. 0 \<le> x" using probes inv by (rule probes_nonneg)
  then have nn_sum: "0 \<le> sum_list xs" by (simp add: sum_list_nonneg)
  have "entries_len (files ?s1) (map (\<lambda>p. (p, None)) ps) = Some (sum_list xs)"
    using entries_len_files [OF probes _ nn, of ?s1] cf by auto
  then have "concat_len (files ?s1) (map MFile ps) = Some (sum_list xs)"
    using ne by (simp add: concat_len_def manifest_entries_files)
  then show ?thesis using ok nn_sum
    by (simp add: combineSceneVideos_legacy_def write_text_def legacyConcatCommand_eq bindS_def liftS_def
        returnS_def ff_run_def input_spans_def in_span_def out_span_def legacyConcatOptions_def span_base_def Let_def)
qed

theorem legacy_combine_sum_witness:
  "\<exists>s' f. combineSceneVideos_legacy ideal_env [''temp/scene_1_final.mp4'', ''temp/scene_3_final.mp4''] None
            (store_of [(''temp/scene_1_final.mp4'', clip 5), (''temp/scene_3_final.mp4'', clip 4)]) =
          (Inr ''output/final.mp4'', s') \<and>
          files s' ''output/final.mp4'' = Some f \<and> fmt_duration f = Num 9"
proof -
  let ?s = "store_of [(''temp/scene_1_final.mp4'', clip 5), (''temp/scene_3_final.mp4'', clip 4)]"
  let ?ps = "[''temp/scene_1_final.mp4'', ''temp/scene_3_final.mp4'']"
  have pr: "list_all2 (\<lambda>p x. getVideoDuration ?s p = Inr (Num x)) ?ps [5, 4]"
    by (simp add: getVideoDuration_def ffprobe_def store_of_def clip_def)
  have inv: "store_inv ?s"
    by (rule store_of_inv) (simp add: path_join_def tempDir_def clip_def)
  have cf: "concatFilePath \<notin> set ?ps" by (simp add: concatFilePath_def tempDir_def path_join_def)
  from legacy_combine_sum [OF pr _ inv cf, of ideal_env None] show ?thesis
    by (simp add: combineOutputPath_def outputDir_def path_join_def ideal_env_def concatFilePath_def tempDir_def)
qed

end
