(* ===== verification/Slideshow.thy ===== *)
theory Slideshow
  imports LegacyRenderer
begin

text \<open>
  The stand-alone slideshow scripts \<open>src/backend/video.js\<close> and its revision
  \<open>src/backend/video copy.js\<close>: \<open>createVideo()\<close> reads the names in \<open>temp\<close>,
  copies the images to \<open>temp_images/1.ext, 2.ext, ...\<close>, turns them into a slideshow of
  five seconds per image through a concat manifest, concatenates the videos through a
  second manifest, and merges the main video, the concatenated videos and the first
  audio file into \<open>output/final_video.mp4\<close>. The names \<open>readdir\<close> returns, in the
  order of the directory, are an input of the model; \<open>ensureDir\<close> and the logging
  have no effect on the store. As everywhere, \<open>Promise.all\<close> over the copies runs them
  in array order.
\<close>

subsection \<open>Folders and file names\<close>

definition tempFolder :: path where
  "tempFolder = ''temp''"

definition tempImagesFolder :: path where
  "tempImagesFolder = ''temp_images''"

definition outputFolder :: path where
  "outputFolder = ''output''"

definition outputVideo :: path where
  "outputVideo = path_join outputFolder ''final_video.mp4''"

definition slideshowVideo :: path where
  "slideshowVideo = path_join outputFolder ''slideshow.mp4''"

definition concatenatedVideo :: path where
  "concatenatedVideo = path_join outputFolder ''concatenated.mp4''"

definition imageListFile :: path where
  "imageListFile = path_join outputFolder ''image_list.txt''"

definition videoListFile :: path where
  "videoListFile = path_join outputFolder ''video_list.txt''"

text \<open>\<open>/\.(e1|e2|...)$/i.test(file)\<close>: the name ends with a dot and one of the extensions, in any case.\<close>

definition has_ext :: "string list \<Rightarrow> string \<Rightarrow> bool" where
  "has_ext exts file =
     list_ex (\<lambda>e. Suc (length e) \<le> length file \<and>
                  to_lower (drop (length file - Suc (length e)) file) = CHR ''.'' # e) exts"

definition is_image :: "string \<Rightarrow> bool" where
  "is_image file = has_ext [''jpg'', ''jpeg'', ''png''] file"

definition is_video :: "string \<Rightarrow> bool" where
  "is_video file = has_ext [''mp4'', ''mkv'', ''mov''] file"

definition is_audio :: "string \<Rightarrow> bool" where
  "is_audio file = has_ext [''mp3'', ''wav''] file"

text \<open>
  \<open>path.extname(name)\<close> of a name without a slash: from the last dot on; empty when
  there is no dot, when the only characters before the last dot are dots at the start
  (a name such as \<open>.jpg\<close>), or for \<open>..\<close>.
\<close>

definition extname :: "string \<Rightarrow> string" where
  "extname n =
     (let r = takeWhile (\<lambda>c. c \<noteq> CHR ''.'') (rev n)
      in if length r = length n \<or> length r + 1 = length n \<or> n = ''..'' then []
         else drop (length n - length r - 1) n)"

text \<open>\<open>path.join(tempImagesFolder, `${index + 1}${path.extname(image)}`)\<close>.\<close>

definition image_dest :: "nat \<Rightarrow> string \<Rightarrow> path" where
  "image_dest index img = path_join tempImagesFolder (nat_to_str (Suc index) @ extname img)"

text \<open>
  \<open>fs.copy(src, dest)\<close> of \<open>fs-extra\<close> on a file: rejected when the source does not
  exist or the environment fails on the destination; else the destination holds the
  source's content.
\<close>

definition fs_copy :: "enc_env \<Rightarrow> path \<Rightarrow> path \<Rightarrow> (fs, unit) act" where
  "fs_copy env src dst s =
     (case files s src of
        None \<Rightarrow> (Inl (FileMissing src), s)
      | Some f \<Rightarrow> if enc_fails env dst then (Inl (WriteFailed dst), s)
                  else (Inr (), s\<lparr>files := (files s)(dst \<mapsto> f)\<rparr>))"

subsection \<open>The commands\<close>

text \<open>
  The image list: \<open>file '...'\<close> and \<open>duration 5\<close> for every image, then the last image
  once more without a duration. The text ends with a newline in \<open>video.js\<close> and
  without one in the revision; the demuxer skips the empty last line, so both give
  these lines. \<open>images[images.length - 1]\<close> of an empty list is \<open>undefined\<close>, and
  \<open>path.extname(undefined)\<close> throws a \<open>TypeError\<close>.
\<close>

definition imageList :: "string list \<Rightarrow> manifest_line list res" where
  "imageList images =
     (if images = [] then Inl TypeErrorNull
      else Inr (concat (map (\<lambda>(index, img). [MFile (image_dest index img), MDuration (Num 5)])
                          (enumerate 0 images))
                @ [MFile (image_dest (length images - 1) (last images))]))"

definition videoList :: "string list \<Rightarrow> manifest_line list" where
  "videoList videos = map (\<lambda>video. MFile (path_join tempFolder video)) videos"

definition slideshowCommand :: "ffcmd res" where
  "slideshowCommand =
     bindE (ff_inputOptions [FmtConcat, Safe0, InOptStr ''-protocol_whitelist file,pipe'']
              (ff_input imageListFile (ffmpeg_new None)))
       (\<lambda>c. Inr (ff_output slideshowVideo
                 (ff_outputOptions [OptStr ''-vcodec libx264'']
                   (ff_outputOptions [OptStr ''-vsync vfr'', OptStr ''-pix_fmt yuv420p'',
                                      OptStr ''-movflags +faststart''] c))))"

text \<open>\<open>.inputFormat('concat')\<close> is \<open>-f concat\<close> on the current input.\<close>

definition videoConcatCommand :: "ffcmd res" where
  "videoConcatCommand =
     bindE (ff_inputOptions [FmtConcat] (ff_input videoListFile (ffmpeg_new None)))
       (\<lambda>c. bindE (ff_inputOptions [Safe0, InOptStr ''-protocol_whitelist file,pipe''] c)
         (\<lambda>c. Inr (ff_output concatenatedVideo (ff_outputOptions [OptStr ''-c copy''] c))))"

text \<open>
  The merge: the slideshow when there are images, else the concatenated videos; the
  concatenated videos as a second input when there are both; the audio; no
  \<open>-shortest\<close>.
\<close>

definition mergeCommand :: "string list \<Rightarrow> string list \<Rightarrow> string \<Rightarrow> ffcmd" where
  "mergeCommand images videos audioName =
     (let mainVideo = (if images \<noteq> [] then slideshowVideo else concatenatedVideo);
          c0 = ff_input mainVideo (ffmpeg_new None);
          c1 = (if images \<noteq> [] \<and> videos \<noteq> [] then ff_input concatenatedVideo c0 else c0);
          c2 = ff_input (path_join tempFolder audioName) c1
      in ff_output outputVideo
           (ff_outputOptions [OptStr ''-c:v libx264'', OptStr ''-c:a aac'',
                              OptStr ''-strict experimental'', OptStr ''-movflags +faststart''] c2))"

text \<open>Run a command built without a throw: \<open>.save(p)\<close> with its \<open>end\<close> and \<open>error\<close> handlers.\<close>

definition save_run :: "enc_env \<Rightarrow> ffcmd res \<Rightarrow> (fs, unit) act" where
  "save_run env c = bindS (liftS c) (ff_run env)"

subsection \<open>\<open>createVideo\<close> of \<open>video.js\<close>\<close>

definition copyImages_vjs :: "enc_env \<Rightarrow> string list \<Rightarrow> (fs, unit list) act" where
  "copyImages_vjs env images =
     mapS (\<lambda>(index, img). fs_copy env (path_join tempFolder img) (image_dest index img))
       (enumerate 0 images)"

definition concatVideos :: "enc_env \<Rightarrow> string list \<Rightarrow> (fs, unit) act" where
  "concatVideos env videos =
     (if videos \<noteq> [] then
        bindS (write_text env videoListFile (videoList videos)) (\<lambda>_. save_run env videoConcatCommand)
      else returnS ())"

definition createVideo_vjs :: "enc_env \<Rightarrow> string list \<Rightarrow> (fs, unit) act" where
  "createVideo_vjs env listing =
     (let images = filter is_image listing;
          videos = filter is_video listing;
          audioName = find is_audio listing
      in if images = [] \<and> videos = [] then throwS NoMediaFound
         else case audioName of
           None \<Rightarrow> throwS NoAudioFound
         | Some a \<Rightarrow>
             bindS (copyImages_vjs env images) (\<lambda>_.
             bindS (liftS (imageList images)) (\<lambda>imageLines.
             bindS (write_text env imageListFile imageLines) (\<lambda>_.
             bindS (if images \<noteq> [] then save_run env slideshowCommand else returnS ()) (\<lambda>_.
             bindS (concatVideos env videos) (\<lambda>_.
             save_run env (Inr (mergeCommand images videos a))))))))"

subsection \<open>\<open>createVideo\<close> of \<open>video copy.js\<close>\<close>

text \<open>The copy preceded by \<open>fs.pathExists(sourcePath)\<close>.\<close>

definition copyImages_copy :: "enc_env \<Rightarrow> string list \<Rightarrow> (fs, unit list) act" where
  "copyImages_copy env images =
     mapS (\<lambda>(index, img) s.
             if file_accessible s (Some (path_join tempFolder img))
             then fs_copy env (path_join tempFolder img) (image_dest index img) s
             else (Inl (FileMissing (path_join tempFolder img)), s))
       (enumerate 0 images)"

text \<open>The check that every listed image exists, after the list is written.\<close>

definition checkImages :: "string list \<Rightarrow> (fs, unit list) act" where
  "checkImages images =
     mapS (\<lambda>(index, img) s.
             if file_accessible s (Some (image_dest index img)) then (Inr (), s)
             else (Inl (FileMissing (image_dest index img)), s))
       (enumerate 0 images)"

definition slideshow_copy :: "enc_env \<Rightarrow> string list \<Rightarrow> (fs, unit) act" where
  "slideshow_copy env images =
     (if images \<noteq> [] then
        bindS (liftS (imageList images)) (\<lambda>imageLines.
        bindS (write_text env imageListFile imageLines) (\<lambda>_.
        bindS (checkImages images) (\<lambda>_.
        save_run env slideshowCommand)))
      else returnS ())"

definition createVideo_copy :: "enc_env \<Rightarrow> string list \<Rightarrow> (fs, unit) act" where
  "createVideo_copy env listing =
     (let images = filter is_image listing;
          videos = filter is_video listing;
          audioName = find is_audio listing
      in if images = [] \<and> videos = [] then throwS NoMediaFound
         else case audioName of
           None \<Rightarrow> throwS NoAudioFound
         | Some a \<Rightarrow>
             bindS (copyImages_copy env images) (\<lambda>_.
             bindS (slideshow_copy env images) (\<lambda>_.
             bindS (concatVideos env videos) (\<lambda>_.
             save_run env (Inr (mergeCommand images videos a))))))"

subsection \<open>Lemmas\<close>

lemma temp_not_images [simp]: "path_join tempFolder a \<noteq> image_dest i x" "image_dest i x \<noteq> path_join tempFolder a"
  by (simp_all add: path_join_def tempFolder_def image_dest_def tempImagesFolder_def)

lemma output_not_images [simp]:
  "imageListFile \<noteq> image_dest i x" "slideshowVideo \<noteq> image_dest i x" "outputVideo \<noteq> image_dest i x"
  "image_dest i x \<noteq> imageListFile" "image_dest i x \<noteq> slideshowVideo" "image_dest i x \<noteq> outputVideo"
  by (simp_all add: path_join_def image_dest_def tempImagesFolder_def imageListFile_def slideshowVideo_def
      outputVideo_def outputFolder_def)

lemma output_not_temp [simp]:
  "imageListFile \<noteq> path_join tempFolder a" "slideshowVideo \<noteq> path_join tempFolder a"
  "videoListFile \<noteq> path_join tempFolder a" "concatenatedVideo \<noteq> path_join tempFolder a"
  "outputVideo \<noteq> path_join tempFolder a"
  "path_join tempFolder a \<noteq> imageListFile" "path_join tempFolder a \<noteq> slideshowVideo"
  "path_join tempFolder a \<noteq> videoListFile" "path_join tempFolder a \<noteq> concatenatedVideo"
  "path_join tempFolder a \<noteq> outputVideo"
  by (simp_all add: path_join_def tempFolder_def imageListFile_def slideshowVideo_def videoListFile_def
      concatenatedVideo_def outputVideo_def outputFolder_def)

lemma output_files_differ [simp]:
  "slideshowVideo \<noteq> imageListFile" "outputVideo \<noteq> slideshowVideo" "outputVideo \<noteq> imageListFile"
  "concatenatedVideo \<noteq> videoListFile" "outputVideo \<noteq> concatenatedVideo" "outputVideo \<noteq> videoListFile"
  by (simp_all add: path_join_def imageListFile_def slideshowVideo_def videoListFile_def
      concatenatedVideo_def outputVideo_def)

lemma copies_still:
  assumes "\<forall>x\<in>set imgs. files s (path_join tempFolder x) = Some still_image"
  shows "\<exists>us. mapS (\<lambda>(index, img). fs_copy ideal_env (path_join tempFolder img) (image_dest index img))
                (enumerate k imgs) s =
              (Inr us, s\<lparr>files := \<lambda>p. if p \<in> set (map (\<lambda>(i, x). image_dest i x) (enumerate k imgs))
                                      then Some still_image else files s p\<rparr>)"
  using assms
proof (induction imgs arbitrary: k s)
  case Nil
  then show ?case by (simp add: returnS_def)
next
  case (Cons x xs)
  let ?s1 = "s\<lparr>files := (files s)(image_dest k x \<mapsto> still_image)\<rparr>"
  have "\<forall>y\<in>set xs. files ?s1 (path_join tempFolder y) = Some still_image" using Cons.prems by simp
  from Cons.IH [OF this, of "Suc k"] obtain us where
    r: "mapS (\<lambda>(index, img). fs_copy ideal_env (path_join tempFolder img) (image_dest index img))
          (enumerate (Suc k) xs) ?s1 =
        (Inr us, ?s1\<lparr>files := \<lambda>p. if p \<in> set (map (\<lambda>(i, x). image_dest i x) (enumerate (Suc k) xs))
                                 then Some still_image else files ?s1 p\<rparr>)" by blast
  have h: "fs_copy ideal_env (path_join tempFolder x) (image_dest k x) s = (Inr (), ?s1)"
    using Cons.prems by (simp add: fs_copy_def ideal_env_def)
  show ?case
    using h r by (auto simp: bindS_def returnS_def fun_eq_iff)
qed

lemma manifest_entries_slides:
  "manifest_entries (concat (map (\<lambda>(index, img). [MFile (image_dest index img), MDuration (Num 5)]) es) @ [MFile p]) =
     Some (map (\<lambda>(index, img). (image_dest index img, Some (Num 5))) es @ [(p, None)])"
  by (induction es) auto

lemma entries_len_slides:
  assumes "\<forall>(i, x)\<in>set es. fm (image_dest i x) = Some still_image" "fm p = Some still_image"
  shows "entries_len fm (map (\<lambda>(index, img). (image_dest index img, Some (Num 5))) es @ [(p, None)]) =
           Some (5 * real (length es))"
  using assms
proof (induction es)
  case Nil
  then show ?case by (simp add: entries_len_def entry_len_def still_image_def)
next
  case (Cons e es)
  then show ?case
    by (cases e) (auto simp: entries_len_def entry_len_def still_image_def algebra_simps
        simp del: all_some_eq_Some split: option.splits)
qed


lemma concat_len_eq: "manifest_entries ls = Some es \<Longrightarrow> es \<noteq> [] \<Longrightarrow> concat_len fm ls = entries_len fm es"
  by (simp add: concat_len_def)

lemma last_in_enumerate: "xs \<noteq> [] \<Longrightarrow> (length xs - 1, last xs) \<in> set (enumerate 0 xs)"
  by (simp add: in_set_enumerate_eq last_conv_nth)

lemma slideshowCommand_eq:
  "slideshowCommand =
     Inr \<lparr>cmd_inputs = [\<lparr>in_path = imageListFile, in_opts = [FmtConcat, Safe0, InOptStr ''-protocol_whitelist file,pipe'']\<rparr>],
          out_opts = [OptStr ''-vsync vfr'', OptStr ''-pix_fmt yuv420p'', OptStr ''-movflags +faststart'', OptStr ''-vcodec libx264''],
          vfilters = [], afilters = [], target = Some slideshowVideo\<rparr>"
  by (simp add: slideshowCommand_def ff_inputOptions_def ff_input_def ffmpeg_new_def ff_output_def ff_outputOptions_def)

lemma slideshow_run:
  assumes "files s imageListFile = Some lf" "kind lf = TextFile" "concat_len (files s) (text_of lf) = Some x" "0 \<le> x"
  shows "save_run ideal_env slideshowCommand s =
           (Inr (), s\<lparr>files := (files s)(slideshowVideo \<mapsto>
              \<lparr>kind = VideoFile, fmt_duration = Num x, has_audio = has_audio lf, text_of = []\<rparr>)\<rparr>)"
  using assms
  by (simp add: save_run_def slideshowCommand_eq bindS_def liftS_def ideal_env_def ff_run_def input_spans_def
      in_span_def out_span_def span_base_def out_file_def)

lemma merge_run:
  assumes "files s mv = Some f" "kind f = VideoFile" "fmt_duration f = Num x" "0 \<le> x"
    "files s (path_join tempFolder a) = Some fa" "fmt_duration fa = Num d" "0 \<le> d"
    "mv = (if images \<noteq> [] then slideshowVideo else concatenatedVideo)" "images = [] \<or> videos = []"
  shows "\<exists>g. save_run ideal_env (Inr (mergeCommand images videos a)) s =
               (Inr (), s\<lparr>files := (files s)(outputVideo \<mapsto> g)\<rparr>) \<and> fmt_duration g = Num (max x d)"
  using assms
  by (auto simp: save_run_def mergeCommand_def bindS_def liftS_def ideal_env_def ff_run_def input_spans_def
      in_span_def input_span_def num_span_def out_span_def span_base_def out_file_def ff_input_def ffmpeg_new_def
      ff_output_def ff_outputOptions_def Let_def)

lemmas ext_simps = is_image_def is_video_def is_audio_def has_ext_def to_lower_def to_lower_char_def

subsection \<open>Properties\<close>

text \<open>
  C39. A folder with videos and an audio file but no image: \<open>video.js\<close> builds the
  image list unguarded and reads \<open>path.extname(images[images.length - 1])\<close>, which
  throws a \<open>TypeError\<close> on \<open>undefined\<close>; \<open>createVideo\<close> rejects with it before any
  file is written or encoded, whatever the environment, so its videos-only branch is
  unreachable.
\<close>

theorem videos_only_TypeError:
  assumes "filter is_image listing = []" "filter is_video listing \<noteq> []" "find is_audio listing \<noteq> None"
  shows "createVideo_vjs env listing s = (Inl TypeErrorNull, s)"
  using assms
  by (auto simp: createVideo_vjs_def Let_def copyImages_vjs_def imageList_def throwS_def liftS_def bindS_def returnS_def)

text \<open>At a folder of two clips and a narration.\<close>

theorem videos_only_TypeError_witness:
  "createVideo_vjs ideal_env [''v1.mp4'', ''v2.mov'', ''n.mp3'']
     (store_of [(''temp/v1.mp4'', clip 3), (''temp/v2.mov'', clip 4), (''temp/n.mp3'', narration 9)]) =
     (Inl TypeErrorNull, store_of [(''temp/v1.mp4'', clip 3), (''temp/v2.mov'', clip 4), (''temp/n.mp3'', narration 9)])"
proof -
  have i: "filter is_image [''v1.mp4'', ''v2.mov'', ''n.mp3''] = []" by (simp add: ext_simps)
  have v: "filter is_video [''v1.mp4'', ''v2.mov'', ''n.mp3''] \<noteq> []" by (simp add: ext_simps)
  have a: "find is_audio [''v1.mp4'', ''v2.mov'', ''n.mp3''] \<noteq> None" by (simp add: ext_simps)
  show ?thesis using videos_only_TypeError [OF i v a] .
qed

text \<open>
  C40. A folder of still images and an audio file: \<open>video.js\<close> shows each image
  five seconds and merges without \<open>-shortest\<close>, so the final video lasts the
  longer of \<open>5 n\<close> seconds and the audio.
\<close>

theorem slideshow_length:
  assumes imgs: "filter is_image listing \<noteq> []" and novid: "filter is_video listing = []"
    and au: "find is_audio listing = Some a"
    and still: "\<forall>x\<in>set (filter is_image listing). files s (path_join tempFolder x) = Some still_image"
    and fa: "files s (path_join tempFolder a) = Some fa" "fmt_duration fa = Num d" "0 \<le> d"
  shows "\<exists>s' f. createVideo_vjs ideal_env listing s = (Inr (), s') \<and>
           files s' outputVideo = Some f \<and> fmt_duration f = Num (max (5 * real (length (filter is_image listing))) d)"
proof -
  define I where "I = filter is_image listing"
  define D where "D = set (map (\<lambda>(i, x). image_dest i x) (enumerate 0 I))"
  define s1 where "s1 = s\<lparr>files := \<lambda>p. if p \<in> D then Some still_image else files s p\<rparr>"
  define L where "L = concat (map (\<lambda>(index, img). [MFile (image_dest index img), MDuration (Num 5)]) (enumerate 0 I))
                      @ [MFile (image_dest (length I - 1) (last I))]"
  define tf where "tf = \<lparr>kind = TextFile, fmt_duration = NaN, has_audio = False, text_of = L\<rparr>"
  define s2 where "s2 = s1\<lparr>files := (files s1)(imageListFile \<mapsto> tf)\<rparr>"
  define f3 where "f3 = \<lparr>kind = VideoFile, fmt_duration = Num (5 * real (length I)), has_audio = False, text_of = []::manifest_line list\<rparr>"
  define s3 where "s3 = s2\<lparr>files := (files s2)(slideshowVideo \<mapsto> f3)\<rparr>"
  have I: "I \<noteq> []" using imgs by (simp add: I_def)
  obtain us where cp: "copyImages_vjs ideal_env I s = (Inr us, s1)"
    using copies_still [OF still [folded I_def], of 0] unfolding copyImages_vjs_def s1_def D_def by blast
  have L: "imageList I = Inr L" using I by (simp add: imageList_def L_def)
  have w: "write_text ideal_env imageListFile L s1 = (Inr (), s2)"
    by (simp add: write_text_def ideal_env_def s2_def tf_def)
  have s2D: "p \<in> D \<Longrightarrow> files s2 p = Some still_image" for p
    by (auto simp: s2_def s1_def D_def)
  have inD: "\<forall>(i, x)\<in>set (enumerate 0 I). files s2 (image_dest i x) = Some still_image"
    using s2D by (auto simp: D_def)
  have lastD: "files s2 (image_dest (length I - 1) (last I)) = Some still_image"
    using s2D last_in_enumerate [OF I] by (force simp: D_def)
  have cl0: "concat_len (files s2) L = Some (5 * real (length (enumerate 0 I)))"
    unfolding L_def
    by (rule trans [OF concat_len_eq [OF manifest_entries_slides] entries_len_slides [OF inD lastD]]) simp
  have r2: "save_run ideal_env slideshowCommand s2 = (Inr (), s3)"
    using slideshow_run [of s2 tf] cl0 by (simp add: s3_def f3_def s2_def tf_def)
  have aD: "path_join tempFolder a \<notin> D" by (auto simp: D_def)
  have fa3: "files s3 (path_join tempFolder a) = Some fa"
    using fa(1) aD by (simp add: s3_def s2_def s1_def)
  have f3: "files s3 slideshowVideo = Some f3" by (simp add: s3_def)
  obtain g where r3: "save_run ideal_env (Inr (mergeCommand I (filter is_video listing) a)) s3 =
                        (Inr (), s3\<lparr>files := (files s3)(outputVideo \<mapsto> g)\<rparr>)"
    and g: "fmt_duration g = Num (max (5 * real (length I)) d)"
    using merge_run [OF f3 _ _ _ fa3 fa(2,3), of "5 * real (length I)" I "filter is_video listing"] I novid
    by (auto simp: f3_def)
  have "createVideo_vjs ideal_env listing s = (Inr (), s3\<lparr>files := (files s3)(outputVideo \<mapsto> g)\<rparr>)"
    using novid au I
    by (simp add: createVideo_vjs_def Let_def I_def [symmetric] bindS_Inr [where m = "copyImages_vjs ideal_env I", OF cp] L w r2 r3 [unfolded novid] concatVideos_def)
  then show ?thesis using g by (auto simp: I_def)
qed

theorem slideshow_length_witness:
  "\<exists>s' f. createVideo_vjs ideal_env [''a.jpg'', ''b.png'', ''n.mp3'']
            (store_of [(''temp/a.jpg'', still_image), (''temp/b.png'', still_image), (''temp/n.mp3'', narration 7)]) =
          (Inr (), s') \<and> files s' ''output/final_video.mp4'' = Some f \<and> fmt_duration f = Num 10"
proof -
  have i: "filter is_image [''a.jpg'', ''b.png'', ''n.mp3''] = [''a.jpg'', ''b.png'']" by (simp add: ext_simps)
  have v: "filter is_video [''a.jpg'', ''b.png'', ''n.mp3''] = []" by (simp add: ext_simps)
  have a: "find is_audio [''a.jpg'', ''b.png'', ''n.mp3''] = Some ''n.mp3''" by (simp add: ext_simps)
  show ?thesis
    using slideshow_length [of "[''a.jpg'', ''b.png'', ''n.mp3'']" "''n.mp3''"
        "store_of [(''temp/a.jpg'', still_image), (''temp/b.png'', still_image), (''temp/n.mp3'', narration 7)]"
        "narration 7" 7] i v a
    by (simp add: store_of_def path_join_def tempFolder_def narration_def still_image_def outputVideo_def outputFolder_def)
qed

end
