(* ===== verification/VideoAssemble.thy ===== *)
theory VideoAssemble
  imports VideoGenerate
begin

text \<open>
  The rest of \<open>VideoGenerator\<close> (\<open>src/backend/controllers/video-generate.controller.js\<close>):
  the output-path checks, \<open>createVoiceover\<close> and \<open>createVideo\<close>, which parses the script,
  speaks the whole text, downloads the media of every section and renders them with one
  ffmpeg run whose filter graph concatenates the scaled media and takes the audio of the
  voiceover, cut by \<open>-shortest\<close>; the \<open>end\<close> handler deletes the media and the
  voiceover. Paths are relative to the working directory, so \<open>path.resolve\<close> leaves them
  unchanged. The speech engine (\<open>say.export\<close>) is a function from the text to the length
  of the speech, \<open>None\<close> when it fails. \<open>downloadFile\<close> writes the body of the response
  to its path; the file the download to a path \<open>p\<close> yields is \<open>dl p\<close>.
\<close>

subsection \<open>Paths\<close>

text \<open>\<open>path.dirname(p)\<close> of a path without a trailing slash.\<close>

definition dirname :: "path \<Rightarrow> path" where
  "dirname p =
     (let r = takeWhile (\<lambda>c. c \<noteq> CHR ''/'') (rev p)
      in if length r = length p then ''.''
         else if length r + 1 = length p then ''/''
         else take (length p - length r - 1) p)"

text \<open>\<open>path.join(dir, name)\<close>, which drops a directory \<open>.\<close>.\<close>

definition join_dir :: "path \<Rightarrow> string \<Rightarrow> path" where
  "join_dir d n = (if d = ''.'' then n else path_join d n)"

text \<open>The probe file of both output checks.\<close>

definition writeTestFile :: "string \<Rightarrow> path" where
  "writeTestFile outputFile = normalizePath (join_dir (normalizePath (dirname (normalizePath outputFile))) ''.write_test'')"

text \<open>
  \<open>validateOutputPath(outputFile)\<close> (not called by \<open>createVideo\<close>): a writable
  output file is deleted first (\<open>access(W_OK)\<close>, then \<open>unlink\<close>), then the directory
  is probed with \<open>.write_test\<close>.
\<close>

definition validateOutputPath :: "enc_env \<Rightarrow> string \<Rightarrow> (fs, path) act" where
  "validateOutputPath env outputFile s =
     (let absolutePath = outputFile;
          testFile = join_dir (dirname absolutePath) ''.write_test'';
          s1 = (if enc_fails env absolutePath then s else s\<lparr>files := (files s)(absolutePath := None)\<rparr>)
      in if enc_fails env testFile then (Inl (WriteFailed testFile), s1)
         else (Inr absolutePath, s1\<lparr>files := (files s1)(testFile := None)\<rparr>))"

text \<open>
  \<open>validateAndPrepareOutputPath(outputFile)\<close>: the directory is probed first; only
  then is an existing output file deleted.
\<close>

definition validateAndPrepareOutputPath :: "enc_env \<Rightarrow> string \<Rightarrow> (fs, path) act" where
  "validateAndPrepareOutputPath env outputFile s =
     (let absolutePath = normalizePath outputFile;
          testFile = writeTestFile outputFile
      in if enc_fails env testFile then (Inl (WriteFailed testFile), s)
         else (Inr absolutePath,
               s\<lparr>files := ((files s)(testFile := None))(absolutePath := None)\<rparr>))"

subsection \<open>Voiceover and downloads\<close>

text \<open>
  \<open>createVoiceover(text, outputFile)\<close>: \<open>say.export\<close> writes the speech to the file;
  on an error the promise rejects (the \<open>resolve\<close> that follows has no effect).
\<close>

definition createVoiceover :: "(string \<Rightarrow> real option) \<Rightarrow> string \<Rightarrow> path \<Rightarrow> (fs, path) act" where
  "createVoiceover say text outputFile s =
     (case say text of
        None \<Rightarrow> (Inl VoiceoverFailed, s)
      | Some len \<Rightarrow>
          (Inr outputFile,
           s\<lparr>files := (files s)(outputFile \<mapsto>
                \<lparr>kind = AudioFile, fmt_duration = Num len, has_audio = True, text_of = []\<rparr>)\<rparr>))"

text \<open>The files the downloads of a section wrote: \<open>downloadFile(url, filePath)\<close> for each media.\<close>

definition store_downloads :: "(path \<Rightarrow> media_file) \<Rightarrow> gen_media list \<Rightarrow> fs \<Rightarrow> fs" where
  "store_downloads dl ms s =
     s\<lparr>files := \<lambda>p. if p \<in> set (map gm_path ms) then Some (dl p) else files s p\<rparr>"

text \<open>
  The section loop of \<open>createVideo\<close>: \<open>processSection\<close> for each section in order, the
  \<open>i\<close>-th section drawing its file names from \<open>stamp i\<close>; the first rejection rejects
  the loop. A section whose download fails midway is modelled as writing no file.
\<close>

fun processSections ::
  "pexels_api \<Rightarrow> (string \<Rightarrow> bool) \<Rightarrow> (nat \<Rightarrow> nat \<Rightarrow> string) \<Rightarrow> (path \<Rightarrow> media_file) \<Rightarrow> nat \<Rightarrow>
   sec_obj list \<Rightarrow> (fs, gen_media list) act" where
  "processSections api fetch_ok stamp dl i [] = returnS []"
| "processSections api fetch_ok stamp dl i (sec # secs) =
     bindS (\<lambda>s. case processSection api fetch_ok (stamp i) sec of
                  Inl e \<Rightarrow> (Inl e, s)
                | Inr mediaFiles \<Rightarrow> (Inr mediaFiles, store_downloads dl mediaFiles s))
       (\<lambda>mediaFiles. bindS (processSections api fetch_ok stamp dl (Suc i) secs)
          (\<lambda>rest. returnS (mediaFiles @ rest)))"

subsection \<open>The render\<close>

text \<open>
  The inputs of the media: an image is looped and capped at its duration
  (\<open>-loop 1\<close>, \<open>-t d\<close>), a video is added as it is.
\<close>

fun add_inputs :: "ffcmd \<Rightarrow> gen_media list \<Rightarrow> ffcmd res" where
  "add_inputs c [] = Inr c"
| "add_inputs c (gm # ms) =
     bindE (if gm_type gm = ''image''
            then ff_inputOptions [Loop1, InT (real (gm_duration gm))] (ff_input (normalizePath (gm_path gm)) c)
            else Inr (ff_input (normalizePath (gm_path gm)) c))
       (\<lambda>c'. add_inputs c' ms)"

text \<open>The filter graph of \<open>n\<close> media: one scaling chain per media, their concatenation, the audio.\<close>

definition graphFilters :: "nat \<Rightarrow> string list" where
  "graphFilters n =
     map (\<lambda>index. ''['' @ nat_to_str index @
                  '':v]scale=1920:1080:force_original_aspect_ratio=decrease,pad=1920:1080:(ow-iw)/2:(oh-ih)/2,setsar=1[v''
                  @ nat_to_str index @ '']'') [0..<n]
     @ [concat (map (\<lambda>index. ''[v'' @ nat_to_str index @ '']'') [0..<n]) @
          ''concat=n='' @ nat_to_str n @ '':v=1:a=0[vout]'',
        ''['' @ nat_to_str n @ '':a]anull[aout]'']"

definition renderOutputOptions :: "out_opt list" where
  "renderOutputOptions =
     [OptStr ''-map [vout]'', OptStr ''-map [aout]'', OptStr ''-c:v libx264'', OptStr ''-preset medium'',
      OptStr ''-crf 23'', OptStr ''-pix_fmt yuv420p'', OptStr ''-c:a aac'', Shortest, OptStr ''-y'']"

text \<open>
  The command of the promise executor; \<open>.complexFilter\<close> is kept with the filters of
  the command.
\<close>

definition renderCommand :: "gen_media list \<Rightarrow> path \<Rightarrow> path \<Rightarrow> ffcmd res" where
  "renderCommand allMediaFiles voiceover outputPath =
     bindE (add_inputs (ffmpeg_new None) allMediaFiles)
       (\<lambda>c. Inr (ff_output (normalizePath outputPath)
                 (ff_outputOptions renderOutputOptions
                   (ff_videoFilters (graphFilters (length allMediaFiles)) (ff_input voiceover c)))))"

text \<open>The input \<open>-t\<close> caps of an input, in order.\<close>

fun in_caps :: "in_opt list \<Rightarrow> real list" where
  "in_caps [] = []"
| "in_caps (InT t # os) = t # in_caps os"
| "in_caps (_ # os) = in_caps os"

text \<open>The length of one input of the graph: its length as an input, cut at the last input cap.\<close>

definition graph_in_span :: "(path \<rightharpoonup> media_file) \<Rightarrow> ff_input \<Rightarrow> span option" where
  "graph_in_span fm i =
     map_option (\<lambda>sp. case in_caps (in_opts i) of [] \<Rightarrow> sp | ts \<Rightarrow> span_min sp (Fin (max 0 (last ts))))
       (in_span fm [] i)"

fun span_add :: "span \<Rightarrow> span \<Rightarrow> span" where
  "span_add (Fin a) (Fin b) = Fin (a + b)"
| "span_add _ _ = Unbounded"

text \<open>
  A run of a command whose filter graph concatenates the video of its first \<open>n\<close>
  inputs and passes the audio of input \<open>n\<close> (modelled from the documentation of the
  \<open>concat\<close> filter): the video lasts the sum of the inputs, \<open>-shortest\<close> cuts it at the
  audio; the output replaces any file of its name (\<open>-y\<close>).
\<close>

definition concat_graph_run :: "enc_env \<Rightarrow> ffcmd \<Rightarrow> nat \<Rightarrow> (fs, unit) act" where
  "concat_graph_run env c n s =
     (case target c of
        None \<Rightarrow> (Inl (EncoderFailed []), s)
      | Some p \<Rightarrow>
          (if enc_fails env p then (Inl (EncoderFailed p), s)
           else
             (case all_some (map (graph_in_span (files s)) (cmd_inputs c)) of
                None \<Rightarrow> (Inl (EncoderFailed p), s)
              | Some ss \<Rightarrow>
                  (if length ss \<le> n then (Inl (EncoderFailed p), s)
                   else
                     (case (if Shortest \<in> set (out_opts c)
                            then span_min (foldl span_add (Fin 0) (take n ss)) (ss ! n)
                            else span_max (foldl span_add (Fin 0) (take n ss)) (ss ! n)) of
                           Unbounded \<Rightarrow> (Inl (EncoderNeverEnds p), s)
                         | Fin d \<Rightarrow>
                             (Inr (), s\<lparr>files := (files s)(p \<mapsto>
                                \<lparr>kind = VideoFile, fmt_duration = Num d, has_audio = True, text_of = []\<rparr>)\<rparr>))))))"

text \<open>
  The \<open>end\<close> handler: every media file and the voiceover are unlinked (each failure
  caught); \<open>rmdir\<close> of the temporary directory changes no file.
\<close>

definition cleanupRender :: "gen_media list \<Rightarrow> path \<Rightarrow> fs \<Rightarrow> fs" where
  "cleanupRender allMediaFiles voiceover s =
     s\<lparr>files := \<lambda>p. if p \<in> set (map (\<lambda>f. normalizePath (gm_path f)) allMediaFiles @ [voiceover])
                    then None else files s p\<rparr>"

subsection \<open>\<open>createVideo\<close>\<close>

definition voiceoverPath :: "nat \<Rightarrow> path" where
  "voiceoverPath now = normalizePath (path_join tempDir (''voiceover_'' @ nat_to_str now @ ''.wav''))"

text \<open>
  \<open>createVideo(script, outputFile)\<close> with \<open>script.generatedScript\<close> and
  \<open>Date.now()\<close> = \<open>now\<close> at the voiceover; \<open>mkdir\<close> of the temporary directory has no
  effect on the files.
\<close>

definition createVideo ::
  "enc_env \<Rightarrow> pexels_api \<Rightarrow> (string \<Rightarrow> bool) \<Rightarrow> (nat \<Rightarrow> nat \<Rightarrow> string) \<Rightarrow> (path \<Rightarrow> media_file) \<Rightarrow>
   (string \<Rightarrow> real option) \<Rightarrow> nat \<Rightarrow> string \<Rightarrow> string \<Rightarrow> (fs, path) act" where
  "createVideo env api fetch_ok stamp dl say now generatedScript outputFile =
     bindS (validateAndPrepareOutputPath env outputFile) (\<lambda>absoluteOutputPath.
       (let secs = parseScriptSections generatedScript
        in bindS (createVoiceover say (js_join '' '' (map sec_content secs)) (voiceoverPath now))
             (\<lambda>absoluteVoiceoverPath.
                bindS (processSections api fetch_ok stamp dl 0 secs) (\<lambda>allMediaFiles.
                  if allMediaFiles = [] then throwS NoMediaProcessed
                  else bindS (liftS (renderCommand allMediaFiles absoluteVoiceoverPath absoluteOutputPath)) (\<lambda>command.
                         bindS (concat_graph_run env command (length allMediaFiles)) (\<lambda>_ s.
                           (Inr absoluteOutputPath, cleanupRender allMediaFiles absoluteVoiceoverPath s)))))))"

subsection \<open>Specification helpers\<close>

text \<open>The media of all sections, as the section loop collects them.\<close>

fun sections_media ::
  "pexels_api \<Rightarrow> (string \<Rightarrow> bool) \<Rightarrow> (nat \<Rightarrow> nat \<Rightarrow> string) \<Rightarrow> nat \<Rightarrow> sec_obj list \<Rightarrow> gen_media list res" where
  "sections_media api fetch_ok stamp i [] = Inr []"
| "sections_media api fetch_ok stamp i (sec # secs) =
     bindE (processSection api fetch_ok (stamp i) sec) (\<lambda>ms.
       bindE (sections_media api fetch_ok stamp (Suc i) secs) (\<lambda>rest. Inr (ms @ rest)))"

text \<open>The length a media contributes to the concatenation.\<close>

definition media_len :: "(path \<Rightarrow> media_file) \<Rightarrow> gen_media \<Rightarrow> real" where
  "media_len dl gm =
     (if gm_type gm = ''image'' then real (gm_duration gm)
      else (case fmt_duration (dl (gm_path gm)) of Num x \<Rightarrow> max 0 x | _ \<Rightarrow> 0))"

text \<open>The paths \<open>processSection\<close> downloads to: normalised, under \<open>temp/photo_\<close> or \<open>temp/video_\<close>.\<close>

definition media_path :: "path \<Rightarrow> bool" where
  "media_path p \<longleftrightarrow> normalizePath p = p \<and> (take 11 p = ''temp/photo_'' \<or> take 11 p = ''temp/video_'')"

text \<open>The input \<open>createVideo\<close> adds for a media.\<close>

definition media_input :: "gen_media \<Rightarrow> ff_input" where
  "media_input gm =
     \<lparr>in_path = normalizePath (gm_path gm),
      in_opts = (if gm_type gm = ''image'' then [Loop1, InT (real (gm_duration gm))] else [])\<rparr>"

subsection \<open>Example run\<close>

text \<open>
  Two sections of \<open>script_ok_W\<close>, one photo and one SD video per search, photos
  downloading as images and videos lasting 4 seconds, a voiceover of half a second per
  character, and an encoder that never fails.
\<close>

definition stamp_W :: "nat \<Rightarrow> nat \<Rightarrow> string" where
  "stamp_W i k = replicate (Suc i) CHR ''a'' @ replicate (Suc k) CHR ''b''"

definition dl_W :: "path \<Rightarrow> media_file" where
  "dl_W p = (if take 11 p = ''temp/photo_''
             then \<lparr>kind = ImageFile, fmt_duration = Num 0, has_audio = False, text_of = []\<rparr>
             else \<lparr>kind = VideoFile, fmt_duration = Num 4, has_audio = False, text_of = []\<rparr>)"

definition say_W :: "string \<Rightarrow> real option" where
  "say_W t = Some (real (length t) / 2)"

definition env_W :: enc_env where
  "env_W = \<lparr>enc_fails = (\<lambda>p. False)\<rparr>"

definition media_W :: "gen_media list" where
  "media_W = [\<lparr>gm_type = ''image'', gm_path = ''temp/photo_ab.jpg'', gm_duration = 1\<rparr>,
              \<lparr>gm_type = ''video'', gm_path = ''temp/video_abb.mp4'', gm_duration = 1\<rparr>,
              \<lparr>gm_type = ''image'', gm_path = ''temp/photo_aab.jpg'', gm_duration = 1\<rparr>,
              \<lparr>gm_type = ''video'', gm_path = ''temp/video_aabb.mp4'', gm_duration = 1\<rparr>]"


section \<open>Properties of \<open>createVideo\<close>\<close>

lemma normalizePath_idem [simp]: "normalizePath (normalizePath p) = normalizePath p"
  by (induction p) (simp_all add: normalizePath_def)

lemma take_normalizePath: "take n (normalizePath p) = normalizePath (take n p)"
  by (simp add: normalizePath_def take_map)

lemma section_download_path:
  "section_download fetch_ok stamp k prefix ext url ty d = Inr m \<Longrightarrow> prefix \<in> {''photo'', ''video''} \<Longrightarrow>
   media_path (gm_path m)"
  by (auto simp: section_download_def Let_def media_path_def take_normalizePath path_join_def tempDir_def
           split: if_splits) (simp_all add: normalizePath_def)

lemma all_res_map_all:
  "all_res (map f xs) = Inr ys \<Longrightarrow> (\<And>x m. f x = Inr m \<Longrightarrow> P m) \<Longrightarrow> \<forall>y\<in>set ys. P y"
proof (induction xs arbitrary: ys)
  case (Cons x xs)
  then show ?case by (cases "f x") auto
qed simp

lemma downloads_paths:
  "all_res (map (\<lambda>(x, k). section_download fetch_ok stamp (g k) pre ext (u x) ty d) (zip xs ks)) = Inr ys \<Longrightarrow>
   pre \<in> {''photo'', ''video''} \<Longrightarrow> \<forall>y\<in>set ys. media_path (gm_path y)"
  by (erule all_res_map_all) (auto intro: section_download_path)

lemma processSection_paths:
  "processSection api fetch_ok stamp sec = Inr ms \<Longrightarrow> \<forall>m\<in>set ms. media_path (gm_path m)"
  unfolding processSection_def Let_def
  by (auto split: api_resp.splits if_splits sum.splits simp del: all_res_eq_Inr dest!: downloads_paths)

lemma sections_media_paths:
  "sections_media api fetch_ok stamp i secs = Inr ms \<Longrightarrow> \<forall>m\<in>set ms. media_path (gm_path m)"
proof (induction secs arbitrary: i ms)
  case (Cons sec secs)
  then show ?case
    by (auto split: sum.splits dest!: processSection_paths)
qed simp

lemma store_downloads_append [simp]:
  "store_downloads dl ys (store_downloads dl xs s) = store_downloads dl (xs @ ys) s"
  by (simp add: store_downloads_def fun_eq_iff)

lemma store_downloads_Nil [simp]: "store_downloads dl [] s = s"
  by (simp add: store_downloads_def)

lemma processSections_Inr:
  "sections_media api fetch_ok stamp i secs = Inr ms \<Longrightarrow>
   processSections api fetch_ok stamp dl i secs s = (Inr ms, store_downloads dl ms s)"
proof (induction secs arbitrary: i ms s)
  case (Cons sec secs)
  then show ?case by (auto simp: returnS_def split: sum.splits)
qed (simp add: returnS_def)

lemma add_inputs_eq:
  "add_inputs c ms = Inr (c\<lparr>cmd_inputs := cmd_inputs c @ map media_input ms\<rparr>)"
  by (induction ms arbitrary: c) (simp_all add: ff_input_def ff_inputOptions_def media_input_def)

lemma renderCommand_eq:
  "renderCommand ms voiceover outputPath =
     Inr \<lparr>cmd_inputs = map media_input ms @ [\<lparr>in_path = voiceover, in_opts = []\<rparr>],
          out_opts = renderOutputOptions, vfilters = graphFilters (length ms), afilters = [],
          target = Some (normalizePath outputPath)\<rparr>"
  by (simp add: renderCommand_def add_inputs_eq ffmpeg_new_def ff_input_def ff_output_def
                ff_outputOptions_def ff_videoFilters_def)

lemma foldl_span_add_Fin:
  "foldl span_add (Fin a) (map (Fin \<circ> f) xs) = Fin (a + sum_list (map f xs))"
  by (induction xs arbitrary: a) (simp_all add: algebra_simps)

lemma graph_in_span_media:
  assumes "fm (normalizePath (gm_path gm)) = Some (dl (gm_path gm))"
    and "gm_type gm = ''image'' \<longrightarrow> kind (dl (gm_path gm)) = ImageFile"
  shows "graph_in_span fm (media_input gm) = Some (Fin (media_len dl gm))"
  using assms
  by (auto simp: graph_in_span_def media_input_def in_span_def input_span_def num_span_def media_len_def
           split: jsnum.splits)

lemma graph_in_span_voice:
  "fm p = Some \<lparr>kind = AudioFile, fmt_duration = Num v, has_audio = True, text_of = []\<rparr> \<Longrightarrow>
   graph_in_span fm \<lparr>in_path = p, in_opts = []\<rparr> = Some (Fin (max 0 v))"
  by (simp add: graph_in_span_def in_span_def input_span_def num_span_def)

lemma media_path_temp:
  assumes "media_path p" shows "take 5 p = ''temp/''"
proof -
  from assms have "take 11 p = ''temp/photo_'' \<or> take 11 p = ''temp/video_''" by (simp add: media_path_def)
  moreover have eq: "take 5 p = take 5 (take 11 p)" by simp
  ultimately show ?thesis by (elim disjE) (subst eq, simp)+
qed

lemma take_voiceoverPath: "take 11 (voiceoverPath now) = ''temp/voiceo''"
  by (simp add: voiceoverPath_def take_normalizePath path_join_def tempDir_def) (simp add: normalizePath_def)

lemma voiceoverPath_not_media: "media_path p \<Longrightarrow> p \<noteq> voiceoverPath now"
  using take_voiceoverPath [of now] by (auto simp: media_path_def)

lemma voiceoverPath_temp: "take 5 (voiceoverPath now) = ''temp/''"
proof -
  have "take 5 (voiceoverPath now) = take 5 (take 11 (voiceoverPath now))" by simp
  then show ?thesis by (simp only: take_voiceoverPath) simp
qed

lemma concat_graph_run_render:
  assumes fm: "\<forall>m\<in>set ms. files s (normalizePath (gm_path m)) = Some (dl (gm_path m)) \<and>
                          (gm_type m = ''image'' \<longrightarrow> kind (dl (gm_path m)) = ImageFile)"
    and vo: "files s vp = Some \<lparr>kind = AudioFile, fmt_duration = Num v, has_audio = True, text_of = []\<rparr>"
    and ok: "\<not> enc_fails env (normalizePath outputPath)"
    and r: "renderCommand ms vp outputPath = Inr c"
  shows "concat_graph_run env c (length ms) s =
           (Inr (), s\<lparr>files := (files s)(normalizePath outputPath \<mapsto>
              \<lparr>kind = VideoFile, fmt_duration = Num (min (sum_list (map (media_len dl) ms)) (max 0 v)),
               has_audio = True, text_of = []\<rparr>)\<rparr>)"
proof -
  have c: "c = \<lparr>cmd_inputs = map media_input ms @ [\<lparr>in_path = vp, in_opts = []\<rparr>],
          out_opts = renderOutputOptions, vfilters = graphFilters (length ms), afilters = [],
          target = Some (normalizePath outputPath)\<rparr>"
    using r by (simp add: renderCommand_eq)
  have g: "all_some (map (graph_in_span (files s)) (cmd_inputs c)) = Some (map Fin (map (media_len dl) ms) @ [Fin (max 0 v)])"
    using fm graph_in_span_voice [where fm = "files s", OF vo] by (auto simp: c intro!: graph_in_span_media)
  show ?thesis
    unfolding concat_graph_run_def g using ok by (simp add: c renderOutputOptions_def nth_append
                             foldl_span_add_Fin)
qed

lemma processSections_Inl:
  "sections_media api fetch_ok stamp i secs = Inl e \<Longrightarrow>
   \<exists>ms. processSections api fetch_ok stamp dl i secs s = (Inl e, store_downloads dl ms s) \<and>
        (\<forall>m\<in>set ms. media_path (gm_path m))"
proof (induction secs arbitrary: i s)
  case (Cons sec secs)
  show ?case
  proof (cases "processSection api fetch_ok (stamp i) sec")
    case (Inl e')
    then show ?thesis using Cons.prems by (intro exI [of _ "[]"]) simp
  next
    case (Inr ms1)
    with Cons.prems have "sections_media api fetch_ok stamp (Suc i) secs = Inl e"
      by (cases "sections_media api fetch_ok stamp (Suc i) secs") auto
    from Cons.IH [OF this, of "store_downloads dl ms1 s"] obtain ms2 where
      "processSections api fetch_ok stamp dl (Suc i) secs (store_downloads dl ms1 s) = (Inl e, store_downloads dl ms2 (store_downloads dl ms1 s))"
      and "\<forall>m\<in>set ms2. media_path (gm_path m)" by blast
    with Inr processSection_paths [OF Inr] show ?thesis
      by (intro exI [of _ "ms1 @ ms2"]) auto
  qed
qed simp

text \<open>
  C26. When a section's search or download fails, \<open>createVideo\<close> rejects with that
  section's error after the voiceover has been written, and the voiceover stays in
  \<open>temp/\<close>: the clean-up only runs in the \<open>end\<close> handler of a successful render.
\<close>

theorem createVideo_section_failure:
  assumes sm: "sections_media api fetch_ok stamp 0 (parseScriptSections generatedScript) = Inl e"
    and sy: "say (js_join '' '' (map sec_content (parseScriptSections generatedScript))) = Some v"
    and ok: "\<not> enc_fails env (writeTestFile outputFile)"
  shows "\<exists>s'. createVideo env api fetch_ok stamp dl say now generatedScript outputFile s = (Inl e, s') \<and>
              files s' (voiceoverPath now) = Some \<lparr>kind = AudioFile, fmt_duration = Num v, has_audio = True, text_of = []\<rparr>"
proof -
  define s1 where "s1 = s\<lparr>files := ((files s)(writeTestFile outputFile := None))(normalizePath outputFile := None)\<rparr>"
  define s2 where "s2 = s1\<lparr>files := (files s1)(voiceoverPath now \<mapsto>
                     \<lparr>kind = AudioFile, fmt_duration = Num v, has_audio = True, text_of = []\<rparr>)\<rparr>"
  obtain ms where p: "processSections api fetch_ok stamp dl 0 (parseScriptSections generatedScript) s2 =
                        (Inl e, store_downloads dl ms s2)" and mp: "\<forall>m\<in>set ms. media_path (gm_path m)"
    using processSections_Inl [OF sm] by blast
  have "voiceoverPath now \<notin> gm_path ` set ms" using mp voiceoverPath_not_media by (metis imageE)
  moreover have "createVideo env api fetch_ok stamp dl say now generatedScript outputFile s = (Inl e, store_downloads dl ms s2)"
    unfolding createVideo_def using ok sy p
    by (simp add: validateAndPrepareOutputPath_def createVoiceover_def Let_def s1_def s2_def)
  ultimately show ?thesis by (simp add: store_downloads_def s2_def)
qed

text \<open>At the example script, with a Pexels API that cannot be reached.\<close>

theorem createVideo_section_failure_witness:
  "sections_media \<lparr>pexels_photo_api = \<lambda>q. NetworkError, pexels_video_api = \<lambda>q. NetworkError\<rparr>
       (\<lambda>u. True) stamp_W 0 (parseScriptSections script_ok_W) = Inl (FetchFailed ''intro'') \<and>
   (\<exists>s'. createVideo env_W \<lparr>pexels_photo_api = \<lambda>q. NetworkError, pexels_video_api = \<lambda>q. NetworkError\<rparr>
           (\<lambda>u. True) stamp_W dl_W say_W 0 script_ok_W ''final_video.mp4'' \<lparr>files = Map.empty, next_uuid = 0\<rparr> =
           (Inl (FetchFailed ''intro''), s') \<and>
         files s' (voiceoverPath 0) = Some \<lparr>kind = AudioFile, fmt_duration = Num 6, has_audio = True, text_of = []\<rparr>)"
proof -
  have p: "parseScriptSections script_ok_W =
             [\<lparr>sec_type = ''intro'', sec_content = ''Hello body'', sec_duration = 1\<rparr>,
              \<lparr>sec_type = ''main'', sec_content = ''x'', sec_duration = 1\<rparr>]"
    by code_simp
  have sm: "sections_media \<lparr>pexels_photo_api = \<lambda>q. NetworkError, pexels_video_api = \<lambda>q. NetworkError\<rparr>
              (\<lambda>u. True) stamp_W 0 (parseScriptSections script_ok_W) = Inl (FetchFailed ''intro'')"
    unfolding p by (simp add: processSection_def)
  have sy: "say_W (js_join '' '' (map sec_content (parseScriptSections script_ok_W))) = Some 6"
    unfolding p by (simp add: say_W_def)
  have ok: "\<not> enc_fails env_W (writeTestFile ''final_video.mp4'')" by (simp add: env_W_def)
  show ?thesis
    using createVideo_section_failure [where api = "\<lparr>pexels_photo_api = \<lambda>q. NetworkError, pexels_video_api = \<lambda>q. NetworkError\<rparr>"
            and fetch_ok = "\<lambda>u. True" and stamp = stamp_W and dl = dl_W and say = say_W and now = 0
            and generatedScript = script_ok_W and outputFile = "''final_video.mp4''" and env = env_W and v = 6
            and s = "\<lparr>files = Map.empty, next_uuid = 0\<rparr>", OF sm sy ok]
          sm by simp
qed

text \<open>
  C36. \<open>createVideo\<close> on a script whose sections all find and download their media, with
  a voiceover that the speech engine produces: it resolves with the output path; the
  output lasts the shorter of the voiceover and the concatenated media (an image its
  \<open>-t\<close> cap \<open>ceil(duration/2)\<close>, a video its probed length), since \<open>-shortest\<close>
  cuts the graph's outputs at the shorter one; and no downloaded media nor the voiceover
  is left behind.
\<close>

theorem createVideo_output:
  assumes sm: "sections_media api fetch_ok stamp 0 (parseScriptSections generatedScript) = Inr ms"
    and ne: "ms \<noteq> []"
    and sy: "say (js_join '' '' (map sec_content (parseScriptSections generatedScript))) = Some v"
    and img: "\<forall>m\<in>set ms. gm_type m = ''image'' \<longrightarrow> kind (dl (gm_path m)) = ImageFile"
    and out: "take 5 (normalizePath outputFile) \<noteq> ''temp/''"
    and ok: "\<not> enc_fails env (writeTestFile outputFile)" "\<not> enc_fails env (normalizePath outputFile)"
  shows "\<exists>s'. createVideo env api fetch_ok stamp dl say now generatedScript outputFile s =
                (Inr (normalizePath outputFile), s') \<and>
              files s' (normalizePath outputFile) =
                Some \<lparr>kind = VideoFile, fmt_duration = Num (min (sum_list (map (media_len dl) ms)) (max 0 v)),
                      has_audio = True, text_of = []\<rparr> \<and>
              (\<forall>m\<in>set ms. files s' (gm_path m) = None) \<and> files s' (voiceoverPath now) = None"
proof -
  define op where "op = normalizePath outputFile"
  define vp where "vp = voiceoverPath now"
  define voice where "voice = \<lparr>kind = AudioFile, fmt_duration = Num v, has_audio = True, text_of = []\<rparr>"
  define s1 where "s1 = s\<lparr>files := ((files s)(writeTestFile outputFile := None))(op := None)\<rparr>"
  define s2 where "s2 = s1\<lparr>files := (files s1)(vp \<mapsto> voice)\<rparr>"
  define s3 where "s3 = store_downloads dl ms s2"
  obtain c where c: "renderCommand ms vp op = Inr c"
    by (simp add: renderCommand_eq)
  have mp: "\<forall>m\<in>set ms. media_path (gm_path m)" using sections_media_paths [OF sm] .
  then have nm: "\<forall>m\<in>set ms. normalizePath (gm_path m) = gm_path m" by (simp add: media_path_def)
  have vp_m: "vp \<notin> gm_path ` set ms" unfolding vp_def using mp voiceoverPath_not_media by (metis imageE)
  have op_m: "op \<notin> gm_path ` set ms" using mp media_path_temp out by (auto simp: op_def)
  have op_vp: "op \<noteq> vp" using out voiceoverPath_temp by (auto simp: op_def vp_def)
  have v1: "validateAndPrepareOutputPath env outputFile s = (Inr op, s1)"
    using ok by (simp add: validateAndPrepareOutputPath_def s1_def op_def Let_def)
  have v2: "createVoiceover say (js_join '' '' (map sec_content (parseScriptSections generatedScript))) vp s1 = (Inr vp, s2)"
    using sy by (simp add: createVoiceover_def s2_def voice_def)
  have v3: "processSections api fetch_ok stamp dl 0 (parseScriptSections generatedScript) s2 = (Inr ms, s3)"
    using processSections_Inr [OF sm] by (simp add: s3_def)
  have f3: "\<forall>m\<in>set ms. files s3 (normalizePath (gm_path m)) = Some (dl (gm_path m)) \<and>
                       (gm_type m = ''image'' \<longrightarrow> kind (dl (gm_path m)) = ImageFile)"
    using nm img by (simp add: s3_def store_downloads_def)
  have vo3: "files s3 vp = Some voice"
    using vp_m by (simp add: s3_def store_downloads_def s2_def)
  have v4: "concat_graph_run env c (length ms) s3 =
              (Inr (), s3\<lparr>files := (files s3)(op \<mapsto>
                 \<lparr>kind = VideoFile, fmt_duration = Num (min (sum_list (map (media_len dl) ms)) (max 0 v)),
                  has_audio = True, text_of = []\<rparr>)\<rparr>)"
    using concat_graph_run_render [OF f3 vo3 [unfolded voice_def] _ c] ok(2) by (simp add: op_def)
  have run: "createVideo env api fetch_ok stamp dl say now generatedScript outputFile s =
               (Inr op, cleanupRender ms vp (s3\<lparr>files := (files s3)(op \<mapsto>
                 \<lparr>kind = VideoFile, fmt_duration = Num (min (sum_list (map (media_len dl) ms)) (max 0 v)),
                  has_audio = True, text_of = []\<rparr>)\<rparr>))"
    unfolding createVideo_def
    by (simp add: v1 Let_def vp_def [symmetric] v2 v3 ne c v4)
  show ?thesis
    using run op_m op_vp nm by (auto simp: cleanupRender_def op_def vp_def)
qed

theorem createVideo_output_witness:
  "sections_media section_api_W (\<lambda>u. True) stamp_W 0 (parseScriptSections script_ok_W) = Inr media_W \<and>
   say_W (js_join '' '' (map sec_content (parseScriptSections script_ok_W))) = Some 6 \<and>
   (\<exists>s'. createVideo env_W section_api_W (\<lambda>u. True) stamp_W dl_W say_W 0 script_ok_W ''final_video.mp4''
           \<lparr>files = Map.empty, next_uuid = 0\<rparr> = (Inr ''final_video.mp4'', s') \<and>
         files s' ''final_video.mp4'' =
           Some \<lparr>kind = VideoFile, fmt_duration = Num 6, has_audio = True, text_of = []\<rparr> \<and>
         (\<forall>m\<in>set media_W. files s' (gm_path m) = None) \<and> files s' (voiceoverPath 0) = None)"
proof -
  have p: "parseScriptSections script_ok_W =
             [\<lparr>sec_type = ''intro'', sec_content = ''Hello body'', sec_duration = 1\<rparr>,
              \<lparr>sec_type = ''main'', sec_content = ''x'', sec_duration = 1\<rparr>]"
    by code_simp
  have c: "nat \<lceil>1 / (2::real)\<rceil> = Suc 0" by code_simp
  have sm: "sections_media section_api_W (\<lambda>u. True) stamp_W 0 (parseScriptSections script_ok_W) = Inr media_W"
    unfolding p
    by (simp add: processSection_def section_api_W_def Let_def c sd_video_P_def sd_file_def section_download_def
                  photo_P_def normalizePath_def path_join_def tempDir_def stamp_W_def media_W_def)
  have sy: "say_W (js_join '' '' (map sec_content (parseScriptSections script_ok_W))) = Some 6"
    unfolding p by (simp add: say_W_def)
  have img: "\<forall>m\<in>set media_W. gm_type m = ''image'' \<longrightarrow> kind (dl_W (gm_path m)) = ImageFile"
    by (simp add: media_W_def dl_W_def)
  have o: "take 5 (normalizePath ''final_video.mp4'') \<noteq> ''temp/''" by (simp add: normalizePath_def)
  have n: "normalizePath ''final_video.mp4'' = ''final_video.mp4''" by (simp add: normalizePath_def)
  have len: "min (sum_list (map (media_len dl_W) media_W)) (max 0 6) = (6::real)"
    by (simp add: media_W_def media_len_def dl_W_def)
  have ne: "media_W \<noteq> []" by (simp add: media_W_def)
  have ok: "\<not> enc_fails env_W (writeTestFile ''final_video.mp4'')" "\<not> enc_fails env_W (normalizePath ''final_video.mp4'')"
    by (simp_all add: env_W_def)
  show ?thesis
    using createVideo_output [where api = section_api_W and fetch_ok = "\<lambda>u. True" and stamp = stamp_W and dl = dl_W
            and say = say_W and now = 0 and generatedScript = script_ok_W and outputFile = "''final_video.mp4''"
            and env = env_W and ms = media_W and v = 6 and s = "\<lparr>files = Map.empty, next_uuid = 0\<rparr>",
            OF sm ne sy img o ok]
          sm sy len n by simp
qed

end
