(* ===== verification/Spec2Isabelle.thy ===== *)
theory Spec2Isabelle
  imports Prelude JsParse JsString Encoder SceneRenderer Timeline Orchestrator ScriptWizard MediaSearch Pixabay Pexels ScriptController VideoGenerate ScriptParse ScriptGen LegacyScripts LegacyRenderer Slideshow VideoAssemble
begin

text \<open>
  \<^bold>\<open>A verification library for the ai-video-generator back end.\<close>

  \<^bold>\<open>The program.\<close> A request (\<open>generateScriptWithMedia\<close> in
  \<open>src/backend/controllers/script.controller.js\<close>) asks a language model for a script
  of scenes. For every scene it finds and downloads stock media (\<open>PixabayController\<close>,
  \<open>src/backend/controllers/pixabay.controller.js\<close>; the alternative
  \<open>PexelsController\<close> in \<open>pexels.controller.js\<close>) and synthesizes a narration (gTTS).
  It then hands the scenes to \<open>VideoGeneratorController\<close>
  (\<open>src/backend/controllers/video.generator.controller.js\<close>). There every scene becomes
  a clip \<open>temp/scene_N_final.mp4\<close> through fluent-ffmpeg (\<open>generateSceneVideo\<close>), the
  clips are collected (\<open>processScenes\<close>) and returned as URLs (\<open>generateVideo\<close>).
  \<open>combineSceneVideos\<close> would concatenate them into one file. The timing estimate of a
  scene (\<open>ScriptWizard.analyzeTimings\<close>, \<open>scriptWizard.controller.js\<close>) becomes the
  media duration the renderer reads.

  \<^bold>\<open>Theories and the code they model.\<close>
  \<^item> \<open>Prelude\<close>: JavaScript numbers \<open>jsnum\<close> (a real, \<open>NaN\<close>, the infinities) with
    \<open><\<close>, \<open>+\<close>, \<open>||\<close>; values \<open>jsval\<close>; the \<open>error\<close> datatype, one constructor per
    \<open>throw\<close>/rejection of the code; results \<open>'a res = error + 'a\<close>; stateful steps
    \<open>('s, 'a) act\<close> with \<open>bindS\<close> (an \<open>await\<close>), \<open>mapS\<close> (a sequential loop),
    \<open>all_res\<close> (\<open>Promise.all\<close>); \<open>act_keeps\<close>/\<open>act_avoids\<close>, the invariant and
    error-freedom of a step, with introduction rules for the combinators.
  \<^item> \<open>JsParse\<close>, \<open>JsString\<close>: \<open>parseFloat\<close>, \<open>String(n)\<close>, \<open>padStart\<close>,
    \<open>Math.round\<close>, \<open>*\<close>, \<open>/\<close>, \<open>Math.min/max\<close>, \<open>toLowerCase\<close>, \<open>trim\<close>,
    \<open>split\<close>, \<open>join\<close>, \<open>includes\<close>, \<open>Set.add\<close>, as the code applies them
    (ASCII strings). These are modelled from the language specification.
  \<^item> \<open>Encoder\<close>: the libraries the renderer calls, modelled from their documentation.
    \<open>fs\<close> is a store of media files (kind, probed length, audio flag, text lines) with
    the \<open>uuidv4\<close> name supply. It provides \<open>ffprobe\<close>, the fluent-ffmpeg command builder
    (\<open>ff_input\<close>, \<open>ff_inputOptions\<close>, which rejects an option before any input,
    \<open>ff_duration\<close>, \<open>ff_outputOptions\<close>) and \<open>ff_run\<close>. \<open>ff_run\<close> computes the length of
    the output: the longest input, the shortest under \<open>-shortest\<close>, the last \<open>-t\<close>
    winning, and a concat input the sum of its manifest entries. An unbounded output is
    \<open>EncoderNeverEnds\<close>: the promise would never settle. Encoder and write failures are
    the oracle \<open>enc_fails\<close>.
  \<^item> \<open>SceneRenderer\<close>: \<open>verifyFile\<close>, \<open>getVideoDuration\<close>,
    \<open>stripAudioFromVideo\<close>, \<open>normalizeAudio\<close> and \<open>generateSceneVideo\<close>, the latter
    step by step: media duration, final duration, audio processing, command, run.
  \<^item> \<open>Timeline\<close>: \<open>verifyVideoDuration\<close> and \<open>combineSceneVideos\<close> (probes, concat
    manifest, run, final check).
  \<^item> \<open>Orchestrator\<close>: \<open>processScenes\<close> (per-scene catch, \<open>filter(Boolean)\<close>) and
    \<open>generateVideo\<close> (empty check, URL rewrite).
  \<^item> \<open>ScriptWizard\<close>: the scene record of a script, \<open>analyzeTimings\<close>,
    \<open>_extractSearchKeywords\<close> and \<open>_generateSearchQueries\<close>.
  \<^item> \<open>MediaSearch\<close>: the parts both media controllers share. These are the search result
    \<open>media_info\<close>, the endpoint response \<open>api_resp\<close>, the photo selection of
    \<open>searchImage\<close>, \<open>downloadMedia\<close> and the scene loop \<open>processScenes\<close>
    (\<open>processScenes_media\<close>, over the controller's \<open>getMediaForScene\<close>).
  \<^item> \<open>Pixabay\<close>: \<open>_extractKeyPhrases\<close>, \<open>_truncateQuery\<close>,
    \<open>_generateSearchQueries\<close>, \<open>searchImage\<close>, \<open>searchVideo\<close>,
    \<open>_calculateMatchScore\<close> and the best-match loop \<open>best_match\<close> of
    \<open>getMediaForScene\<close> with its fallback media type. It also holds the contract of that
    loop: \<open>is_best_match\<close> and \<open>no_match\<close>.
  \<^item> \<open>Pexels\<close>: \<open>searchImage\<close>, \<open>searchVideo\<close> (exact HD file, else the stable
    sort by area \<open>best_file\<close>), \<open>getMediaForScene\<close> (primary, then fallback type).
    \<open>best_file_ref\<close> is the reference choice for \<open>best_file\<close>.
  \<^item> \<open>ScriptController\<close>: \<open>generateSceneAudio\<close>, the zip \<open>enhancedScenes\<close> and the
    handler \<open>generateScriptWithMedia\<close>, including the removal of \<open>temp\<close> on error
    (a failing removal is swallowed and keeps the store).
  \<^item> \<open>VideoGenerate\<close>: the script-driven generator \<open>VideoGenerator\<close>
    (\<open>video-generate.controller.js\<close>). It holds \<open>parseScriptSections\<close> over an
    explicit heap of section objects: \<open>sections\<close> is a list of references, so a
    pushed object can be pushed again and mutated later. It also holds
    \<open>estimateDuration\<close>, \<open>normalizePath\<close> and \<open>processSection\<close>.
  \<^item> \<open>ScriptParse\<close>: \<open>ScriptWizard.parseScenes\<close>, the \<open>exec\<close> loop of a global
    regular expression, as a \<open>partial_function (option)\<close>. It also holds
    \<open>_cleanSceneText\<close> and \<open>formatScript\<close>. Each regular expression is a scanner
    written out from its backtracking semantics.
  \<^item> \<open>ScriptGen\<close>: the language-model side of \<open>ScriptWizard\<close>: the system prompt of
    \<open>_constructSystemPrompt\<close> (its template line by line, \<open>promptHeadLines\<close> and
    \<open>promptExampleLines\<close>), \<open>_enhanceSceneKeywords\<close> (\<open>enhanceSceneKeywords\<close>, the scene
    record extended by \<open>searchQueries\<close>), \<open>generateScript\<close> (\<open>None\<close> when
    \<open>parseScenes\<close> would not return) and the handlers \<open>generateScript\<close> and
    \<open>generateVideoScript\<close> of \<open>script.controller.js\<close>. The model is a function \<open>llm\<close>
    of the system prompt and the prompt, and \<open>processScript\<close> is a parameter.
  \<^item> \<open>LegacyScripts\<close>: the earlier script servers \<open>src/backend/index copy 2.js\<close>
    (\<open>generateScript_v2\<close>, \<open>formatScript_v2\<close> with the paragraph split
    \<open>para_split\<close> of \<open>/\n\s*\n/\<close>, \<open>optimizeScript_v2\<close>, \<open>processScript_v2\<close> and both
    endpoints) and \<open>src/backend/index copy.js\<close> (\<open>generateScript_v1\<close>, whose
    \<open>processScript\<close> calls the missing \<open>formatScript\<close>, and both endpoints). Its lemmas
    show that \<open>formatScript\<close> is idempotent, that the rounded readability score lies in
    \<open>[0, 100]\<close> when there is a sentence, and that no request to the Gemini version
    succeeds.
  \<^item> \<open>LegacyRenderer\<close>: the superseded renderer
    \<open>video.generator.controller copy.js\<close>. It holds \<open>generateSceneVideo_legacy\<close>,
    \<open>processScenes_legacy\<close>, \<open>combineSceneVideos_legacy\<close> and
    \<open>generateVideo_legacy\<close> over the same encoder model, reusing \<open>verifyFile\<close> and
    \<open>stripAudioFromVideo\<close> of \<open>SceneRenderer\<close>. It passes
    \<open>media.duration\<close> to \<open>-t\<close> unparsed, so the theory also models ffmpeg's
    duration syntax \<open>av_parse_time\<close> (from libavutil, not code of the repository).
  \<^item> \<open>Slideshow\<close>: the stand-alone scripts \<open>src/backend/video.js\<close>
    (\<open>createVideo_vjs\<close>) and its revision \<open>video copy.js\<close> (\<open>createVideo_copy\<close>).
    Each copies the images of \<open>temp\<close> to numbered names, renders a five-second-per-image
    slideshow and a concatenation of the videos through concat manifests, and merges
    them with the first audio file. The names \<open>readdir\<close> returns are an input.
  \<^item> \<open>VideoAssemble\<close>: the rest of \<open>VideoGenerator\<close>: the output-path checks
    \<open>validateOutputPath\<close> and \<open>validateAndPrepareOutputPath\<close>, \<open>createVoiceover\<close>
    (the speech engine maps the text to the length of the speech), the section loop
    \<open>processSections\<close> with its downloads, the render command \<open>renderCommand\<close> with its
    filter graph \<open>graphFilters\<close>, the run of that graph \<open>concat_graph_run\<close> (modelled from
    the documentation of ffmpeg's \<open>concat\<close> filter), the clean-up of the \<open>end\<close>
    handler and \<open>createVideo\<close>.

  \<^bold>\<open>Effects.\<close> The renderer threads the store \<open>fs\<close> explicitly (\<open>act\<close>). Remote
  services are functions of the request: a search endpoint maps the query to its
  response, a download is a predicate on the URL, the speech synthesis a predicate on
  text and path, and the language model a function from the prompt to the scenes.
  \<open>Date.now()\<close> at the download of the \<open>i\<close>-th scene is \<open>clock i\<close>.
  \<open>Promise.all\<close> over scene tasks is modelled as the tasks run in array order. Every
  proved result about it relies on tasks that touch disjoint files: distinct scene numbers,
  and fresh \<open>uuidv4\<close> names for the temporary files.

  \<^bold>\<open>What is proved.\<close> C1-C3, C5 and C6 concern one scene: its duration, the broken
  loop extension of a video shorter than its narration, the exact probed length of the
  clip, that every promise settles, and the reading of the \<open>"m:ss"\<close> timing string.
  C7 and C8 concern concatenation: the final length is the sum of the clips, and an
  empty list of clips is not guarded but fails in the encoder (or the write).
  C9-C13 concern the job: failure isolation, the URLs, the all-missing job,
  the dropped scene and the exact durations. C14-C17, C19 and C22 concern the Pixabay
  search:
  \<^item> the best-match loop refines its contract \<open>is_best_match\<close>;
  \<^item> its errors are characterised exactly;
  \<^item> the queries are non-empty, distinct and at most 100 characters long;
  \<^item> a long word without spaces is truncated to nothing;
  \<^item> \<open>processScenes\<close> keeps exactly the scenes that succeed;
  \<^item> a \<open>1920x1080\<close> media scores between \<open>0.7\<close> and \<open>1\<close>, whatever the query.
  C20-C21 concern Pexels: the sort-based file choice equals the reference, and an exact
  HD file is found whenever one exists. C23 concerns the timing string: its seconds
  field is at most 60, reaching 60 at \<open>wc mod 150 = 149\<close>.
  C18 and C24 concern script generation:
  \<^item> \<open>_enhanceSceneKeywords\<close> keeps every scene and gives it clean keywords (non-empty,
    trimmed, without commas) when the model answers;
  \<^item> the example format of the system prompt is parsed with its keyword list inside the
    narrated text.
  C4 concerns the formatter of the revised script generator (\<open>index copy 2.js\<close>): it
  is idempotent.
  C25 concerns the handler: media are paired with scenes by position, so one failed
  search shifts the media of every later scene.
  C28-C31 concern \<open>VideoGenerator\<close>'s parser and sections:
  \<^item> every section gets its own estimate, at least one second;
  \<^item> well-formed headers give one section each;
  \<^item> a \<open>**\<close> line without a closing \<open>**\<close> puts the same section object in the
    result twice;
  \<^item> the media of a section together last more than the section.
  C32-C33 concern \<open>parseScenes\<close>: its loop terminates on every script, and its scenes
  are well-typed and numbered consecutively.
  C27, C34, C35, C37 and C38 concern the legacy renderer:
  \<^item> scenes without narration are all dropped and the job rejects;
  \<^item> an image timed \<open>"m:ss"\<close> lasts \<open>60 m + ss\<close> seconds, cut at the narration;
  \<^item> an estimate \<open>"m:60"\<close> is refused by ffmpeg and the scene is dropped;
  \<^item> a narration longer than its video is cut off;
  \<^item> the final video lasts the sum of the clips.
  C39-C40 concern \<open>video.js\<close>: a folder of videos without images makes it throw a
  \<open>TypeError\<close> before any file is written, and a folder of images gives five seconds per
  image, the audio not cutting it.
  C26 and C36 concern \<open>VideoGenerator.createVideo\<close>: a failing section rejects with
  its error and leaves the voiceover in \<open>temp/\<close>; when every section finds and
  downloads its media, the output lasts the shorter of the voiceover and the
  concatenated media, and the media and the voiceover are removed.

  \<^bold>\<open>Bounds and fuel.\<close> No fuel is needed: every loop of the modelled code runs over
  a finite list (scenes, queries, hits, files), or it is a structural or measured recursion
  (\<open>split_runs_acc\<close>, \<open>rm_all\<close>, \<open>collapse_ws\<close> terminate by the length of the
  string). The one loop whose end depends on the data is the \<open>exec\<close> loop of
  \<open>parseScenes\<close>. It is a \<open>partial_function (option)\<close> and C32 proves it always
  returns. Non-termination of the code
  is the encoder never ending. It is a value (\<open>EncoderNeverEnds\<close>), and C5 proves it
  absent from a scene. Numbers are exact reals: the rounding of doubles is not modelled.
  It does not affect the comparisons the claims rely on, which are between the integers and
  the short decimals of the code. It does show in \<open>estimateDuration\<close>:
  \<open>Math.ceil((wc / 150) * 60)\<close> is 63 in doubles for \<open>wc = 155\<close>, where the exact
  value is 62; C28 only relates each section to this same function, and no claim reads
  its value at such a word count.

  \<^bold>\<open>Not modelled.\<close>
  \<^item> The language-model clients (\<open>external-api-services\<close>): pure I/O, the function
    \<open>llm\<close> here. The handler \<open>generateScriptWithMedia\<close> still takes the scenes of
    \<open>generateScript\<close> as an input.
  \<^item> \<open>optimizeScript\<close> and \<open>processScript\<close>: the sentence tokenizer of the
    \<open>natural\<close> library is outside the model.
  \<^item> \<open>VideoGenerator\<close>'s download of a section that fails midway: it is modelled
    as writing no file of that section.
  \<^item> The bytes of downloads and narrations: the store passed to the renderer holds them.
  \<^item> In \<open>generateScriptWithMedia\<close>, what \<open>Promise.all\<close> leaves running after a
    rejection: the downloads of \<open>processScenes\<close> go on and may write into \<open>temp\<close> after
    the catch block has removed it. The model takes the outcome of \<open>Promise.all\<close> only,
    and no claim states what the removal leaves behind; a failing removal, swallowed by
    \<open>.catch\<close>, keeps the store.
  \<^item> \<open>cleanup\<close> of both media controllers and \<open>cleanupMedia\<close>.
  \<^item> In the slideshow scripts, the stream selection of the final merge: the model gives
    the output the length of its longest input and an audio track when an input has one.
    It does not model that ffmpeg's default mapping keeps one video and one audio
    stream, chosen by its own rules, so the slideshow and the concatenated videos are not
    joined one after the other, and which audio survives is not modelled. The output of
    the concat demuxer (\<open>-c copy\<close> over a manifest) is given no audio track. No claim
    depends on either: C40 has no video and no audio besides the narration.
  \<^item> In the duration syntax, white space and a sign that \<open>strtoll\<close> would skip
    after the optional leading \<open>-\<close>: such strings count as invalid.
  \<^item> Express routing, the MongoDB model and the React front end: glue and presentation
    with no pipeline logic.
\<close>

end
